(* ===== verification/Bootmux_Prelude.thy ===== *)
theory Bootmux_Prelude
  imports Complex_Main "HOL-Library.Sublist" "HOL-Library.AList" "HOL-Library.Multiset"
    "HOL-Library.List_Lexorder" "HOL-Library.Char_ord"
begin

text \<open>
  Shared vocabulary of the BOOTMUX development: the part of Python's string, dictionary and
  exception behaviour that the scripts under \<^verbatim>\<open>src/scripts\<close> use, as executable HOL functions
  with the lemmas the component theories share.

  \<^item> A Python \<^verbatim>\<open>str\<close> is a \<^typ>\<open>string\<close> whose characters stand for the code points below 256.
  \<^item> A \<^verbatim>\<open>dict\<close> is an association list in insertion order; storing is \<^const>\<open>AList.update\<close>, which
    keeps the position of an existing key and appends a new one, as Python does.
  \<^item> A call that may raise returns \<open>exn + 'a\<close>; \<open>bindE\<close> sequences such calls.
  \<^item> Seconds since the epoch (\<^verbatim>\<open>time.time()\<close>) are real numbers.
\<close>

section \<open>Exceptions and sequencing\<close>

datatype exn =
    StateStoreError string
  | JSONDecodeError
  | IndexError
  | ValueError
  | KeyError string
  | OSError string
  | AssertionError string
  | AttributeError
  | TypeError
  | TimeoutExpired

type_synonym 'a result = "exn + 'a"

definition bindE :: "'e + 'a \<Rightarrow> ('a \<Rightarrow> 'e + 'b) \<Rightarrow> 'e + 'b" where
  "bindE m f = (case m of Inl e \<Rightarrow> Inl e | Inr x \<Rightarrow> f x)"

lemma bindE_simps [simp]:
  "bindE (Inl e) f = Inl e"
  "bindE (Inr x) f = f x"
  by (simp_all add: bindE_def)

lemma bindE_Inr_iff:
  "bindE m f = Inr y \<longleftrightarrow> (\<exists>x. m = Inr x \<and> f x = Inr y)"
  by (cases m) auto

lemma bindE_Inl_iff:
  "bindE m f = Inl e \<longleftrightarrow> m = Inl e \<or> (\<exists>x. m = Inr x \<and> f x = Inl e)"
  by (cases m) auto

text \<open>A call for each element of a list; the first exception ends the loop.\<close>

fun all_results :: "('a \<Rightarrow> 'b result) \<Rightarrow> 'a list \<Rightarrow> 'b list result" where
  "all_results f [] = Inr []"
| "all_results f (x # xs) = bindE (f x) (\<lambda>y. bindE (all_results f xs) (\<lambda>ys. Inr (y # ys)))"

section \<open>Characters and strings\<close>

definition code :: "char \<Rightarrow> nat" where
  "code c = of_char c"

text \<open>\<^verbatim>\<open>str.isspace\<close> on the first 256 code points: what \<^verbatim>\<open>strip()\<close> and \<^verbatim>\<open>split()\<close> remove.\<close>

definition is_space :: "char \<Rightarrow> bool" where
  "is_space c = (code c \<in> {9, 10, 11, 12, 13, 28, 29, 30, 31, 32, 133, 160})"

text \<open>Line boundaries of \<^verbatim>\<open>str.splitlines()\<close>.\<close>

definition is_linebreak :: "char \<Rightarrow> bool" where
  "is_linebreak c = (code c \<in> {10, 11, 12, 13, 28, 29, 30, 133})"

definition is_digit :: "char \<Rightarrow> bool" where
  "is_digit c = (48 \<le> code c \<and> code c \<le> 57)"

definition lower_char :: "char \<Rightarrow> char" where
  "lower_char c =
     (if (65 \<le> code c \<and> code c \<le> 90) \<or> (192 \<le> code c \<and> code c \<le> 222 \<and> code c \<noteq> 215)
      then char_of (code c + 32) else c)"

definition lower :: "string \<Rightarrow> string" where
  "lower s = map lower_char s"

text \<open>\<^verbatim>\<open>needle in haystack\<close> on strings.\<close>

fun contains :: "string \<Rightarrow> string \<Rightarrow> bool" where
  "contains p [] = (p = [])"
| "contains p (c # s) = (prefix p (c # s) \<or> contains p s)"

lemma contains_iff_sublist: "contains p s = sublist p s"
  by (induction s) (auto simp: sublist_Cons_right)

lemma contains_iff: "contains p s \<longleftrightarrow> (\<exists>u v. s = u @ p @ v)"
  by (simp add: contains_iff_sublist sublist_def)

lemma contains_refl [simp]: "contains p p"
  by (simp add: contains_iff_sublist)

lemma contains_Nil [simp]: "contains [] s"
  by (simp add: contains_iff_sublist)

lemma contains_appendI: "contains p s \<Longrightarrow> contains p (u @ s @ v)"
  unfolding contains_iff by (metis append.assoc)

lemma contains_trans: "contains p q \<Longrightarrow> contains q s \<Longrightarrow> contains p s"
  unfolding contains_iff_sublist by (rule sublist_order.order_trans)

lemma contains_set: "contains p s \<Longrightarrow> set p \<subseteq> set s"
  unfolding contains_iff by auto

lemma contains_lower: "contains p s \<Longrightarrow> contains (lower p) (lower s)"
  unfolding contains_iff lower_def by (metis map_append)

definition lstrip :: "string \<Rightarrow> string" where
  "lstrip s = dropWhile is_space s"

definition rstrip :: "string \<Rightarrow> string" where
  "rstrip s = rev (dropWhile is_space (rev s))"

definition strip :: "string \<Rightarrow> string" where
  "strip s = rstrip (lstrip s)"

lemma set_lstrip: "set (lstrip s) \<subseteq> set s"
  by (auto simp: lstrip_def dest: set_dropWhileD)

lemma set_rstrip: "set (rstrip s) \<subseteq> set s"
  by (auto simp: rstrip_def dest: set_dropWhileD)

lemma set_strip: "set (strip s) \<subseteq> set s"
  unfolding strip_def using set_lstrip set_rstrip by blast

text \<open>
  \<^verbatim>\<open>str.splitlines()\<close>: \<open>cur\<close> is the reversed current line, \<open>started\<close> says whether a character of
  it was seen; \<^verbatim>\<open>\r\n\<close> is one boundary and no empty line follows a final boundary.
\<close>

fun splitlines_from :: "string \<Rightarrow> bool \<Rightarrow> string \<Rightarrow> string list" where
  "splitlines_from cur started [] = (if started then [rev cur] else [])"
| "splitlines_from cur started (c # d # s) =
     (if code c = 13 \<and> code d = 10 then rev cur # splitlines_from [] False s
      else if is_linebreak c then rev cur # splitlines_from [] False (d # s)
      else splitlines_from (c # cur) True (d # s))"
| "splitlines_from cur started [c] =
     (if is_linebreak c then [rev cur] else [rev (c # cur)])"

definition splitlines :: "string \<Rightarrow> string list" where
  "splitlines s = splitlines_from [] False s"

text \<open>\<^verbatim>\<open>str.split()\<close>: maximal runs of non-space characters.\<close>

fun split_ws_from :: "string \<Rightarrow> string \<Rightarrow> string list" where
  "split_ws_from cur [] = (if cur = [] then [] else [rev cur])"
| "split_ws_from cur (c # s) =
     (if is_space c then (if cur = [] then split_ws_from [] s else rev cur # split_ws_from [] s)
      else split_ws_from (c # cur) s)"

definition split_ws :: "string \<Rightarrow> string list" where
  "split_ws s = split_ws_from [] s"

text \<open>A word is a field of a line that \<^verbatim>\<open>split()\<close> keeps whole.\<close>

definition word :: "string \<Rightarrow> bool" where "word s \<longleftrightarrow> s \<noteq> [] \<and> list_all (\<lambda>c. \<not> is_space c) s"

lemma split_word: "list_all (\<lambda>c. \<not> is_space c) w \<Longrightarrow> split_ws_from cur (w @ s) = split_ws_from (rev w @ cur) s"
  by (induction w arbitrary: cur) simp_all

lemma split_words: "word w \<Longrightarrow> split_ws_from [] (w @ CHR '' '' # s) = w # split_ws_from [] s"
  "word w \<Longrightarrow> split_ws_from [] w = [w]"
proof -
  have space: "is_space (CHR '' '')" by code_simp
  show "word w \<Longrightarrow> split_ws_from [] (w @ CHR '' '' # s) = w # split_ws_from [] s" "word w \<Longrightarrow> split_ws_from [] w = [w]"
    using split_word [of w "[]" "CHR '' '' # s"] split_word [of w "[]" "[]"] by (simp_all add: word_def space)
qed

text \<open>\<^verbatim>\<open>str.split(sep)\<close> for a one-character separator.\<close>

fun split_on_from :: "char \<Rightarrow> string \<Rightarrow> string \<Rightarrow> string list" where
  "split_on_from sep cur [] = [rev cur]"
| "split_on_from sep cur (c # s) =
     (if c = sep then rev cur # split_on_from sep [] s else split_on_from sep (c # cur) s)"

definition split_on :: "char \<Rightarrow> string \<Rightarrow> string list" where
  "split_on sep s = split_on_from sep [] s"

text \<open>\<^verbatim>\<open>s.split(sep, 1)[1]\<close>: the text after the first separator (used where one is present).\<close>

definition after_first :: "char \<Rightarrow> string \<Rightarrow> string" where
  "after_first sep s = drop 1 (dropWhile (\<lambda>c. c \<noteq> sep) s)"

text \<open>\<^verbatim>\<open>sep.join(parts)\<close>.\<close>

fun join :: "string \<Rightarrow> string list \<Rightarrow> string" where
  "join sep [] = []"
| "join sep [x] = x"
| "join sep (x # y # xs) = x @ sep @ join sep (y # xs)"

lemma contains_join: "x \<in> set xs \<Longrightarrow> contains x (join sep xs)"
proof (induction sep xs rule: join.induct)
  case (3 sep x' y xs)
  show ?case
  proof (cases "x = x'")
    case True
    then show ?thesis using contains_appendI [of x x "[]"] by simp
  next
    case False
    with 3 have "contains x (join sep (y # xs))" by simp
    then show ?thesis using contains_appendI [of x _ "x' @ sep" "[]"] by simp
  qed
qed auto

text \<open>Digits of a natural number in a base up to ten: \<^verbatim>\<open>str(n)\<close> and \<^verbatim>\<open>oct(n)\<close>.\<close>

definition digit_char :: "nat \<Rightarrow> char" where
  "digit_char d = char_of (48 + d)"

fun base_str :: "nat \<Rightarrow> nat \<Rightarrow> string" where
  "base_str b n =
     (if n < b \<or> b < 2 then [digit_char n] else base_str b (n div b) @ [digit_char (n mod b)])"

declare base_str.simps [simp del]

definition nat_str :: "nat \<Rightarrow> string" where
  "nat_str n = base_str 10 n"

definition oct_str :: "nat \<Rightarrow> string" where
  "oct_str n = ''0o'' @ base_str 8 n"

text \<open>An optional string inside an f-string.\<close>

definition opt_str :: "string option \<Rightarrow> string" where
  "opt_str x = (case x of None \<Rightarrow> ''None'' | Some s \<Rightarrow> s)"

text \<open>\<^verbatim>\<open>repr\<close> of a string: its quotes, and the escapes of quotes, backslashes and unprintable characters.\<close>

definition hex_char :: "nat \<Rightarrow> char" where
  "hex_char d = (if d < 10 then digit_char d else char_of (87 + d))"

definition repr_char :: "char \<Rightarrow> char \<Rightarrow> string" where
  "repr_char q c =
     (let n = code c in
      if c = q \<or> n = 92 then [char_of (92 :: nat), c]
      else if n = 9 then [char_of (92 :: nat), CHR ''t'']
      else if n = 10 then [char_of (92 :: nat), CHR ''n'']
      else if n = 13 then [char_of (92 :: nat), CHR ''r'']
      else if n < 32 \<or> (127 \<le> n \<and> n \<le> 160) \<or> n = 173
      then [char_of (92 :: nat), CHR ''x'', hex_char (n div 16), hex_char (n mod 16)]
      else [c])"

definition repr_str :: "string \<Rightarrow> string" where
  "repr_str s =
     (let q = (if char_of (39 :: nat) \<in> set s \<and> char_of (34 :: nat) \<notin> set s
               then char_of (34 :: nat) else char_of (39 :: nat))
      in [q] @ concat (map (repr_char q) s) @ [q])"

definition repr_opt :: "string option \<Rightarrow> string" where
  "repr_opt x = (case x of None \<Rightarrow> ''None'' | Some s \<Rightarrow> repr_str s)"

definition repr_list :: "string list \<Rightarrow> string" where
  "repr_list xs = ''['' @ join '', '' (map repr_str xs) @ '']''"

text \<open>The truth value of an optional string: missing and empty strings are false.\<close>

definition truthy :: "string option \<Rightarrow> bool" where
  "truthy x = (case x of None \<Rightarrow> False | Some s \<Rightarrow> s \<noteq> [])"

lemma truthy_iff: "truthy x \<longleftrightarrow> (\<exists>s. x = Some s \<and> s \<noteq> [])"
  by (cases x) (auto simp: truthy_def)

section \<open>Dictionaries\<close>

type_synonym 'v dict = "(string \<times> 'v) list"

definition dict_get :: "'v dict \<Rightarrow> string \<Rightarrow> 'v \<Rightarrow> 'v" where
  "dict_get d k v = (case map_of d k of None \<Rightarrow> v | Some x \<Rightarrow> x)"

text \<open>A dict built by a comprehension: later values win, the first position stays.\<close>

definition dict_of :: "(string \<times> 'v) list \<Rightarrow> 'v dict" where
  "dict_of kvs = foldl (\<lambda>d (k, v). AList.update k v d) [] kvs"

lemma foldl_update_lookup:
  "map_of (foldl (\<lambda>d (k, v). AList.update k v d) d kvs) k =
     (case map_of (rev kvs) k of None \<Rightarrow> map_of d k | Some v \<Rightarrow> Some v)"
  by (induction kvs rule: rev_induct) (auto simp: update_conv' split: option.splits)

lemma dict_of_lookup: "map_of (dict_of kvs) k = map_of (rev kvs) k"
  unfolding dict_of_def by (simp add: foldl_update_lookup split: option.splits)

lemma distinct_foldl_update:
  "distinct (map fst d) \<Longrightarrow>
     distinct (map fst (foldl (\<lambda>d (k, v). AList.update k v d) d kvs))"
  by (induction kvs arbitrary: d) (auto simp: distinct_update)

lemma distinct_dict_of [simp]: "distinct (map fst (dict_of kvs))"
  unfolding dict_of_def by (rule distinct_foldl_update) simp

lemma dict_of_distinct:
  "distinct (map fst kvs) \<Longrightarrow> map_of (dict_of kvs) = map_of kvs"
proof -
  assume "distinct (map fst kvs)"
  then have "map_of (rev kvs) = map_of kvs"
    by (subst map_of_inject_set) (simp_all add: rev_map [symmetric])
  then show ?thesis by (intro ext) (simp add: dict_of_lookup)
qed

section \<open>Lists\<close>

lemma update_new: "k \<notin> fst ` set d \<Longrightarrow> AList.update k v d = d @ [(k, v)]"
  by (induction d) auto

lemma dict_of_id: "distinct (map fst kvs) \<Longrightarrow> dict_of kvs = kvs"
proof -
  have "foldl (\<lambda>d (k, v). AList.update k v d) d kvs = d @ kvs"
    if "distinct (map fst (d @ kvs))" for d
    using that by (induction kvs arbitrary: d) (auto simp: update_new)
  from this [of "[]"] show "distinct (map fst kvs) \<Longrightarrow> dict_of kvs = kvs"
    by (simp add: dict_of_def)
qed

lemma sort_key_sorted_id: "sorted (map f xs) \<Longrightarrow> sort_key f xs = xs"
  by (rule sort_key_id_if_sorted)

lemma length4_nth: "length xs = 4 \<Longrightarrow> xs = [xs ! 0, xs ! 1, xs ! 2, xs ! 3]"
  by (rule nth_equalityI) (auto simp: less_Suc_eq numeral_eq_Suc)

lemma list_all_concat: "list_all P (concat xss) \<longleftrightarrow> list_all (list_all P) xss"
  by (induction xss) auto

end
