(* ===== verification/Guardian_Types.thy ===== *)
theory Guardian_Types
  imports Bootmux_Prelude
begin

text \<open>
  Constants, data types and the host seam of the macOS network guardian
  (\<^verbatim>\<open>scripts/macos/bootmux-network-guardian.py\<close>). The Python passes plain dictionaries around; each
  kind of dictionary is a record here. A key that the code reads with \<^verbatim>\<open>.get(k)\<close> and that may be
  missing is an \<^typ>\<open>'a option\<close> field (\<^const>\<open>None\<close> for a missing key or a null value); a key read with a
  default (\<^verbatim>\<open>.get(k, d)\<close>) is a plain field that holds the default when the key is missing.

  The class \<^verbatim>\<open>Host\<close> is a record of operations over a host state \<open>'h\<close>: its observation methods read
  the state, its only mutation \<^verbatim>\<open>run\<close> returns the new one. \<^verbatim>\<open>SystemHost\<close> and \<^verbatim>\<open>FakeHost\<close> are values of
  this record type, in theories of their own.
\<close>

section \<open>Constants\<close>

definition SCHEMA_VERSION :: int where "SCHEMA_VERSION = 1"
definition BOOTMUX_USB_VID :: int where "BOOTMUX_USB_VID = 12346" \<comment> \<open>0x303A\<close>
definition BOOTMUX_USB_PID :: int where "BOOTMUX_USB_PID = 16404" \<comment> \<open>0x4014\<close>
definition BOOTMUX_PRODUCT :: string where "BOOTMUX_PRODUCT = ''BOOTMUX Bridge Experimental''"
definition BOOTMUX_SERIAL :: string where "BOOTMUX_SERIAL = ''BOOTMUX-R7A-NCM''"
definition BOOTMUX_NET :: string where "BOOTMUX_NET = ''10.77.0.0/24''"
definition BOOTMUX_PEER :: string where "BOOTMUX_PEER = ''10.77.0.1''"
definition BOOTMUX_SERVICE_HINT :: string where "BOOTMUX_SERVICE_HINT = ''BOOTMUX USB Ethernet''"
definition MIN_SIGNALS :: nat where "MIN_SIGNALS = 2"
definition MIN_HARDWARE_SIGNALS :: nat where "MIN_HARDWARE_SIGNALS = 1"
definition IDLE_POLL_SECONDS :: real where "IDLE_POLL_SECONDS = 5"
definition ATTACHED_POLL_SECONDS :: real where "ATTACHED_POLL_SECONDS = 1"
definition BASELINE_STABILITY_SECONDS :: real where "BASELINE_STABILITY_SECONDS = 15"
definition HEARTBEAT_FAIL_SECONDS :: real where "HEARTBEAT_FAIL_SECONDS = 5"
definition WIFI_TOGGLE_COOLDOWN_SECONDS :: real where "WIFI_TOGGLE_COOLDOWN_SECONDS = 120"

definition STATE_BASELINE :: string where "STATE_BASELINE = ''baseline.json''"
definition STATE_PREVIOUS :: string where "STATE_PREVIOUS = ''previous-baseline.json''"
definition STATE_RUNTIME :: string where "STATE_RUNTIME = ''runtime.json''"

definition VERIFY_KEYS :: "string list" where
  "VERIFY_KEYS =
     [''bootmux_default_route_absent'',
      ''bootmux_scoped_routes_absent'',
      ''bootmux_service_disabled'',
      ''wifi_power_matches_baseline'',
      ''wifi_ssid_matches_baseline_or_redacted_equivalent'',
      ''wifi_ipv4_mode_matches_baseline'',
      ''wifi_default_route_restored'',
      ''wifi_dns_matches_baseline'',
      ''service_order_matches_baseline'',
      ''unrelated_services_unchanged'']"

section \<open>Commands and plans\<close>

record command =
  argv :: "string list"
  step :: string
  purpose :: string
  target_interface :: "string option"
  target_service :: "string option"

record repair_plan =
  commands :: "command list"
  plan_notes :: "string list"
  needs_change :: bool

definition empty_plan :: repair_plan where
  "empty_plan = \<lparr>commands = [], plan_notes = [], needs_change = False\<rparr>"

definition plan_add :: "command \<Rightarrow> repair_plan \<Rightarrow> repair_plan" where
  "plan_add c p = p\<lparr>commands := commands p @ [c], needs_change := True\<rparr>"

definition plan_note :: "string \<Rightarrow> repair_plan \<Rightarrow> repair_plan" where
  "plan_note n p = p\<lparr>plan_notes := plan_notes p @ [n]\<rparr>"

definition argvs :: "repair_plan \<Rightarrow> string list list" where
  "argvs p = map argv (commands p)"

named_theorems plan_simps \<open>equations that compute the commands of a plan\<close>

lemma empty_plan_simps [simp, plan_simps]:
  "commands empty_plan = []" "plan_notes empty_plan = []" "needs_change empty_plan = False"
  by (simp_all add: empty_plan_def)

lemma plan_add_simps [simp, plan_simps]:
  "commands (plan_add c p) = commands p @ [c]"
  "plan_notes (plan_add c p) = plan_notes p"
  "needs_change (plan_add c p) = True"
  by (simp_all add: plan_add_def)

lemma plan_note_simps [simp, plan_simps]:
  "commands (plan_note n p) = commands p"
  "plan_notes (plan_note n p) = plan_notes p @ [n]"
  "needs_change (plan_note n p) = needs_change p"
  by (simp_all add: plan_note_def)

section \<open>Observed data\<close>

record usb_device =
  u_vid :: "int option"
  u_pid :: "int option"
  u_product :: string
  u_serial :: string

record iface =
  i_name :: string
  i_addresses :: "(string \<times> string) list" \<comment> \<open>address and netmask\<close>
  i_status :: string

record route =
  r_destination :: "string option"
  r_gateway :: "string option"
  r_flags :: string
  r_interface :: "string option"

record service =
  s_order :: int
  s_name :: string
  s_device :: "string option"
  s_enabled :: bool

record ipv4_info =
  v4_mode :: "string option"
  v4_address :: "string option"
  v4_subnet_mask :: "string option"
  v4_router :: "string option"

record dns_info =
  dns_server_list :: "string list"
  dns_search_list :: "string list"

record identity =
  proven :: bool
  ambiguous :: bool
  id_interface :: "string option"
  id_service :: "string option"
  hardware_signals :: "string list"
  network_signals :: "string list"
  id_reason :: string

definition signals :: "identity \<Rightarrow> string list" where
  "signals i = hardware_signals i @ network_signals i"

section \<open>The host seam\<close>

type_synonym run_result = "int \<times> string \<times> string" \<comment> \<open>return code, stdout, stderr\<close>

record 'h host_ops =
  usb_devices :: "'h \<Rightarrow> usb_device list"
  interfaces :: "'h \<Rightarrow> iface list"
  routes :: "'h \<Rightarrow> route list"
  services :: "'h \<Rightarrow> service list"
  service_order :: "'h \<Rightarrow> string list"
  wifi_device :: "'h \<Rightarrow> string option"
  wifi_power :: "string \<Rightarrow> 'h \<Rightarrow> bool option"
  wifi_ssid :: "string \<Rightarrow> 'h \<Rightarrow> string option"
  wifi_ipv4 :: "string \<Rightarrow> 'h \<Rightarrow> ipv4_info"
  dns :: "string \<Rightarrow> 'h \<Rightarrow> dns_info"
  heartbeat :: "string \<Rightarrow> 'h \<Rightarrow> bool"
  now :: "'h \<Rightarrow> real"
  run :: "string list \<Rightarrow> 'h \<Rightarrow> (run_result \<times> 'h) result"

section \<open>The captured baseline\<close>

text \<open>
  The baseline document that \<^verbatim>\<open>capture_baseline\<close> writes and the repair reads. \<open>schema_version\<close> is the
  top-level key of that name; \<open>other_keys\<close> are the top-level keys of a stored document outside the
  five keys of \<^verbatim>\<open>BASELINE_KEYS\<close> (none in a captured one).
\<close>

record wifi_block =
  hardware_device :: "string option"
  service_name :: "string option"
  power :: "bool option"
  associated_ssid :: "string option"
  ipv4_mode :: "string option"
  ipv4_address :: "string option"
  subnet_mask :: "string option"
  router :: "string option"
  dns_servers :: "string list"
  search_domains :: "string list"

record network_block =
  default_gateway :: "string option"
  default_interface :: "string option"
  network_service_order :: "string list"
  service_enabled_states :: "bool dict"
  bootmux_routes :: "route list"

record baseline =
  schema_version :: "int option"
  captured_at :: int
  wifi :: wifi_block
  network :: network_block
  redacted_fields :: "string list" \<comment> \<open>\<^verbatim>\<open>metadata.redacted_fields\<close>\<close>
  other_keys :: "string list"

definition empty_wifi_block :: wifi_block where
  "empty_wifi_block =
     \<lparr>hardware_device = None, service_name = None, power = None, associated_ssid = None,
      ipv4_mode = None, ipv4_address = None, subnet_mask = None, router = None,
      dns_servers = [], search_domains = []\<rparr>"

end
