(* ===== verification/IPv4.thy ===== *)
theory IPv4
  imports Bootmux_Prelude "HOL-Library.Word"
begin

unbundle bit_operations_syntax

text \<open>
  The part of Python's \<^verbatim>\<open>ipaddress\<close> module that the guardian and the proxy forwarder use: parsing a
  dotted quad into a 32-bit word (\<^verbatim>\<open>IPv4Address\<close>), and membership of an address in a network
  (\<^verbatim>\<open>address in network\<close>). An IPv6 address or a malformed string is never inside an IPv4 network: the
  former has another version, the latter raises \<^verbatim>\<open>ValueError\<close>, which the callers skip. Both are
  \<^const>\<open>None\<close> here.
\<close>

section \<open>Octets\<close>

definition digits_val :: "string \<Rightarrow> nat" where
  "digits_val s = foldl (\<lambda>n c. 10 * n + (code c - 48)) 0 s"

definition parse_octet :: "string \<Rightarrow> nat option" where
  "parse_octet s =
     (if s = [] \<or> \<not> list_all is_digit s \<or> length s > 3 \<or> (s \<noteq> ''0'' \<and> hd s = CHR ''0'') then None
      else if digits_val s > 255 then None else Some (digits_val s))"

lemma parse_octet_bound: "parse_octet s = Some n \<Longrightarrow> n < 256"
  by (auto simp: parse_octet_def split: if_splits)

section \<open>Addresses and networks\<close>

type_synonym ipv4 = "32 word"

definition quad :: "nat \<Rightarrow> nat \<Rightarrow> nat \<Rightarrow> nat \<Rightarrow> ipv4" where
  "quad a b c d = word_of_nat (((a * 256 + b) * 256 + c) * 256 + d)"

definition ip_address4 :: "string \<Rightarrow> ipv4 option" where
  "ip_address4 s =
     (let octets = map parse_octet (split_on (CHR ''.'') s)
      in if length octets = 4 \<and> None \<notin> set octets
         then Some (quad (the (octets ! 0)) (the (octets ! 1)) (the (octets ! 2)) (the (octets ! 3)))
         else None)"

record ip_network =
  network_address :: ipv4
  prefixlen :: nat

definition netmask :: "nat \<Rightarrow> ipv4" where
  "netmask p = NOT (mask (32 - p))"

definition in_network :: "ipv4 \<Rightarrow> ip_network \<Rightarrow> bool" where
  "in_network a n = (a AND netmask (prefixlen n) = network_address n)"

lemma and_not_mask: "(a :: ipv4) AND NOT (mask k) = push_bit k (drop_bit k a)"
  by (rule bit_word_eqI) (auto simp: bit_simps)

text \<open>Membership compares exactly the leading \<open>prefixlen\<close> bits.\<close>

lemma in_network_iff_leading_bits:
  assumes "network_address n = push_bit (32 - prefixlen n) (drop_bit (32 - prefixlen n) (network_address n))"
  shows "in_network a n \<longleftrightarrow>
    drop_bit (32 - prefixlen n) a = drop_bit (32 - prefixlen n) (network_address n)"
proof -
  let ?k = "32 - prefixlen n"
  have "drop_bit ?k (push_bit ?k (drop_bit ?k w)) = drop_bit ?k w" for w :: ipv4
    by (rule bit_word_eqI) (auto simp: bit_simps dest: bit_imp_le_length)
  then show ?thesis
    unfolding in_network_def netmask_def and_not_mask using assms by metis
qed

lemma quad_bound:
  assumes "a < 256" "b < 256" "c < 256" "d < 256"
  shows "((a * 256 + b) * 256 + c) * 256 + d < (2 :: nat) ^ 32"
proof -
  have "((a * 256 + b) * 256 + c) * 256 + d \<le> ((255 * 256 + 255) * 256 + 255) * 256 + 255"
    using assms by simp
  also have "\<dots> < (2 :: nat) ^ 32" by simp
  finally show ?thesis .
qed

lemma unat_quad:
  assumes "a < 256" "b < 256" "c < 256" "d < 256"
  shows "unat (quad a b c d) = ((a * 256 + b) * 256 + c) * 256 + d"
  unfolding quad_def unat_of_nat using quad_bound [OF assms] by simp

text \<open>The 24 leading bits of an address are its first three octets.\<close>

lemma quad_div_256:
  assumes "a < 256" "b < 256" "c < 256" "d < 256"
  shows "unat (drop_bit 8 (quad a b c d)) = (a * 256 + b) * 256 + c"
proof -
  have "unat (drop_bit 8 (quad a b c d)) = drop_bit 8 (((a * 256 + b) * 256 + c) * 256 + d)"
    by (simp only: unat_drop_bit_eq unat_quad [OF assms])
  also have "\<dots> = (((a * 256 + b) * 256 + c) * 256 + d) div 256"
    by (simp only: drop_bit_eq_div) simp
  finally show ?thesis using assms(4) by simp
qed

lemma last_octet: "c < 256 \<Longrightarrow> (x * 256 + c) mod 256 = (c :: nat)"
  by simp

lemma octets_inj:
  assumes "b < 256" "c < 256" "b' < 256" "c' < (256 :: nat)"
    and "(a * 256 + b) * 256 + c = (a' * 256 + b') * 256 + c'"
  shows "a = a' \<and> b = b' \<and> c = c'"
proof -
  have c: "c = c'" using assms(2,4,5) by (metis last_octet)
  with assms(5) have ab: "a * 256 + b = a' * 256 + b'" by simp
  then have "b = b'" using assms(1,3) by (metis last_octet)
  with ab c show ?thesis by simp
qed

lemma ip_address4_cases:
  assumes "ip_address4 s = Some w"
  obtains a b c d where "a < 256" "b < 256" "c < 256" "d < 256" "w = quad a b c d"
    "map parse_octet (split_on (CHR ''.'') s) = [Some a, Some b, Some c, Some d]"
proof -
  define octets where "octets = map parse_octet (split_on (CHR ''.'') s)"
  have bound: "n < 256" if "Some n \<in> set octets" for n
    using that parse_octet_bound unfolding octets_def by (metis imageE list.set_map)
  have "length octets = 4" "None \<notin> set octets"
    and w: "w = quad (the (octets ! 0)) (the (octets ! 1)) (the (octets ! 2)) (the (octets ! 3))"
    using assms by (auto simp: ip_address4_def Let_def octets_def [symmetric] split: if_splits)
  define a b c d where "a = the (octets ! 0)" and "b = the (octets ! 1)"
    and "c = the (octets ! 2)" and "d = the (octets ! 3)"
  have ne: "octets ! i \<noteq> None" if "i < 4" for i
    using that \<open>length octets = 4\<close> \<open>None \<notin> set octets\<close> by (metis nth_mem)
  have nths: "Some a = octets ! 0" "Some b = octets ! 1" "Some c = octets ! 2" "Some d = octets ! 3"
    unfolding a_def b_def c_def d_def by (rule option.collapse, rule ne, simp)+
  have oc: "octets = [Some a, Some b, Some c, Some d]"
    unfolding nths by (rule length4_nth [OF \<open>length octets = 4\<close>])
  have bounds: "a < 256" "b < 256" "c < 256" "d < 256"
    by (rule bound, simp add: oc)+
  from w have "w = quad a b c d" unfolding a_def b_def c_def d_def .
  with bounds oc [unfolded octets_def] show ?thesis by (intro that)
qed

end
