(* ===== verification/Guardian_Identity.thy ===== *)
theory Guardian_Identity
  imports Guardian_Types IPv4
begin

text \<open>
  The guardian's identity proof: which interface, if any, is BOOTMUX-owned. It needs exactly one
  interface inside \<^verbatim>\<open>10.77.0.0/24\<close> and evidence from the USB bus; anything less is reported as
  ambiguous, or as absent. Everything here reads the host and mutates nothing.
\<close>

section \<open>Definitions\<close>

definition bootmux_network :: ip_network where
  "bootmux_network = \<lparr>network_address = quad 10 77 0 0, prefixlen = 24\<rparr>" \<comment> \<open>\<^verbatim>\<open>ip_network(BOOTMUX_NET)\<close>\<close>

definition iface_in_bootmux_net :: "iface \<Rightarrow> bool" where
  "iface_in_bootmux_net i =
     list_ex (\<lambda>addr. case ip_address4 (fst addr) of
                None \<Rightarrow> False
              | Some a \<Rightarrow> in_network a bootmux_network) (i_addresses i)"

definition service_for_interface :: "service list \<Rightarrow> string \<Rightarrow> string option" where
  "service_for_interface svcs n =
     map_option s_name (find (\<lambda>s. s_device s = Some n) svcs)"

definition hw_signals :: "bool \<Rightarrow> bool \<Rightarrow> bool \<Rightarrow> string list" where
  "hw_signals vid_pid product serial =
     (if vid_pid then [''USB VID:PID 0x303a:0x4014''] else [])
     @ (if product then [''product '' @ [char_of (34 :: nat)] @ BOOTMUX_PRODUCT @ [char_of (34 :: nat)]] else [])
     @ (if serial then [''serial '' @ [char_of (34 :: nat)] @ BOOTMUX_SERIAL @ [char_of (34 :: nat)]] else [])"

definition usb_vid_pid_present :: "usb_device list \<Rightarrow> bool" where
  "usb_vid_pid_present usb =
     list_ex (\<lambda>d. u_vid d = Some BOOTMUX_USB_VID \<and> u_pid d = Some BOOTMUX_USB_PID) usb"

definition usb_product_match :: "usb_device list \<Rightarrow> bool" where
  "usb_product_match usb = list_ex (\<lambda>d. contains BOOTMUX_PRODUCT (u_product d)) usb"

definition usb_serial_match :: "usb_device list \<Rightarrow> bool" where
  "usb_serial_match usb = list_ex (\<lambda>d. u_serial d = BOOTMUX_SERIAL) usb"

definition usb_hw_signals :: "usb_device list \<Rightarrow> string list" where
  "usb_hw_signals usb =
     hw_signals (usb_vid_pid_present usb) (usb_product_match usb) (usb_serial_match usb)"

definition net_signals :: "string \<Rightarrow> string option \<Rightarrow> route list \<Rightarrow> string list" where
  "net_signals iface_name svc rs =
     [''interface '' @ iface_name @ '' in '' @ BOOTMUX_NET]
     @ (if list_ex (\<lambda>r. r_gateway r = Some BOOTMUX_PEER) rs
        then [''gateway '' @ BOOTMUX_PEER] else [])
     @ (case svc of
          None \<Rightarrow> []
        | Some s \<Rightarrow> if s \<noteq> [] \<and> contains (lower BOOTMUX_SERVICE_HINT) (lower s)
                    then [''service description contains BOOTMUX USB Ethernet''] else [])
     @ (if list_ex (\<lambda>r. r_interface r = Some iface_name) rs
        then [''route through proven interface '' @ iface_name] else [])"

definition prove_identity :: "'h host_ops \<Rightarrow> 'h \<Rightarrow> identity" where
  "prove_identity ops h =
     (let usb = usb_devices ops h;
          svcs = services ops h;
          rs = routes ops h;
          hw = usb_hw_signals usb;
          candidates = filter iface_in_bootmux_net (interfaces ops h)
      in case candidates of
           [] \<Rightarrow>
             \<lparr>proven = False, ambiguous = False, id_interface = None, id_service = None,
              hardware_signals = hw, network_signals = [],
              id_reason = ''no interface in 10.77.0.0/24''\<rparr>
         | _ # _ # _ \<Rightarrow>
             \<lparr>proven = False, ambiguous = True, id_interface = None, id_service = None,
              hardware_signals = hw,
              network_signals = [''multiple 10.77.0.0/24 interfaces''],
              id_reason = ''multiple candidate interfaces; refusing to guess''\<rparr>
         | [i] \<Rightarrow>
             (let svc = service_for_interface svcs (i_name i);
                  net = net_signals (i_name i) svc rs;
                  total = length hw + length net
              in if MIN_HARDWARE_SIGNALS \<le> length hw \<and> MIN_SIGNALS \<le> total
                 then \<lparr>proven = True, ambiguous = False, id_interface = Some (i_name i),
                       id_service = svc, hardware_signals = hw, network_signals = net,
                       id_reason = ''proven BOOTMUX-owned''\<rparr>
                 else \<lparr>proven = False, ambiguous = True, id_interface = Some (i_name i),
                       id_service = svc, hardware_signals = hw, network_signals = net,
                       id_reason = ''insufficient signals (hardware='' @ nat_str (length hw)
                          @ '', total='' @ nat_str total @ ''); audit-only''\<rparr>))"

section \<open>What an identity means\<close>

lemma bootmux_network_bits:
  "in_network w bootmux_network \<longleftrightarrow> unat (drop_bit 8 w) = (10 * 256 + 77) * 256 + 0"
proof -
  have "in_network w bootmux_network \<longleftrightarrow> drop_bit 8 w = drop_bit 8 (quad 10 77 0 0)"
    by (subst in_network_iff_leading_bits) (simp_all add: bootmux_network_def quad_def)
  also have "\<dots> \<longleftrightarrow> unat (drop_bit 8 w) = unat (drop_bit 8 (quad 10 77 0 0))"
    by (simp only: word_unat_eq_iff)
  also have "unat (drop_bit 8 (quad 10 77 0 0)) = (10 * 256 + 77) * 256 + 0"
    by (rule quad_div_256) simp_all
  finally show ?thesis .
qed

text \<open>Inside the BOOTMUX network means: a well-formed dotted quad that starts with 10.77.0.\<close>

lemma address_in_bootmux_net_iff:
  "(case ip_address4 s of None \<Rightarrow> False | Some a \<Rightarrow> in_network a bootmux_network) \<longleftrightarrow>
     (\<exists>d. map parse_octet (split_on (CHR ''.'') s) = [Some 10, Some 77, Some 0, Some d])"
  (is "?L \<longleftrightarrow> ?R")
proof
  assume ?L
  then obtain w where w: "ip_address4 s = Some w" "in_network w bootmux_network"
    by (auto split: option.splits)
  from w(1) show ?R
  proof (rule ip_address4_cases)
    fix a b c d :: nat
    assume b: "a < 256" "b < 256" "c < 256" "d < 256" "w = quad a b c d"
      and m: "map parse_octet (split_on (CHR ''.'') s) = [Some a, Some b, Some c, Some d]"
    from b w(2) have "(a * 256 + b) * 256 + c = (10 * 256 + 77) * 256 + 0"
      by (simp only: bootmux_network_bits quad_div_256)
    then have "a = 10 \<and> b = 77 \<and> c = 0" by (intro octets_inj) (use b in simp_all)
    with m show ?R by simp
  qed
next
  assume ?R
  then obtain d where m: "map parse_octet (split_on (CHR ''.'') s) = [Some 10, Some 77, Some 0, Some d]" ..
  then have "Some d \<in> set (map parse_octet (split_on (CHR ''.'') s))" by simp
  then have "d < 256" using parse_octet_bound by (metis imageE list.set_map)
  then have "in_network (quad 10 77 0 d) bootmux_network"
    by (simp add: bootmux_network_bits quad_div_256)
  moreover from m have "ip_address4 s = Some (quad 10 77 0 d)"
    by (simp add: ip_address4_def Let_def)
  ultimately show ?L by simp
qed

lemma net_signals_nonempty: "net_signals n svc rs \<noteq> []"
  by (simp add: net_signals_def)

lemma usb_hw_signals_Nil_iff:
  "usb_hw_signals usb = [] \<longleftrightarrow>
     \<not> usb_vid_pid_present usb \<and> \<not> usb_product_match usb \<and> \<not> usb_serial_match usb"
  by (simp add: usb_hw_signals_def hw_signals_def)

lemma signal_policy:
  "MIN_HARDWARE_SIGNALS \<le> length (usb_hw_signals usb) \<and>
   MIN_SIGNALS \<le> length (usb_hw_signals usb) + length (net_signals n svc rs)
   \<longleftrightarrow> usb_hw_signals usb \<noteq> []"
  using net_signals_nonempty [of n svc rs]
  by (cases "usb_hw_signals usb"; cases "net_signals n svc rs")
     (auto simp: MIN_HARDWARE_SIGNALS_def MIN_SIGNALS_def)

definition bootmux_on_usb :: "usb_device list \<Rightarrow> bool" where
  "bootmux_on_usb usb \<longleftrightarrow>
     list_ex (\<lambda>d. u_vid d = Some BOOTMUX_USB_VID \<and> u_pid d = Some BOOTMUX_USB_PID
        \<or> contains BOOTMUX_PRODUCT (u_product d) \<or> u_serial d = BOOTMUX_SERIAL) usb"

text \<open>The three outcomes, by the number of candidate interfaces and the presence of hardware evidence.\<close>

lemma prove_identity_absent:
  "filter iface_in_bootmux_net (interfaces ops h) = [] \<Longrightarrow>
     \<not> proven (prove_identity ops h) \<and> \<not> ambiguous (prove_identity ops h) \<and>
     id_interface (prove_identity ops h) = None \<and> id_service (prove_identity ops h) = None"
  by (simp add: prove_identity_def Let_def)

lemma prove_identity_many:
  "filter iface_in_bootmux_net (interfaces ops h) = i # j # is \<Longrightarrow>
     \<not> proven (prove_identity ops h) \<and> ambiguous (prove_identity ops h) \<and>
     id_interface (prove_identity ops h) = None \<and> id_service (prove_identity ops h) = None"
  by (simp add: prove_identity_def Let_def)

lemma prove_identity_one:
  assumes "filter iface_in_bootmux_net (interfaces ops h) = [i]"
  shows "proven (prove_identity ops h) \<longleftrightarrow> usb_hw_signals (usb_devices ops h) \<noteq> []"
    and "ambiguous (prove_identity ops h) \<longleftrightarrow> usb_hw_signals (usb_devices ops h) = []"
    and "id_interface (prove_identity ops h) = Some (i_name i)"
    and "id_service (prove_identity ops h) = service_for_interface (services ops h) (i_name i)"
    and "hardware_signals (prove_identity ops h) = usb_hw_signals (usb_devices ops h)"
    and "network_signals (prove_identity ops h) =
           net_signals (i_name i) (service_for_interface (services ops h) (i_name i)) (routes ops h)"
  using assms by (simp_all add: prove_identity_def Let_def signal_policy)

lemma prove_identity_cases:
  obtains (absent) "filter iface_in_bootmux_net (interfaces ops h) = []"
  | (one) i where "filter iface_in_bootmux_net (interfaces ops h) = [i]"
  | (many) i j "is" where "filter iface_in_bootmux_net (interfaces ops h) = i # j # is"
  by (metis list.exhaust)

lemma proven_not_ambiguous: "\<not> (proven (prove_identity ops h) \<and> ambiguous (prove_identity ops h))"
proof (cases ops h rule: prove_identity_cases)
  case absent
  then show ?thesis using prove_identity_absent [of ops h] by simp
next
  case (one i)
  then show ?thesis using prove_identity_one(1,2) [OF one] by simp
next
  case (many i j "is")
  then show ?thesis using prove_identity_many [OF many] by simp
qed

lemma not_proven_not_ambiguous_absent:
  assumes "\<not> proven (prove_identity ops h)" "\<not> ambiguous (prove_identity ops h)"
  shows "filter iface_in_bootmux_net (interfaces ops h) = []"
proof (cases ops h rule: prove_identity_cases)
  case (one i)
  with assms show ?thesis using prove_identity_one(1,2) [OF one] by simp
next
  case (many i j "is")
  with assms show ?thesis using prove_identity_many [OF many] by simp
qed

text \<open>
  The identity depends only on what the host shows: two hosts with the same USB devices, interfaces,
  services and routes get the same identity.
\<close>

lemma prove_identity_cong:
  assumes "usb_devices ops h = usb_devices ops h'" "interfaces ops h = interfaces ops h'"
    "services ops h = services ops h'" "routes ops h = routes ops h'"
  shows "prove_identity ops h = prove_identity ops h'"
  using assms by (simp add: prove_identity_def)

section \<open>Properties\<close>

text \<open>
  C13. When an interface counts as BOOTMUX-owned: exactly when it is the only one with an address in the
  BOOTMUX network and some USB device shows the BOOTMUX ids, product name or serial number. Several such
  interfaces, or one without any USB evidence, are ambiguous; an interface is in the BOOTMUX network when
  one of its addresses is a well-formed dotted quad that starts with 10.77.0.
\<close>

theorem identity_decision:
  "(proven (prove_identity ops h) \<longleftrightarrow>
      length (filter iface_in_bootmux_net (interfaces ops h)) = 1 \<and> bootmux_on_usb (usb_devices ops h))
   \<and> (ambiguous (prove_identity ops h) \<longleftrightarrow>
      length (filter iface_in_bootmux_net (interfaces ops h)) \<ge> 2
      \<or> length (filter iface_in_bootmux_net (interfaces ops h)) = 1 \<and> \<not> bootmux_on_usb (usb_devices ops h))
   \<and> iface_in_bootmux_net f =
      list_ex (\<lambda>addr. \<exists>d. map parse_octet (split_on (CHR ''.'') (fst addr)) = [Some 10, Some 77, Some 0, Some d]) (i_addresses f)"
proof -
  have usb: "bootmux_on_usb us \<longleftrightarrow> usb_hw_signals us \<noteq> []" for us
    by (auto simp: bootmux_on_usb_def usb_hw_signals_Nil_iff usb_vid_pid_present_def usb_product_match_def
        usb_serial_match_def list_ex_iff)
  have "(proven (prove_identity ops h) \<longleftrightarrow>
      length (filter iface_in_bootmux_net (interfaces ops h)) = 1 \<and> bootmux_on_usb (usb_devices ops h))
   \<and> (ambiguous (prove_identity ops h) \<longleftrightarrow>
      length (filter iface_in_bootmux_net (interfaces ops h)) \<ge> 2
      \<or> length (filter iface_in_bootmux_net (interfaces ops h)) = 1 \<and> \<not> bootmux_on_usb (usb_devices ops h))"
  proof (cases ops h rule: prove_identity_cases)
    case absent
    then show ?thesis using prove_identity_absent [of ops h] by simp
  next
    case (one i)
    then show ?thesis using prove_identity_one(1,2) [OF one] by (simp add: usb)
  next
    case (many i j "is")
    then show ?thesis using prove_identity_many [OF many] by simp
  qed
  moreover have "iface_in_bootmux_net f =
      list_ex (\<lambda>addr. \<exists>d. map parse_octet (split_on (CHR ''.'') (fst addr)) = [Some 10, Some 77, Some 0, Some d]) (i_addresses f)"
    unfolding iface_in_bootmux_net_def address_in_bootmux_net_iff [symmetric] ..
  ultimately show ?thesis by blast
qed

end
