(* ===== verification/Guardian_Plan.thy ===== *)
theory Guardian_Plan
  imports Guardian_Identity
begin

text \<open>
  Baseline capture and the pure plan builders R1-R6 of the guardian: they observe the host and emit
  the commands of a repair, and never run one. The lemmas compute the commands of each stage; the
  properties say what a plan may touch.
\<close>

section \<open>Baseline capture\<close>

definition host_is_clean :: "'h host_ops \<Rightarrow> 'h \<Rightarrow> identity \<Rightarrow> bool" where
  "host_is_clean ops h i =
     (if proven i then False
      else \<not> list_ex (\<lambda>r. r_gateway r = Some BOOTMUX_PEER \<or>
                         (truthy (id_interface i) \<and> r_interface r = id_interface i)) (routes ops h))"

definition py_int :: "real \<Rightarrow> int" where
  "py_int x = (if 0 \<le> x then \<lfloor>x\<rfloor> else \<lceil>x\<rceil>)"

definition ordered_names :: "service list \<Rightarrow> string list" where
  "ordered_names svcs = map s_name (sort_key s_order svcs)"

definition enabled_states :: "service list \<Rightarrow> bool dict" where
  "enabled_states svcs = dict_of (map (\<lambda>s. (s_name s, s_enabled s)) svcs)"

definition capture_wifi :: "'h host_ops \<Rightarrow> 'h \<Rightarrow> wifi_block" where
  "capture_wifi ops h =
     (let dev = wifi_device ops h;
          svc = (case dev of Some d \<Rightarrow> if d \<noteq> [] then service_for_interface (services ops h) d else None
                 | None \<Rightarrow> None);
          base = (case dev of
             Some d \<Rightarrow>
               if d \<noteq> [] then
                 (let v4 = wifi_ipv4 ops d h
                  in empty_wifi_block\<lparr>hardware_device := dev, service_name := svc,
                       power := wifi_power ops d h, associated_ssid := wifi_ssid ops d h,
                       ipv4_mode := v4_mode v4, ipv4_address := v4_address v4,
                       subnet_mask := v4_subnet_mask v4, router := v4_router v4\<rparr>)
               else empty_wifi_block\<lparr>hardware_device := dev\<rparr>
           | None \<Rightarrow> empty_wifi_block)
      in case svc of
           Some s \<Rightarrow>
             if s \<noteq> [] then base\<lparr>dns_servers := dns_server_list (dns ops s h),
                                search_domains := dns_search_list (dns ops s h)\<rparr>
             else base
         | None \<Rightarrow> base)"

definition capture_network :: "'h host_ops \<Rightarrow> 'h \<Rightarrow> network_block" where
  "capture_network ops h =
     (let default_route = find (\<lambda>r. r_destination r = Some ''default'') (routes ops h)
      in \<lparr>default_gateway = Option.bind default_route r_gateway,
          default_interface = Option.bind default_route r_interface,
          network_service_order = ordered_names (services ops h),
          service_enabled_states = enabled_states (services ops h),
          bootmux_routes = []\<rparr>)"

definition capture_baseline :: "'h host_ops \<Rightarrow> 'h \<Rightarrow> baseline" where
  "capture_baseline ops h =
     \<lparr>schema_version = Some SCHEMA_VERSION,
      captured_at = py_int (now ops h),
      wifi = capture_wifi ops h,
      network = capture_network ops h,
      redacted_fields = [''wifi.associated_ssid''],
      other_keys = []\<rparr>"

definition redact_baseline :: "baseline option \<Rightarrow> baseline option" where
  "redact_baseline ob =
     map_option (\<lambda>b. if associated_ssid (wifi b) \<noteq> None
                      then b\<lparr>wifi := (wifi b)\<lparr>associated_ssid := Some ''<redacted>''\<rparr>\<rparr> else b) ob"

section \<open>R1: BOOTMUX-owned routes\<close>

definition is_link_gateway :: "string option \<Rightarrow> bool" where
  "is_link_gateway gw =
     (case gw of None \<Rightarrow> False | Some g \<Rightarrow> g \<noteq> [] \<and> prefix ''link#'' (lower g))"

definition route_owned :: "string option \<Rightarrow> route \<Rightarrow> bool" where
  "route_owned iface r =
     (r_gateway r = Some BOOTMUX_PEER \<or> (iface \<noteq> None \<and> r_interface r = iface))"

definition r1_argv :: "route \<Rightarrow> string list" where
  "r1_argv r =
     [''route'', ''-n'', ''delete'']
     @ (if r_destination r = Some ''default''
        then [''default'']
             @ (if CHR ''I'' \<in> set (r_flags r) \<and> truthy (r_interface r)
                then [''-ifscope'', the (r_interface r)] else [])
        else if truthy (r_destination r) \<and> CHR ''/'' \<in> set (the (r_destination r))
        then [''-net'', the (r_destination r)]
        else [''-host'', if truthy (r_destination r) then the (r_destination r) else ''default''])
     @ (if truthy (r_gateway r) \<and> \<not> is_link_gateway (r_gateway r) then [the (r_gateway r)] else [])"

definition r1_command :: "route \<Rightarrow> command" where
  "r1_command r =
     \<lparr>argv = r1_argv r, step = ''R1'',
      purpose = ''remove BOOTMUX route '' @ opt_str (r_destination r) @ '' via '' @ opt_str (r_gateway r)
                @ '' ('' @ opt_str (r_interface r) @ '')'',
      target_interface = r_interface r, target_service = None\<rparr>"

definition plan_r1_routes :: "'h host_ops \<Rightarrow> 'h \<Rightarrow> identity \<Rightarrow> repair_plan" where
  "plan_r1_routes ops h i =
     (let plan = foldl (\<lambda>p r. if route_owned (id_interface i) r then plan_add (r1_command r) p else p)
                   empty_plan (routes ops h)
      in if commands plan = [] then plan_note ''R1: no BOOTMUX-owned routes present'' plan else plan)"

section \<open>R2: the BOOTMUX service\<close>

definition service_enabled_now :: "service list \<Rightarrow> string \<Rightarrow> bool" where
  "service_enabled_now svcs n =
     (case find (\<lambda>s. s_name s = n) svcs of None \<Rightarrow> True | Some s \<Rightarrow> s_enabled s)"

definition plan_r2_service :: "'h host_ops \<Rightarrow> 'h \<Rightarrow> identity \<Rightarrow> repair_plan" where
  "plan_r2_service ops h i =
     (if \<not> truthy (id_service i)
      then plan_note ''R2: no network service maps to the BOOTMUX interface'' empty_plan
      else let svc = the (id_service i) in
        if \<not> service_enabled_now (services ops h) svc
        then plan_note (''R2: service '' @ svc @ '' already disabled'') empty_plan
        else plan_add
               \<lparr>argv = [''networksetup'', ''-setnetworkserviceenabled'', svc, ''off''], step = ''R2'',
                purpose = ''disable BOOTMUX service '' @ svc,
                target_interface = None, target_service = Some svc\<rparr> empty_plan)"

section \<open>R3: the Wi-Fi IPv4 mode\<close>

definition plan_r3_ipv4 :: "'h host_ops \<Rightarrow> 'h \<Rightarrow> identity \<Rightarrow> baseline option \<Rightarrow> repair_plan" where
  "plan_r3_ipv4 ops h i ob =
     (case ob of
        None \<Rightarrow> plan_note ''R3: no baseline; not inventing IPv4 config'' empty_plan
      | Some b \<Rightarrow>
          let w = wifi b; mode = ipv4_mode w in
          if \<not> truthy (hardware_device w)
          then plan_note ''R3: baseline has no Wi-Fi device'' empty_plan
          else let dev = the (hardware_device w); current = wifi_ipv4 ops dev h in
            if mode = Some ''dhcp'' then
              (if v4_mode current \<noteq> Some ''dhcp''
               then plan_add
                      \<lparr>argv = [''ipconfig'', ''set'', dev, ''DHCP''], step = ''R3'',
                       purpose = ''renew DHCP on '' @ dev,
                       target_interface = Some dev, target_service = None\<rparr> empty_plan
               else plan_note (''R3: '' @ dev @ '' already DHCP'') empty_plan)
            else if mode = Some ''manual'' then
              (if \<not> (truthy (service_name w) \<and> truthy (ipv4_address w) \<and> truthy (subnet_mask w)
                       \<and> truthy (router w))
               then plan_note ''R3: manual baseline incomplete; refusing to invent values'' empty_plan
               else let svc = the (service_name w) in
                 if \<not> (v4_mode current = Some ''manual'' \<and> v4_address current = ipv4_address w
                        \<and> v4_subnet_mask current = subnet_mask w \<and> v4_router current = router w)
                 then plan_add
                        \<lparr>argv = [''networksetup'', ''-setmanual'', svc, the (ipv4_address w),
                                the (subnet_mask w), the (router w)], step = ''R3'',
                         purpose = ''restore manual IPv4 on '' @ svc,
                         target_interface = None, target_service = Some svc\<rparr> empty_plan
                 else plan_note (''R3: '' @ svc @ '' manual IPv4 already matches baseline'') empty_plan)
            else plan_note (''R3: baseline ipv4_mode '' @ repr_opt mode @ '' not restorable'') empty_plan)"

section \<open>R4: DNS and search domains\<close>

definition set_or_empty :: "string \<Rightarrow> string \<Rightarrow> string list \<Rightarrow> string list" where
  "set_or_empty verb svc vals =
     [''networksetup'', verb, svc] @ (if vals \<noteq> [] then vals else [''Empty''])"

definition plan_r4_dns :: "'h host_ops \<Rightarrow> 'h \<Rightarrow> identity \<Rightarrow> baseline option \<Rightarrow> repair_plan" where
  "plan_r4_dns ops h i ob =
     (case ob of
        None \<Rightarrow> plan_note ''R4: no baseline; not inventing DNS config'' empty_plan
      | Some b \<Rightarrow>
          if \<not> truthy (service_name (wifi b))
          then plan_note ''R4: baseline has no Wi-Fi service'' empty_plan
          else let svc = the (service_name (wifi b));
                   want_servers = dns_servers (wifi b);
                   want_search = search_domains (wifi b);
                   current = dns ops svc h;
                   p1 = (if dns_server_list current \<noteq> want_servers
                         then plan_add
                                \<lparr>argv = set_or_empty ''-setdnsservers'' svc want_servers, step = ''R4'',
                                 purpose = ''restore DNS on '' @ svc,
                                 target_interface = None, target_service = Some svc\<rparr> empty_plan
                         else plan_note (''R4: DNS on '' @ svc @ '' already matches baseline'') empty_plan)
               in if dns_search_list current \<noteq> want_search
                  then plan_add
                         \<lparr>argv = set_or_empty ''-setsearchdomains'' svc want_search, step = ''R4'',
                          purpose = ''restore search domains on '' @ svc,
                          target_interface = None, target_service = Some svc\<rparr> p1
                  else plan_note (''R4: search domains on '' @ svc @ '' already match baseline'') p1)"

section \<open>R5: service order and enabled states\<close>

definition order_without :: "string option \<Rightarrow> string list \<Rightarrow> string list" where
  "order_without svc names = filter (\<lambda>n. Some n \<noteq> svc) names"

definition r5_enable_command :: "string \<Rightarrow> bool \<Rightarrow> command" where
  "r5_enable_command n want =
     \<lparr>argv = [''networksetup'', ''-setnetworkserviceenabled'', n, if want then ''on'' else ''off''],
      step = ''R5'', purpose = ''restore enabled state of '' @ n,
      target_interface = None, target_service = Some n\<rparr>"

definition r5_needs_enable :: "string option \<Rightarrow> bool dict \<Rightarrow> string \<times> bool \<Rightarrow> bool" where
  "r5_needs_enable bootmux_svc current kv =
     (Some (fst kv) \<noteq> bootmux_svc \<and> map_of current (fst kv) \<noteq> None
      \<and> map_of current (fst kv) \<noteq> Some (snd kv))"

definition plan_r5_order :: "'h host_ops \<Rightarrow> 'h \<Rightarrow> identity \<Rightarrow> baseline option \<Rightarrow> repair_plan" where
  "plan_r5_order ops h i ob =
     (case ob of
        None \<Rightarrow> plan_note ''R5: no baseline; not inventing service order'' empty_plan
      | Some b \<Rightarrow>
          let svcs = services ops h;
              current_order = order_without (id_service i) (ordered_names svcs);
              want_order = order_without (id_service i) (network_service_order (network b));
              current_enabled = enabled_states svcs;
              p1 = (if want_order \<noteq> [] \<and> set want_order = set current_order \<and> current_order \<noteq> want_order
                    then plan_add
                           \<lparr>argv = [''networksetup'', ''-ordernetworkservices''] @ want_order, step = ''R5'',
                            purpose = ''restore network service order'',
                            target_interface = None, target_service = None\<rparr> empty_plan
                    else if want_order \<noteq> [] \<and> set want_order \<noteq> set current_order
                    then plan_note ''R5: service set differs from baseline; refusing partial order'' empty_plan
                    else plan_note ''R5: service order already matches baseline'' empty_plan)
          in foldl (\<lambda>p kv. if r5_needs_enable (id_service i) current_enabled kv
                             then plan_add (r5_enable_command (fst kv) (snd kv)) p else p)
               p1 (service_enabled_states (network b)))"

section \<open>The composed plan and the Wi-Fi toggle R6\<close>

definition build_repair_plan :: "'h host_ops \<Rightarrow> 'h \<Rightarrow> identity \<Rightarrow> baseline option \<Rightarrow> repair_plan" where
  "build_repair_plan ops h i ob =
     (let subs = [plan_r1_routes ops h i, plan_r2_service ops h i, plan_r3_ipv4 ops h i ob,
                  plan_r4_dns ops h i ob, plan_r5_order ops h i ob];
          cs = concat (map commands subs)
      in \<lparr>commands = cs, plan_notes = concat (map plan_notes subs), needs_change = (cs \<noteq> [])\<rparr>)"

definition toggle_command :: "string list \<Rightarrow> string \<Rightarrow> string \<Rightarrow> command" where
  "toggle_command av why dev =
     \<lparr>argv = av, step = ''R6'', purpose = why, target_interface = Some dev, target_service = None\<rparr>"

definition build_wifi_toggle_plan ::
    "'h host_ops \<Rightarrow> 'h \<Rightarrow> baseline option \<Rightarrow> real \<Rightarrow> real option \<Rightarrow> repair_plan" where
  "build_wifi_toggle_plan ops h ob t last_toggle_at =
     (case ob of
        None \<Rightarrow> plan_note ''R6: no baseline; will not toggle Wi-Fi'' empty_plan
      | Some b \<Rightarrow>
          let w = wifi b in
          if \<not> truthy (hardware_device w)
          then plan_note ''R6: baseline has no Wi-Fi device'' empty_plan
          else if power w \<noteq> Some True
          then plan_note ''R6: baseline Wi-Fi was not powered on; will not toggle'' empty_plan
          else if (case last_toggle_at of None \<Rightarrow> False | Some l \<Rightarrow> t - l < WIFI_TOGGLE_COOLDOWN_SECONDS)
          then plan_note ''R6: cooldown active; skipping toggle'' empty_plan
          else let dev = the (hardware_device w);
                   p = plan_add (toggle_command [''networksetup'', ''-setairportpower'', dev, ''on'']
                                   (''power on '' @ dev) dev)
                        (plan_add (toggle_command [''networksetup'', ''-setairportpower'', dev, ''off'']
                                   (''power off '' @ dev) dev) empty_plan)
               in if truthy (associated_ssid w)
                  then plan_add (toggle_command [''networksetup'', ''-setairportnetwork'', dev, the (associated_ssid w)]
                                   ''rejoin captured SSID using saved credentials'' dev) p
                  else plan_note ''R6: SSID unavailable; relying on auto-join after power restore'' p)"

section \<open>The commands of each stage\<close>

lemma commands_foldl_add [plan_simps]:
  "commands (foldl (\<lambda>p x. if P x then plan_add (f x) p else p) p xs) = commands p @ map f (filter P xs)"
  by (induction xs arbitrary: p) auto

lemma commands_r1 [plan_simps]:
  "commands (plan_r1_routes ops h i) = map r1_command (filter (route_owned (id_interface i)) (routes ops h))"
  by (simp add: plan_r1_routes_def Let_def commands_foldl_add)

lemma commands_r2:
  "commands (plan_r2_service ops h i) =
     (if truthy (id_service i) \<and> service_enabled_now (services ops h) (the (id_service i))
      then [\<lparr>argv = [''networksetup'', ''-setnetworkserviceenabled'', the (id_service i), ''off''],
             step = ''R2'', purpose = ''disable BOOTMUX service '' @ the (id_service i),
             target_interface = None, target_service = Some (the (id_service i))\<rparr>]
      else [])"
  by (simp add: plan_r2_service_def Let_def)

lemma commands_r5_Some [plan_simps]:
  "commands (plan_r5_order ops h i (Some b)) =
     (let current = order_without (id_service i) (ordered_names (services ops h));
          want = order_without (id_service i) (network_service_order (network b))
      in if want \<noteq> [] \<and> set want = set current \<and> current \<noteq> want
         then [\<lparr>argv = [''networksetup'', ''-ordernetworkservices''] @ want, step = ''R5'',
                purpose = ''restore network service order'', target_interface = None, target_service = None\<rparr>]
         else [])
     @ map (\<lambda>kv. r5_enable_command (fst kv) (snd kv))
         (filter (r5_needs_enable (id_service i) (enabled_states (services ops h)))
           (service_enabled_states (network b)))"
  by (simp add: plan_r5_order_def Let_def commands_foldl_add)

lemma commands_no_baseline [plan_simps]:
  "commands (plan_r3_ipv4 ops h i None) = []"
  "commands (plan_r4_dns ops h i None) = []"
  "commands (plan_r5_order ops h i None) = []"
  "commands (build_wifi_toggle_plan ops h None t l) = []"
  by (simp_all add: plan_r3_ipv4_def plan_r4_dns_def plan_r5_order_def build_wifi_toggle_plan_def)

lemma commands_build [plan_simps]:
  "commands (build_repair_plan ops h i ob) =
     commands (plan_r1_routes ops h i) @ commands (plan_r2_service ops h i)
     @ commands (plan_r3_ipv4 ops h i ob) @ commands (plan_r4_dns ops h i ob)
     @ commands (plan_r5_order ops h i ob)"
  by (simp add: build_repair_plan_def Let_def)

lemma commands_build_set:
  "c \<in> set (commands (build_repair_plan ops h i ob)) \<longleftrightarrow>
     c \<in> set (commands (plan_r1_routes ops h i)) \<or> c \<in> set (commands (plan_r2_service ops h i)) \<or>
     c \<in> set (commands (plan_r3_ipv4 ops h i ob)) \<or> c \<in> set (commands (plan_r4_dns ops h i ob)) \<or>
     c \<in> set (commands (plan_r5_order ops h i ob))"
  by (auto simp: commands_build)

section \<open>What a plan may touch\<close>

text \<open>A command that puts back a captured Wi-Fi setting, with the captured value.\<close>

definition restores_wifi :: "baseline \<Rightarrow> string list \<Rightarrow> bool" where
  "restores_wifi b av \<longleftrightarrow>
     (let w = wifi b in
       (\<exists>dev. hardware_device w = Some dev \<and> ipv4_mode w = Some ''dhcp'' \<and> av = [''ipconfig'', ''set'', dev, ''DHCP''])
     \<or> (\<exists>svc a m r. service_name w = Some svc \<and> ipv4_mode w = Some ''manual'' \<and> ipv4_address w = Some a
          \<and> subnet_mask w = Some m \<and> router w = Some r \<and> av = [''networksetup'', ''-setmanual'', svc, a, m, r])
     \<or> (\<exists>svc. service_name w = Some svc \<and> av = set_or_empty ''-setdnsservers'' svc (dns_servers w))
     \<or> (\<exists>svc. service_name w = Some svc \<and> av = set_or_empty ''-setsearchdomains'' svc (search_domains w)))"

text \<open>
  A command that puts back captured service settings: the captured order of exactly the services
  that exist now apart from the BOOTMUX one, or the captured enabled state of one that exists now
  and is not the BOOTMUX one.
\<close>

definition restores_services :: "service list \<Rightarrow> string option \<Rightarrow> baseline \<Rightarrow> string list \<Rightarrow> bool" where
  "restores_services svcs bootmux_svc b av \<longleftrightarrow>
     (let want = order_without bootmux_svc (network_service_order (network b)) in
        set want = set (map s_name svcs) - {n. Some n = bootmux_svc}
        \<and> av = [''networksetup'', ''-ordernetworkservices''] @ want)
     \<or> (\<exists>n want. (n, want) \<in> set (service_enabled_states (network b)) \<and> n \<in> set (map s_name svcs)
          \<and> Some n \<noteq> bootmux_svc
          \<and> av = [''networksetup'', ''-setnetworkserviceenabled'', n, if want then ''on'' else ''off''])"

definition in_repair_scope :: "'h host_ops \<Rightarrow> 'h \<Rightarrow> identity \<Rightarrow> baseline option \<Rightarrow> string list \<Rightarrow> bool" where
  "in_repair_scope ops h i ob av \<longleftrightarrow>
     (\<exists>r \<in> set (routes ops h). route_owned (id_interface i) r \<and> av = r1_argv r)
     \<or> (\<exists>svc. id_service i = Some svc \<and> av = [''networksetup'', ''-setnetworkserviceenabled'', svc, ''off''])
     \<or> (\<exists>b. ob = Some b \<and> (restores_wifi b av \<or> restores_services (services ops h) (id_service i) b av))"

text \<open>The fixed set of operations a guardian command may be, whatever its arguments.\<close>

definition NETWORKSETUP_VERBS :: "string list" where
  "NETWORKSETUP_VERBS =
     [''-setnetworkserviceenabled'', ''-setmanual'', ''-setdnsservers'', ''-setsearchdomains'',
      ''-ordernetworkservices'', ''-setairportpower'', ''-setairportnetwork'']"

definition allowed_argv :: "string list \<Rightarrow> bool" where
  "allowed_argv av =
     (if prefix [''route'', ''-n'', ''delete''] av then length av > 3
      else case av of
        [p, q, dev, d] \<Rightarrow> (p = ''ipconfig'' \<and> q = ''set'' \<and> d = ''DHCP'')
                          \<or> (p = ''networksetup'' \<and> q \<in> set NETWORKSETUP_VERBS)
      | p # q # args \<Rightarrow> p = ''networksetup'' \<and> q \<in> set NETWORKSETUP_VERBS
      | _ \<Rightarrow> False)"

lemma allowed_networksetup:
  "verb \<in> set NETWORKSETUP_VERBS \<Longrightarrow> allowed_argv (''networksetup'' # verb # args)"
  by (simp add: allowed_argv_def split: list.split)

lemma networksetup_verbs [simp]:
  "''-setnetworkserviceenabled'' \<in> set NETWORKSETUP_VERBS" "''-setmanual'' \<in> set NETWORKSETUP_VERBS"
  "''-setdnsservers'' \<in> set NETWORKSETUP_VERBS" "''-setsearchdomains'' \<in> set NETWORKSETUP_VERBS"
  "''-ordernetworkservices'' \<in> set NETWORKSETUP_VERBS" "''-setairportpower'' \<in> set NETWORKSETUP_VERBS"
  "''-setairportnetwork'' \<in> set NETWORKSETUP_VERBS"
  unfolding NETWORKSETUP_VERBS_def by (simp_all only: list.set insert_iff refl simp_thms)

lemma allowed_dhcp: "allowed_argv [''ipconfig'', ''set'', dev, ''DHCP'']"
  by (simp add: allowed_argv_def)

lemmas allowed_simps = networksetup_verbs [THEN allowed_networksetup] allowed_dhcp

lemma set_ordered_names [simp]: "set (ordered_names svcs) = set (map s_name svcs)"
  by (simp add: ordered_names_def)

lemma set_order_without: "set (order_without svc ns) = set ns - {n. Some n = svc}"
  by (auto simp: order_without_def)

lemma fst_enabled_states: "map_of (enabled_states svcs) n \<noteq> None \<longleftrightarrow> n \<in> set (map s_name svcs)"
  by (simp add: enabled_states_def dict_of_lookup map_of_eq_None_iff image_image)

lemma r1_in_scope:
  "c \<in> set (commands (plan_r1_routes ops h i)) \<Longrightarrow> in_repair_scope ops h i ob (argv c)"
  by (auto simp: commands_r1 in_repair_scope_def r1_command_def)

lemma r2_in_scope:
  "c \<in> set (commands (plan_r2_service ops h i)) \<Longrightarrow> in_repair_scope ops h i ob (argv c)"
  by (auto simp: commands_r2 in_repair_scope_def truthy_iff split: if_splits)

lemma r3_restores_wifi:
  "c \<in> set (commands (plan_r3_ipv4 ops h i (Some b))) \<Longrightarrow> restores_wifi b (argv c)"
  by (auto simp: plan_r3_ipv4_def restores_wifi_def Let_def truthy_iff split: if_splits)

lemma r4_restores_wifi:
  "c \<in> set (commands (plan_r4_dns ops h i (Some b))) \<Longrightarrow> restores_wifi b (argv c)"
  by (auto simp: plan_r4_dns_def restores_wifi_def Let_def truthy_iff split: if_splits)

lemma r5_restores_services:
  assumes "c \<in> set (commands (plan_r5_order ops h i (Some b)))"
  shows "restores_services (services ops h) (id_service i) b (argv c)"
proof -
  let ?current = "order_without (id_service i) (ordered_names (services ops h))"
  let ?want = "order_without (id_service i) (network_service_order (network b))"
  from assms consider
      (order) "set ?want = set ?current" "argv c = [''networksetup'', ''-ordernetworkservices''] @ ?want"
    | (enable) kv where "kv \<in> set (service_enabled_states (network b))"
        "r5_needs_enable (id_service i) (enabled_states (services ops h)) kv"
        "c = r5_enable_command (fst kv) (snd kv)"
    unfolding commands_r5_Some Let_def set_append set_map set_filter
    by (elim UnE) (simp_all split: if_splits, blast)
  then show ?thesis
  proof cases
    case order
    then show ?thesis
      by (simp add: restores_services_def Let_def set_order_without)
  next
    case enable
    then have "fst kv \<in> set (map s_name (services ops h))" "Some (fst kv) \<noteq> id_service i"
      using fst_enabled_states unfolding r5_needs_enable_def by blast+
    moreover have "(fst kv, snd kv) \<in> set (service_enabled_states (network b))"
      using enable(1) by simp
    moreover have "argv c = [''networksetup'', ''-setnetworkserviceenabled'', fst kv, if snd kv then ''on'' else ''off'']"
      using enable(3) by (simp add: r5_enable_command_def)
    ultimately show ?thesis unfolding restores_services_def by blast
  qed
qed

lemma r1_argv_allowed: "allowed_argv (r1_argv r)"
  by (simp add: allowed_argv_def r1_argv_def)

lemma restores_wifi_allowed: "restores_wifi b av \<Longrightarrow> allowed_argv av"
  unfolding restores_wifi_def Let_def set_or_empty_def append.simps
  by (elim disjE exE conjE) (simp_all only: allowed_simps)

lemma restores_services_allowed: "restores_services svcs s b av \<Longrightarrow> allowed_argv av"
  unfolding restores_services_def Let_def append.simps
  by (elim disjE exE conjE) (simp_all only: allowed_simps)

lemma in_repair_scope_allowed: "in_repair_scope ops h i ob av \<Longrightarrow> allowed_argv av"
  unfolding in_repair_scope_def
  by (elim disjE exE bexE conjE)
     (simp_all only: r1_argv_allowed allowed_simps restores_wifi_allowed restores_services_allowed)

lemma commands_toggle_allowed:
  assumes "c \<in> set (commands (build_wifi_toggle_plan ops h ob t l))"
  shows "allowed_argv (argv c)"
proof (cases ob)
  case None
  with assms show ?thesis by (simp add: commands_no_baseline)
next
  case (Some b)
  with assms show ?thesis
    by (auto simp: build_wifi_toggle_plan_def toggle_command_def Let_def
        allowed_simps split: if_splits)
qed

lemma build_in_scope:
  assumes "c \<in> set (commands (build_repair_plan ops h i ob))"
  shows "in_repair_scope ops h i ob (argv c)"
proof (cases ob)
  case None
  with assms show ?thesis
    by (auto simp: commands_build commands_no_baseline dest: r1_in_scope r2_in_scope)
next
  case (Some b)
  with assms consider "c \<in> set (commands (plan_r1_routes ops h i))" | "c \<in> set (commands (plan_r2_service ops h i))"
    | "restores_wifi b (argv c)" | "restores_services (services ops h) (id_service i) b (argv c)"
    by (auto simp: commands_build_set dest: r3_restores_wifi r4_restores_wifi r5_restores_services)
  then show ?thesis
  proof cases
    case 1
    then show ?thesis by (rule r1_in_scope)
  next
    case 2
    then show ?thesis by (rule r2_in_scope)
  qed (simp_all add: in_repair_scope_def Some)
qed

lemma ssid_update_same:
  "associated_ssid (wifi b) = x \<Longrightarrow> b\<lparr>wifi := (wifi b)\<lparr>associated_ssid := x\<rparr>\<rparr> = b"
  by (cases b; cases "wifi b") simp

section \<open>Properties\<close>

text \<open>
  Scope of a repair: every command of the composed plan R1-R5 removes a BOOTMUX-owned route,
  disables the BOOTMUX service, or puts back a captured value (Wi-Fi addressing, DNS, search domains,
  service order, enabled state) on the captured Wi-Fi service or on services other than the BOOTMUX
  one; and as a system operation it is one of a fixed set that contains no route flush, no service
  deletion and no removal of a saved network.
\<close>

lemma repair_plan_in_scope:
  "list_all (\<lambda>c. in_repair_scope ops h i ob (argv c) \<and> allowed_argv (argv c))
     (commands (build_repair_plan ops h i ob))"
  using build_in_scope in_repair_scope_allowed by (metis (mono_tags, lifting) Ball_set)

text \<open>
  Without a baseline nothing is invented: the plan consists of the deletions of the BOOTMUX-owned
  routes, in table order, followed by at most the disabling of the BOOTMUX service, and no Wi-Fi
  toggle is ever planned.
\<close>

lemma no_baseline_plan:
  "commands (build_repair_plan ops h i None) =
     map r1_command (filter (route_owned (id_interface i)) (routes ops h))
     @ (if truthy (id_service i) \<and> service_enabled_now (services ops h) (the (id_service i))
        then [\<lparr>argv = [''networksetup'', ''-setnetworkserviceenabled'', the (id_service i), ''off''],
               step = ''R2'', purpose = ''disable BOOTMUX service '' @ the (id_service i),
               target_interface = None, target_service = Some (the (id_service i))\<rparr>]
        else [])
   \<and> commands (build_wifi_toggle_plan ops h None t last_toggle) = []"
  by (simp add: commands_build commands_r1 commands_r2 commands_no_baseline)

text \<open>
  Redaction does not leak the network name: the redacted baseline is the same whatever SSID was
  captured, and it keeps every other field.
\<close>

lemma redact_baseline_hides_ssid:
  "redact_baseline (Some (b\<lparr>wifi := (wifi b)\<lparr>associated_ssid := Some s\<rparr>\<rparr>)) =
   redact_baseline (Some (b\<lparr>wifi := (wifi b)\<lparr>associated_ssid := Some t\<rparr>\<rparr>)) \<and>
   redact_baseline (Some b) =
     Some (b\<lparr>wifi := (wifi b)\<lparr>associated_ssid := map_option (\<lambda>_. ''<redacted>'') (associated_ssid (wifi b))\<rparr>\<rparr>)"
  by (cases "associated_ssid (wifi b)") (simp_all add: redact_baseline_def ssid_update_same)

end
