(* ===== verification/Guardian_Exec.thy ===== *)
theory Guardian_Exec
  imports Guardian_Plan
begin

text \<open>
  Executing a plan (the guardian's only mutation path), the R7 verification of the host against the
  baseline, and the classification of its outcome. The interface to the host is the locale
  \<open>recording_host\<close>: a host that remembers the commands it was given.
\<close>

section \<open>Execution\<close>

record exec_failure =
  fail_argv :: "string list"
  fail_step :: string
  fail_returncode :: int
  fail_stderr :: string

record execution =
  executed :: "command list"
  failures :: "exec_failure list"
  exec_ok :: bool

definition empty_execution :: execution where
  "empty_execution = \<lparr>executed = [], failures = [], exec_ok = True\<rparr>"

definition exec_record :: "command \<Rightarrow> run_result \<Rightarrow> execution \<Rightarrow> execution" where
  "exec_record c r e =
     (case r of (rc, out, err) \<Rightarrow>
        if rc \<noteq> 0
        then e\<lparr>exec_ok := False,
               failures := failures e @
                 [\<lparr>fail_argv = argv c, fail_step = step c, fail_returncode = rc,
                   fail_stderr = take 500 (strip err)\<rparr>]\<rparr>
        else e\<lparr>executed := executed e @ [c]\<rparr>)"

fun execute_commands ::
    "'h host_ops \<Rightarrow> command list \<Rightarrow> execution \<Rightarrow> 'h \<Rightarrow> (execution \<times> 'h) result" where
  "execute_commands ops [] e h = Inr (e, h)"
| "execute_commands ops (c # cs) e h =
     bindE (run ops (argv c) h) (\<lambda>(r, h'). execute_commands ops cs (exec_record c r e) h')"

definition execute_plan :: "'h host_ops \<Rightarrow> repair_plan \<Rightarrow> 'h \<Rightarrow> (execution \<times> 'h) result" where
  "execute_plan ops p h = execute_commands ops (commands p) empty_execution h"

section \<open>Verification\<close>

definition bootmux_default_routes :: "'h host_ops \<Rightarrow> 'h \<Rightarrow> identity \<Rightarrow> route list" where
  "bootmux_default_routes ops h i =
     filter (route_owned (id_interface i))
       (filter (\<lambda>r. r_destination r = Some ''default'') (routes ops h))"

definition verify :: "'h host_ops \<Rightarrow> 'h \<Rightarrow> identity \<Rightarrow> baseline option \<Rightarrow> bool dict" where
  "verify ops h i ob =
     (let rs = routes ops h;
          owned = filter (route_owned (id_interface i)) rs;
          defaults = filter (\<lambda>r. r_destination r = Some ''default'') rs;
          bootmux_default = filter (route_owned (id_interface i)) defaults;
          non_bootmux_default = filter (\<lambda>r. r \<notin> set bootmux_default) defaults;
          svcs = services ops h;
          svc_enabled = (if truthy (id_service i) then service_enabled_now svcs (the (id_service i)) else True);
          w = (case ob of None \<Rightarrow> empty_wifi_block | Some b \<Rightarrow> wifi b);
          dev = hardware_device w
      in [(''bootmux_default_route_absent'', bootmux_default = []),
          (''bootmux_scoped_routes_absent'', owned = []),
          (''bootmux_service_disabled'', id_service i = None \<or> \<not> svc_enabled),
          (''wifi_power_matches_baseline'',
             (if truthy dev then wifi_power ops (the dev) h = power w else True)),
          (''wifi_ssid_matches_baseline_or_redacted_equivalent'',
             (if truthy dev
              then (if associated_ssid w \<in> {None, Some ''<redacted>''} then True
                    else wifi_ssid ops (the dev) h = associated_ssid w)
              else True)),
          (''wifi_ipv4_mode_matches_baseline'',
             (if truthy dev then v4_mode (wifi_ipv4 ops (the dev) h) = ipv4_mode w else True)),
          (''wifi_default_route_restored'', non_bootmux_default \<noteq> []),
          (''wifi_dns_matches_baseline'',
             (if ob \<noteq> None \<and> truthy dev \<and> truthy (service_name w)
              then dns_server_list (dns ops (the (service_name w)) h) = dns_servers w else True)),
          (''service_order_matches_baseline'',
             (case ob of None \<Rightarrow> True
              | Some b \<Rightarrow>
                  (let want = order_without (id_service i) (network_service_order (network b));
                       current = order_without (id_service i) (ordered_names svcs)
                   in if want \<noteq> [] \<and> set want = set current then current = want else True))),
          (''unrelated_services_unchanged'',
             (case ob of None \<Rightarrow> True
              | Some b \<Rightarrow> \<not> list_ex (r5_needs_enable (id_service i) (enabled_states svcs))
                             (service_enabled_states (network b))))])"

definition classify :: "bool dict \<Rightarrow> string" where
  "classify v =
     (if list_all (\<lambda>k. dict_get v k False) VERIFY_KEYS then ''REPAIRED''
      else ''INCOMPLETE:'' @ join '','' (filter (\<lambda>k. \<not> dict_get v k False) VERIFY_KEYS))"

section \<open>A host that records its commands\<close>

locale recording_host =
  fixes ops :: "'h host_ops"
    and log :: "'h \<Rightarrow> string list list"
  assumes run_logged: "run ops av h = Inr (r, h') \<Longrightarrow> log h' = log h @ [av]"
begin

text \<open>A plan that runs to its end issues exactly its commands, in order, whether or not they succeed.\<close>

lemma execute_commands_log:
  "execute_commands ops cs e h = Inr (e', h') \<Longrightarrow> log h' = log h @ map argv cs"
proof (induction cs arbitrary: e h)
  case (Cons c cs)
  then obtain r h1 where r: "run ops (argv c) h = Inr (r, h1)"
    and rest: "execute_commands ops cs (exec_record c r e) h1 = Inr (e', h')"
    by (auto simp: bindE_Inr_iff)
  from Cons.IH [OF rest] run_logged [OF r] show ?case by simp
qed simp

lemma execute_plan_log: "execute_plan ops p h = Inr (e, h') \<Longrightarrow> log h' = log h @ argvs p"
  unfolding execute_plan_def argvs_def by (rule execute_commands_log)

end

section \<open>Lemmas on execution\<close>

lemma execute_commands_counts:
  assumes "execute_commands ops cs e h = Inr (e', h')"
  shows "mset (map argv (executed e')) + mset (map fail_argv (failures e')) =
         mset (map argv (executed e)) + mset (map fail_argv (failures e)) + mset (map argv cs)
       \<and> (exec_ok e' \<longleftrightarrow> exec_ok e \<and> length (failures e') = length (failures e))
       \<and> length (failures e) \<le> length (failures e')"
  using assms
proof (induction cs arbitrary: e h)
  case (Cons c cs)
  then obtain r h1 where "run ops (argv c) h = Inr (r, h1)"
    and rest: "execute_commands ops cs (exec_record c r e) h1 = Inr (e', h')"
    by (auto simp: bindE_Inr_iff)
  from Cons.IH [OF rest] show ?case
    by (cases r) (auto simp: exec_record_def split: if_splits)
qed simp

lemma execute_empty_plan: "commands p = [] \<Longrightarrow> execute_plan ops p h = Inr (empty_execution, h)"
  by (simp add: execute_plan_def)

section \<open>Lemmas on verification\<close>

lemma verify_keys: "map fst (verify ops h i ob) = VERIFY_KEYS"
  by (simp add: verify_def VERIFY_KEYS_def Let_def)

lemma distinct_VERIFY_KEYS: "distinct VERIFY_KEYS"
  by (simp add: VERIFY_KEYS_def)

lemma classify_repaired_iff_dict:
  "classify v = ''REPAIRED'' \<longleftrightarrow> list_all (\<lambda>k. dict_get v k False) VERIFY_KEYS"
  by (simp add: classify_def)

lemma dict_get_all_snd:
  assumes "distinct (map fst v)"
  shows "list_all (\<lambda>k. dict_get v k False) (map fst v) \<longleftrightarrow> list_all snd v"
  using assms by (auto simp: list_all_iff dict_get_def)

lemma classify_verify_iff:
  "classify (verify ops h i ob) = ''REPAIRED'' \<longleftrightarrow> list_all snd (verify ops h i ob)"
  using dict_get_all_snd [of "verify ops h i ob"]
  by (simp add: classify_repaired_iff_dict verify_keys distinct_VERIFY_KEYS)

lemma if_bools:
  "(if c then P else True) \<longleftrightarrow> (c \<longrightarrow> P)"
  "(if c then True else P) \<longleftrightarrow> (c \<or> P)"
  by simp_all

lemma verify_all_Some:
  "list_all snd (verify ops h i (Some b)) \<longleftrightarrow>
     (let rs = routes ops h;
          defaults = filter (\<lambda>r. r_destination r = Some ''default'') rs;
          bootmux_default = filter (route_owned (id_interface i)) defaults;
          w = wifi b; dev = the (hardware_device w);
          want = order_without (id_service i) (network_service_order (network b));
          current = order_without (id_service i) (ordered_names (services ops h))
      in bootmux_default = []
         \<and> filter (route_owned (id_interface i)) rs = []
         \<and> (id_service i = None \<or> (truthy (id_service i) \<and> \<not> service_enabled_now (services ops h) (the (id_service i))))
         \<and> (truthy (hardware_device w) \<longrightarrow> wifi_power ops dev h = power w)
         \<and> (truthy (hardware_device w) \<longrightarrow>
              associated_ssid w \<in> {None, Some ''<redacted>''} \<or> wifi_ssid ops dev h = associated_ssid w)
         \<and> (truthy (hardware_device w) \<longrightarrow> v4_mode (wifi_ipv4 ops dev h) = ipv4_mode w)
         \<and> filter (\<lambda>r. r \<notin> set bootmux_default) defaults \<noteq> []
         \<and> (truthy (hardware_device w) \<and> truthy (service_name w) \<longrightarrow>
              dns_server_list (dns ops (the (service_name w)) h) = dns_servers w)
         \<and> (want \<noteq> [] \<and> set want = set current \<longrightarrow> current = want)
         \<and> \<not> list_ex (r5_needs_enable (id_service i) (enabled_states (services ops h)))
              (service_enabled_states (network b)))"
  by (simp only: verify_def Let_def list.pred_inject snd_conv option.case option.distinct option.simps if_bools
      not_imp simp_thms)

lemma non_bootmux_default_iff:
  "filter (\<lambda>r. r \<notin> set (filter P ds)) ds = [] \<longleftrightarrow> list_all P ds"
  by (auto simp: filter_empty_conv list_all_iff)

lemma quiet_r1: "commands (plan_r1_routes ops h i) = [] \<longleftrightarrow> filter (route_owned (id_interface i)) (routes ops h) = []"
  by (simp add: commands_r1)

lemma quiet_r2:
  "commands (plan_r2_service ops h i) = [] \<Longrightarrow> id_service i \<noteq> Some [] \<Longrightarrow>
   id_service i = None \<or> \<not> service_enabled_now (services ops h) (the (id_service i))"
  by (cases "id_service i") (auto simp: commands_r2 truthy_def split: if_splits)

lemma quiet_r3:
  "commands (plan_r3_ipv4 ops h i (Some b)) = [] \<Longrightarrow> ipv4_mode (wifi b) = Some ''dhcp'' \<Longrightarrow>
   truthy (hardware_device (wifi b)) \<Longrightarrow>
   v4_mode (wifi_ipv4 ops (the (hardware_device (wifi b))) h) = Some ''dhcp''"
  by (auto simp: plan_r3_ipv4_def Let_def split: if_splits)

lemma quiet_r4:
  "commands (plan_r4_dns ops h i (Some b)) = [] \<Longrightarrow> truthy (service_name (wifi b)) \<Longrightarrow>
   dns_server_list (dns ops (the (service_name (wifi b))) h) = dns_servers (wifi b)"
  by (auto simp: plan_r4_dns_def Let_def split: if_splits)

lemma quiet_r5:
  "commands (plan_r5_order ops h i (Some b)) = [] \<Longrightarrow>
   (let want = order_without (id_service i) (network_service_order (network b));
        current = order_without (id_service i) (ordered_names (services ops h))
    in want \<noteq> [] \<longrightarrow> set want = set current \<longrightarrow> current = want)
   \<and> \<not> list_ex (r5_needs_enable (id_service i) (enabled_states (services ops h)))
       (service_enabled_states (network b))"
  by (auto simp: commands_r5_Some Let_def list_ex_iff filter_empty_conv split: if_splits)

section \<open>Properties\<close>


text \<open>
  The plan covers what the verification checks: once R1-R5 have nothing left to change, the only
  verification keys that can still fail are Wi-Fi power, network name and default route (which only
  the R6 toggle can influence), and the addressing mode when the baseline was not DHCP.
\<close>

lemma quiet_plan_leaves_only_wifi:
  assumes "commands (build_repair_plan ops h i (Some b)) = []" and "id_service i \<noteq> Some []"
  shows "list_all (\<lambda>(k, ok). ok
      \<or> k \<in> {''wifi_power_matches_baseline'', ''wifi_ssid_matches_baseline_or_redacted_equivalent'',
             ''wifi_default_route_restored''}
      \<or> (k = ''wifi_ipv4_mode_matches_baseline'' \<and> ipv4_mode (wifi b) \<noteq> Some ''dhcp''))
    (verify ops h i (Some b))"
proof -
  note quiet = assms(1) [unfolded commands_build append_is_Nil_conv]
  have r1: "filter (route_owned (id_interface i)) (routes ops h) = []"
    "filter (route_owned (id_interface i)) (filter (\<lambda>r. r_destination r = Some ''default'') (routes ops h)) = []"
    using quiet by (auto simp: quiet_r1 filter_empty_conv)
  have r2: "id_service i = None \<or> \<not> (if truthy (id_service i) then service_enabled_now (services ops h) (the (id_service i)) else True)"
    using quiet quiet_r2 [of ops h i] assms(2) by (cases "id_service i") (auto simp: truthy_def)
  have r3: "truthy (hardware_device (wifi b)) \<longrightarrow>
      v4_mode (wifi_ipv4 ops (the (hardware_device (wifi b))) h) = ipv4_mode (wifi b)
      \<or> ipv4_mode (wifi b) \<noteq> Some ''dhcp''"
    using quiet quiet_r3 [of ops h i b] by metis
  have r4: "truthy (service_name (wifi b)) \<longrightarrow>
      dns_server_list (dns ops (the (service_name (wifi b))) h) = dns_servers (wifi b)"
    using quiet quiet_r4 [of ops h i b] by simp
  note r5 = quiet_r5 [of ops h i b, unfolded Let_def]
  show ?thesis
    unfolding verify_def Let_def list.pred_inject prod.case option.case
    by (intro conjI TrueI; insert r1 r2 r3 r4 r5 quiet; simp)
qed

end
