(* ===== verification/Guardian_Store.thy ===== *)
theory Guardian_Store
  imports Guardian_Types
begin

text \<open>
  The guardian's persistent state (\<^verbatim>\<open>class StateStore\<close>) over a model of its directory: what
  \<^verbatim>\<open>os.path.islink\<close>, \<^verbatim>\<open>isdir\<close>, \<^verbatim>\<open>exists\<close> and \<^verbatim>\<open>stat\<close> report of the directory and of its entries. A file
  holds a JSON document; \<open>Corrupt\<close> is any text on which \<^verbatim>\<open>json.load\<close> raises. Writing goes through
  a temporary file whose name the operating system picks, so the name, and whether a system call of
  the write fails, are inputs of the model (\<open>io_env\<close>).
\<close>

section \<open>The directory\<close>

datatype doc = Corrupt | NonObject | Doc baseline

record file_node =
  n_link :: bool
  n_exists :: bool \<comment> \<open>\<^verbatim>\<open>os.path.exists\<close>: false for a dangling link\<close>
  n_mode :: nat
  n_uid :: nat
  n_content :: doc

datatype root_kind = RootMissing | RootDir | RootFile | RootLink bool

record state_store =
  store_root :: string
  enforce_owner :: bool
  root_kind :: root_kind
  root_mode :: nat
  root_uid :: nat
  store_files :: "file_node dict"
  store_evidence :: "file_node dict" \<comment> \<open>the entries of the sub-directory \<^verbatim>\<open>evidence\<close>\<close>
  store_euid :: nat

record io_env =
  io_tmp :: string
  io_fails :: bool

definition MODE_600 :: nat where "MODE_600 = 384"
definition MODE_700 :: nat where "MODE_700 = 448"

definition root_islink :: "state_store \<Rightarrow> bool" where
  "root_islink st = (case root_kind st of RootLink _ \<Rightarrow> True | _ \<Rightarrow> False)"

definition root_isdir :: "state_store \<Rightarrow> bool" where
  "root_isdir st = (case root_kind st of RootDir \<Rightarrow> True | RootLink d \<Rightarrow> d | _ \<Rightarrow> False)"

definition store_path :: "state_store \<Rightarrow> string \<Rightarrow> string" where
  "store_path st name = store_root st @ ''/'' @ name"

text \<open>The entry behind \<^verbatim>\<open>os.path.join(self.root, name)\<close>: none when the root is not a directory.\<close>

definition store_entry :: "state_store \<Rightarrow> string \<Rightarrow> file_node option" where
  "store_entry st name = (if root_isdir st then map_of (store_files st) name else None)"

definition file_islink :: "state_store \<Rightarrow> string \<Rightarrow> bool" where
  "file_islink st name = (case store_entry st name of None \<Rightarrow> False | Some n \<Rightarrow> n_link n)"

section \<open>Validation\<close>

definition validate_dir :: "state_store \<Rightarrow> unit result" where
  "validate_dir st =
     (if root_islink st then Inl (StateStoreError (''state dir is a symlink: '' @ store_root st))
      else if \<not> root_isdir st then Inl (StateStoreError (''state dir missing: '' @ store_root st))
      else if root_mode st \<noteq> MODE_700
        then Inl (StateStoreError (''state dir mode '' @ oct_str (root_mode st) @ '' != 0700''))
      else if enforce_owner st \<and> root_uid st \<noteq> 0
        then Inl (StateStoreError (''state dir owner uid '' @ nat_str (root_uid st) @ '' != 0''))
      else Inr ())"

definition validate_file :: "state_store \<Rightarrow> string \<Rightarrow> file_node \<Rightarrow> unit result" where
  "validate_file st path n =
     (if n_link n then Inl (StateStoreError (''state file is a symlink: '' @ path))
      else if n_mode n \<noteq> MODE_600
        then Inl (StateStoreError (''state file mode '' @ oct_str (n_mode n) @ '' != 0600: '' @ path))
      else if enforce_owner st \<and> n_uid n \<noteq> 0
        then Inl (StateStoreError (''state file owner uid '' @ nat_str (n_uid n) @ '' != 0: '' @ path))
      else Inr ())"

definition ensure_dir :: "state_store \<Rightarrow> unit result \<times> state_store" where
  "ensure_dir st =
     (case root_kind st of
        RootLink _ \<Rightarrow> (Inl (StateStoreError (''state dir is a symlink: '' @ store_root st)), st)
      | RootFile \<Rightarrow> (Inl (OSError ''File exists''), st)
      | RootDir \<Rightarrow> (Inr (), st\<lparr>root_mode := MODE_700\<rparr>)
      | RootMissing \<Rightarrow>
          (Inr (), st\<lparr>root_kind := RootDir, root_mode := MODE_700, root_uid := store_euid st,
                     store_files := [], store_evidence := []\<rparr>))"

section \<open>Reading and writing\<close>

definition new_node :: "state_store \<Rightarrow> doc \<Rightarrow> file_node" where
  "new_node st d = \<lparr>n_link = False, n_exists = True, n_mode = MODE_600, n_uid = store_euid st, n_content = d\<rparr>"

definition put_file :: "string \<Rightarrow> file_node \<Rightarrow> state_store \<Rightarrow> state_store" where
  "put_file name n st = st\<lparr>store_files := AList.update name n (store_files st)\<rparr>"

definition drop_file :: "string \<Rightarrow> state_store \<Rightarrow> state_store" where
  "drop_file name st = st\<lparr>store_files := AList.delete name (store_files st)\<rparr>"

text \<open>
  The states the directory passes through between \<^verbatim>\<open>mkstemp\<close> and \<^verbatim>\<open>os.replace\<close>: an empty temporary
  file, the temporary file with the whole document (flushed and synced, mode 0600), and the renamed
  file. \<^verbatim>\<open>os.replace\<close> is one step: the rename is atomic.
\<close>

definition atomic_write_steps :: "string \<Rightarrow> string \<Rightarrow> doc \<Rightarrow> state_store \<Rightarrow> state_store list" where
  "atomic_write_steps tmp name d st =
     (let created = put_file tmp (new_node st Corrupt) st;
          dumped = put_file tmp (new_node st d) created;
          replaced = put_file name (new_node st d) (drop_file tmp dumped)
      in [created, dumped, replaced])"

definition atomic_write :: "io_env \<Rightarrow> string \<Rightarrow> doc \<Rightarrow> state_store \<Rightarrow> unit result \<times> state_store" where
  "atomic_write env name d st =
     (case ensure_dir st of
        (Inl e, st') \<Rightarrow> (Inl e, st')
      | (Inr _, st') \<Rightarrow>
          if file_islink st' name
          then (Inl (StateStoreError (''refusing to write through symlink: '' @ store_path st' name)), st')
          else if io_fails env
          then (Inl (OSError ''write failed''),
                drop_file (io_tmp env) (put_file (io_tmp env) (new_node st' Corrupt) st'))
          else (Inr (), last (atomic_write_steps (io_tmp env) name d st')))"

definition load :: "state_store \<Rightarrow> string \<Rightarrow> baseline option result" where
  "load st name =
     (case store_entry st name of
        None \<Rightarrow> Inr None
      | Some n \<Rightarrow>
          if \<not> n_exists n then Inr None
          else bindE (validate_file st (store_path st name) n) (\<lambda>_.
            case n_content n of
              Corrupt \<Rightarrow> Inl JSONDecodeError
            | NonObject \<Rightarrow> Inl (StateStoreError (''state file not an object: '' @ store_path st name))
            | Doc b \<Rightarrow> Inr (Some b)))"

definition write_baseline ::
    "io_env \<Rightarrow> io_env \<Rightarrow> baseline \<Rightarrow> bool \<Rightarrow> state_store \<Rightarrow> unit result \<times> state_store" where
  "write_baseline env1 env2 b retain_previous st =
     (case load st STATE_BASELINE of
        Inl e \<Rightarrow> (Inl e, st)
      | Inr existing \<Rightarrow>
          (case (if retain_previous then existing else None) of
             None \<Rightarrow> atomic_write env2 STATE_BASELINE (Doc b) st
           | Some old \<Rightarrow>
               (case atomic_write env1 STATE_PREVIOUS (Doc old) st of
                  (Inl e, st') \<Rightarrow> (Inl e, st')
                | (Inr _, st') \<Rightarrow> atomic_write env2 STATE_BASELINE (Doc b) st')))"

definition schema_str :: "int option \<Rightarrow> string" where
  "schema_str v =
     (case v of None \<Rightarrow> ''None''
      | Some i \<Rightarrow> (if i < 0 then ''-'' else []) @ nat_str (nat \<bar>i\<bar>))"

definition read_baseline :: "state_store \<Rightarrow> baseline option result" where
  "read_baseline st =
     bindE (load st STATE_BASELINE) (\<lambda>data.
       case data of
         None \<Rightarrow> Inr None
       | Some b \<Rightarrow>
           if schema_version b \<noteq> Some SCHEMA_VERSION
           then Inl (StateStoreError (''baseline schema_version '' @ schema_str (schema_version b)
                       @ '' != '' @ schema_str (Some SCHEMA_VERSION)))
           else if other_keys b \<noteq> []
           then Inl (StateStoreError (''baseline has unexpected keys: '' @ repr_list (sort (remdups (other_keys b)))))
           else Inr (Some b))"

section \<open>Uninstalling\<close>

definition GUARDIAN_OWNED_FILES :: "string list" where
  "GUARDIAN_OWNED_FILES = [STATE_BASELINE, STATE_PREVIOUS, STATE_RUNTIME]"

record uninstall_report =
  un_removed :: "string list"
  un_preserved :: "string list"
  un_purge :: bool

fun uninstall_entries ::
    "bool \<Rightarrow> (string \<times> file_node) list \<Rightarrow> uninstall_report \<Rightarrow> state_store \<Rightarrow> uninstall_report \<times> state_store" where
  "uninstall_entries purge [] rep st = (rep, st)"
| "uninstall_entries purge ((name, n) # rest) rep st =
     (if name \<in> set GUARDIAN_OWNED_FILES then
        (if purge
         then uninstall_entries purge rest (rep\<lparr>un_removed := un_removed rep @ [name]\<rparr>) (drop_file name st)
         else uninstall_entries purge rest (rep\<lparr>un_preserved := un_preserved rep @ [name]\<rparr>)
                ((drop_file name st)\<lparr>store_evidence := AList.update name n (store_evidence st)\<rparr>))
      else uninstall_entries purge rest rep st)"

definition uninstall_guardian :: "bool \<Rightarrow> state_store \<Rightarrow> uninstall_report \<times> state_store" where
  "uninstall_guardian purge st =
     (let rep = \<lparr>un_removed = [], un_preserved = [], un_purge = purge\<rparr>
      in if root_isdir st then uninstall_entries purge (store_files st) rep st else (rep, st))"

section \<open>The contract of a document store\<close>

text \<open>
  What the daemon relies on: a written document is read back, other documents keep their value, and
  a store that is fit for writing stays so.
\<close>

locale doc_store =
  fixes put :: "'x \<Rightarrow> 'k \<Rightarrow> 'd \<Rightarrow> 's \<Rightarrow> 's" \<comment> \<open>\<open>'x\<close>: what the environment chooses in a write\<close>
    and get :: "'k \<Rightarrow> 's \<Rightarrow> 'd option result"
    and ready :: "'s \<Rightarrow> bool"
  assumes get_put_same: "ready s \<Longrightarrow> get n (put x n d s) = Inr (Some d)"
    and get_put_other: "ready s \<Longrightarrow> m \<noteq> n \<Longrightarrow> get m (put x n d s) = get m s"
    and ready_put: "ready s \<Longrightarrow> ready (put x n d s)"
begin

lemma put_put_same:
  "ready s \<Longrightarrow> get m (put y n e (put x n d s)) = get m (put z n e s)"
  by (cases "m = n") (simp_all add: get_put_same get_put_other ready_put)

text \<open>Rotation: the old document moves to a second name before the new one is written.\<close>

lemma rotate:
  assumes "ready s" "cur \<noteq> prev"
  shows "get cur (put y cur new (put x prev old s)) = Inr (Some new)"
    and "get prev (put y cur new (put x prev old s)) = Inr (Some old)"
    and "m \<notin> {cur, prev} \<Longrightarrow> get m (put y cur new (put x prev old s)) = get m s"
  using assms by (simp_all add: get_put_same get_put_other ready_put)

end

section \<open>Validation lemmas\<close>

lemma validate_dir_ok_iff:
  "validate_dir st = Inr () \<longleftrightarrow>
     root_kind st = RootDir \<and> root_mode st = MODE_700 \<and> (enforce_owner st \<longrightarrow> root_uid st = 0)"
  by (auto simp: validate_dir_def root_islink_def root_isdir_def split: root_kind.splits)

lemma validate_file_ok_iff:
  "validate_file st p n = Inr () \<longleftrightarrow>
     \<not> n_link n \<and> n_mode n = MODE_600 \<and> (enforce_owner st \<longrightarrow> n_uid n = 0)"
  by (auto simp: validate_file_def)

lemma load_Some_iff:
  "load st name = Inr (Some b) \<longleftrightarrow>
     (\<exists>n. store_entry st name = Some n \<and> n_exists n \<and> \<not> n_link n \<and> n_mode n = MODE_600
        \<and> (enforce_owner st \<longrightarrow> n_uid n = 0) \<and> n_content n = Doc b)"
  by (auto simp: load_def bindE_Inr_iff validate_file_ok_iff split: option.splits doc.splits)

lemma load_cong:
  assumes "store_entry st name = store_entry st' name"
    "enforce_owner st = enforce_owner st'" "store_root st = store_root st'"
  shows "load st name = load st' name"
  unfolding load_def validate_file_def store_path_def assms ..

lemma read_baseline_Some_iff:
  "read_baseline st = Inr (Some b) \<longleftrightarrow>
     load st STATE_BASELINE = Inr (Some b) \<and> schema_version b = Some SCHEMA_VERSION \<and> other_keys b = []"
  by (auto simp: read_baseline_def bindE_Inr_iff split: option.splits if_splits)

section \<open>Writing\<close>

lemma store_file_ops [simp]:
  "store_entry (put_file n x st) m = (if m = n \<and> root_isdir st then Some x else store_entry st m)"
  "store_entry (drop_file n st) m = (if m = n then None else store_entry st m)"
  by (simp_all add: store_entry_def put_file_def drop_file_def root_isdir_def update_conv' AList.delete_conv'
      split: root_kind.splits)

lemma store_file_frame [simp]:
  "enforce_owner (put_file n x st) = enforce_owner st" "enforce_owner (drop_file n st) = enforce_owner st"
  "store_root (put_file n x st) = store_root st" "store_root (drop_file n st) = store_root st"
  "root_kind (put_file n x st) = root_kind st" "root_kind (drop_file n st) = root_kind st"
  "root_mode (put_file n x st) = root_mode st" "root_mode (drop_file n st) = root_mode st"
  "root_uid (put_file n x st) = root_uid st" "root_uid (drop_file n st) = root_uid st"
  "store_euid (put_file n x st) = store_euid st" "store_euid (drop_file n st) = store_euid st"
  "root_isdir (put_file n x st) = root_isdir st" "root_isdir (drop_file n st) = root_isdir st"
  by (simp_all add: put_file_def drop_file_def root_isdir_def)

lemma store_mode_frame [simp]:
  "store_entry (st\<lparr>root_mode := m\<rparr>) name = store_entry st name"
  "root_isdir (st\<lparr>root_mode := m\<rparr>) = root_isdir st"
  by (simp_all add: store_entry_def root_isdir_def)

definition owner_ok :: "state_store \<Rightarrow> bool" where
  "owner_ok st = (enforce_owner st \<longrightarrow> store_euid st = 0)"

lemma load_new_node:
  "owner_ok st \<Longrightarrow> store_entry st name = Some (new_node st0 (Doc b)) \<Longrightarrow>
   store_euid st0 = store_euid st \<Longrightarrow> load st name = Inr (Some b)"
  by (simp add: load_Some_iff new_node_def owner_ok_def)

text \<open>
  A crash between any two system calls of the write leaves the named document readable as it was or
  as it will be, and every other document, the temporary file apart, as it was.
\<close>

lemma atomic_write_steps_crash:
  assumes "st' \<in> set (atomic_write_steps tmp name (Doc b) st)" "tmp \<noteq> name" "owner_ok st"
    "root_isdir st"
  shows "load st' name = load st name \<or> load st' name = Inr (Some b)"
    and "m \<notin> {tmp, name} \<Longrightarrow> load st' m = load st m"
proof -
  from assms(1) consider
      (tmp) d where "st' = put_file tmp (new_node st d) st \<or>
                     st' = put_file tmp (new_node st d) (put_file tmp (new_node st Corrupt) st)"
    | (renamed) "st' = last (atomic_write_steps tmp name (Doc b) st)"
    by (auto simp: atomic_write_steps_def Let_def)
  then show "load st' name = load st name \<or> load st' name = Inr (Some b)"
  proof cases
    case tmp
    then have "load st' name = load st name" using assms(2) by (auto intro!: load_cong)
    then show ?thesis ..
  next
    case renamed
    then have "load st' name = Inr (Some b)"
      using assms(3,4) by (intro load_new_node [where ?st0.0 = st])
        (auto simp: atomic_write_steps_def Let_def owner_ok_def)
    then show ?thesis ..
  qed
  show "load st' m = load st m" if "m \<notin> {tmp, name}"
    using assms(1) that by (auto simp: atomic_write_steps_def Let_def intro!: load_cong)
qed

text \<open>A store fit for writing the given names: a real directory, no link behind a name, right owner.\<close>

definition store_ready :: "state_store \<Rightarrow> bool" where
  "store_ready st \<longleftrightarrow> root_kind st = RootDir \<and> owner_ok st \<and>
     (\<forall>k n. store_entry st k = Some n \<longrightarrow> \<not> n_link n)"

lemma store_ready_isdir: "store_ready st \<Longrightarrow> root_isdir st"
  by (simp add: store_ready_def root_isdir_def)

lemma store_ready_not_link: "store_ready st \<Longrightarrow> \<not> file_islink st name"
  by (auto simp: store_ready_def file_islink_def split: option.splits)

lemma atomic_write_ready:
  assumes "store_ready st" "\<not> io_fails env"
  shows "atomic_write env name d st =
    (Inr (), last (atomic_write_steps (io_tmp env) name d (st\<lparr>root_mode := MODE_700\<rparr>)))"
proof -
  have "file_islink (st\<lparr>root_mode := MODE_700\<rparr>) name = file_islink st name"
    by (simp add: file_islink_def)
  then show ?thesis
    using assms store_ready_not_link [OF assms(1), of name]
    by (simp add: atomic_write_def ensure_dir_def store_ready_def)
qed

lemma store_ready_written:
  assumes "store_ready st" "\<not> io_fails env"
  shows "store_ready (snd (atomic_write env name d st))"
  using assms unfolding atomic_write_ready [OF assms] store_ready_def
  by (auto simp: atomic_write_steps_def Let_def new_node_def owner_ok_def split: if_splits)

lemma load_written_same:
  assumes "store_ready st" "\<not> io_fails env"
  shows "load (snd (atomic_write env name (Doc b) st)) name = Inr (Some b)"
  using assms store_ready_isdir [OF assms(1)] unfolding atomic_write_ready [OF assms] store_ready_def
  by (auto simp: load_Some_iff atomic_write_steps_def Let_def new_node_def owner_ok_def)

lemma load_written_other:
  assumes "store_ready st" "\<not> io_fails env" "m \<noteq> name" "m \<noteq> io_tmp env"
  shows "load (snd (atomic_write env name d st)) m = load st m"
  using assms(3,4) unfolding atomic_write_ready [OF assms(1,2)]
  by (auto simp: atomic_write_steps_def Let_def intro!: load_cong)

section \<open>The state files implement the contract\<close>

datatype state_name = BaselineFile | PreviousFile | RuntimeFile

fun file_name :: "state_name \<Rightarrow> string" where
  "file_name BaselineFile = STATE_BASELINE"
| "file_name PreviousFile = STATE_PREVIOUS"
| "file_name RuntimeFile = STATE_RUNTIME"

lemmas state_file_names = STATE_BASELINE_def STATE_PREVIOUS_def STATE_RUNTIME_def

lemma file_name_inj: "file_name m = file_name n \<longleftrightarrow> m = n"
  by (cases m; cases n) (simp_all add: state_file_names)

text \<open>
  \<^verbatim>\<open>mkstemp(prefix=f".{name}.")\<close> appends random characters to the prefix, so it never picks the name
  of a state file.
\<close>

lemma file_name_not_hidden: "file_name n \<noteq> CHR ''.'' # s"
  by (cases n) (simp_all add: state_file_names)

definition state_tmp :: "string \<Rightarrow> state_name \<Rightarrow> io_env" where
  "state_tmp rnd n = \<lparr>io_tmp = ''.'' @ file_name n @ ''.'' @ rnd, io_fails = False\<rparr>"

definition put_state :: "string \<Rightarrow> state_name \<Rightarrow> baseline \<Rightarrow> state_store \<Rightarrow> state_store" where
  "put_state rnd n b st = snd (atomic_write (state_tmp rnd n) (file_name n) (Doc b) st)"

lemma state_tmp_simps [simp]:
  "\<not> io_fails (state_tmp rnd n)" "file_name m \<noteq> io_tmp (state_tmp rnd n)"
  by (simp_all add: state_tmp_def file_name_not_hidden)

interpretation state_files: doc_store put_state "\<lambda>n st. load st (file_name n)" store_ready
proof unfold_locales
  fix st rnd n m b
  assume ready: "store_ready st"
  show "load (put_state rnd n b st) (file_name n) = Inr (Some b)"
    unfolding put_state_def by (rule load_written_same [OF ready]) simp
  show "store_ready (put_state rnd n b st)"
    unfolding put_state_def by (rule store_ready_written [OF ready]) simp
  show "load (put_state rnd n b st) (file_name m) = load st (file_name m)" if "m \<noteq> n"
    unfolding put_state_def using that
    by (intro load_written_other [OF ready]) (simp_all add: file_name_inj)
qed

lemma write_baseline_put_state:
  assumes "store_ready st" "load st STATE_BASELINE = Inr (Some old)"
  shows "write_baseline (state_tmp rnd1 PreviousFile) (state_tmp rnd2 BaselineFile) b True st =
    (Inr (), put_state rnd2 BaselineFile b (put_state rnd1 PreviousFile old st))"
  using assms store_ready_written [OF assms(1), of "state_tmp rnd1 PreviousFile" STATE_PREVIOUS "Doc old"]
  by (simp add: write_baseline_def put_state_def atomic_write_ready)

lemma write_baseline_first:
  assumes "store_ready st" "load st STATE_BASELINE = Inr None"
  shows "write_baseline env (state_tmp rnd BaselineFile) b True st = (Inr (), put_state rnd BaselineFile b st)"
  using assms by (simp add: write_baseline_def put_state_def atomic_write_ready)

section \<open>Uninstall lemmas\<close>

lemma uninstall_entries_files:
  "store_files (snd (uninstall_entries purge es rep st)) =
     filter (\<lambda>(k, _). k \<notin> set (map fst es) \<inter> set GUARDIAN_OWNED_FILES) (store_files st)"
proof (induction purge es rep st rule: uninstall_entries.induct)
  case (2 purge name n rest rep st)
  show ?case
  proof (cases "name \<in> set GUARDIAN_OWNED_FILES")
    case True
    with 2 show ?thesis
      by (auto simp: drop_file_def AList.delete_eq intro!: filter_cong)
  next
    case False
    with 2 show ?thesis by (auto intro!: filter_cong)
  qed
qed simp

lemma uninstall_entries_report:
  "un_removed (fst (uninstall_entries purge es rep st)) =
     un_removed rep @ (if purge then filter (\<lambda>k. k \<in> set GUARDIAN_OWNED_FILES) (map fst es) else [])"
  "un_preserved (fst (uninstall_entries purge es rep st)) =
     un_preserved rep @ (if purge then [] else filter (\<lambda>k. k \<in> set GUARDIAN_OWNED_FILES) (map fst es))"
  by (induction purge es rep st rule: uninstall_entries.induct) auto

lemma uninstall_entries_evidence:
  assumes "distinct (map fst es)"
  shows "map_of (store_evidence (snd (uninstall_entries purge es rep st))) k =
    (if \<not> purge \<and> k \<in> set (map fst es) \<inter> set GUARDIAN_OWNED_FILES then map_of es k
     else map_of (store_evidence st) k)"
  using assms
proof (induction purge es rep st rule: uninstall_entries.induct)
  case (2 purge name n rest rep st)
  then show ?case
    by (auto simp: drop_file_def update_conv' image_iff) force
qed simp

section \<open>A sample store\<close>

definition sample_wifi :: wifi_block where
  "sample_wifi =
     \<lparr>hardware_device = Some ''en0'', service_name = Some ''Wi-Fi'', power = Some True, associated_ssid = Some ''home'',
      ipv4_mode = Some ''dhcp'', ipv4_address = Some ''192.168.1.50'', subnet_mask = Some ''255.255.255.0'',
      router = Some ''192.168.1.1'', dns_servers = [''1.1.1.1''], search_domains = []\<rparr>"

definition sample_baseline :: "int \<Rightarrow> baseline" where
  "sample_baseline t =
     \<lparr>schema_version = Some SCHEMA_VERSION, captured_at = t, wifi = sample_wifi,
      network = \<lparr>default_gateway = Some ''192.168.1.1'', default_interface = Some ''en0'',
                 network_service_order = [''Wi-Fi'', ''LAN''], service_enabled_states = [(''Wi-Fi'', True), (''LAN'', True)],
                 bootmux_routes = []\<rparr>,
      redacted_fields = [''wifi.associated_ssid''], other_keys = []\<rparr>"

definition sample_store :: "doc dict \<Rightarrow> state_store" where
  "sample_store docs =
     \<lparr>store_root = ''/var/db/bootmux'', enforce_owner = True, root_kind = RootDir, root_mode = MODE_700, root_uid = 0,
      store_files = map (\<lambda>(k, d). (k, \<lparr>n_link = False, n_exists = True, n_mode = MODE_600, n_uid = 0, n_content = d\<rparr>)) docs,
      store_evidence = [], store_euid = 0\<rparr>"

lemmas sample_defs = sample_store_def sample_baseline_def sample_wifi_def

lemma sample_store_ready: "store_ready (sample_store docs)"
  by (auto simp: store_ready_def sample_store_def owner_ok_def store_entry_def dest!: map_of_SomeD split: if_splits)

section \<open>Properties\<close>

text \<open>
  C14. Crash safety of \<^verbatim>\<open>atomic_write\<close>: if the process dies after any system call of a state-file write,
  the named document is still readable as the old one or already as the complete new one (never as
  a partial one), and every other document is unaffected.
\<close>

theorem atomic_write_crash_safe:
  assumes "st' \<in> set (atomic_write_steps (io_tmp env) (file_name n) (Doc b) st)"
    and "\<exists>s. io_tmp env = CHR ''.'' # s" and "owner_ok st" and "root_isdir st"
  shows "(load st' (file_name n) = load st (file_name n) \<or> load st' (file_name n) = Inr (Some b)) \<and>
         (\<forall>m. m \<noteq> n \<longrightarrow> load st' (file_name m) = load st (file_name m))"
proof -
  from assms(2) have ne: "io_tmp env \<noteq> file_name m" for m
    using file_name_not_hidden by metis
  show ?thesis
    using atomic_write_steps_crash [OF assms(1) ne assms(3,4)] ne file_name_inj by (metis insertE singletonD)
qed

theorem atomic_write_crash_safe_witness:
  "let st = sample_store [(STATE_BASELINE, Doc (sample_baseline 1))];
       st' = atomic_write_steps ''.b'' STATE_BASELINE (Doc (sample_baseline 2)) st ! 1
   in (load st' STATE_BASELINE = load st STATE_BASELINE \<or> load st' STATE_BASELINE = Inr (Some (sample_baseline 2)))
      \<and> load st' STATE_RUNTIME = load st STATE_RUNTIME"
  using atomic_write_crash_safe [of "atomic_write_steps ''.b'' STATE_BASELINE (Doc (sample_baseline 2))
      (sample_store [(STATE_BASELINE, Doc (sample_baseline 1))]) ! 1"
      "\<lparr>io_tmp = ''.b'', io_fails = False\<rparr>" BaselineFile "sample_baseline 2"
      "sample_store [(STATE_BASELINE, Doc (sample_baseline 1))]"]
  by (simp add: atomic_write_steps_def owner_ok_def root_isdir_def sample_store_def Let_def, metis file_name.simps(3) state_name.distinct(3))

text \<open>
  Baseline rotation: writing a baseline over an existing one makes the new document the one that
  is read back and keeps the old one, unchanged, as the rollback snapshot.
\<close>

lemma write_baseline_rotates:
  assumes "store_ready st" and "load st STATE_BASELINE = Inr (Some old)"
    and "schema_version b = Some SCHEMA_VERSION" and "other_keys b = []"
  shows "\<exists>st'. write_baseline (state_tmp rnd1 PreviousFile) (state_tmp rnd2 BaselineFile) b True st = (Inr (), st')
           \<and> read_baseline st' = Inr (Some b) \<and> load st' STATE_PREVIOUS = Inr (Some old)"
  using state_files.rotate(1,2) [OF assms(1), where x = rnd1 and y = rnd2 and cur = BaselineFile and prev = PreviousFile and new = b and old = old]
    write_baseline_put_state [OF assms(1,2), of rnd1 rnd2 b] assms(3,4)
  by (simp add: read_baseline_Some_iff)

lemma write_baseline_rotates_witness:
  "\<exists>st'. write_baseline (state_tmp ''x'' PreviousFile) (state_tmp ''y'' BaselineFile) (sample_baseline 2) True
           (sample_store [(STATE_BASELINE, Doc (sample_baseline 1))]) = (Inr (), st')
         \<and> read_baseline st' = Inr (Some (sample_baseline 2)) \<and> load st' STATE_PREVIOUS = Inr (Some (sample_baseline 1))"
  by (rule write_baseline_rotates [OF sample_store_ready]) code_simp+

text \<open>
  Fail-closed reading: a baseline is handed to the repair only from a regular (not linked) file of
  mode 0600, owned by root when ownership is enforced, whose document has schema version 1 and no
  unexpected key.
\<close>

lemma read_baseline_accepts_iff:
  "read_baseline st = Inr (Some b) \<longleftrightarrow>
     (\<exists>n. store_entry st STATE_BASELINE = Some n \<and> n_exists n \<and> \<not> n_link n
        \<and> n_mode n = MODE_600 \<and> (enforce_owner st \<longrightarrow> n_uid n = 0) \<and> n_content n = Doc b
        \<and> schema_version b = Some SCHEMA_VERSION \<and> other_keys b = [])"
  by (auto simp: read_baseline_Some_iff load_Some_iff)

lemma read_baseline_accepts_iff_witness:
  "read_baseline (sample_store [(STATE_BASELINE, Doc (sample_baseline 1))]) = Inr (Some (sample_baseline 1))"
  unfolding read_baseline_accepts_iff by (simp add: store_entry_def root_isdir_def sample_store_def sample_baseline_def)

text \<open>
  Uninstalling touches only guardian-owned files: every other entry of the directory stays, the
  owned ones are gone, and without purging each of them is kept unchanged as evidence.
\<close>

lemma uninstall_guardian_scope:
  assumes "distinct (map fst (store_files st))" and "root_isdir st"
    and "uninstall_guardian purge st = (rep, st')"
  shows "store_files st' = filter (\<lambda>(k, _). k \<notin> set GUARDIAN_OWNED_FILES) (store_files st) \<and>
         set (un_removed rep @ un_preserved rep) = set GUARDIAN_OWNED_FILES \<inter> set (map fst (store_files st)) \<and>
         (\<not> purge \<longrightarrow> (\<forall>k \<in> set (un_preserved rep). map_of (store_evidence st') k = map_of (store_files st) k))"
proof -
  let ?r = "\<lparr>un_removed = [], un_preserved = [], un_purge = purge\<rparr>"
  have run: "uninstall_entries purge (store_files st) ?r st = (rep, st')"
    using assms(2,3) by (simp add: uninstall_guardian_def)
  have "store_files st' = filter (\<lambda>(k, _). k \<notin> set GUARDIAN_OWNED_FILES) (store_files st)"
    using uninstall_entries_files [of purge "store_files st" ?r st] run
    by (auto intro!: filter_cong simp: image_iff)
  moreover have rep: "un_removed rep @ un_preserved rep =
      filter (\<lambda>k. k \<in> set GUARDIAN_OWNED_FILES) (map fst (store_files st))"
    "\<not> purge \<Longrightarrow> un_preserved rep = filter (\<lambda>k. k \<in> set GUARDIAN_OWNED_FILES) (map fst (store_files st))"
    using uninstall_entries_report [of purge "store_files st" ?r st] run by (cases purge; simp)+
  then have "set (un_removed rep @ un_preserved rep) = set GUARDIAN_OWNED_FILES \<inter> set (map fst (store_files st))"
    by (auto simp del: append_is_Nil_conv)
  moreover have "map_of (store_evidence st') k = map_of (store_files st) k"
    if "\<not> purge" "k \<in> set (un_preserved rep)" for k
    using uninstall_entries_evidence [OF assms(1), of purge ?r st k] run that rep(2) by simp
  ultimately show ?thesis by blast
qed

lemma uninstall_guardian_scope_witness:
  "let st = sample_store [(STATE_BASELINE, Doc (sample_baseline 1)), (''notes.txt'', Corrupt)];
       (rep, st') = uninstall_guardian False st
   in map fst (store_files st') = [''notes.txt''] \<and> un_preserved rep = [STATE_BASELINE]
      \<and> map_of (store_evidence st') STATE_BASELINE = map_of (store_files st) STATE_BASELINE"
proof -
  let ?st = "sample_store [(STATE_BASELINE, Doc (sample_baseline 1)), (''notes.txt'', Corrupt)]"
  obtain rep st' where run: "uninstall_guardian False ?st = (rep, st')" by (cases "uninstall_guardian False ?st")
  have rep: "rep = fst (uninstall_guardian False ?st)" using run by simp
  have kept: "un_preserved rep = [STATE_BASELINE]" unfolding rep by code_simp
  have "distinct (map fst (store_files ?st))" "root_isdir ?st" by code_simp+
  from uninstall_guardian_scope [OF this run] kept
  have "store_files st' = filter (\<lambda>(k, _). k \<notin> set GUARDIAN_OWNED_FILES) (store_files ?st)"
    "map_of (store_evidence st') STATE_BASELINE = map_of (store_files ?st) STATE_BASELINE" by auto
  then show ?thesis using run kept
    by (simp add: sample_store_def GUARDIAN_OWNED_FILES_def STATE_BASELINE_def STATE_PREVIOUS_def STATE_RUNTIME_def)
qed

end
