(* ===== verification/Guardian_Daemon.thy ===== *)
theory Guardian_Daemon
  imports Guardian_Exec Guardian_Store
begin

text \<open>
  One bounded repair (\<^verbatim>\<open>repair_once\<close>), the daemon's state machine (\<^verbatim>\<open>class Guardian\<close>), its loop and the
  command line entry points of the guardian. A report dictionary is a record; a key the code sets
  only on some paths is an \<^typ>\<open>'a option\<close> field. An exception that the code does not catch ends the call
  with \<^const>\<open>Inl\<close>.
\<close>

section \<open>One repair\<close>

record repair_report =
  rep_action :: string
  rep_identity :: identity
  rep_classification :: string
  rep_reason :: "string option"
  rep_error :: "string option"
  rep_commands :: "string list list option"
  rep_has_baseline :: "bool option"
  rep_plan :: "repair_plan option"
  rep_execution :: "execution option"
  rep_wifi_toggle :: "repair_plan option"
  rep_wifi_toggle_execution :: "execution option"
  rep_toggled :: bool \<comment> \<open>read with \<^verbatim>\<open>.get("toggled")\<close>\<close>
  rep_verification :: "bool dict option"

definition base_report :: "identity \<Rightarrow> repair_report" where
  "base_report i =
     \<lparr>rep_action = ''repair'', rep_identity = i, rep_classification = [], rep_reason = None, rep_error = None,
      rep_commands = None, rep_has_baseline = None, rep_plan = None, rep_execution = None,
      rep_wifi_toggle = None, rep_wifi_toggle_execution = None, rep_toggled = False, rep_verification = None\<rparr>"

text \<open>The block guarded by \<^verbatim>\<open>except StateStoreError\<close>: other exceptions pass through it.\<close>

definition read_validated :: "state_store \<Rightarrow> baseline option result" where
  "read_validated st =
     (if root_isdir st \<or> root_islink st
      then bindE (validate_dir st) (\<lambda>_. read_baseline st) else Inr None)"

definition repair_with ::
    "'h host_ops \<Rightarrow> identity \<Rightarrow> baseline option \<Rightarrow> real \<Rightarrow> real option \<Rightarrow> 'h \<Rightarrow> (repair_report \<times> 'h) result" where
  "repair_with ops i baseline t last_toggle_at h =
     (let plan = build_repair_plan ops h i baseline in
      bindE (execute_plan ops plan h) (\<lambda>(execution, h1).
      let report = (base_report i)\<lparr>rep_has_baseline := Some (baseline \<noteq> None), rep_plan := Some plan,
                                  rep_execution := Some execution\<rparr>;
          verification = verify ops h1 i baseline;
          classification = classify verification;
          toggle_plan = build_wifi_toggle_plan ops h1 baseline t last_toggle_at
      in if classification \<noteq> ''REPAIRED'' \<and> exec_ok execution \<and> commands toggle_plan \<noteq> []
         then bindE (execute_plan ops toggle_plan h1) (\<lambda>(toggle_exec, h2).
                let verification = verify ops h2 i baseline
                in Inr (report\<lparr>rep_wifi_toggle := Some toggle_plan,
                              rep_wifi_toggle_execution := Some toggle_exec, rep_toggled := True,
                              rep_verification := Some verification,
                              rep_classification := classify verification\<rparr>, h2))
         else Inr (report\<lparr>rep_verification := Some verification,
                         rep_classification := classification\<rparr>, h1)))"

definition repair_once ::
    "'h host_ops \<Rightarrow> state_store \<Rightarrow> real option \<Rightarrow> real option \<Rightarrow> 'h \<Rightarrow> (repair_report \<times> 'h) result" where
  "repair_once ops st t_opt last_toggle_at h =
     (let t = (case t_opt of None \<Rightarrow> now ops h | Some t \<Rightarrow> t);
          i = prove_identity ops h
      in if ambiguous i
         then Inr ((base_report i)\<lparr>rep_action := ''audit_only'', rep_classification := ''AMBIGUOUS'',
                                  rep_reason := Some (id_reason i), rep_commands := Some []\<rparr>, h)
         else case read_validated st of
           Inl (StateStoreError msg) \<Rightarrow>
             Inr ((base_report i)\<lparr>rep_action := ''fail_closed'', rep_classification := ''STATE_INVALID'',
                                 rep_error := Some msg, rep_commands := Some []\<rparr>, h)
         | Inl e \<Rightarrow> Inl e
         | Inr baseline \<Rightarrow> repair_with ops i baseline t last_toggle_at h)"

section \<open>The daemon\<close>

datatype guardian_state = START | ATTACHED | FAIL_CLOSED | AUDIT_ONLY | NO_BOOTMUX

record guardian =
  stability_seconds :: real
  heartbeat_fail_seconds :: real
  idle_poll :: real
  attached_poll :: real
  g_state :: guardian_state
  stable_since :: "real option"
  heartbeat_fail_since :: "real option"
  was_attached :: bool
  last_wifi_toggle_at :: "real option"

definition guardian_init :: guardian where
  "guardian_init =
     \<lparr>stability_seconds = BASELINE_STABILITY_SECONDS, heartbeat_fail_seconds = HEARTBEAT_FAIL_SECONDS,
      idle_poll = IDLE_POLL_SECONDS, attached_poll = ATTACHED_POLL_SECONDS, g_state = START,
      stable_since = None, heartbeat_fail_since = None, was_attached = False, last_wifi_toggle_at = None\<rparr>"

record tick_report =
  t_time :: real
  t_state :: guardian_state
  t_action :: string
  t_reason :: "string option"
  t_error :: "string option"
  t_repair :: "repair_report option"

definition store_valid :: "state_store \<Rightarrow> string option result" where
  "store_valid st =
     (if root_isdir st \<or> root_islink st
      then (case validate_dir st of
              Inr _ \<Rightarrow> Inr None
            | Inl (StateStoreError msg) \<Rightarrow> Inr (Some msg)
            | Inl e \<Rightarrow> Inl e)
      else Inr None)"

definition existing_baseline :: "state_store \<Rightarrow> baseline option result" where
  "existing_baseline st =
     (case read_baseline st of
        Inr b \<Rightarrow> Inr b
      | Inl (StateStoreError _) \<Rightarrow> Inr None
      | Inl e \<Rightarrow> Inl e)"

definition do_repair ::
    "'h host_ops \<Rightarrow> state_store \<Rightarrow> real \<Rightarrow> guardian \<Rightarrow> 'h \<Rightarrow> (repair_report \<times> guardian \<times> 'h) result" where
  "do_repair ops st t g h =
     bindE (repair_once ops st (Some t) (last_wifi_toggle_at g) h) (\<lambda>(r, h').
       Inr (r, g\<lparr>last_wifi_toggle_at := (if rep_toggled r then Some t else last_wifi_toggle_at g),
                 g_state := NO_BOOTMUX, stable_since := None\<rparr>, h'))"

text \<open>
  \<^verbatim>\<open>report.update(self._do_repair(now, reason))\<close>: the keys of the repair's own report win over the
  action and the reason given by the caller.
\<close>

definition repair_tick_report :: "tick_report \<Rightarrow> string \<Rightarrow> repair_report \<Rightarrow> tick_report" where
  "repair_tick_report rep reason r =
     rep\<lparr>t_action := rep_action r,
         t_reason := (case rep_reason r of None \<Rightarrow> Some reason | Some x \<Rightarrow> Some x),
         t_error := rep_error r, t_repair := Some r\<rparr>"

definition stale_route :: "'h host_ops \<Rightarrow> 'h \<Rightarrow> bool" where
  "stale_route ops h = list_ex (\<lambda>r. r_gateway r = Some BOOTMUX_PEER) (routes ops h)"

definition tick_report_init :: "'h host_ops \<Rightarrow> 'h \<Rightarrow> guardian \<Rightarrow> tick_report" where
  "tick_report_init ops h g =
     \<lparr>t_time = now ops h, t_state = g_state g, t_action = [], t_reason = None, t_error = None, t_repair = None\<rparr>"

type_synonym 'h tick_result = "(tick_report \<times> guardian \<times> 'h \<times> state_store) result"

definition tick_attached ::
    "'h host_ops \<Rightarrow> state_store \<Rightarrow> tick_report \<Rightarrow> real \<Rightarrow> guardian \<Rightarrow> 'h \<Rightarrow> 'h tick_result" where
  "tick_attached ops st rep t g h =
     (let g1 = g\<lparr>g_state := ATTACHED, was_attached := True, stable_since := None\<rparr>
      in if heartbeat ops BOOTMUX_PEER h
         then Inr (rep\<lparr>t_action := ''monitor_attached''\<rparr>, g1\<lparr>heartbeat_fail_since := None\<rparr>, h, st)
         else
           (let since = (case heartbeat_fail_since g1 of None \<Rightarrow> t | Some s \<Rightarrow> s);
                g2 = g1\<lparr>heartbeat_fail_since := Some since\<rparr>
            in if t - since \<ge> heartbeat_fail_seconds g2
               then bindE (do_repair ops st t g2 h) (\<lambda>(r, g3, h').
                      Inr (repair_tick_report rep ''heartbeat_loss'' r, g3\<lparr>heartbeat_fail_since := None\<rparr>, h', st))
               else Inr (rep\<lparr>t_action := ''heartbeat_failing''\<rparr>, g2, h, st)))"

definition tick_idle ::
    "'h host_ops \<Rightarrow> io_env \<Rightarrow> io_env \<Rightarrow> state_store \<Rightarrow> identity \<Rightarrow> tick_report \<Rightarrow> real \<Rightarrow> guardian \<Rightarrow> 'h
     \<Rightarrow> 'h tick_result" where
  "tick_idle ops env1 env2 st i rep t g h =
     (let since = (case stable_since g of None \<Rightarrow> t | Some s \<Rightarrow> s);
          g1 = g\<lparr>g_state := NO_BOOTMUX, was_attached := False, stable_since := Some since\<rparr>
      in bindE (existing_baseline st) (\<lambda>existing.
           if existing = None \<and> t - since \<ge> stability_seconds g1
           then if host_is_clean ops h i
                then (case write_baseline env1 env2 (capture_baseline ops h) True st of
                        (Inl e, st') \<Rightarrow> Inl e
                      | (Inr _, st') \<Rightarrow> Inr (rep\<lparr>t_action := ''baseline_captured''\<rparr>, g1, h, st'))
                else Inr (rep\<lparr>t_action := ''stable_but_not_clean''\<rparr>, g1, h, st)
           else Inr (rep\<lparr>t_action := ''monitoring_idle''\<rparr>, g1, h, st)))"

definition tick ::
    "'h host_ops \<Rightarrow> io_env \<Rightarrow> io_env \<Rightarrow> guardian \<Rightarrow> 'h \<Rightarrow> state_store \<Rightarrow> 'h tick_result" where
  "tick ops env1 env2 g h st =
     (let t = now ops h; rep = tick_report_init ops h g in
      bindE (store_valid st) (\<lambda>store_error.
        case store_error of
          Some msg \<Rightarrow>
            Inr (rep\<lparr>t_action := ''fail_closed'', t_error := Some msg\<rparr>, g\<lparr>g_state := FAIL_CLOSED\<rparr>, h, st)
        | None \<Rightarrow>
            let i = prove_identity ops h in
            if proven i then tick_attached ops st rep t g h
            else
              let g0 = g\<lparr>heartbeat_fail_since := None\<rparr> in
              if ambiguous i
              then Inr (rep\<lparr>t_action := ''audit_only'', t_reason := Some (id_reason i)\<rparr>,
                        g0\<lparr>g_state := AUDIT_ONLY\<rparr>, h, st)
              else
                let detached = was_attached g \<and> \<not> usb_vid_pid_present (usb_devices ops h) in
                if stale_route ops h \<or> detached
                then bindE (do_repair ops st t g0 h) (\<lambda>(r, g1, h').
                       Inr (repair_tick_report rep (if stale_route ops h then ''stale_route'' else ''usb_detached'') r,
                            g1\<lparr>was_attached := False\<rparr>, h', st))
                else tick_idle ops env1 env2 st i rep t g0 h))"

text \<open>
  The loop of \<^verbatim>\<open>run_daemon\<close> for a bounded number of iterations (\<^verbatim>\<open>--max-iterations\<close>); between two ticks
  the process sleeps, during which the world (host and directory) may change: \<open>sleep\<close> gives the state after
  sleeping the given number of seconds.
\<close>

definition poll_interval :: "guardian \<Rightarrow> real" where
  "poll_interval g = (if g_state g = ATTACHED then attached_poll g else idle_poll g)"

fun run_daemon ::
    "nat \<Rightarrow> 'h host_ops \<Rightarrow> (real \<Rightarrow> 'h \<times> state_store \<Rightarrow> 'h \<times> state_store) \<Rightarrow> io_env \<Rightarrow> io_env \<Rightarrow> guardian \<Rightarrow> 'h
     \<Rightarrow> state_store \<Rightarrow> (tick_report list \<times> guardian \<times> 'h \<times> state_store) result" where
  "run_daemon 0 ops sleep env1 env2 g h st = Inr ([], g, h, st)"
| "run_daemon (Suc n) ops sleep env1 env2 g h st =
     bindE (tick ops env1 env2 g h st) (\<lambda>(rep, g', h', st').
       case sleep (poll_interval g') (h', st') of (h'', st'') \<Rightarrow>
         bindE (run_daemon n ops sleep env1 env2 g' h'' st'') (\<lambda>(reps, rest). Inr (rep # reps, rest)))"

section \<open>Command line\<close>

text \<open>The exit codes; the printed JSON is the report itself, and is left out where it only shows it.\<close>

record audit_report =
  au_identity :: identity
  au_host_clean :: bool
  au_baseline_present :: bool
  au_baseline :: "baseline option"

definition cmd_audit :: "'h host_ops \<Rightarrow> 'h \<Rightarrow> state_store \<Rightarrow> (int \<times> (string + audit_report)) result" where
  "cmd_audit ops h st =
     (let i = prove_identity ops h; clean = host_is_clean ops h i in
      case read_baseline st of
        Inl (StateStoreError msg) \<Rightarrow> Inr (1, Inl msg)
      | Inl e \<Rightarrow> Inl e
      | Inr b \<Rightarrow> Inr (0, Inr \<lparr>au_identity = i, au_host_clean = clean, au_baseline_present = (b \<noteq> None),
                            au_baseline = redact_baseline b\<rparr>))"

record status_report =
  ss_state :: string
  ss_identity :: identity
  ss_baseline :: "baseline option"
  ss_state_error :: "string option"

definition cmd_status :: "'h host_ops \<Rightarrow> 'h \<Rightarrow> state_store \<Rightarrow> (int \<times> status_report) result" where
  "cmd_status ops h st =
     (let i = prove_identity ops h;
          out = (\<lambda>b err. \<lparr>ss_state = (if truthy err then ''fail_closed''
                                    else if host_is_clean ops h i then ''clean'' else ''bootmux_present''),
                         ss_identity = i, ss_baseline = redact_baseline b, ss_state_error = err\<rparr>)
      in case read_baseline st of
           Inl (StateStoreError msg) \<Rightarrow> Inr (if truthy (Some msg) then 1 else 0, out None (Some msg))
         | Inl e \<Rightarrow> Inl e
         | Inr b \<Rightarrow> Inr (0, out b None))"

definition cmd_capture_baseline ::
    "'h host_ops \<Rightarrow> io_env \<Rightarrow> io_env \<Rightarrow> 'h \<Rightarrow> state_store \<Rightarrow> int result \<times> state_store" where
  "cmd_capture_baseline ops env1 env2 h st =
     (if \<not> host_is_clean ops h (prove_identity ops h) then (Inr 3, st)
      else case write_baseline env1 env2 (capture_baseline ops h) True st of
             (Inl e, st') \<Rightarrow> (Inl e, st')
           | (Inr _, st') \<Rightarrow> (Inr 0, st'))"

definition cmd_repair_now :: "'h host_ops \<Rightarrow> state_store \<Rightarrow> 'h \<Rightarrow> (int \<times> repair_report \<times> 'h) result" where
  "cmd_repair_now ops st h =
     bindE (repair_once ops st None None h) (\<lambda>(r, h').
       Inr (if rep_classification r = ''REPAIRED'' then 0 else 4, r, h'))"

section \<open>The store as the daemon sees it\<close>

lemma validate_dir_error: "validate_dir st = Inl e \<Longrightarrow> \<exists>msg. e = StateStoreError msg"
  by (auto simp: validate_dir_def split: if_splits)

lemma store_valid_total: "\<exists>r. store_valid st = Inr r"
  using validate_dir_error [of st] by (auto simp: store_valid_def split: sum.split exn.split)

lemma store_valid_None_iff:
  "store_valid st = Inr None \<longleftrightarrow>
     (root_isdir st \<or> root_islink st \<longrightarrow> validate_dir st = Inr ())"
  using validate_dir_error [of st]
  by (auto simp: store_valid_def split: sum.splits exn.splits if_splits)

lemma read_validated_invalid:
  "store_valid st = Inr (Some msg) \<Longrightarrow> read_validated st = Inl (StateStoreError msg)"
  by (auto simp: store_valid_def read_validated_def split: sum.splits exn.splits if_splits)

section \<open>What one repair does\<close>

lemma repair_once_ambiguous:
  "ambiguous (prove_identity ops h) \<Longrightarrow> repair_once ops st t l h = Inr (r, h') \<Longrightarrow>
   h' = h \<and> rep_plan r = None \<and> rep_wifi_toggle r = None \<and> \<not> rep_toggled r \<and>
   rep_action r = ''audit_only'' \<and> rep_classification r = ''AMBIGUOUS''"
  by (auto simp: repair_once_def Let_def base_report_def)

lemma repair_once_invalid:
  "\<not> ambiguous (prove_identity ops h) \<Longrightarrow> read_validated st = Inl (StateStoreError msg) \<Longrightarrow>
   repair_once ops st t l h = Inr (r, h') \<Longrightarrow>
   h' = h \<and> rep_plan r = None \<and> rep_wifi_toggle r = None \<and> \<not> rep_toggled r \<and>
   rep_action r = ''fail_closed'' \<and> rep_classification r = ''STATE_INVALID''"
  by (auto simp: repair_once_def Let_def base_report_def)

lemma repair_once_run:
  "\<not> ambiguous (prove_identity ops h) \<Longrightarrow> read_validated st = Inr ob \<Longrightarrow>
   repair_once ops st t l h =
     repair_with ops (prove_identity ops h) ob (case t of None \<Rightarrow> now ops h | Some t \<Rightarrow> t) l h"
  by (simp add: repair_once_def Let_def)

text \<open>The three ways a repair returns.\<close>

lemma repair_once_cases:
  assumes "repair_once ops st t l h = Inr (r, h')"
  obtains (ambiguous) "ambiguous (prove_identity ops h)" "h' = h"
      "rep_plan r = None" "rep_wifi_toggle r = None" "\<not> rep_toggled r"
  | (invalid) msg where "\<not> ambiguous (prove_identity ops h)" "read_validated st = Inl (StateStoreError msg)"
      "h' = h" "rep_plan r = None" "rep_wifi_toggle r = None" "\<not> rep_toggled r"
  | (run) ob where "\<not> ambiguous (prove_identity ops h)" "read_validated st = Inr ob"
      "repair_with ops (prove_identity ops h) ob (case t of None \<Rightarrow> now ops h | Some t \<Rightarrow> t) l h = Inr (r, h')"
proof (cases "ambiguous (prove_identity ops h)")
  case True
  with repair_once_ambiguous [OF True assms] show ?thesis by (auto intro: that(1))
next
  case False
  show ?thesis
  proof (cases "read_validated st")
    case (Inl e)
    with False assms obtain msg where "e = StateStoreError msg"
      by (cases e) (auto simp: repair_once_def Let_def)
    with repair_once_invalid [OF False _ assms] Inl show ?thesis by (auto intro: that(2) [OF False])
  next
    case (Inr ob)
    with assms repair_once_run [OF False Inr, of t l] show ?thesis by (auto intro: that(3) [OF False Inr])
  qed
qed

text \<open>A repair that runs: the plan, then perhaps the toggle plan, each executed once.\<close>

lemma repair_with_cases:
  assumes "repair_with ops i ob t l h = Inr (r, h')"
  obtains (plain) e where "execute_plan ops (build_repair_plan ops h i ob) h = Inr (e, h')"
      "rep_plan r = Some (build_repair_plan ops h i ob)" "rep_wifi_toggle r = None" "\<not> rep_toggled r"
      "rep_execution r = Some e" "rep_classification r = classify (verify ops h' i ob)"
      "rep_classification r \<noteq> ''REPAIRED'' \<Longrightarrow> exec_ok e \<Longrightarrow>
         commands (build_wifi_toggle_plan ops h' ob t l) = []"
  | (toggled) e h1 e2 where "execute_plan ops (build_repair_plan ops h i ob) h = Inr (e, h1)"
      "execute_plan ops (build_wifi_toggle_plan ops h1 ob t l) h1 = Inr (e2, h')"
      "rep_plan r = Some (build_repair_plan ops h i ob)"
      "rep_wifi_toggle r = Some (build_wifi_toggle_plan ops h1 ob t l)" "rep_toggled r"
      "commands (build_wifi_toggle_plan ops h1 ob t l) \<noteq> []"
      "classify (verify ops h1 i ob) \<noteq> ''REPAIRED''" "exec_ok e" "rep_execution r = Some e"
      "rep_classification r = classify (verify ops h' i ob)"
proof -
  from assms obtain e h1 where ex: "execute_plan ops (build_repair_plan ops h i ob) h = Inr (e, h1)"
    unfolding repair_with_def Let_def by (auto simp: bindE_Inr_iff)
  let ?go = "classify (verify ops h1 i ob) \<noteq> ''REPAIRED'' \<and> exec_ok e
    \<and> commands (build_wifi_toggle_plan ops h1 ob t l) \<noteq> []"
  show ?thesis
  proof (cases ?go)
    case True
    with assms ex show ?thesis
      unfolding repair_with_def Let_def
      by (auto simp: bindE_Inr_iff base_report_def intro!: that(2) [of e h1])
  next
    case False
    with assms ex show ?thesis
      unfolding repair_with_def Let_def
      by (auto simp: base_report_def intro!: that(1) [of e])
  qed
qed

lemma toggle_plan_cooldown:
  "commands (build_wifi_toggle_plan ops h ob t (Some l)) \<noteq> [] \<Longrightarrow> WIFI_TOGGLE_COOLDOWN_SECONDS \<le> t - l"
  by (auto simp: build_wifi_toggle_plan_def Let_def split: option.splits if_splits)

lemma repair_once_toggle_cooldown:
  assumes "repair_once ops st (Some t) (Some l) h = Inr (r, h')" "rep_toggled r"
  shows "WIFI_TOGGLE_COOLDOWN_SECONDS \<le> t - l"
  using assms
  by (elim repair_once_cases repair_with_cases) (auto intro: toggle_plan_cooldown)

definition issued :: "repair_report \<Rightarrow> string list list" where
  "issued r = (case rep_plan r of None \<Rightarrow> [] | Some p \<Rightarrow> argvs p)
            @ (case rep_wifi_toggle r of None \<Rightarrow> [] | Some p \<Rightarrow> argvs p)"

context recording_host
begin

text \<open>The report of a repair accounts for every command that was issued.\<close>

lemma repair_once_log:
  assumes "repair_once ops st t l h = Inr (r, h')"
  shows "log h' = log h @ issued r"
  using assms
  by (elim repair_once_cases repair_with_cases) (auto simp: issued_def dest!: execute_plan_log)

lemma repair_once_allowed:
  assumes "repair_once ops st t l h = Inr (r, h')"
  shows "list_all allowed_argv (issued r)"
proof -
  have "list_all allowed_argv (argvs (build_repair_plan ops h0 i ob))" for h0 i ob
    using build_in_scope in_repair_scope_allowed by (fastforce simp: argvs_def list_all_iff)
  moreover have "list_all allowed_argv (argvs (build_wifi_toggle_plan ops h0 ob t0 l0))" for h0 ob t0 l0
    using commands_toggle_allowed by (fastforce simp: argvs_def list_all_iff)
  ultimately show ?thesis
    using assms by (elim repair_once_cases repair_with_cases) (auto simp: issued_def)
qed

end

section \<open>What one tick does\<close>

text \<open>The tick as a case distinction on what it saw, one case per return statement.\<close>

lemma tick_attached_cases:
  assumes "tick_attached ops st rep t g h = Inr (rep', g', h', st')"
  obtains (monitor) "heartbeat ops BOOTMUX_PEER h" "rep' = rep\<lparr>t_action := ''monitor_attached''\<rparr>"
      "g' = g\<lparr>g_state := ATTACHED, was_attached := True, stable_since := None, heartbeat_fail_since := None\<rparr>"
      "h' = h" "st' = st"
  | (failing) s where "\<not> heartbeat ops BOOTMUX_PEER h" "s = (case heartbeat_fail_since g of None \<Rightarrow> t | Some s \<Rightarrow> s)"
      "t - s < heartbeat_fail_seconds g" "rep' = rep\<lparr>t_action := ''heartbeat_failing''\<rparr>"
      "g' = g\<lparr>g_state := ATTACHED, was_attached := True, stable_since := None, heartbeat_fail_since := Some s\<rparr>"
      "h' = h" "st' = st"
  | (lost) s r where "\<not> heartbeat ops BOOTMUX_PEER h" "s = (case heartbeat_fail_since g of None \<Rightarrow> t | Some s \<Rightarrow> s)"
      "heartbeat_fail_seconds g \<le> t - s"
      "repair_once ops st (Some t) (last_wifi_toggle_at g) h = Inr (r, h')"
      "rep' = repair_tick_report rep ''heartbeat_loss'' r"
      "g' = g\<lparr>g_state := NO_BOOTMUX, was_attached := True, stable_since := None, heartbeat_fail_since := None,
              last_wifi_toggle_at := (if rep_toggled r then Some t else last_wifi_toggle_at g)\<rparr>"
      "st' = st"
proof (cases "heartbeat ops BOOTMUX_PEER h")
  case True
  with assms show ?thesis by (auto simp: tick_attached_def intro!: that(1))
next
  case False
  define s where "s = (case heartbeat_fail_since g of None \<Rightarrow> t | Some s \<Rightarrow> s)"
  show ?thesis
  proof (cases "heartbeat_fail_seconds g \<le> t - s")
    case True
    with False assms show ?thesis
      by (auto simp: tick_attached_def Let_def s_def [symmetric] do_repair_def bindE_Inr_iff
          intro!: that(3) [OF False s_def])
  next
    case slow: False
    with False assms show ?thesis
      by (auto simp: tick_attached_def Let_def s_def [symmetric] intro!: that(2) [OF False s_def])
  qed
qed

lemma tick_idle_cases:
  assumes "tick_idle ops env1 env2 st i rep t g h = Inr (rep', g', h', st')"
  obtains s ob where "s = (case stable_since g of None \<Rightarrow> t | Some s \<Rightarrow> s)" "existing_baseline st = Inr ob"
      "g' = g\<lparr>g_state := NO_BOOTMUX, was_attached := False, stable_since := Some s\<rparr>" "h' = h"
      "ob = None \<and> stability_seconds g \<le> t - s \<and> host_is_clean ops h i
         \<and> write_baseline env1 env2 (capture_baseline ops h) True st = (Inr (), st')
         \<and> rep' = rep\<lparr>t_action := ''baseline_captured''\<rparr>
       \<or> ob = None \<and> stability_seconds g \<le> t - s \<and> \<not> host_is_clean ops h i \<and> st' = st
         \<and> rep' = rep\<lparr>t_action := ''stable_but_not_clean''\<rparr>
       \<or> (ob \<noteq> None \<or> t - s < stability_seconds g) \<and> st' = st
         \<and> rep' = rep\<lparr>t_action := ''monitoring_idle''\<rparr>"
  using assms
  by (auto simp: tick_idle_def Let_def bindE_Inr_iff split: if_splits prod.splits sum.splits intro!: that)

lemma tick_cases:
  assumes "tick ops env1 env2 g h st = Inr (rep, g', h', st')"
  obtains (closed) msg where "store_valid st = Inr (Some msg)"
      "rep = (tick_report_init ops h g)\<lparr>t_action := ''fail_closed'', t_error := Some msg\<rparr>"
      "g' = g\<lparr>g_state := FAIL_CLOSED\<rparr>" "h' = h" "st' = st"
  | (attached) "store_valid st = Inr None" "proven (prove_identity ops h)" "\<not> ambiguous (prove_identity ops h)"
      "tick_attached ops st (tick_report_init ops h g) (now ops h) g h = Inr (rep, g', h', st')"
  | (audit) "store_valid st = Inr None" "\<not> proven (prove_identity ops h)" "ambiguous (prove_identity ops h)"
      "rep = (tick_report_init ops h g)\<lparr>t_action := ''audit_only'',
               t_reason := Some (id_reason (prove_identity ops h))\<rparr>"
      "g' = g\<lparr>heartbeat_fail_since := None, g_state := AUDIT_ONLY\<rparr>" "h' = h" "st' = st"
  | (stale) reason r where "store_valid st = Inr None" "\<not> proven (prove_identity ops h)"
      "\<not> ambiguous (prove_identity ops h)"
      "stale_route ops h \<or> was_attached g \<and> \<not> usb_vid_pid_present (usb_devices ops h)"
      "repair_once ops st (Some (now ops h)) (last_wifi_toggle_at g) h = Inr (r, h')"
      "reason = (if stale_route ops h then ''stale_route'' else ''usb_detached'')"
      "rep = repair_tick_report (tick_report_init ops h g) reason r"
      "g' = g\<lparr>heartbeat_fail_since := None, g_state := NO_BOOTMUX, stable_since := None, was_attached := False,
              last_wifi_toggle_at := (if rep_toggled r then Some (now ops h) else last_wifi_toggle_at g)\<rparr>"
      "st' = st"
  | (idle) "store_valid st = Inr None" "\<not> proven (prove_identity ops h)" "\<not> ambiguous (prove_identity ops h)"
      "\<not> stale_route ops h" "was_attached g \<longrightarrow> usb_vid_pid_present (usb_devices ops h)"
      "tick_idle ops env1 env2 st (prove_identity ops h) (tick_report_init ops h g) (now ops h)
         (g\<lparr>heartbeat_fail_since := None\<rparr>) h = Inr (rep, g', h', st')"
proof -
  obtain se where se: "store_valid st = Inr se" using store_valid_total by blast
  show ?thesis
  proof (cases se)
    case (Some msg)
    with assms se show ?thesis by (auto simp: tick_def Let_def intro!: that(1))
  next
    case None
    note ok = se [unfolded None]
    consider (p) "proven (prove_identity ops h)" "\<not> ambiguous (prove_identity ops h)"
      | (a) "\<not> proven (prove_identity ops h)" "ambiguous (prove_identity ops h)"
      | (n) "\<not> proven (prove_identity ops h)" "\<not> ambiguous (prove_identity ops h)"
      using proven_not_ambiguous [of ops h] by blast
    then show ?thesis
    proof cases
      case p
      with assms ok show ?thesis by (auto simp: tick_def Let_def intro!: that(2))
    next
      case a
      with assms ok show ?thesis by (auto simp: tick_def Let_def intro!: that(3))
    next
      case n
      show ?thesis
      proof (cases "stale_route ops h \<or> was_attached g \<and> \<not> usb_vid_pid_present (usb_devices ops h)")
        case True
        with assms ok n show ?thesis
          by (auto simp: tick_def Let_def do_repair_def bindE_Inr_iff intro!: that(4) [OF ok n True _ refl])
      next
        case False
        with assms ok n show ?thesis by (auto simp: tick_def Let_def intro!: that(5))
      qed
    qed
  qed
qed

end
