(* ===== verification/Guardian_FakeHost.thy ===== *)
theory Guardian_FakeHost
  imports Guardian_Daemon
begin

text \<open>
  \<^verbatim>\<open>class FakeHost\<close> of the guardian: the simulator that models the semantics of \<^verbatim>\<open>route\<close>, \<^verbatim>\<open>networksetup\<close>
  and \<^verbatim>\<open>ipconfig\<close> behind the host seam, on which the guardian's own tests and \<^verbatim>\<open>--self-test\<close> run.
  Out-of-range reads of a malformed argument vector raise \<^const>\<open>IndexError\<close>, as in the source.
\<close>

section \<open>State\<close>

record fake_host =
  fh_usb :: "usb_device list"
  fh_interfaces :: "iface list"
  fh_routes :: "route list"
  fh_services :: "service list"
  fh_wifi_device :: "string option"
  fh_wifi_power :: "bool option"
  fh_wifi_ssid :: "string option"
  fh_wifi_ipv4 :: ipv4_info
  fh_dns :: "dns_info dict"
  fh_heartbeat :: bool
  fh_clock :: real
  fh_commands :: "string list list"
  fh_run_results :: "(string list \<times> run_result) list"

definition empty_dns :: dns_info where
  "empty_dns = \<lparr>dns_server_list = [], dns_search_list = []\<rparr>"

definition fake_init :: fake_host where
  "fake_init =
     \<lparr>fh_usb = [], fh_interfaces = [], fh_routes = [], fh_services = [], fh_wifi_device = None,
      fh_wifi_power = None, fh_wifi_ssid = None,
      fh_wifi_ipv4 = \<lparr>v4_mode = Some ''dhcp'', v4_address = None, v4_subnet_mask = None, v4_router = None\<rparr>,
      fh_dns = [], fh_heartbeat = True, fh_clock = 1000, fh_commands = [], fh_run_results = []\<rparr>"

definition advance :: "real \<Rightarrow> fake_host \<Rightarrow> fake_host" where
  "advance seconds h = h\<lparr>fh_clock := fh_clock h + seconds\<rparr>"

section \<open>Argument vectors\<close>

text \<open>\<^verbatim>\<open>argv[argv.index(flag) + k]\<close> for a flag that occurs, and the slice from there on.\<close>

definition args_from :: "string \<Rightarrow> string list \<Rightarrow> string list" where
  "args_from flag av = drop 1 (dropWhile (\<lambda>a. a \<noteq> flag) av)"

definition arg_after :: "string \<Rightarrow> nat \<Rightarrow> string list \<Rightarrow> string result" where
  "arg_after flag k av =
     (let rest = args_from flag av in if k < length rest then Inr (rest ! k) else Inl IndexError)"

text \<open>\<^verbatim>\<open>argv[-k]\<close> for \<open>k \<ge> 1\<close>.\<close>

definition arg_last :: "nat \<Rightarrow> string list \<Rightarrow> string result" where
  "arg_last k av = (if k \<le> length av then Inr (rev av ! (k - 1)) else Inl IndexError)"

text \<open>The regular expression \<^verbatim>\<open>^\d+\.\d+\.\d+\.\d+$\<close> (\<^verbatim>\<open>$\<close> also matches before a final newline).\<close>

definition is_dotted :: "string \<Rightarrow> bool" where
  "is_dotted s =
     (let t = (if s \<noteq> [] \<and> code (last s) = 10 then butlast s else s);
          parts = split_on (CHR ''.'') t
      in length parts = 4 \<and> list_all (\<lambda>p. p \<noteq> [] \<and> list_all is_digit p) parts)"

definition route_matches_delete :: "route \<Rightarrow> string list \<Rightarrow> bool result" where
  "route_matches_delete r av =
     (case find is_dotted (rev av) of
        Some gw \<Rightarrow> Inr (r_gateway r = Some gw)
      | None \<Rightarrow>
          bindE (if ''default'' \<in> set av then Inr (Some ''default'')
                 else if ''-net'' \<in> set av then bindE (arg_after ''-net'' 0 av) (\<lambda>a. Inr (Some a))
                 else if ''-host'' \<in> set av then bindE (arg_after ''-host'' 0 av) (\<lambda>a. Inr (Some a))
                 else Inr None)
            (\<lambda>dest. case dest of
               None \<Rightarrow> Inr False
             | Some d \<Rightarrow>
                 if r_destination r \<noteq> Some d then Inr False
                 else if ''-ifscope'' \<in> set av
                 then bindE (arg_after ''-ifscope'' 0 av) (\<lambda>i. Inr (r_interface r = Some i))
                 else Inr True))"

fun keep_unmatched :: "string list \<Rightarrow> route list \<Rightarrow> route list result" where
  "keep_unmatched av [] = Inr []"
| "keep_unmatched av (r # rs) =
     bindE (route_matches_delete r av) (\<lambda>m.
       bindE (keep_unmatched av rs) (\<lambda>rs'. Inr (if m then rs' else r # rs')))"

section \<open>Simulation\<close>

definition set_enabled :: "string \<Rightarrow> bool \<Rightarrow> service list \<Rightarrow> service list" where
  "set_enabled n on svcs = map (\<lambda>s. if s_name s = n then s\<lparr>s_enabled := on\<rparr> else s) svcs"

fun set_orders :: "nat \<Rightarrow> string list \<Rightarrow> service list \<Rightarrow> service list" where
  "set_orders i [] svcs = svcs"
| "set_orders i (n # ns) svcs =
     set_orders (Suc i) ns (map (\<lambda>s. if s_name s = n then s\<lparr>s_order := int i + 1\<rparr> else s) svcs)"

definition dns_entry :: "fake_host \<Rightarrow> string \<Rightarrow> dns_info" where
  "dns_entry h svc = (case map_of (fh_dns h) svc of None \<Rightarrow> empty_dns | Some d \<Rightarrow> d)"

definition dns_values :: "string list \<Rightarrow> string list" where
  "dns_values vals = (if vals = [''Empty''] then [] else vals)"

definition simulate_networksetup :: "string list \<Rightarrow> fake_host \<Rightarrow> fake_host result" where
  "simulate_networksetup av h =
     (if ''-setnetworkserviceenabled'' \<in> set av then
        bindE (arg_after ''-setnetworkserviceenabled'' 0 av) (\<lambda>n.
        bindE (arg_after ''-setnetworkserviceenabled'' 1 av) (\<lambda>state.
          Inr (h\<lparr>fh_services := set_enabled n (state = ''on'') (fh_services h)\<rparr>)))
      else if ''-setairportpower'' \<in> set av then
        bindE (arg_last 1 av) (\<lambda>p. Inr (h\<lparr>fh_wifi_power := Some (p = ''on'')\<rparr>))
      else if ''-setairportnetwork'' \<in> set av then
        bindE (arg_last 1 av) (\<lambda>n. Inr (h\<lparr>fh_wifi_ssid := Some n\<rparr>))
      else if ''-setmanual'' \<in> set av then
        bindE (arg_last 3 av) (\<lambda>a. bindE (arg_last 2 av) (\<lambda>m. bindE (arg_last 1 av) (\<lambda>r.
          Inr (h\<lparr>fh_wifi_ipv4 := \<lparr>v4_mode = Some ''manual'', v4_address = Some a,
                                  v4_subnet_mask = Some m, v4_router = Some r\<rparr>\<rparr>))))
      else if ''-setdnsservers'' \<in> set av then
        bindE (arg_after ''-setdnsservers'' 0 av) (\<lambda>n.
          let vals = drop 1 (args_from ''-setdnsservers'' av)
          in Inr (h\<lparr>fh_dns := AList.update n ((dns_entry h n)\<lparr>dns_server_list := dns_values vals\<rparr>) (fh_dns h)\<rparr>))
      else if ''-setsearchdomains'' \<in> set av then
        bindE (arg_after ''-setsearchdomains'' 0 av) (\<lambda>n.
          let vals = drop 1 (args_from ''-setsearchdomains'' av)
          in Inr (h\<lparr>fh_dns := AList.update n ((dns_entry h n)\<lparr>dns_search_list := dns_values vals\<rparr>) (fh_dns h)\<rparr>))
      else if ''-ordernetworkservices'' \<in> set av then
        Inr (h\<lparr>fh_services := set_orders 0 (args_from ''-ordernetworkservices'' av) (fh_services h)\<rparr>)
      else Inr h)"

definition simulate :: "string list \<Rightarrow> fake_host \<Rightarrow> fake_host result" where
  "simulate av h =
     (case av of
        [] \<Rightarrow> Inr h
      | prog # _ \<Rightarrow>
          if prog = ''route'' \<and> ''delete'' \<in> set av then
            bindE (keep_unmatched av (fh_routes h)) (\<lambda>rs. Inr (h\<lparr>fh_routes := rs\<rparr>))
          else if prog = ''networksetup'' then simulate_networksetup av h
          else if prog = ''ipconfig'' \<and> ''set'' \<in> set av \<and> ''DHCP'' \<in> set av then
            Inr (h\<lparr>fh_wifi_ipv4 := \<lparr>v4_mode = Some ''dhcp'', v4_address = Some ''192.168.1.50'',
                                    v4_subnet_mask = Some ''255.255.255.0'', v4_router = Some ''192.168.1.1''\<rparr>\<rparr>)
          else Inr h)"

definition fake_run :: "string list \<Rightarrow> fake_host \<Rightarrow> (run_result \<times> fake_host) result" where
  "fake_run av h =
     (let h1 = h\<lparr>fh_commands := fh_commands h @ [av]\<rparr>
      in case map_of (fh_run_results h1) av of
           Some r \<Rightarrow> Inr (r, h1)
         | None \<Rightarrow> bindE (simulate av h1) (\<lambda>h2. Inr ((0, [], []), h2)))"

definition fake_ops :: "fake_host host_ops" where
  "fake_ops =
     \<lparr>usb_devices = fh_usb,
      interfaces = fh_interfaces,
      routes = fh_routes,
      services = fh_services,
      service_order = (\<lambda>h. ordered_names (fh_services h)),
      wifi_device = fh_wifi_device,
      wifi_power = (\<lambda>_. fh_wifi_power),
      wifi_ssid = (\<lambda>_. fh_wifi_ssid),
      wifi_ipv4 = (\<lambda>_. fh_wifi_ipv4),
      dns = (\<lambda>svc h. dns_entry h svc),
      heartbeat = (\<lambda>_. fh_heartbeat),
      now = fh_clock,
      run = fake_run\<rparr>"

lemma fake_ops_simps [simp]:
  "usb_devices fake_ops = fh_usb" "interfaces fake_ops = fh_interfaces" "routes fake_ops = fh_routes"
  "services fake_ops = fh_services" "wifi_device fake_ops = fh_wifi_device"
  "wifi_power fake_ops = (\<lambda>_. fh_wifi_power)" "wifi_ssid fake_ops = (\<lambda>_. fh_wifi_ssid)"
  "wifi_ipv4 fake_ops = (\<lambda>_. fh_wifi_ipv4)" "dns fake_ops = (\<lambda>svc h. dns_entry h svc)"
  "heartbeat fake_ops = (\<lambda>_. fh_heartbeat)" "now fake_ops = fh_clock" "run fake_ops = fake_run"
  by (simp_all add: fake_ops_def)

section \<open>The simulator records its commands\<close>

lemma simulate_networksetup_frame:
  "simulate_networksetup av h = Inr h' \<Longrightarrow>
   fh_commands h' = fh_commands h \<and> fh_run_results h' = fh_run_results h \<and> fh_routes h' = fh_routes h
   \<and> fh_usb h' = fh_usb h \<and> fh_interfaces h' = fh_interfaces h \<and> fh_clock h' = fh_clock h"
  by (auto simp: simulate_networksetup_def bindE_Inr_iff Let_def split: if_splits)

lemma simulate_frame:
  "simulate av h = Inr h' \<Longrightarrow>
   fh_commands h' = fh_commands h \<and> fh_run_results h' = fh_run_results h
   \<and> fh_usb h' = fh_usb h \<and> fh_interfaces h' = fh_interfaces h \<and> fh_clock h' = fh_clock h"
  by (auto simp: simulate_def bindE_Inr_iff dest: simulate_networksetup_frame split: list.splits if_splits)

interpretation fake: recording_host fake_ops fh_commands
proof unfold_locales
  fix av h r h'
  assume "run fake_ops av h = Inr (r, h')"
  then show "fh_commands h' = fh_commands h @ [av]"
    by (auto simp: fake_run_def Let_def bindE_Inr_iff dest: simulate_frame split: option.splits)
qed

section \<open>The built-in self test\<close>

definition self_test_host :: fake_host where
  "self_test_host = fake_init\<lparr>
     fh_routes :=
       [\<lparr>r_destination = Some ''default'', r_gateway = Some BOOTMUX_PEER, r_flags = ''UGS'', r_interface = Some ''en7''\<rparr>,
        \<lparr>r_destination = Some ''default'', r_gateway = Some ''192.168.1.1'', r_flags = ''UGS'', r_interface = Some ''en0''\<rparr>],
     fh_wifi_device := Some ''en0'', fh_wifi_power := Some True, fh_wifi_ssid := None,
     fh_wifi_ipv4 := \<lparr>v4_mode = Some ''dhcp'', v4_address = Some ''192.168.1.50'',
                      v4_subnet_mask = Some ''255.255.255.0'', v4_router = Some ''192.168.1.1''\<rparr>\<rparr>"

text \<open>\<^verbatim>\<open>tempfile.mkdtemp\<close> makes an empty directory of mode 0700 that belongs to the caller.\<close>

definition self_test_store :: "string \<Rightarrow> nat \<Rightarrow> state_store" where
  "self_test_store tmp euid =
     \<lparr>store_root = tmp, enforce_owner = False, root_kind = RootDir, root_mode = MODE_700, root_uid = euid,
      store_files = [], store_evidence = [], store_euid = euid\<rparr>"

definition cmd_self_test :: "string \<Rightarrow> nat \<Rightarrow> int result" where
  "cmd_self_test tmp euid =
     bindE (repair_once fake_ops (self_test_store tmp euid) None None self_test_host) (\<lambda>(r, h).
       if rep_classification r \<noteq> ''REPAIRED'' then Inl (AssertionError ''report'')
       else if fh_commands h = [] then Inl (AssertionError ''expected at least one route deletion'')
       else if list_ex (\<lambda>x. r_gateway x = Some BOOTMUX_PEER) (fh_routes h)
       then Inl (AssertionError ''BOOTMUX route survived'')
       else Inr 0)"

lemma self_test_baseline: "read_validated (self_test_store tmp euid) = Inr None"
  by (simp add: read_validated_def self_test_store_def root_isdir_def root_islink_def validate_dir_def
      read_baseline_def load_def store_entry_def)

lemma self_test_identity:
  "prove_identity fake_ops self_test_host =
     \<lparr>proven = False, ambiguous = False, id_interface = None, id_service = None, hardware_signals = [],
      network_signals = [], id_reason = ''no interface in 10.77.0.0/24''\<rparr>"
  by (simp add: prove_identity_def self_test_host_def fake_init_def usb_hw_signals_def hw_signals_def
      usb_vid_pid_present_def usb_product_match_def usb_serial_match_def)

text \<open>
  The guardian's built-in self test passes: started on the contaminated simulated host, the repair
  issues a deletion, no route via the BOOTMUX peer is left and the verdict is REPAIRED.
\<close>

lemma self_test_passes: "cmd_self_test tmp euid = Inr 0"
proof -
  have "repair_once fake_ops (self_test_store tmp euid) None None self_test_host =
      repair_with fake_ops (prove_identity fake_ops self_test_host) None (now fake_ops self_test_host) None self_test_host"
    using repair_once_run [OF _ self_test_baseline, of fake_ops self_test_host] by (simp add: self_test_identity)
  then show ?thesis unfolding cmd_self_test_def self_test_identity by (simp only:) code_simp
qed

end
