(* ===== verification/Guardian_Converge.thy ===== *)
theory Guardian_Converge
  imports Guardian_FakeHost
begin

text \<open>
  Convergence of the repair: on the simulator, whose commands have the documented effect, one repair
  brings a disturbed host back to the baseline and a second repair issues no command. The conditions
  are executable predicates on the host and the baseline.
\<close>

section \<open>Runs without failures\<close>

definition runs_to :: "command list \<Rightarrow> fake_host \<Rightarrow> fake_host \<Rightarrow> bool" where
  "runs_to cs h h' \<longleftrightarrow>
     (\<forall>e. execute_commands fake_ops cs e h = Inr (e\<lparr>executed := executed e @ cs\<rparr>, h'))"

definition logged :: "string list list \<Rightarrow> fake_host \<Rightarrow> fake_host" where
  "logged avs h = h\<lparr>fh_commands := fh_commands h @ avs\<rparr>"

lemma logged_Nil [simp]: "logged [] h = h"
  by (simp add: logged_def)

lemma logged_frame [simp]:
  "fh_routes (logged avs h) = fh_routes h" "fh_services (logged avs h) = fh_services h"
  "fh_wifi_power (logged avs h) = fh_wifi_power h" "fh_wifi_ssid (logged avs h) = fh_wifi_ssid h"
  "fh_wifi_ipv4 (logged avs h) = fh_wifi_ipv4 h" "fh_dns (logged avs h) = fh_dns h"
  "fh_run_results (logged avs h) = fh_run_results h" "dns_entry (logged avs h) = dns_entry h"
  "fh_usb (logged avs h) = fh_usb h" "fh_interfaces (logged avs h) = fh_interfaces h"
  "fh_clock (logged avs h) = fh_clock h"
  by (simp_all add: logged_def dns_entry_def fun_eq_iff)

lemma runs_to_Nil [simp]: "runs_to [] h h"
  by (simp add: runs_to_def)

lemma runs_to_append: "runs_to cs h h1 \<Longrightarrow> runs_to cs' h1 h2 \<Longrightarrow> runs_to (cs @ cs') h h2"
proof -
  assume "runs_to cs h h1" and r2: "runs_to cs' h1 h2"
  moreover have "execute_commands fake_ops (cs @ cs') e h =
      bindE (execute_commands fake_ops cs e h) (\<lambda>(e1, h1). execute_commands fake_ops cs' e1 h1)" for e
    by (induction cs arbitrary: e h) (auto simp: bindE_def split: sum.splits prod.splits)
  ultimately show ?thesis by (simp add: runs_to_def)
qed

lemma runs_to_step:
  assumes "fh_run_results h = []" "simulate (argv c) (logged [argv c] h) = Inr h'"
  shows "runs_to [c] h h'"
  using assms by (simp add: runs_to_def fake_run_def logged_def Let_def exec_record_def)

section \<open>R1 on the simulator\<close>

definition deletes :: "route \<Rightarrow> route \<Rightarrow> bool" where
  "deletes r x \<longleftrightarrow> route_matches_delete x (r1_argv r) = Inr True"

definition delete_defined :: "route \<Rightarrow> route \<Rightarrow> bool" where
  "delete_defined r x \<longleftrightarrow> route_matches_delete x (r1_argv r) \<in> {Inr True, Inr False}"

lemma keep_unmatched_r1:
  "list_all (delete_defined r) xs \<Longrightarrow> keep_unmatched (r1_argv r) xs = Inr (filter (\<lambda>x. \<not> deletes r x) xs)"
  by (induction xs) (auto simp: deletes_def delete_defined_def)

lemma r1_argv_shape: "\<exists>rest. r1_argv r = ''route'' # ''-n'' # ''delete'' # rest"
  by (simp add: r1_argv_def)

lemma simulate_route_delete:
  "simulate (''route'' # ''-n'' # ''delete'' # rest) h =
   bindE (keep_unmatched (''route'' # ''-n'' # ''delete'' # rest) (fh_routes h)) (\<lambda>rs. Inr (h\<lparr>fh_routes := rs\<rparr>))"
  by (simp add: simulate_def)

lemma simulate_r1:
  "list_all (delete_defined r) (fh_routes h) \<Longrightarrow>
   simulate (r1_argv r) h = Inr (h\<lparr>fh_routes := filter (\<lambda>x. \<not> deletes r x) (fh_routes h)\<rparr>)"
  using r1_argv_shape [of r] keep_unmatched_r1 [of r "fh_routes h"]
  by (auto simp: simulate_route_delete)

lemma run_r1:
  assumes "fh_run_results h = []" "list_all (\<lambda>r. list_all (delete_defined r) (fh_routes h)) rs"
  shows "runs_to (map r1_command rs) h
    (logged (map r1_argv rs) (h\<lparr>fh_routes := filter (\<lambda>x. \<not> list_ex (\<lambda>r. deletes r x) rs) (fh_routes h)\<rparr>))"
  using assms
proof (induction rs arbitrary: h)
  case Nil
  then show ?case by simp
next
  case (Cons r rs)
  let ?h1 = "logged [r1_argv r] (h\<lparr>fh_routes := filter (\<lambda>x. \<not> deletes r x) (fh_routes h)\<rparr>)"
  have "runs_to [r1_command r] h ?h1"
    using Cons.prems by (intro runs_to_step) (simp_all add: r1_command_def simulate_r1, simp add: logged_def)
  moreover have "list_all (\<lambda>r. list_all (delete_defined r) (fh_routes ?h1)) rs"
    using Cons.prems(2) by (auto simp: list_all_iff)
  with Cons.IH [of ?h1] Cons.prems(1)
  have "runs_to (map r1_command rs) ?h1 (logged (map r1_argv rs)
      (?h1\<lparr>fh_routes := filter (\<lambda>x. \<not> list_ex (\<lambda>r. deletes r x) rs) (fh_routes ?h1)\<rparr>))"
    by simp
  ultimately have "runs_to ([r1_command r] @ map r1_command rs) h (logged (map r1_argv rs)
      (?h1\<lparr>fh_routes := filter (\<lambda>x. \<not> list_ex (\<lambda>r. deletes r x) rs) (fh_routes ?h1)\<rparr>))"
    by (rule runs_to_append)
  then show ?case by (simp add: logged_def conj_commute)
qed

section \<open>Enabling, R2\<close>

lemma set_enabled_frame [simp]:
  "map s_name (set_enabled n on svcs) = map s_name svcs"
  "map s_order (set_enabled n on svcs) = map s_order svcs"
  "map s_device (set_enabled n on svcs) = map s_device svcs"
  by (simp_all add: set_enabled_def)

lemma run_enable:
  assumes "fh_run_results h = []"
    "argv c = [''networksetup'', ''-setnetworkserviceenabled'', n, if on then ''on'' else ''off'']"
  shows "runs_to [c] h (logged [argv c] (h\<lparr>fh_services := set_enabled n on (fh_services h)\<rparr>))"
  using assms
  by (intro runs_to_step) (simp_all add: simulate_def simulate_networksetup_def arg_after_def args_from_def
      Let_def, simp add: logged_def)

lemma find_set_enabled_same:
  "find (\<lambda>s. s_name s = n) svcs = Some s \<Longrightarrow> \<not> service_enabled_now (set_enabled n False svcs) n"
  by (induction svcs) (auto simp: service_enabled_now_def set_enabled_def split: if_splits)

section \<open>R3 and R4\<close>

definition plain :: "string \<Rightarrow> bool" where
  "plain s \<longleftrightarrow> s \<notin> set NETWORKSETUP_VERBS"

lemma not_plain_verbs:
  "\<not> plain ''-setnetworkserviceenabled''" "\<not> plain ''-setmanual''" "\<not> plain ''-setdnsservers''"
  "\<not> plain ''-setsearchdomains''" "\<not> plain ''-ordernetworkservices''" "\<not> plain ''-setairportpower''"
  "\<not> plain ''-setairportnetwork''"
  by (simp_all only: plain_def networksetup_verbs simp_thms)

lemma plain_list_verbs:
  assumes "list_all plain vs"
  shows "''-setnetworkserviceenabled'' \<notin> set vs" "''-setmanual'' \<notin> set vs" "''-setdnsservers'' \<notin> set vs"
    "''-setsearchdomains'' \<notin> set vs" "''-ordernetworkservices'' \<notin> set vs" "''-setairportpower'' \<notin> set vs"
    "''-setairportnetwork'' \<notin> set vs"
  using assms not_plain_verbs unfolding list_all_iff by metis+

lemma run_dhcp:
  assumes "fh_run_results h = []" "argv c = [''ipconfig'', ''set'', dev, ''DHCP'']"
  shows "\<exists>v. v4_mode v = Some ''dhcp'' \<and> runs_to [c] h (logged [argv c] (h\<lparr>fh_wifi_ipv4 := v\<rparr>))"
proof (intro exI conjI)
  let ?v = "\<lparr>v4_mode = Some ''dhcp'', v4_address = Some ''192.168.1.50'',
             v4_subnet_mask = Some ''255.255.255.0'', v4_router = Some ''192.168.1.1''\<rparr>"
  show "v4_mode ?v = Some ''dhcp''" by simp
  show "runs_to [c] h (logged [argv c] (h\<lparr>fh_wifi_ipv4 := ?v\<rparr>))"
    using assms by (intro runs_to_step) (simp_all add: simulate_def, simp add: logged_def)
qed

lemma set_argv: "x \<in> set (p # v # vs) \<longleftrightarrow> x = p \<or> x = v \<or> x \<in> set vs"
  by simp

text \<open>With plain arguments the verb alone decides what \<^verbatim>\<open>networksetup\<close> does.\<close>

lemma simulate_manual:
  "list_all plain vs \<Longrightarrow> simulate (''networksetup'' # ''-setmanual'' # vs) h =
      bindE (arg_last 3 (''networksetup'' # ''-setmanual'' # vs)) (\<lambda>a.
      bindE (arg_last 2 (''networksetup'' # ''-setmanual'' # vs)) (\<lambda>m.
      bindE (arg_last 1 (''networksetup'' # ''-setmanual'' # vs)) (\<lambda>r.
        Inr (h\<lparr>fh_wifi_ipv4 := \<lparr>v4_mode = Some ''manual'', v4_address = Some a,
                                v4_subnet_mask = Some m, v4_router = Some r\<rparr>\<rparr>))))"
  by (simp add: simulate_def simulate_networksetup_def plain_list_verbs)

lemma simulate_setdnsservers:
  "list_all plain vs \<Longrightarrow> vs \<noteq> [] \<Longrightarrow> simulate (''networksetup'' # ''-setdnsservers'' # vs) h =
     Inr (h\<lparr>fh_dns := AList.update (hd vs)
       ((dns_entry h (hd vs))\<lparr>dns_server_list := dns_values (tl vs)\<rparr>) (fh_dns h)\<rparr>)"
  by (simp add: simulate_def simulate_networksetup_def plain_list_verbs args_from_def arg_after_def
      hd_conv_nth [symmetric] drop_Suc)

lemma simulate_setsearchdomains:
  "list_all plain vs \<Longrightarrow> vs \<noteq> [] \<Longrightarrow> simulate (''networksetup'' # ''-setsearchdomains'' # vs) h =
     Inr (h\<lparr>fh_dns := AList.update (hd vs)
       ((dns_entry h (hd vs))\<lparr>dns_search_list := dns_values (tl vs)\<rparr>) (fh_dns h)\<rparr>)"
  by (simp add: simulate_def simulate_networksetup_def plain_list_verbs args_from_def arg_after_def
      hd_conv_nth [symmetric] drop_Suc)

lemma simulate_order:
  "list_all plain vs \<Longrightarrow> simulate (''networksetup'' # ''-ordernetworkservices'' # vs) h =
     Inr (h\<lparr>fh_services := set_orders 0 vs (fh_services h)\<rparr>)"
  by (simp add: simulate_def simulate_networksetup_def plain_list_verbs args_from_def)

lemma run_manual:
  assumes "fh_run_results h = []" "argv c = [''networksetup'', ''-setmanual'', svc, a, m, r]"
    "list_all plain [svc, a, m, r]"
  shows "runs_to [c] h (logged [argv c] (h\<lparr>fh_wifi_ipv4 :=
           \<lparr>v4_mode = Some ''manual'', v4_address = Some a, v4_subnet_mask = Some m, v4_router = Some r\<rparr>\<rparr>))"
  using assms simulate_manual [OF assms(3)]
  by (intro runs_to_step) (simp_all add: arg_last_def eval_nat_numeral, simp add: logged_def)

text \<open>What R3 aims at: the captured mode and, when it was manual, the captured values.\<close>

definition ipv4_restored :: "wifi_block \<Rightarrow> ipv4_info \<Rightarrow> bool" where
  "ipv4_restored w v \<longleftrightarrow> v4_mode v = ipv4_mode w \<and>
     (ipv4_mode w = Some ''manual'' \<longrightarrow>
        v4_address v = ipv4_address w \<and> v4_subnet_mask v = subnet_mask w \<and> v4_router v = router w)"

definition ipv4_restorable :: "wifi_block \<Rightarrow> bool" where
  "ipv4_restorable w \<longleftrightarrow> truthy (hardware_device w) \<and>
     (ipv4_mode w = Some ''dhcp'' \<or>
      ipv4_mode w = Some ''manual'' \<and> truthy (service_name w) \<and> truthy (ipv4_address w)
      \<and> truthy (subnet_mask w) \<and> truthy (router w)
      \<and> list_all plain [the (service_name w), the (ipv4_address w), the (subnet_mask w), the (router w)])"

lemma run_r3:
  assumes "fh_run_results h = []" "fh_wifi_ipv4 h = fh_wifi_ipv4 h0" "ipv4_restorable (wifi b)"
  shows "\<exists>v. ipv4_restored (wifi b) v \<and>
    runs_to (commands (plan_r3_ipv4 fake_ops h0 i (Some b))) h
      (logged (argvs (plan_r3_ipv4 fake_ops h0 i (Some b))) (h\<lparr>fh_wifi_ipv4 := v\<rparr>))"
proof (cases "commands (plan_r3_ipv4 fake_ops h0 i (Some b)) = []")
  case True
  then have "ipv4_restored (wifi b) (fh_wifi_ipv4 h)"
    unfolding assms(2) using assms(3) by (auto simp: plan_r3_ipv4_def Let_def ipv4_restorable_def ipv4_restored_def split: if_splits)
  with True show ?thesis by (intro exI [of _ "fh_wifi_ipv4 h"]) (simp add: argvs_def)
next
  case False
  from assms(3) show ?thesis unfolding ipv4_restorable_def
  proof (elim conjE disjE)
    assume dev: "truthy (hardware_device (wifi b))" and mode: "ipv4_mode (wifi b) = Some ''dhcp''"
    with False obtain c where c: "commands (plan_r3_ipv4 fake_ops h0 i (Some b)) = [c]"
      "argv c = [''ipconfig'', ''set'', the (hardware_device (wifi b)), ''DHCP'']"
      by (auto simp: plan_r3_ipv4_def Let_def split: if_splits)
    from run_dhcp [OF assms(1) c(2)] c(1) mode show ?thesis
      by (auto simp: argvs_def ipv4_restored_def)
  next
    let ?w = "wifi b"
    let ?v = "\<lparr>v4_mode = Some ''manual'', v4_address = Some (the (ipv4_address ?w)),
      v4_subnet_mask = Some (the (subnet_mask ?w)), v4_router = Some (the (router ?w))\<rparr>"
    assume t: "truthy (hardware_device ?w)" "truthy (service_name ?w)" "truthy (ipv4_address ?w)"
        "truthy (subnet_mask ?w)" "truthy (router ?w)"
      and mode: "ipv4_mode ?w = Some ''manual''"
      and pl: "list_all plain [the (service_name ?w), the (ipv4_address ?w), the (subnet_mask ?w), the (router ?w)]"
    with False obtain c where c: "commands (plan_r3_ipv4 fake_ops h0 i (Some b)) = [c]"
      "argv c = [''networksetup'', ''-setmanual'', the (service_name ?w), the (ipv4_address ?w),
                 the (subnet_mask ?w), the (router ?w)]"
      by (auto simp: plan_r3_ipv4_def Let_def split: if_splits)
    have "ipv4_restored ?w ?v" using t mode by (auto simp: ipv4_restored_def truthy_iff)
    with run_manual [OF assms(1) c(2) pl] c(1) show ?thesis
      by (intro exI [of _ ?v]) (simp add: argvs_def)
  qed
qed

text \<open>R4: both lists of the captured service.\<close>

definition dns_restorable :: "wifi_block \<Rightarrow> bool" where
  "dns_restorable w \<longleftrightarrow> truthy (service_name w) \<and> list_all plain (the (service_name w) # dns_servers w @ search_domains w)
     \<and> dns_servers w \<noteq> [''Empty''] \<and> search_domains w \<noteq> [''Empty'']"

lemma plain_Empty: "plain ''Empty''"
  by (simp add: plain_def NETWORKSETUP_VERBS_def)

lemma run_dns_servers:
  assumes "fh_run_results h = []" "argv c = set_or_empty ''-setdnsservers'' svc vs"
    "list_all plain (svc # vs)" "vs \<noteq> [''Empty'']"
  shows "runs_to [c] h (logged [argv c] (h\<lparr>fh_dns :=
           AList.update svc ((dns_entry h svc)\<lparr>dns_server_list := vs\<rparr>) (fh_dns h)\<rparr>))"
proof -
  let ?vs = "svc # (if vs \<noteq> [] then vs else [''Empty''])"
  have "list_all plain ?vs" using assms(3) plain_Empty by auto
  from simulate_setdnsservers [OF this, of "logged [argv c] h"] show ?thesis
    using assms by (intro runs_to_step)
      (simp_all add: set_or_empty_def dns_values_def, simp_all add: logged_def dns_entry_def split: if_splits)
qed

lemma run_search_domains:
  assumes "fh_run_results h = []" "argv c = set_or_empty ''-setsearchdomains'' svc vs"
    "list_all plain (svc # vs)" "vs \<noteq> [''Empty'']"
  shows "runs_to [c] h (logged [argv c] (h\<lparr>fh_dns :=
           AList.update svc ((dns_entry h svc)\<lparr>dns_search_list := vs\<rparr>) (fh_dns h)\<rparr>))"
proof -
  let ?vs = "svc # (if vs \<noteq> [] then vs else [''Empty''])"
  have "list_all plain ?vs" using assms(3) plain_Empty by auto
  from simulate_setsearchdomains [OF this, of "logged [argv c] h"] show ?thesis
    using assms by (intro runs_to_step)
      (simp_all add: set_or_empty_def dns_values_def, simp_all add: logged_def dns_entry_def split: if_splits)
qed

lemma commands_r4_Some:
  assumes "truthy (service_name (wifi b))"
  shows "\<exists>c1 c2. commands (plan_r4_dns ops h i (Some b)) =
      (if dns_server_list (dns ops (the (service_name (wifi b))) h) \<noteq> dns_servers (wifi b) then [c1] else [])
      @ (if dns_search_list (dns ops (the (service_name (wifi b))) h) \<noteq> search_domains (wifi b) then [c2] else [])
    \<and> argv c1 = set_or_empty ''-setdnsservers'' (the (service_name (wifi b))) (dns_servers (wifi b))
    \<and> argv c2 = set_or_empty ''-setsearchdomains'' (the (service_name (wifi b))) (search_domains (wifi b))"
  using assms
  by (intro exI [of _ "\<lparr>argv = set_or_empty ''-setdnsservers'' (the (service_name (wifi b))) (dns_servers (wifi b)),
        step = ''R4'', purpose = ''restore DNS on '' @ the (service_name (wifi b)),
        target_interface = None, target_service = Some (the (service_name (wifi b)))\<rparr>"]
      exI [of _ "\<lparr>argv = set_or_empty ''-setsearchdomains'' (the (service_name (wifi b))) (search_domains (wifi b)),
        step = ''R4'', purpose = ''restore search domains on '' @ the (service_name (wifi b)),
        target_interface = None, target_service = Some (the (service_name (wifi b)))\<rparr>"])
     (simp add: plan_r4_dns_def Let_def)

lemma dns_entry_log [simp]: "dns_entry (h\<lparr>fh_commands := x\<rparr>) = dns_entry h"
  by (simp add: dns_entry_def fun_eq_iff)

lemma dns_entry_update:
  "dns_entry (h\<lparr>fh_dns := AList.update n d (fh_dns h)\<rparr>) n = d"
  by (simp add: dns_entry_def update_conv')

lemma run_r4:
  assumes "fh_run_results h = []" "fh_dns h = fh_dns h0" "dns_restorable (wifi b)"
  shows "\<exists>d. dns_entry (h\<lparr>fh_dns := d\<rparr>) (the (service_name (wifi b))) =
        \<lparr>dns_server_list = dns_servers (wifi b), dns_search_list = search_domains (wifi b)\<rparr> \<and>
    runs_to (commands (plan_r4_dns fake_ops h0 i (Some b))) h
      (logged (argvs (plan_r4_dns fake_ops h0 i (Some b))) (h\<lparr>fh_dns := d\<rparr>))"
proof -
  let ?svc = "the (service_name (wifi b))" and ?want = "dns_servers (wifi b)" and ?search = "search_domains (wifi b)"
  let ?e = "dns_entry h ?svc"
  from assms(3) have pl: "list_all plain (?svc # ?want)" "list_all plain (?svc # ?search)"
    and ne: "?want \<noteq> [''Empty'']" "?search \<noteq> [''Empty'']" and svc: "truthy (service_name (wifi b))"
    by (simp_all add: dns_restorable_def)
  have e: "dns_entry h0 = dns_entry h" using assms(2) by (simp add: dns_entry_def fun_eq_iff)
  obtain c1 c2 where cs: "commands (plan_r4_dns fake_ops h0 i (Some b)) =
      (if dns_server_list ?e \<noteq> ?want then [c1] else []) @ (if dns_search_list ?e \<noteq> ?search then [c2] else [])"
    and av: "argv c1 = set_or_empty ''-setdnsservers'' ?svc ?want"
      "argv c2 = set_or_empty ''-setsearchdomains'' ?svc ?search"
    using commands_r4_Some [OF svc, of fake_ops h0 i] by (auto simp: e)
  let ?cs1 = "if dns_server_list ?e \<noteq> ?want then [c1] else []"
  let ?cs2 = "if dns_search_list ?e \<noteq> ?search then [c2] else []"
  obtain d1 where d1: "dns_entry (h\<lparr>fh_dns := d1\<rparr>) ?svc = ?e\<lparr>dns_server_list := ?want\<rparr>"
    and r1: "runs_to ?cs1 h (logged (map argv ?cs1) (h\<lparr>fh_dns := d1\<rparr>))"
  proof (cases "dns_server_list ?e = ?want")
    case True
    then show ?thesis by (intro that [of "fh_dns h"]) (auto simp: dns_entry_def)
  next
    case False
    with run_dns_servers [OF assms(1) av(1) pl(1) ne(1)] show ?thesis
      by (intro that [of "AList.update ?svc (?e\<lparr>dns_server_list := ?want\<rparr>) (fh_dns h)"]) (simp_all add: dns_entry_update)
  qed
  let ?h1 = "logged (map argv ?cs1) (h\<lparr>fh_dns := d1\<rparr>)"
  let ?d2 = "if dns_search_list ?e = ?search then d1
    else AList.update ?svc (?e\<lparr>dns_server_list := ?want, dns_search_list := ?search\<rparr>) d1"
  have "runs_to ?cs2 ?h1 (logged (map argv ?cs2) (?h1\<lparr>fh_dns := ?d2\<rparr>))"
    using run_search_domains [of ?h1 c2, OF _ av(2) pl(2) ne(2)] assms(1) d1 by (auto simp: logged_def)
  from runs_to_append [OF r1 this]
  have "runs_to (?cs1 @ ?cs2) h (logged (map argv (?cs1 @ ?cs2)) (h\<lparr>fh_dns := ?d2\<rparr>))"
    by (simp add: logged_def)
  moreover have "dns_entry (h\<lparr>fh_dns := ?d2\<rparr>) ?svc = \<lparr>dns_server_list = ?want, dns_search_list = ?search\<rparr>"
    using d1 dns_entry_update [where h = "h\<lparr>fh_dns := d1\<rparr>" and n = ?svc] by (cases ?e) auto
  ultimately show ?thesis unfolding argvs_def cs by (intro exI [of _ ?d2] conjI)
qed

section \<open>R5: order and enabled states\<close>

lemma set_orders_frame [simp]:
  "map s_name (set_orders i ns svcs) = map s_name svcs"
  "map s_enabled (set_orders i ns svcs) = map s_enabled svcs"
  "map s_device (set_orders i ns svcs) = map s_device svcs"
  by (induction i ns svcs rule: set_orders.induct) (auto simp: o_def if_distrib cong: if_cong)

lemma set_orders_notin:
  "s \<in> set (set_orders i ns svcs) \<Longrightarrow> s_name s \<notin> set ns \<Longrightarrow> s \<in> set svcs"
  by (induction i ns svcs rule: set_orders.induct) (auto split: if_splits)

lemma set_orders_nth:
  "distinct ns \<Longrightarrow> k < length ns \<Longrightarrow> s \<in> set (set_orders i ns svcs) \<Longrightarrow> s_name s = ns ! k \<Longrightarrow>
   s_order s = int (i + k) + 1"
proof (induction ns arbitrary: i k svcs)
  case (Cons n ns)
  let ?svcs = "map (\<lambda>s. if s_name s = n then s\<lparr>s_order := int i + 1\<rparr> else s) svcs"
  have s: "s \<in> set (set_orders (Suc i) ns ?svcs)" using Cons.prems(3) by simp
  show ?case
  proof (cases k)
    case 0
    with Cons.prems have n: "s_name s = n" "n \<notin> set ns" by simp_all
    with set_orders_notin [OF s] have "s \<in> set ?svcs" by simp
    then obtain s' where "s = (if s_name s' = n then s'\<lparr>s_order := int i + 1\<rparr> else s')"
      unfolding list.set_map by blast
    with n 0 show ?thesis by (simp split: if_splits)
  next
    case (Suc j)
    with Cons.IH [OF _ _ s, of j] Cons.prems show ?thesis by simp
  qed
qed simp

lemma sorted_by_index:
  assumes "distinct ns" "distinct (map s_name xs)" "set (map s_name xs) = set ns"
    and "\<And>s k. s \<in> set xs \<Longrightarrow> k < length ns \<Longrightarrow> s_name s = ns ! k \<Longrightarrow> s_order s = int k + 1"
  shows "map s_name (sort_key s_order xs) = ns"
proof -
  let ?vs = "map (\<lambda>k. int k + 1) [0..<length ns]"
  let ?f = "\<lambda>n. the (map_of (zip ns ?vs) n)"
  let ?ys = "sort_key s_order xs"
  have nth: "?f (ns ! k) = int k + 1" if "k < length ns" for k
    using that assms(1) by (subst map_of_zip_nth) simp_all
  then have fns: "map ?f ns = ?vs" by (intro nth_equalityI) simp_all
  have "s_order s = ?f (s_name s)" if s: "s \<in> set xs" for s
  proof -
    from s assms(3) obtain k where "k < length ns" "ns ! k = s_name s"
      by (metis image_eqI in_set_conv_nth list.set_map)
    with assms(4) [OF s, of k] nth [of k] show ?thesis by simp
  qed
  then have "map ?f (map s_name ?ys) = map s_order ?ys" by simp
  then have srt: "sorted (map ?f (map s_name ?ys))" by (simp only: sorted_sort_key)
  have sv: "sorted ?vs" "distinct ?vs"
    by (auto simp: sorted_iff_nth_mono distinct_map inj_on_def)
  have set_eq: "set (map s_name ?ys) = set ns" using assms(3) by simp
  have inj: "inj_on ?f (set ns)" using sv(2) fns by (metis distinct_map)
  have "distinct (map s_name ?ys)" using assms(2) by (metis distinct_map distinct_sort set_sort)
  then have "distinct (map ?f (map s_name ?ys))" using inj set_eq by (metis distinct_map)
  with srt set_eq sv fns inj show ?thesis
    by (intro map_sorted_distinct_set_unique [of ?f]) simp_all
qed

lemma sort_key_map_same: "(\<And>x. k (f x) = k x) \<Longrightarrow> sort_key k (map f xs) = map f (sort_key k xs)"
proof (induction xs)
  case (Cons x xs)
  have "insort_key k (f x) (map f ys) = map f (insort_key k x ys)" for ys
    by (induction ys) (simp_all add: Cons.prems)
  with Cons show ?case by simp
qed simp

lemma ordered_names_set_enabled [simp]: "ordered_names (set_enabled n on svcs) = ordered_names svcs"
  unfolding ordered_names_def set_enabled_def by (subst sort_key_map_same) (auto simp: o_def if_distrib cong: if_cong)

lemma enabled_set_enabled:
  "map_of (enabled_states (set_enabled n on svcs)) m =
     (if m = n \<and> n \<in> set (map s_name svcs) then Some on else map_of (enabled_states svcs) m)"
proof -
  have "map_of (map (\<lambda>s. (s_name s, s_enabled s)) (set_enabled n on xs)) m =
      (if m = n \<and> n \<in> set (map s_name xs) then Some on else map_of (map (\<lambda>s. (s_name s, s_enabled s)) xs) m)" for xs
    by (induction xs) (auto simp: set_enabled_def)
  from this [of "rev svcs"] show ?thesis
    by (simp add: enabled_states_def dict_of_lookup rev_map set_enabled_def)
qed

lemma service_enabled_other:
  "m \<noteq> n \<Longrightarrow> service_enabled_now (set_enabled m on svcs) n = service_enabled_now svcs n"
  by (induction svcs) (auto simp: service_enabled_now_def set_enabled_def)

lemma service_enabled_orders [simp]:
  "service_enabled_now (set_orders i ns svcs) n = service_enabled_now svcs n"
proof -
  have step: "service_enabled_now (map (\<lambda>s. if s_name s = m then s\<lparr>s_order := k\<rparr> else s) xs) n = service_enabled_now xs n"
    for m k xs by (induction xs) (auto simp: service_enabled_now_def)
  show ?thesis by (induction i ns svcs rule: set_orders.induct) (simp_all add: step)
qed

lemma enabled_states_orders [simp]: "enabled_states (set_orders i ns svcs) = enabled_states svcs"
proof -
  have eq: "map (\<lambda>s. (s_name s, s_enabled s)) xs = zip (map s_name xs) (map s_enabled xs)" for xs
    by (induction xs) simp_all
  show ?thesis unfolding enabled_states_def eq set_orders_frame ..
qed

definition enable_all :: "(string \<times> bool) list \<Rightarrow> service list \<Rightarrow> service list" where
  "enable_all kvs svcs = foldl (\<lambda>sv kv. set_enabled (fst kv) (snd kv) sv) svcs kvs"

lemma enable_all_simps [simp]:
  "enable_all [] svcs = svcs" "enable_all (kv # kvs) svcs = enable_all kvs (set_enabled (fst kv) (snd kv) svcs)"
  by (simp_all add: enable_all_def)

lemma enable_all_frame [simp]:
  "map s_name (enable_all kvs svcs) = map s_name svcs" "map s_device (enable_all kvs svcs) = map s_device svcs"
  "ordered_names (enable_all kvs svcs) = ordered_names svcs"
  by (induction kvs arbitrary: svcs) simp_all

lemma enabled_enable_all:
  "distinct (map fst kvs) \<Longrightarrow> map_of (enabled_states (enable_all kvs svcs)) m =
     (case map_of kvs m of
        Some on \<Rightarrow> if m \<in> set (map s_name svcs) then Some on else map_of (enabled_states svcs) m
      | None \<Rightarrow> map_of (enabled_states svcs) m)"
proof (induction kvs arbitrary: svcs)
  case (Cons kv kvs)
  then have "m = fst kv \<Longrightarrow> map_of kvs m = None" by (auto simp: map_of_eq_None_iff)
  with Cons.IH [of "set_enabled (fst kv) (snd kv) svcs"] Cons.prems show ?case
    by (simp add: enabled_set_enabled del: set_map split: option.split)
qed simp

lemma service_enabled_enable_all:
  "n \<notin> fst ` set kvs \<Longrightarrow> service_enabled_now (enable_all kvs svcs) n = service_enabled_now svcs n"
  by (induction kvs arbitrary: svcs) (auto simp: service_enabled_other)

lemma run_enable_all:
  assumes "fh_run_results h = []"
  shows "runs_to (map (\<lambda>kv. r5_enable_command (fst kv) (snd kv)) kvs) h
    (logged (map (\<lambda>kv. argv (r5_enable_command (fst kv) (snd kv))) kvs) (h\<lparr>fh_services := enable_all kvs (fh_services h)\<rparr>))"
  using assms
proof (induction kvs arbitrary: h)
  case (Cons kv kvs)
  let ?c = "r5_enable_command (fst kv) (snd kv)"
  have "runs_to [?c] h (logged [argv ?c] (h\<lparr>fh_services := set_enabled (fst kv) (snd kv) (fh_services h)\<rparr>))"
    by (rule run_enable [OF Cons.prems]) (simp add: r5_enable_command_def)
  from runs_to_append [OF this Cons.IH] Cons.prems show ?case by (simp add: logged_def)
qed simp

text \<open>What R5 aims at.\<close>

definition services_restored :: "string option \<Rightarrow> baseline \<Rightarrow> service list \<Rightarrow> bool" where
  "services_restored bsvc b svcs \<longleftrightarrow>
     (let want = order_without bsvc (network_service_order (network b));
          current = order_without bsvc (ordered_names svcs)
      in want \<noteq> [] \<and> set want = set current \<longrightarrow> current = want)
     \<and> \<not> list_ex (r5_needs_enable bsvc (enabled_states svcs)) (service_enabled_states (network b))"

definition services_restorable :: "baseline \<Rightarrow> service list \<Rightarrow> bool" where
  "services_restorable b svcs \<longleftrightarrow> distinct (map s_name svcs)
     \<and> distinct (network_service_order (network b)) \<and> list_all plain (network_service_order (network b))
     \<and> distinct (map fst (service_enabled_states (network b)))"

lemma order_without_ordered:
  "order_without bsvc (ordered_names svcs) = map s_name (sort_key s_order (filter (\<lambda>s. Some (s_name s) \<noteq> bsvc) svcs))"
  by (simp add: order_without_def ordered_names_def filter_map filter_sort o_def)

lemma order_restored:
  assumes "distinct (map s_name svcs)" "distinct want" "set want = set (order_without bsvc (ordered_names svcs))"
  shows "order_without bsvc (ordered_names (set_orders 0 want svcs)) = want"
proof -
  let ?svcs' = "set_orders 0 want svcs"
  let ?xs = "filter (\<lambda>s. Some (s_name s) \<noteq> bsvc) ?svcs'"
  have "distinct (map s_name ?svcs')" using assms(1) by simp
  then have d: "distinct (map s_name ?xs)" by (rule distinct_map_filter)
  have "set (map s_name (filter (\<lambda>s. Some (s_name s) \<noteq> bsvc) ys)) = set (map s_name ys) - {n. Some n = bsvc}" for ys
    by auto
  note this [of ?svcs']
  also have "set (map s_name ?svcs') - {n. Some n = bsvc} = set want"
    unfolding set_orders_frame using assms(3) by (simp add: set_order_without)
  finally have "set (map s_name ?xs) = set want" .
  then show ?thesis
    unfolding order_without_ordered
    using assms(2) d set_orders_nth [of want _ _ 0 svcs] by (intro sorted_by_index) auto
qed

lemma needs_enable_restored:
  assumes "distinct (map fst kvs)"
    "\<And>n. Some n \<noteq> bsvc \<Longrightarrow> map_of (enabled_states svcs1) n = map_of (enabled_states svcs0) n" "map s_name svcs1 = map s_name svcs0"
  shows "\<not> list_ex (r5_needs_enable bsvc (enabled_states
           (enable_all (filter (r5_needs_enable bsvc (enabled_states svcs0)) kvs) svcs1))) kvs"
proof -
  let ?need = "filter (r5_needs_enable bsvc (enabled_states svcs0)) kvs"
  have "\<not> r5_needs_enable bsvc (enabled_states (enable_all ?need svcs1)) kv" if kv: "kv \<in> set kvs" for kv
  proof (cases "r5_needs_enable bsvc (enabled_states svcs0) kv")
    case True
    have d: "distinct (map fst ?need)" using assms(1) by (rule distinct_map_filter)
    from True kv d have "map_of ?need (fst kv) = Some (snd kv)" by (intro map_of_is_SomeI) auto
    moreover have "fst kv \<in> set (map s_name svcs1)"
      using True fst_enabled_states assms(3) unfolding r5_needs_enable_def by metis
    ultimately show ?thesis
      using enabled_enable_all [OF d, of svcs1 "fst kv"] by (simp add: r5_needs_enable_def)
  next
    case False
    have d: "distinct (map fst ?need)" using assms(1) by (rule distinct_map_filter)
    have "fst kv \<notin> fst ` set ?need"
    proof
      assume "fst kv \<in> fst ` set ?need"
      then obtain kv' where "kv' \<in> set ?need" "fst kv' = fst kv" by force
      with kv assms(1) have "kv' = kv" by (metis distinct_map filter_is_subset inj_onD subsetD)
      with \<open>kv' \<in> set ?need\<close> False show False by simp
    qed
    then have "map_of ?need (fst kv) = None" by (simp add: map_of_eq_None_iff)
    with enabled_enable_all [OF d, of svcs1 "fst kv"] assms(2) [of "fst kv"] False show ?thesis
      by (auto simp: r5_needs_enable_def)
  qed
  then show ?thesis by (simp add: list_ex_iff)
qed

lemma run_order:
  assumes "fh_run_results h = []" "argv c = [''networksetup'', ''-ordernetworkservices''] @ ns" "list_all plain ns"
  shows "runs_to [c] h (logged [argv c] (h\<lparr>fh_services := set_orders 0 ns (fh_services h)\<rparr>))"
  using assms simulate_order [OF assms(3)]
  by (intro runs_to_step) (simp_all, simp add: logged_def)

text \<open>
  R5, planned on the services \<open>svcs0\<close> and run after R2 may have disabled the BOOTMUX service: names and
  order are the planned ones, and so are the enabled states of all other services.
\<close>

lemma run_r5:
  assumes h: "fh_run_results h = []" and names: "map s_name (fh_services h) = map s_name (fh_services h0)"
    and order: "ordered_names (fh_services h) = ordered_names (fh_services h0)"
    and enabled: "\<And>n. Some n \<noteq> id_service i \<Longrightarrow>
      map_of (enabled_states (fh_services h)) n = map_of (enabled_states (fh_services h0)) n"
    and ok: "services_restorable b (fh_services h0)"
  shows "\<exists>svcs. services_restored (id_service i) b svcs \<and> map s_name svcs = map s_name (fh_services h)
      \<and> map s_device svcs = map s_device (fh_services h)
      \<and> (\<forall>n. Some n = id_service i \<longrightarrow> service_enabled_now svcs n = service_enabled_now (fh_services h) n)
      \<and> runs_to (commands (plan_r5_order fake_ops h0 i (Some b))) h
          (logged (argvs (plan_r5_order fake_ops h0 i (Some b))) (h\<lparr>fh_services := svcs\<rparr>))"
proof -
  let ?bs = "id_service i" and ?cur = "fh_services h" and ?old = "fh_services h0"
  let ?kvs = "service_enabled_states (network b)"
  let ?want = "order_without ?bs (network_service_order (network b))"
  let ?emit = "?want \<noteq> [] \<and> set ?want = set (order_without ?bs (ordered_names ?old))
    \<and> order_without ?bs (ordered_names ?old) \<noteq> ?want"
  let ?c = "\<lparr>argv = [''networksetup'', ''-ordernetworkservices''] @ ?want, step = ''R5'',
    purpose = ''restore network service order'', target_interface = None, target_service = None\<rparr>"
  let ?cs = "if ?emit then [?c] else []"
  let ?need = "filter (r5_needs_enable ?bs (enabled_states ?old)) ?kvs"
  let ?mid = "if ?emit then set_orders 0 ?want ?cur else ?cur"
  let ?new = "enable_all ?need ?mid"
  have cs: "commands (plan_r5_order fake_ops h0 i (Some b)) = ?cs @ map (\<lambda>kv. r5_enable_command (fst kv) (snd kv)) ?need"
    by (simp add: commands_r5_Some Let_def)
  have pl: "list_all plain ?want" and dw: "distinct ?want" and dn: "distinct (map s_name ?cur)"
    and dk: "distinct (map fst ?kvs)"
    using ok names by (auto simp: services_restorable_def order_without_def list_all_iff)
  have "runs_to ?cs h (logged (map argv ?cs) (h\<lparr>fh_services := ?mid\<rparr>))"
    using run_order [OF h _ pl, of ?c] by (simp split: if_split)
  from runs_to_append [OF this run_enable_all [of "logged (map argv ?cs) (h\<lparr>fh_services := ?mid\<rparr>)" ?need]] h
  have run: "runs_to (commands (plan_r5_order fake_ops h0 i (Some b))) h
      (logged (argvs (plan_r5_order fake_ops h0 i (Some b))) (h\<lparr>fh_services := ?new\<rparr>))"
    by (simp add: cs argvs_def logged_def o_def)
  have names2: "map s_name ?new = map s_name ?cur" "map s_device ?new = map s_device ?cur" by simp_all
  have "order_without ?bs (ordered_names ?new) = ?want"
    if "?want \<noteq> []" "set ?want = set (order_without ?bs (ordered_names ?new))"
  proof -
    have "set (order_without ?bs (ordered_names ?new)) = set (order_without ?bs (ordered_names ?cur))"
      using names2(1) by (simp only: set_order_without set_ordered_names)
    with that order_restored [OF dn dw, of ?bs] show ?thesis by (simp add: order split: if_split)
  qed
  moreover have "\<not> list_ex (r5_needs_enable ?bs (enabled_states ?new)) ?kvs"
    by (rule needs_enable_restored [OF dk]) (auto simp: enabled names)
  ultimately have "services_restored ?bs b ?new" unfolding services_restored_def Let_def by blast
  moreover have "service_enabled_now ?new n = service_enabled_now ?cur n" if "Some n = ?bs" for n
  proof -
    from that have "n \<notin> fst ` set ?need" by (auto simp: r5_needs_enable_def)
    then show ?thesis by (simp add: service_enabled_enable_all)
  qed
  ultimately show ?thesis using run names2 by blast
qed

section \<open>The whole plan\<close>

text \<open>
  Conditions under which the simulated commands can restore the host: every owned route is removed by
  its own deletion, some default route outside BOOTMUX is removed by none, the services have distinct
  non-option names, and the captured Wi-Fi settings are complete.
\<close>

definition routes_separable :: "string option \<Rightarrow> route list \<Rightarrow> bool" where
  "routes_separable iface rs \<longleftrightarrow>
     (let owned = filter (route_owned iface) rs in
        list_all (\<lambda>r. list_all (delete_defined r) rs \<and> deletes r r) owned
        \<and> list_ex (\<lambda>d. r_destination d = Some ''default'' \<and> \<not> route_owned iface d
                      \<and> list_all (\<lambda>r. \<not> deletes r d) owned) rs)"

definition repairable :: "fake_host \<Rightarrow> identity \<Rightarrow> baseline \<Rightarrow> bool" where
  "repairable h i b \<longleftrightarrow> fh_run_results h = [] \<and> routes_separable (id_interface i) (fh_routes h)
     \<and> (id_service i = None \<or> truthy (id_service i) \<and> the (id_service i) \<in> set (map s_name (fh_services h)))
     \<and> ipv4_restorable (wifi b) \<and> dns_restorable (wifi b) \<and> services_restorable b (fh_services h)"

definition wifi_matches :: "wifi_block \<Rightarrow> fake_host \<Rightarrow> bool" where
  "wifi_matches w h \<longleftrightarrow> fh_wifi_power h = power w \<and>
     (associated_ssid w \<in> {None, Some ''<redacted>''} \<or> fh_wifi_ssid h = associated_ssid w)"

text \<open>The state R1-R5 lead to.\<close>

definition settled :: "identity \<Rightarrow> baseline \<Rightarrow> fake_host \<Rightarrow> bool" where
  "settled i b h \<longleftrightarrow> list_all (\<lambda>r. \<not> route_owned (id_interface i) r) (fh_routes h)
     \<and> list_ex (\<lambda>d. r_destination d = Some ''default'') (fh_routes h)
     \<and> (id_service i = None \<or> truthy (id_service i) \<and> \<not> service_enabled_now (fh_services h) (the (id_service i)))
     \<and> ipv4_restored (wifi b) (fh_wifi_ipv4 h)
     \<and> dns_entry h (the (service_name (wifi b))) =
         \<lparr>dns_server_list = dns_servers (wifi b), dns_search_list = search_domains (wifi b)\<rparr>
     \<and> services_restored (id_service i) b (fh_services h)"

lemma settled_repaired:
  assumes "settled i b h" "wifi_matches (wifi b) h"
  shows "classify (verify fake_ops h i (Some b)) = ''REPAIRED''"
proof -
  have "list_ex (\<lambda>r. r_destination r = Some ''default'' \<and> \<not> route_owned (id_interface i) r) (fh_routes h)"
    using assms(1) by (auto simp: settled_def list_ex_iff list_all_iff)
  with assms show ?thesis
    unfolding classify_verify_iff verify_all_Some non_bootmux_default_iff Let_def
    by (auto simp: settled_def wifi_matches_def ipv4_restored_def services_restored_def Let_def
        list_ex_iff list_all_iff filter_empty_conv)
qed

lemma settled_quiet:
  assumes "settled i b h" "ipv4_restorable (wifi b)" "dns_restorable (wifi b)"
  shows "commands (build_repair_plan fake_ops h i (Some b)) = []"
proof -
  note s = assms(1) [unfolded settled_def]
  have "commands (plan_r1_routes fake_ops h i) = []"
    using s by (simp add: commands_r1 filter_empty_conv list_all_iff)
  moreover have "commands (plan_r2_service fake_ops h i) = []"
    using s by (auto simp: commands_r2 truthy_def)
  moreover have "commands (plan_r3_ipv4 fake_ops h i (Some b)) = []"
    using s assms(2) by (auto simp: plan_r3_ipv4_def Let_def ipv4_restored_def ipv4_restorable_def)
  moreover have "commands (plan_r4_dns fake_ops h i (Some b)) = []"
    using s assms(3) by (simp add: plan_r4_dns_def Let_def dns_restorable_def)
  moreover have "commands (plan_r5_order fake_ops h i (Some b)) = []"
    using s by (auto simp: commands_r5_Some Let_def services_restored_def list_ex_iff filter_empty_conv)
  ultimately show ?thesis by (simp add: commands_build)
qed

text \<open>Fields that no repair command touches.\<close>

definition same_hardware :: "fake_host \<Rightarrow> fake_host \<Rightarrow> bool" where
  "same_hardware h h' \<longleftrightarrow> fh_usb h' = fh_usb h \<and> fh_interfaces h' = fh_interfaces h \<and> fh_clock h' = fh_clock h
     \<and> fh_run_results h' = fh_run_results h \<and> map s_name (fh_services h') = map s_name (fh_services h)
     \<and> map s_device (fh_services h') = map s_device (fh_services h)"

lemma routes_after_r1:
  assumes "routes_separable iface rs"
  defines "left \<equiv> filter (\<lambda>x. \<not> list_ex (\<lambda>r. deletes r x) (filter (route_owned iface) rs)) rs"
  shows "list_all (\<lambda>r. \<not> route_owned iface r) left" "list_ex (\<lambda>d. r_destination d = Some ''default'') left"
  using assms by (auto simp: routes_separable_def Let_def list_all_iff list_ex_iff)

lemma run_r2:
  assumes "fh_run_results h = []" "fh_services h = fh_services h0"
    "id_service i = None \<or> truthy (id_service i) \<and> the (id_service i) \<in> set (map s_name (fh_services h0))"
  shows "\<exists>svcs. runs_to (commands (plan_r2_service fake_ops h0 i)) h
        (logged (argvs (plan_r2_service fake_ops h0 i)) (h\<lparr>fh_services := svcs\<rparr>))
    \<and> map s_name svcs = map s_name (fh_services h0) \<and> map s_device svcs = map s_device (fh_services h0)
    \<and> ordered_names svcs = ordered_names (fh_services h0)
    \<and> (\<forall>n. Some n \<noteq> id_service i \<longrightarrow>
         map_of (enabled_states svcs) n = map_of (enabled_states (fh_services h0)) n)
    \<and> (id_service i = None \<or> truthy (id_service i) \<and> \<not> service_enabled_now svcs (the (id_service i)))"
proof (cases "truthy (id_service i) \<and> service_enabled_now (fh_services h0) (the (id_service i))")
  case True
  let ?n = "the (id_service i)" and ?svcs = "set_enabled (the (id_service i)) False (fh_services h0)"
  obtain c where c: "commands (plan_r2_service fake_ops h0 i) = [c]"
    "argv c = [''networksetup'', ''-setnetworkserviceenabled'', ?n, if False then ''on'' else ''off'']"
    using True by (simp add: commands_r2)
  have n: "Some ?n = id_service i" "?n \<in> set (map s_name (fh_services h0))"
    using True assms(3) by (auto simp: truthy_iff)
  then obtain s where "find (\<lambda>s. s_name s = ?n) (fh_services h0) = Some s"
    by (cases "find (\<lambda>s. s_name s = ?n) (fh_services h0)") (auto simp: find_None_iff)
  then have "\<not> service_enabled_now ?svcs ?n" by (rule find_set_enabled_same)
  moreover have "\<forall>n. Some n \<noteq> id_service i \<longrightarrow>
      map_of (enabled_states ?svcs) n = map_of (enabled_states (fh_services h0)) n"
    using n(1) by (auto simp: enabled_set_enabled)
  ultimately show ?thesis
    using run_enable [OF assms(1) c(2)] c(1) True assms(2)
    by (intro exI [of _ ?svcs]) (simp add: argvs_def)
next
  case False
  then have "commands (plan_r2_service fake_ops h0 i) = []" by (simp add: commands_r2)
  moreover have "h\<lparr>fh_services := fh_services h0\<rparr> = h" using assms(2) by simp
  ultimately show ?thesis
    using False assms(3) by (intro exI [of _ "fh_services h0"]) (auto simp: argvs_def)
qed

lemma run_plan:
  assumes "repairable h i b"
  shows "\<exists>h'. runs_to (commands (build_repair_plan fake_ops h i (Some b))) h h' \<and> settled i b h'
    \<and> same_hardware h h' \<and> fh_wifi_power h' = fh_wifi_power h \<and> fh_wifi_ssid h' = fh_wifi_ssid h"
proof -
  note ok = assms [unfolded repairable_def]
  let ?owned = "filter (route_owned (id_interface i)) (fh_routes h)"
  let ?left = "filter (\<lambda>x. \<not> list_ex (\<lambda>r. deletes r x) ?owned) (fh_routes h)"
  define h1 where "h1 = logged (map r1_argv ?owned) (h\<lparr>fh_routes := ?left\<rparr>)"
  have r1: "runs_to (commands (plan_r1_routes fake_ops h i)) h h1"
    using run_r1 [of h ?owned] ok
    by (simp add: commands_r1 h1_def routes_separable_def Let_def list_all_iff)
  obtain s2 where s2: "runs_to (commands (plan_r2_service fake_ops h i)) h1
        (logged (argvs (plan_r2_service fake_ops h i)) (h1\<lparr>fh_services := s2\<rparr>))"
    "map s_name s2 = map s_name (fh_services h)" "map s_device s2 = map s_device (fh_services h)"
    "ordered_names s2 = ordered_names (fh_services h)"
    "\<And>n. Some n \<noteq> id_service i \<Longrightarrow> map_of (enabled_states s2) n = map_of (enabled_states (fh_services h)) n"
    "id_service i = None \<or> truthy (id_service i) \<and> \<not> service_enabled_now s2 (the (id_service i))"
    using run_r2 [of h1 h i] ok unfolding h1_def by auto
  define h2 where "h2 = logged (argvs (plan_r2_service fake_ops h i)) (h1\<lparr>fh_services := s2\<rparr>)"
  obtain v where v: "ipv4_restored (wifi b) v" "runs_to (commands (plan_r3_ipv4 fake_ops h i (Some b))) h2
      (logged (argvs (plan_r3_ipv4 fake_ops h i (Some b))) (h2\<lparr>fh_wifi_ipv4 := v\<rparr>))"
    using run_r3 [of h2 h b i] ok by (auto simp: h2_def h1_def)
  define h3 where "h3 = logged (argvs (plan_r3_ipv4 fake_ops h i (Some b))) (h2\<lparr>fh_wifi_ipv4 := v\<rparr>)"
  obtain d where d: "dns_entry (h3\<lparr>fh_dns := d\<rparr>) (the (service_name (wifi b))) =
      \<lparr>dns_server_list = dns_servers (wifi b), dns_search_list = search_domains (wifi b)\<rparr>"
    "runs_to (commands (plan_r4_dns fake_ops h i (Some b))) h3
      (logged (argvs (plan_r4_dns fake_ops h i (Some b))) (h3\<lparr>fh_dns := d\<rparr>))"
    using run_r4 [of h3 h b i] ok by (auto simp: h3_def h2_def h1_def)
  define h4 where "h4 = logged (argvs (plan_r4_dns fake_ops h i (Some b))) (h3\<lparr>fh_dns := d\<rparr>)"
  have f4: "fh_services h4 = s2" "fh_run_results h4 = []"
    using ok by (simp_all add: h4_def h3_def h2_def h1_def)
  obtain s5 where s5: "services_restored (id_service i) b s5" "map s_name s5 = map s_name s2"
    "map s_device s5 = map s_device s2"
    "\<And>n. Some n = id_service i \<Longrightarrow> service_enabled_now s5 n = service_enabled_now s2 n"
    "runs_to (commands (plan_r5_order fake_ops h i (Some b))) h4
      (logged (argvs (plan_r5_order fake_ops h i (Some b))) (h4\<lparr>fh_services := s5\<rparr>))"
    using run_r5 [of h4 h i b] f4 s2(2-5) ok by auto
  define h5 where "h5 = logged (argvs (plan_r5_order fake_ops h i (Some b))) (h4\<lparr>fh_services := s5\<rparr>)"
  have "runs_to (commands (build_repair_plan fake_ops h i (Some b))) h h5"
    unfolding commands_build
    by (intro runs_to_append [OF r1] runs_to_append [OF s2(1) [folded h2_def]]
        runs_to_append [OF v(2) [folded h3_def]] runs_to_append [OF d(2) [folded h4_def]] s5(5) [folded h5_def])
  moreover have "dns_entry h5 (the (service_name (wifi b))) =
      \<lparr>dns_server_list = dns_servers (wifi b), dns_search_list = search_domains (wifi b)\<rparr>"
    using d(1) by (simp add: h5_def h4_def dns_entry_def)
  then have "settled i b h5"
    using routes_after_r1 [of "id_interface i" "fh_routes h"] ok s2(6) s5(1,4) v(1)
    by (auto simp: settled_def h5_def h4_def h3_def h2_def h1_def truthy_iff)
  moreover have "same_hardware h h5" "fh_wifi_power h5 = fh_wifi_power h" "fh_wifi_ssid h5 = fh_wifi_ssid h"
    using s2(2,3) s5(2,3) by (simp_all add: same_hardware_def h5_def h4_def h3_def h2_def h1_def)
  ultimately show ?thesis by blast
qed

section \<open>The Wi-Fi toggle\<close>

definition wifi_recoverable :: "wifi_block \<Rightarrow> real \<Rightarrow> real option \<Rightarrow> bool" where
  "wifi_recoverable w t l \<longleftrightarrow> power w = Some True \<and> associated_ssid w \<noteq> Some []
     \<and> list_all plain (the (hardware_device w) # (case associated_ssid w of None \<Rightarrow> [] | Some s \<Rightarrow> [s]))
     \<and> (case l of None \<Rightarrow> True | Some l \<Rightarrow> WIFI_TOGGLE_COOLDOWN_SECONDS \<le> t - l)"

lemma simulate_power:
  "list_all plain vs \<Longrightarrow> simulate (''networksetup'' # ''-setairportpower'' # vs) h =
     bindE (arg_last 1 (''networksetup'' # ''-setairportpower'' # vs)) (\<lambda>p. Inr (h\<lparr>fh_wifi_power := Some (p = ''on'')\<rparr>))"
  by (simp add: simulate_def simulate_networksetup_def plain_list_verbs)

lemma simulate_join:
  "list_all plain vs \<Longrightarrow> simulate (''networksetup'' # ''-setairportnetwork'' # vs) h =
     bindE (arg_last 1 (''networksetup'' # ''-setairportnetwork'' # vs)) (\<lambda>n. Inr (h\<lparr>fh_wifi_ssid := Some n\<rparr>))"
  by (simp add: simulate_def simulate_networksetup_def plain_list_verbs)

lemma plain_on_off: "plain ''on''" "plain ''off''"
  by (simp_all add: plain_def NETWORKSETUP_VERBS_def)

lemma run_power:
  assumes "fh_run_results h = []" "plain dev"
    "argv c = [''networksetup'', ''-setairportpower'', dev, if on then ''on'' else ''off'']"
  shows "runs_to [c] h (logged [argv c] (h\<lparr>fh_wifi_power := Some on\<rparr>))"
proof -
  have "list_all plain [dev, if on then ''on'' else ''off'']" using assms(2) plain_on_off by simp
  from simulate_power [OF this] show ?thesis
    using assms by (intro runs_to_step) (simp_all add: arg_last_def, simp add: logged_def)
qed

lemma run_join:
  assumes "fh_run_results h = []" "list_all plain [dev, ssid]"
    "argv c = [''networksetup'', ''-setairportnetwork'', dev, ssid]"
  shows "runs_to [c] h (logged [argv c] (h\<lparr>fh_wifi_ssid := Some ssid\<rparr>))"
  using assms simulate_join [OF assms(2)]
  by (intro runs_to_step) (simp_all add: arg_last_def, simp add: logged_def)

lemma run_toggle:
  assumes h: "fh_run_results h = []" and rec: "wifi_recoverable (wifi b) t l"
    and dev: "truthy (hardware_device (wifi b))"
  shows "commands (build_wifi_toggle_plan fake_ops h0 (Some b) t l) \<noteq> [] \<and>
    (\<exists>avs ssid. associated_ssid (wifi b) \<in> {None, ssid} \<and>
       runs_to (commands (build_wifi_toggle_plan fake_ops h0 (Some b) t l)) h
         (logged avs (h\<lparr>fh_wifi_power := Some True, fh_wifi_ssid := ssid\<rparr>)))"
proof -
  let ?dev = "the (hardware_device (wifi b))"
  let ?off = "toggle_command [''networksetup'', ''-setairportpower'', ?dev, ''off''] (''power off '' @ ?dev) ?dev"
  let ?on = "toggle_command [''networksetup'', ''-setairportpower'', ?dev, ''on''] (''power on '' @ ?dev) ?dev"
  let ?join = "toggle_command [''networksetup'', ''-setairportnetwork'', ?dev, the (associated_ssid (wifi b))]
    ''rejoin captured SSID using saved credentials'' ?dev"
  have cs: "commands (build_wifi_toggle_plan fake_ops h0 (Some b) t l) =
      [?off] @ [?on] @ (if truthy (associated_ssid (wifi b)) then [?join] else [])"
    using rec dev by (auto simp: build_wifi_toggle_plan_def wifi_recoverable_def Let_def split: option.splits)
  have pdev: "plain ?dev" using rec by (simp add: wifi_recoverable_def)
  have off: "runs_to [?off] h (logged [argv ?off] (h\<lparr>fh_wifi_power := Some False\<rparr>))" (is "runs_to _ _ ?h1")
    by (rule run_power [OF h pdev]) (simp add: toggle_command_def)
  have on: "runs_to [?on] ?h1 (logged [argv ?on] (?h1\<lparr>fh_wifi_power := Some True\<rparr>))" (is "runs_to _ _ ?h2")
    by (rule run_power [OF _ pdev]) (simp_all add: h toggle_command_def)
  show ?thesis
  proof (cases "associated_ssid (wifi b)")
    case None
    with cs runs_to_append [OF off on] show ?thesis
      by (auto simp: truthy_def logged_def
          intro!: exI [of _ "[argv ?off, argv ?on]"] exI [of _ "fh_wifi_ssid h"])
  next
    case (Some x)
    with rec have x: "x \<noteq> []" "list_all plain [?dev, x]" by (simp_all add: wifi_recoverable_def)
    have "runs_to [?join] ?h2 (logged [argv ?join] (?h2\<lparr>fh_wifi_ssid := Some x\<rparr>))"
      by (rule run_join [OF _ x(2)]) (simp_all add: h toggle_command_def Some)
    from runs_to_append [OF off runs_to_append [OF on this]] cs Some x(1) show ?thesis
      by (auto simp: truthy_def logged_def
          intro!: exI [of _ "[argv ?off, argv ?on, argv ?join]"] exI [of _ "Some x"])
  qed
qed

section \<open>The identity after a repair\<close>

lemma service_for_interface_zip:
  "service_for_interface svcs n = map_of (zip (map s_device svcs) (map s_name svcs)) (Some n)"
  by (induction svcs) (simp_all add: service_for_interface_def)

lemma same_hardware_identity:
  assumes "same_hardware h h'"
  defines "i \<equiv> prove_identity fake_ops h" and "i' \<equiv> prove_identity fake_ops h'"
  shows "id_interface i' = id_interface i" "id_service i' = id_service i" "ambiguous i' = ambiguous i"
proof -
  from assms(1) have svc: "service_for_interface (fh_services h') = service_for_interface (fh_services h)"
    by (simp add: fun_eq_iff service_for_interface_zip same_hardware_def)
  have "id_interface i' = id_interface i \<and> id_service i' = id_service i \<and> ambiguous i' = ambiguous i"
  proof (cases fake_ops h rule: prove_identity_cases)
    case absent
    with assms(1) have "filter iface_in_bootmux_net (interfaces fake_ops h') = []" by (simp add: same_hardware_def)
    with absent show ?thesis by (simp add: i_def i'_def prove_identity_absent)
  next
    case (one j)
    with assms(1) have one': "filter iface_in_bootmux_net (interfaces fake_ops h') = [j]" by (simp add: same_hardware_def)
    show ?thesis
      using prove_identity_one(2-4) [OF one] prove_identity_one(2-4) [OF one'] svc assms(1)
      by (simp add: i_def i'_def same_hardware_def)
  next
    case (many j k "is")
    with assms(1) have many': "filter iface_in_bootmux_net (interfaces fake_ops h') = j # k # is" by (simp add: same_hardware_def)
    show ?thesis using prove_identity_many [OF many] prove_identity_many [OF many'] by (simp add: i_def i'_def)
  qed
  then show "id_interface i' = id_interface i" "id_service i' = id_service i" "ambiguous i' = ambiguous i" by simp_all
qed

lemma settled_cong:
  "id_interface i' = id_interface i \<Longrightarrow> id_service i' = id_service i \<Longrightarrow> settled i' b h = settled i b h"
  by (simp add: settled_def)

section \<open>One repair converges\<close>

lemma runs_to_execute:
  "runs_to (commands p) h h' \<Longrightarrow>
   execute_plan fake_ops p h = Inr (\<lparr>executed = commands p, failures = [], exec_ok = True\<rparr>, h')"
  by (simp add: runs_to_def execute_plan_def empty_execution_def)

lemma not_matching_not_repaired:
  assumes "\<not> wifi_matches (wifi b) h" "truthy (hardware_device (wifi b))"
  shows "classify (verify fake_ops h i (Some b)) \<noteq> ''REPAIRED''"
  using assms unfolding classify_verify_iff verify_all_Some Let_def by (auto simp: wifi_matches_def)

lemma settled_wifi:
  "settled i b (logged avs (h\<lparr>fh_wifi_power := p, fh_wifi_ssid := s\<rparr>)) = settled i b h"
  by (simp add: settled_def dns_entry_def)

lemma repair_with_converges:
  assumes "repairable h i b" "wifi_matches (wifi b) h \<or> wifi_recoverable (wifi b) t l"
  shows "\<exists>r h'. repair_with fake_ops i (Some b) t l h = Inr (r, h') \<and> rep_classification r = ''REPAIRED''
    \<and> rep_toggled r = (\<not> wifi_matches (wifi b) h)
    \<and> settled i b h' \<and> wifi_matches (wifi b) h' \<and> same_hardware h h'"
proof -
  have dev: "truthy (hardware_device (wifi b))"
    using assms(1) by (simp add: repairable_def ipv4_restorable_def)
  obtain h1 where h1: "runs_to (commands (build_repair_plan fake_ops h i (Some b))) h h1" "settled i b h1"
    "same_hardware h h1" "fh_wifi_power h1 = fh_wifi_power h" "fh_wifi_ssid h1 = fh_wifi_ssid h"
    using run_plan [OF assms(1)] by blast
  have wm: "wifi_matches (wifi b) h1 = wifi_matches (wifi b) h" using h1 by (simp add: wifi_matches_def)
  show ?thesis
  proof (cases "wifi_matches (wifi b) h")
    case True
    with settled_repaired [OF h1(2)] wm runs_to_execute [OF h1(1)] h1 show ?thesis
      by (simp add: repair_with_def Let_def base_report_def)
  next
    case False
    with assms(2) have rec: "wifi_recoverable (wifi b) t l" by simp
    have "fh_run_results h1 = []" using assms(1) h1(3) by (simp add: repairable_def same_hardware_def)
    then obtain avs ssid where tp: "commands (build_wifi_toggle_plan fake_ops h1 (Some b) t l) \<noteq> []"
      and ssid: "associated_ssid (wifi b) \<in> {None, ssid}"
      and run: "runs_to (commands (build_wifi_toggle_plan fake_ops h1 (Some b) t l)) h1
         (logged avs (h1\<lparr>fh_wifi_power := Some True, fh_wifi_ssid := ssid\<rparr>))" (is "runs_to _ _ ?h2")
      using run_toggle [OF _ rec dev, of h1 h1] by blast
    have m: "wifi_matches (wifi b) ?h2" using ssid rec by (auto simp: wifi_matches_def wifi_recoverable_def)
    have s: "settled i b ?h2" using h1(2) by (simp only: settled_wifi)
    have "classify (verify fake_ops h1 i (Some b)) \<noteq> ''REPAIRED''"
      using False wm dev by (intro not_matching_not_repaired) simp_all
    with settled_repaired [OF s m] runs_to_execute [OF h1(1)] runs_to_execute [OF run] tp False s m h1(3)
    show ?thesis by (simp add: repair_with_def Let_def base_report_def same_hardware_def)
  qed
qed

section \<open>Properties\<close>

text \<open>
  C1. The repair works: on a host whose commands have the simulated effect, with an unambiguous
  identity, a readable baseline and restorable state, one repair returns and its verdict is REPAIRED;
  it toggles Wi-Fi exactly when power or network name differ from the baseline, and the commands issued
  are exactly those of the reported plans.
\<close>

theorem repair_converges:
  assumes "\<not> ambiguous (prove_identity fake_ops h)" and "read_validated st = Inr (Some b)"
    and "repairable h (prove_identity fake_ops h) b"
    and "wifi_matches (wifi b) h \<or> wifi_recoverable (wifi b) t l"
  shows "\<exists>r h'. repair_once fake_ops st (Some t) l h = Inr (r, h')
           \<and> rep_classification r = ''REPAIRED''
           \<and> rep_toggled r = (\<not> wifi_matches (wifi b) h)
           \<and> fh_commands h' = fh_commands h @ issued r"
  using repair_with_converges [OF assms(3,4)] repair_once_run [OF assms(1,2), of "Some t" l]
    fake.repair_once_log [of st "Some t" l h]
  by auto

text \<open>
  C2. The repair is idempotent: a second repair right after a converged one, at any later time and
  whatever the toggle cooldown says, issues no command, changes nothing and reports REPAIRED.
\<close>

theorem repair_idempotent:
  assumes "\<not> ambiguous (prove_identity fake_ops h)" and "read_validated st = Inr (Some b)"
    and "repairable h (prove_identity fake_ops h) b"
    and "wifi_matches (wifi b) h \<or> wifi_recoverable (wifi b) t l"
    and "repair_once fake_ops st (Some t) l h = Inr (r, h')"
  shows "\<exists>r2. repair_once fake_ops st (Some t2) l2 h' = Inr (r2, h')
           \<and> rep_classification r2 = ''REPAIRED'' \<and> issued r2 = []"
proof -
  let ?i = "prove_identity fake_ops h" and ?j = "prove_identity fake_ops h'"
  from repair_with_converges [OF assms(3,4)] repair_once_run [OF assms(1,2), of "Some t" l] assms(5)
  have h': "settled ?i b h'" "wifi_matches (wifi b) h'" "same_hardware h h'" by auto
  note id = same_hardware_identity [OF h'(3)]
  have s: "settled ?j b h'" using h'(1) settled_cong [OF id(1,2)] by simp
  have "commands (build_repair_plan fake_ops h' ?j (Some b)) = []"
    using assms(3) by (intro settled_quiet [OF s]) (simp_all add: repairable_def)
  from execute_empty_plan [OF this, of fake_ops h'] this settled_repaired [OF s h'(2)]
  have "\<exists>r2. repair_with fake_ops ?j (Some b) t2 l2 h' = Inr (r2, h')
      \<and> rep_classification r2 = ''REPAIRED'' \<and> issued r2 = []"
    by (simp add: repair_with_def Let_def base_report_def issued_def argvs_def)
  then show ?thesis using repair_once_run [of fake_ops h' st "Some b" "Some t2" l2] id(3) assms(1,2) by simp
qed

end
