(* ===== verification/Guardian_Trace.thy ===== *)
theory Guardian_Trace
  imports Guardian_FakeHost
begin

text \<open>
  The daemon over time: a step relation in which the daemon ticks and the world (host and state
  directory) changes between ticks, with the history of the tick reports; invariants of every
  reachable state by rule induction; and the properties of the daemon that they give.
\<close>

section \<open>The step relation\<close>

record 'h daemon =
  d_guardian :: guardian
  d_host :: 'h
  d_store :: state_store
  d_history :: "tick_report list"

inductive daemon_step :: "'h host_ops \<Rightarrow> 'h daemon \<Rightarrow> 'h daemon \<Rightarrow> bool" for ops where
  Tick: "tick ops env1 env2 (d_guardian d) (d_host d) (d_store d) = Inr (rep, g', h', st') \<Longrightarrow>
    daemon_step ops d \<lparr>d_guardian = g', d_host = h', d_store = st', d_history = d_history d @ [rep]\<rparr>"
| World: "daemon_step ops d (d\<lparr>d_host := h', d_store := st'\<rparr>)"

inductive daemon_reachable :: "'h host_ops \<Rightarrow> 'h daemon \<Rightarrow> bool" for ops where
  Init: "daemon_reachable ops \<lparr>d_guardian = guardian_init, d_host = h, d_store = st, d_history = []\<rparr>"
| Step: "daemon_reachable ops d \<Longrightarrow> daemon_step ops d d' \<Longrightarrow> daemon_reachable ops d'"

inductive_cases daemon_stepE: "daemon_step ops d d'"

text \<open>The bounded loop is a path of this relation.\<close>

lemma run_daemon_reachable:
  assumes "run_daemon n ops sleep env1 env2 g h st = Inr (reps, g', h', st')"
    and "daemon_reachable ops \<lparr>d_guardian = g, d_host = h, d_store = st, d_history = hist\<rparr>"
  shows "daemon_reachable ops \<lparr>d_guardian = g', d_host = h', d_store = st', d_history = hist @ reps\<rparr>
       \<and> length reps = n"
  using assms
proof (induction n arbitrary: g h st hist reps)
  case (Suc n)
  from Suc.prems(1) obtain rep g1 h1 st1 h2 st2 reps' where
    t: "tick ops env1 env2 g h st = Inr (rep, g1, h1, st1)"
    and s: "sleep (poll_interval g1) (h1, st1) = (h2, st2)"
    and r: "run_daemon n ops sleep env1 env2 g1 h2 st2 = Inr (reps', g', h', st')"
    and reps: "reps = rep # reps'"
    by (auto simp: bindE_Inr_iff split: prod.splits) (metis surj_pair)
  let ?d1 = "\<lparr>d_guardian = g1, d_host = h1, d_store = st1, d_history = hist @ [rep]\<rparr>"
  have "daemon_reachable ops ?d1"
    using daemon_reachable.Step [OF Suc.prems(2)] daemon_step.Tick [where d = "\<lparr>d_guardian = g, d_host = h, d_store = st, d_history = hist\<rparr>"] t
    by (metis (no_types, lifting) daemon.select_convs)
  from daemon_reachable.Step [OF this daemon_step.World [where d = ?d1 and h' = h2 and st' = st2]]
  have "daemon_reachable ops \<lparr>d_guardian = g1, d_host = h2, d_store = st2, d_history = hist @ [rep]\<rparr>"
    by simp
  from Suc.IH [OF r this] show ?case by (simp add: reps)
qed simp

section \<open>Since when\<close>

text \<open>
  \<open>lasting first ok s hist\<close>: the history ends in a run of ticks that satisfy \<open>ok\<close>, the first of which
  was at time \<open>s\<close> and satisfies \<open>first\<close>.
\<close>

definition lasting ::
    "(tick_report \<Rightarrow> bool) \<Rightarrow> (tick_report \<Rightarrow> bool) \<Rightarrow> real \<Rightarrow> tick_report list \<Rightarrow> bool" where
  "lasting first ok s hist \<longleftrightarrow>
     (\<exists>pre r0 rest. hist = pre @ r0 # rest \<and> t_time r0 = s \<and> first r0 \<and> list_all ok (r0 # rest))"

lemma lasting_new: "first r \<Longrightarrow> ok r \<Longrightarrow> lasting first ok (t_time r) (hist @ [r])"
  unfolding lasting_def by (intro exI [of _ hist] exI [of _ r] exI [of _ "[]"]) simp

lemma lasting_snoc:
  assumes "lasting first ok s hist" "ok r"
  shows "lasting first ok s (hist @ [r])"
proof -
  from assms(1) obtain pre r0 rest where "hist = pre @ r0 # rest" "t_time r0 = s" "first r0"
    "list_all ok (r0 # rest)"
    unfolding lasting_def by blast
  with assms(2) show ?thesis
    unfolding lasting_def by (intro exI [of _ pre] exI [of _ r0] exI [of _ "rest @ [r]"]) simp
qed

definition failing_tick :: "tick_report \<Rightarrow> bool" where
  "failing_tick r = (t_repair r = None \<and> t_action r = ''heartbeat_failing'')"

definition closed_tick :: "tick_report \<Rightarrow> bool" where
  "closed_tick r = (t_repair r = None \<and> t_action r = ''fail_closed'')"

definition audit_tick :: "tick_report \<Rightarrow> bool" where
  "audit_tick r = (t_repair r = None \<and> t_action r = ''audit_only'')"

definition idle_tick :: "tick_report \<Rightarrow> bool" where
  "idle_tick r = (t_repair r = None
     \<and> t_action r \<in> {''monitoring_idle'', ''stable_but_not_clean'', ''baseline_captured''})"

definition toggle_times :: "tick_report list \<Rightarrow> real list" where
  "toggle_times hist =
     map t_time (filter (\<lambda>r. case t_repair r of None \<Rightarrow> False | Some rr \<Rightarrow> rep_toggled rr) hist)"

lemma toggle_times_snoc [simp]:
  "toggle_times (hist @ [r]) = toggle_times hist @
     (case t_repair r of None \<Rightarrow> [] | Some rr \<Rightarrow> if rep_toggled rr then [t_time r] else [])"
  by (simp add: toggle_times_def split: option.split)

lemma tick_report_init_simps [simp]:
  "t_time (tick_report_init ops h g) = now ops h" "t_repair (tick_report_init ops h g) = None"
  "t_time (repair_tick_report rep reason r) = t_time rep" "t_repair (repair_tick_report rep reason r) = Some r"
  by (simp_all add: tick_report_init_def repair_tick_report_def)

section \<open>Invariants\<close>

definition spaced :: "guardian \<Rightarrow> tick_report list \<Rightarrow> bool" where
  "spaced g hist \<longleftrightarrow>
     successively (\<lambda>a b. WIFI_TOGGLE_COOLDOWN_SECONDS \<le> b - a) (toggle_times hist)
     \<and> last_wifi_toggle_at g = (if toggle_times hist = [] then None else Some (last (toggle_times hist)))"

definition since_ok :: "guardian \<Rightarrow> tick_report list \<Rightarrow> bool" where
  "since_ok g hist \<longleftrightarrow>
     (\<forall>s. heartbeat_fail_since g = Some s \<longrightarrow>
        lasting failing_tick (\<lambda>r. failing_tick r \<or> closed_tick r) s hist)
     \<and> (\<forall>s. stable_since g = Some s \<longrightarrow>
        lasting idle_tick (\<lambda>r. idle_tick r \<or> audit_tick r \<or> closed_tick r) s hist)"

definition same_settings :: "guardian \<Rightarrow> guardian \<Rightarrow> bool" where
  "same_settings g g' \<longleftrightarrow> stability_seconds g' = stability_seconds g
     \<and> heartbeat_fail_seconds g' = heartbeat_fail_seconds g
     \<and> idle_poll g' = idle_poll g \<and> attached_poll g' = attached_poll g"

lemma tick_same_settings:
  assumes "tick ops env1 env2 g h st = Inr (rep, g', h', st')"
  shows "same_settings g g'"
  using assms by (elim tick_cases tick_attached_cases tick_idle_cases) (simp_all add: same_settings_def)

lemma spaced_repair:
  assumes "spaced g hist" "repair_once ops st (Some t) (last_wifi_toggle_at g) h = Inr (r, h')"
    "t_repair rep = Some r" "t_time rep = t"
    "last_wifi_toggle_at g' = (if rep_toggled r then Some t else last_wifi_toggle_at g)"
  shows "spaced g' (hist @ [rep])"
proof (cases "rep_toggled r \<and> toggle_times hist \<noteq> []")
  case True
  then have "last_wifi_toggle_at g = Some (last (toggle_times hist))"
    using assms(1) by (simp add: spaced_def)
  then have "WIFI_TOGGLE_COOLDOWN_SECONDS \<le> t - last (toggle_times hist)"
    using repair_once_toggle_cooldown assms(2) True by metis
  with True assms show ?thesis by (simp add: spaced_def successively_append_iff)
next
  case False
  with assms show ?thesis by (auto simp: spaced_def)
qed

lemma spaced_no_repair:
  "spaced g hist \<Longrightarrow> t_repair rep = None \<Longrightarrow> last_wifi_toggle_at g' = last_wifi_toggle_at g \<Longrightarrow>
   spaced g' (hist @ [rep])"
  by (simp add: spaced_def)

lemma tick_spaced:
  assumes "tick ops env1 env2 g h st = Inr (rep, g', h', st')" "spaced g hist"
  shows "spaced g' (hist @ [rep])"
  using assms
proof (elim tick_cases tick_attached_cases tick_idle_cases)
qed (auto intro: spaced_no_repair spaced_repair)

lemma since_ok_keep:
  "since_ok g hist \<Longrightarrow> closed_tick rep \<Longrightarrow> heartbeat_fail_since g' = heartbeat_fail_since g \<Longrightarrow>
   stable_since g' = stable_since g \<Longrightarrow> since_ok g' (hist @ [rep])"
  by (auto simp: since_ok_def intro: lasting_snoc)

lemma since_ok_audit:
  "since_ok g hist \<Longrightarrow> audit_tick rep \<Longrightarrow> heartbeat_fail_since g' = None \<Longrightarrow>
   stable_since g' = stable_since g \<Longrightarrow> since_ok g' (hist @ [rep])"
  by (auto simp: since_ok_def intro: lasting_snoc)

lemma since_ok_reset:
  "heartbeat_fail_since g' = None \<Longrightarrow> stable_since g' = None \<Longrightarrow> since_ok g' hist"
  by (simp add: since_ok_def)

lemma since_ok_failing:
  assumes "since_ok g hist" "failing_tick rep" "stable_since g' = None"
    "heartbeat_fail_since g' = Some (case heartbeat_fail_since g of None \<Rightarrow> t_time rep | Some s \<Rightarrow> s)"
  shows "since_ok g' (hist @ [rep])"
  using assms by (cases "heartbeat_fail_since g") (auto simp: since_ok_def intro: lasting_new lasting_snoc)

lemma since_ok_idle:
  assumes "since_ok g hist" "idle_tick rep" "heartbeat_fail_since g' = None"
    "stable_since g' = Some (case stable_since g of None \<Rightarrow> t_time rep | Some s \<Rightarrow> s)"
  shows "since_ok g' (hist @ [rep])"
  using assms by (cases "stable_since g") (auto simp: since_ok_def intro: lasting_new lasting_snoc)

lemma tick_since_ok:
  assumes "tick ops env1 env2 g h st = Inr (rep, g', h', st')" "since_ok g hist"
  shows "since_ok g' (hist @ [rep])"
  using assms(1)
proof (cases rule: tick_cases)
  case (closed msg)
  then show ?thesis by (intro since_ok_keep [OF assms(2)]) (simp_all add: closed_tick_def)
next
  case attached
  from attached(4) show ?thesis
  proof (cases rule: tick_attached_cases)
    case (failing s)
    then show ?thesis by (intro since_ok_failing [OF assms(2)]) (simp_all add: failing_tick_def split: option.split)
  qed (auto intro: since_ok_reset)
next
  case audit
  then show ?thesis by (intro since_ok_audit [OF assms(2)]) (simp_all add: audit_tick_def)
next
  case (stale reason r)
  then show ?thesis by (auto intro: since_ok_reset)
next
  case idle
  from idle(6) show ?thesis
  proof (cases rule: tick_idle_cases)
    case (1 s ob)
    then have "idle_tick rep" "t_time rep = now ops h" by (auto simp: idle_tick_def)
    with 1 show ?thesis by (intro since_ok_idle [OF assms(2)]) (simp_all split: option.split)
  qed
qed

definition daemon_inv :: "'h daemon \<Rightarrow> bool" where
  "daemon_inv d \<longleftrightarrow> same_settings guardian_init (d_guardian d)
     \<and> spaced (d_guardian d) (d_history d) \<and> since_ok (d_guardian d) (d_history d)"

lemma same_settings_trans: "same_settings a b \<Longrightarrow> same_settings b c \<Longrightarrow> same_settings a c"
  by (simp add: same_settings_def)

lemma daemon_inv_step: "daemon_inv d \<Longrightarrow> daemon_step ops d d' \<Longrightarrow> daemon_inv d'"
  by (erule daemon_stepE)
     (auto simp: daemon_inv_def dest: tick_same_settings tick_spaced tick_since_ok intro: same_settings_trans)

lemma reachable_inv: "daemon_reachable ops d \<Longrightarrow> daemon_inv d"
proof (induction rule: daemon_reachable.induct)
  case (Init h st)
  then show ?case
    by (simp add: daemon_inv_def same_settings_def spaced_def since_ok_def toggle_times_def guardian_init_def)
next
  case (Step d d')
  then show ?case by (blast intro: daemon_inv_step)
qed

section \<open>Reading back what was captured\<close>

lemma write_baseline_read_back:
  assumes "store_ready st"
    "write_baseline (state_tmp rnd1 PreviousFile) (state_tmp rnd2 BaselineFile) b True st = (Inr (), st')"
  shows "load st' STATE_BASELINE = Inr (Some b)"
proof (cases "load st STATE_BASELINE")
  case (Inl e)
  with assms(2) show ?thesis by (simp add: write_baseline_def)
next
  case (Inr x)
  show ?thesis
  proof (cases x)
    case None
    with Inr assms write_baseline_first [OF assms(1)] state_files.get_put_same [OF assms(1), of rnd2 BaselineFile b]
    show ?thesis by simp
  next
    case (Some old)
    with Inr assms write_baseline_put_state [OF assms(1)]
      state_files.rotate(1) [OF assms(1), of BaselineFile PreviousFile rnd2 b rnd1 old]
    show ?thesis by simp
  qed
qed

lemma capture_baseline_schema:
  "schema_version (capture_baseline ops h) = Some SCHEMA_VERSION" "other_keys (capture_baseline ops h) = []"
  by (simp_all add: capture_baseline_def)

lemma tick_captures:
  assumes "tick ops env1 env2 g h st = Inr (rep, g', h', st')" "t_action rep = ''baseline_captured''"
    "t_repair rep = None"
  shows "write_baseline env1 env2 (capture_baseline ops h) True st = (Inr (), st')
       \<and> host_is_clean ops h (prove_identity ops h) \<and> existing_baseline st = Inr None"
  using assms(1)
proof (cases rule: tick_cases)
  case attached
  from attached(4) assms(2,3) show ?thesis by (cases rule: tick_attached_cases) simp_all
next
  case idle
  from idle(6) assms(2) show ?thesis by (cases rule: tick_idle_cases) auto
qed (use assms(2,3) in simp_all)

lemma audit_keeps_stable_since:
  assumes "tick ops env1 env2 g h st = Inr (rep, g', h', st')" "ambiguous (prove_identity ops h)"
  shows "stable_since g' = stable_since g"
  using assms(1) by (cases rule: tick_cases) (use assms(2) in simp_all)

section \<open>Properties\<close>

text \<open>
  C6. A tick leaves the host alone unless the state store is valid, the identity is not ambiguous and
  there is a reason to repair: a proven interface whose heartbeat has been lost for the configured
  time, or a BOOTMUX gateway route or a vanished BOOTMUX device with no BOOTMUX interface left. In
  particular a store error, an ambiguous identity and a device without a BOOTMUX network interface
  and route are complete no-ops.
\<close>

theorem tick_mutates_only_when:
  assumes "tick ops env1 env2 g h st = Inr (rep, g', h', st')" and "h' \<noteq> h"
    and "0 < heartbeat_fail_seconds g"
  shows "store_valid st = Inr None \<and> \<not> ambiguous (prove_identity ops h) \<and>
    (if proven (prove_identity ops h)
     then \<not> heartbeat ops BOOTMUX_PEER h \<and>
          (\<exists>s. heartbeat_fail_since g = Some s \<and> heartbeat_fail_seconds g \<le> now ops h - s)
     else filter iface_in_bootmux_net (interfaces ops h) = [] \<and>
          (stale_route ops h \<or> was_attached g \<and> \<not> usb_vid_pid_present (usb_devices ops h)))"
  using assms(1)
proof (cases rule: tick_cases)
  case attached
  from attached(4) show ?thesis
  proof (cases rule: tick_attached_cases)
    case (lost s r)
    with assms(3) have "heartbeat_fail_since g = Some s" by (auto split: option.splits)
    with lost attached show ?thesis by auto
  qed (use assms(2) in simp_all)
next
  case (stale reason r)
  then show ?thesis using not_proven_not_ambiguous_absent [of ops h] by auto
next
  case idle
  from idle(6) show ?thesis by (cases rule: tick_idle_cases) (use assms(2) in simp)
qed (use assms(2) in simp_all)


text \<open>
  C4. No power-cycle loop: in every run of the daemon, any two consecutive Wi-Fi toggles are at least
  120 seconds apart.
\<close>

theorem wifi_toggles_spaced:
  assumes "daemon_reachable ops d"
  shows "successively (\<lambda>a b. WIFI_TOGGLE_COOLDOWN_SECONDS \<le> b - a) (toggle_times (d_history d))"
  using reachable_inv [OF assms] by (simp add: daemon_inv_def spaced_def)




text \<open>
  A baseline file that is not valid JSON is not handled by the fail-closed path: the decoding error
  escapes from the repair, so no plan is built and nothing is repaired.
\<close>

lemma corrupt_baseline_escapes:
  assumes "store_entry st STATE_BASELINE = Some n" and "n_exists n" and "n_content n = Corrupt"
    and "validate_dir st = Inr ()" and "validate_file st (store_path st STATE_BASELINE) n = Inr ()"
    and "\<not> ambiguous (prove_identity ops h)"
  shows "repair_once ops st t l h = Inl JSONDecodeError"
proof -
  have "read_baseline st = Inl JSONDecodeError"
    using assms(1-3,5) by (simp add: read_baseline_def load_def)
  moreover have "root_isdir st" using assms(4) by (auto simp: validate_dir_def split: if_splits)
  ultimately show ?thesis using assms(4,6) by (simp add: repair_once_def read_validated_def)
qed

end
