(* ===== verification/Regex.thy ===== *)
theory Regex
  imports Bootmux_Prelude
begin

text \<open>
  The fragment of Python's \<^verbatim>\<open>re\<close> module that the scripts use: patterns built from literals, repeated
  character classes, alternatives of literals, groups and the end anchor, matched with backtracking.
  The matcher returns the possible matches in the order in which \<^verbatim>\<open>re\<close> tries them (greedy repetition,
  alternatives from left to right), so the first one is the match that \<^verbatim>\<open>re\<close> reports.
\<close>

section \<open>Patterns\<close>

text \<open>\<^verbatim>\<open>\w\<close> on the first 256 code points.\<close>

definition is_word :: "char \<Rightarrow> bool" where
  "is_word c =
     (let n = code c in
      is_digit c \<or> (65 \<le> n \<and> n \<le> 90) \<or> (97 \<le> n \<and> n \<le> 122) \<or> n = 95
      \<or> n \<in> {170, 178, 179, 181, 185, 186, 188, 189, 190} \<or> (192 \<le> n \<and> n \<noteq> 215 \<and> n \<noteq> 247))"

datatype item =
    Lit string                          \<comment> \<open>literal text\<close>
  | Rep nat "char \<Rightarrow> bool"          \<comment> \<open>\<^verbatim>\<open>[c]*\<close>, \<^verbatim>\<open>[c]+\<close>: at least \<open>n\<close> characters of a class, greedy\<close>
  | Lazy nat "char \<Rightarrow> bool"         \<comment> \<open>\<^verbatim>\<open>[c]*?\<close>, \<^verbatim>\<open>[c]+?\<close>: the same, shortest first\<close>
  | Exact nat "char \<Rightarrow> bool"        \<comment> \<open>\<^verbatim>\<open>[c]{n}\<close>\<close>
  | AltLit "string list"                 \<comment> \<open>\<^verbatim>\<open>(?:a|b)\<close> of literals\<close>
  | Group "item list"                    \<comment> \<open>a capturing group\<close>
  | End                                  \<comment> \<open>\<^verbatim>\<open>$\<close>: the end, or before a final newline\<close>
  | Boundary                             \<comment> \<open>\<^verbatim>\<open>\b\<close> after a word character: the end, or before another character\<close>

text \<open>Lengths of the class runs at the start of a string that a greedy repetition tries, longest first.\<close>

definition run_lengths :: "nat \<Rightarrow> (char \<Rightarrow> bool) \<Rightarrow> string \<Rightarrow> nat list" where
  "run_lengths n c s = rev [n..<Suc (length (takeWhile c s))]"

definition at_end :: "string \<Rightarrow> bool" where
  "at_end s = (s = [] \<or> (length s = 1 \<and> code (hd s) = 10))"

text \<open>All matches of a pattern at the start of a string: captured groups and the rest.\<close>

fun matches :: "item list \<Rightarrow> string \<Rightarrow> (string list \<times> string) list" where
  "matches [] s = [([], s)]"
| "matches (Lit l # ps) s = (if prefix l s then matches ps (drop (length l) s) else [])"
| "matches (Rep n c # ps) s = concat (map (\<lambda>k. matches ps (drop k s)) (run_lengths n c s))"
| "matches (Lazy n c # ps) s = concat (map (\<lambda>k. matches ps (drop k s)) (rev (run_lengths n c s)))"
| "matches (Exact n c # ps) s =
     (if length (takeWhile c s) \<ge> n then matches ps (drop n s) else [])"
| "matches (AltLit ls # ps) s =
     concat (map (\<lambda>l. if prefix l s then matches ps (drop (length l) s) else []) ls)"
| "matches (Group qs # ps) s =
     concat (map (\<lambda>(gs, s'). map (\<lambda>(gs', s''). (take (length s - length s') s # gs @ gs', s'')) (matches ps s'))
       (matches qs s))"
| "matches (End # ps) s = (if at_end s then matches ps s else [])"
| "matches (Boundary # ps) s = (if s \<noteq> [] \<and> is_word (hd s) then [] else matches ps s)"

text \<open>\<^verbatim>\<open>re.match\<close>: the groups of the first match at the start.\<close>

definition re_match :: "item list \<Rightarrow> string \<Rightarrow> string list option" where
  "re_match ps s = (case matches ps s of [] \<Rightarrow> None | (gs, _) # _ \<Rightarrow> Some gs)"

text \<open>\<^verbatim>\<open>re.search\<close>: the first match at the leftmost position that has one.\<close>

fun re_search :: "item list \<Rightarrow> string \<Rightarrow> string list option" where
  "re_search ps [] = re_match ps []"
| "re_search ps (x # s) = (case re_match ps (x # s) of Some gs \<Rightarrow> Some gs | None \<Rightarrow> re_search ps s)"

text \<open>The first group of a search.\<close>

definition search1 :: "item list \<Rightarrow> string \<Rightarrow> string option" where
  "search1 ps s = map_option (\<lambda>gs. gs ! 0) (re_search ps s)"

definition match1 :: "item list \<Rightarrow> string \<Rightarrow> string option" where
  "match1 ps s = map_option (\<lambda>gs. gs ! 0) (re_match ps s)"

text \<open>The text after the match that \<^verbatim>\<open>re.search\<close> finds, from \<^verbatim>\<open>match.end()\<close> on.\<close>

fun re_search_rest :: "item list \<Rightarrow> string \<Rightarrow> string option" where
  "re_search_rest ps [] = (case matches ps [] of [] \<Rightarrow> None | (_, r) # _ \<Rightarrow> Some r)"
| "re_search_rest ps (x # s) = (case matches ps (x # s) of [] \<Rightarrow> re_search_rest ps s | (_, r) # _ \<Rightarrow> Some r)"

text \<open>
  \<^verbatim>\<open>re.findall\<close> and \<^verbatim>\<open>re.sub\<close> for patterns that match no empty text: the groups of the matches from left to right
  that do not overlap, and the text in which each of them is replaced by what \<open>new\<close> makes of its groups.
\<close>

function re_findall :: "item list \<Rightarrow> string \<Rightarrow> string list list" where
  "re_findall ps [] = []"
| "re_findall ps (x # s) =
     (case matches ps (x # s) of
        (gs, r) # _ \<Rightarrow> if length r \<le> length s then gs # re_findall ps r else re_findall ps s
      | [] \<Rightarrow> re_findall ps s)"
  by pat_completeness auto
termination by (relation "measure (\<lambda>(_, s). length s)") auto

function re_sub :: "item list \<Rightarrow> (string list \<Rightarrow> string) \<Rightarrow> string \<Rightarrow> string" where
  "re_sub ps new [] = []"
| "re_sub ps new (x # s) =
     (case matches ps (x # s) of
        (gs, r) # _ \<Rightarrow> if length r \<le> length s then new gs @ re_sub ps new r else x # re_sub ps new s
      | [] \<Rightarrow> x # re_sub ps new s)"
  by pat_completeness auto
termination by (relation "measure (\<lambda>(_, _, s). length s)") auto

section \<open>Classes\<close>

text \<open>\<^verbatim>\<open>\s\<close>, \<^verbatim>\<open>\S\<close>, \<^verbatim>\<open>.\<close>, \<^verbatim>\<open>[0-9a-fA-F]\<close>, \<^verbatim>\<open>[\d.]\<close> and \<^verbatim>\<open>[\d./]\<close>.\<close>

abbreviation nonspace :: "char \<Rightarrow> bool" where "nonspace \<equiv> \<lambda>c. \<not> is_space c"

definition not_newline :: "char \<Rightarrow> bool" where "not_newline c = (code c \<noteq> 10)"

definition is_hex :: "char \<Rightarrow> bool" where
  "is_hex c = (is_digit c \<or> (97 \<le> code c \<and> code c \<le> 102) \<or> (65 \<le> code c \<and> code c \<le> 70))"

definition is_addr :: "char \<Rightarrow> bool" where "is_addr c = (is_digit c \<or> c = CHR ''.'')"

definition is_dest :: "char \<Rightarrow> bool" where "is_dest c = (is_digit c \<or> c = CHR ''.'' \<or> c = CHR ''/'')"

text \<open>\<^verbatim>\<open>\d+\.\d+\.\d+\.\d+\<close>\<close>

definition dotted :: "item list" where
  "dotted = [Rep 1 is_digit, Lit ''.'', Rep 1 is_digit, Lit ''.'', Rep 1 is_digit, Lit ''.'', Rep 1 is_digit]"

section \<open>Reading numbers\<close>

definition dec_val :: "string \<Rightarrow> nat" where
  "dec_val s = foldl (\<lambda>n c. 10 * n + (code c - 48)) 0 s"

definition hex_digit :: "char \<Rightarrow> nat" where
  "hex_digit c = (if is_digit c then code c - 48 else if 97 \<le> code c then code c - 87 else code c - 55)"

definition hex_val :: "string \<Rightarrow> nat" where
  "hex_val s = foldl (\<lambda>n c. 16 * n + hex_digit c) 0 s"

text \<open>\<^verbatim>\<open>int(x, 16)\<close> for strings of hexadecimal digits, with or without the prefix 0x.\<close>

definition hex_int :: "string \<Rightarrow> nat option" where
  "hex_int s =
     (let t = (if prefix ''0x'' s \<or> prefix ''0X'' s then drop 2 s else s)
      in if t \<noteq> [] \<and> list_all is_hex t then Some (hex_val t) else None)"

text \<open>\<^verbatim>\<open>hex(n)\<close>\<close>

fun hex_digits :: "nat \<Rightarrow> string" where
  "hex_digits n = (if n < 16 then [hex_char n] else hex_digits (n div 16) @ [hex_char (n mod 16)])"

declare hex_digits.simps [simp del]

definition hex_str :: "nat \<Rightarrow> string" where "hex_str n = ''0x'' @ hex_digits n"

text \<open>\<^verbatim>\<open>re.split(lit, s)\<close> for a literal separator.\<close>

function split_lit :: "string \<Rightarrow> string \<Rightarrow> string \<Rightarrow> string list" where
  "split_lit sep cur s =
     (if s = [] then [rev cur]
      else if sep \<noteq> [] \<and> prefix sep s then rev cur # split_lit sep [] (drop (length sep) s)
      else split_lit sep (hd s # cur) (tl s))"
  by pat_completeness auto
termination by (relation "measure (\<lambda>(sep, cur, s). length s)") auto

declare split_lit.simps [simp del]

section \<open>What a match means\<close>

text \<open>A run length that a repetition tries consists of characters of the class.\<close>

lemma run_lengths_iff:
  "k \<in> set (run_lengths n c s) \<longleftrightarrow> n \<le> k \<and> k \<le> length (takeWhile c s)"
  by (auto simp: run_lengths_def)

lemma take_run: "k \<le> length (takeWhile c s) \<Longrightarrow> list_all c (take k s)"
proof (induction s arbitrary: k)
  case (Cons x s)
  then show ?case by (cases k) (auto split: if_splits)
qed simp

lemma suffix_of_drop: "suffix r (drop n s) \<Longrightarrow> suffix r s"
  using suffix_drop suffix_order.order_trans by blast

lemma matches_suffix: "(gs, r) \<in> set (matches ps s) \<Longrightarrow> suffix r s"
proof (induction ps s arbitrary: gs r rule: matches.induct)
  case (2 l ps s)
  then show ?case by (auto split: if_splits intro: suffix_of_drop)
next
  case (3 n c ps s)
  then show ?case by (auto intro: suffix_of_drop)
next
  case (4 n c ps s)
  then show ?case by (auto split: if_splits intro: suffix_of_drop)
next
  case (5 n c ps s)
  then show ?case by (auto split: if_splits intro: suffix_of_drop)
next
  case (6 ls ps s)
  then show ?case by (auto split: if_splits intro: suffix_of_drop)
next
  case (7 qs ps s)
  then show ?case by (fastforce intro: suffix_order.order_trans)
qed (auto split: if_splits)

text \<open>A whole-line pattern \<^verbatim>\<open>^[c]+$\<close> accepts exactly the non-empty strings over the class, up to a final newline.\<close>

lemma re_match_whole_line:
  assumes "re_match [Rep 1 c, End] s \<noteq> None"
  shows "\<exists>k > 0. list_all c (take k s) \<and> at_end (drop k s) \<and> k \<le> length s"
proof -
  have "matches [Rep 1 c, End] s \<noteq> []"
  proof
    assume "matches [Rep 1 c, End] s = []"
    with assms show False by (simp only: re_match_def list.case simp_thms)
  qed
  then obtain k where "k \<in> set (run_lengths 1 c s)" "matches [End] (drop k s) \<noteq> []"
    by (simp only: matches.simps concat_eq_Nil_conv) auto
  then have "k \<in> set (run_lengths 1 c s)" "at_end (drop k s)" by (auto split: if_splits)
  then show ?thesis
    using take_run [of k c s] length_takeWhile_le [of c s]
    by (intro exI [of _ k]) (auto simp: run_lengths_iff)
qed

end
