(* ===== verification/Guardian_SystemHost.thy ===== *)
theory Guardian_SystemHost
  imports Guardian_Daemon Regex
begin

text \<open>
  \<^verbatim>\<open>class SystemHost\<close> of the guardian: the production host, which runs macOS tools and parses what they
  print. The tools are not part of the repository: what a command prints in a state of the machine is a
  parameter (\<open>os\<close>), and the definitions here are the parsers and the way their results are used.
  Queries are assumed not to change the machine; only \<^verbatim>\<open>run\<close> does.
\<close>

section \<open>Running a command\<close>

datatype proc = Exited int string string | TimedOut | NotFound string

type_synonym seconds = "real \<times> string" \<comment> \<open>a float and what \<^verbatim>\<open>str()\<close> prints for it\<close>

definition COMMAND_TIMEOUT_SECONDS :: seconds where
  "COMMAND_TIMEOUT_SECONDS = (20, ''20.0'')"

record 'w os =
  os_query :: "string list \<Rightarrow> seconds \<Rightarrow> 'w \<Rightarrow> proc"
  os_act :: "string list \<Rightarrow> seconds \<Rightarrow> 'w \<Rightarrow> proc \<times> 'w"
  os_clock :: "'w \<Rightarrow> real"

definition proc_result :: "string list \<Rightarrow> seconds \<Rightarrow> proc \<Rightarrow> run_result" where
  "proc_result av timeout p =
     (case p of
        Exited rc out err \<Rightarrow> (rc, out, err)
      | TimedOut \<Rightarrow> (124, [], ''timeout after '' @ snd timeout @ ''s: '' @ join '' '' av)
      | NotFound msg \<Rightarrow> (127, [], msg))"

definition sys_cmd :: "'w os \<Rightarrow> string list \<Rightarrow> seconds \<Rightarrow> 'w \<Rightarrow> run_result" where
  "sys_cmd os av timeout w = proc_result av timeout (os_query os av timeout w)"

text \<open>The output of a query that succeeded.\<close>

definition cmd_out :: "'w os \<Rightarrow> string list \<Rightarrow> 'w \<Rightarrow> string option" where
  "cmd_out os av w =
     (case sys_cmd os av COMMAND_TIMEOUT_SECONDS w of (rc, out, _) \<Rightarrow> if rc \<noteq> 0 then None else Some out)"

section \<open>Parsers\<close>

definition quoted_key :: "string \<Rightarrow> item list" where
  "quoted_key k = [Lit ([char_of (34 :: nat)] @ k @ [char_of (34 :: nat)]), Rep 0 is_space, Lit ''='', Rep 0 is_space]"

definition quoted_value :: "item list" where
  "quoted_value = [Lit [char_of (34 :: nat)], Group [Rep 0 (\<lambda>c. code c \<noteq> 34)], Lit [char_of (34 :: nat)]]"

definition parse_usb_block :: "string \<Rightarrow> usb_device option" where
  "parse_usb_block block =
     (case (search1 (quoted_key ''idVendor'' @ [Group [Rep 1 is_digit]]) block,
            search1 (quoted_key ''idProduct'' @ [Group [Rep 1 is_digit]]) block) of
        (Some vid, Some pid) \<Rightarrow>
          Some \<lparr>u_vid = Some (int (dec_val vid)), u_pid = Some (int (dec_val pid)),
                u_product = (case search1 (quoted_key ''USB Product Name'' @ quoted_value) block of
                               None \<Rightarrow> [] | Some p \<Rightarrow> p),
                u_serial = (case search1 (quoted_key ''USB Serial Number'' @ quoted_value) block of
                               None \<Rightarrow> [] | Some p \<Rightarrow> p)\<rparr>
      | _ \<Rightarrow> None)"

definition parse_ioreg :: "string \<Rightarrow> usb_device list" where
  "parse_ioreg out = List.map_filter parse_usb_block (split_lit ''+-o '' [] out)"

text \<open>\<^verbatim>\<open>str(ipaddress.IPv4Address(n))\<close>; a value of more than 32 bits raises.\<close>

definition ipv4_str :: "nat \<Rightarrow> string result" where
  "ipv4_str n =
     (if n \<ge> 2 ^ 32 then Inl ValueError
      else Inr (join ''.'' [nat_str (n div 2 ^ 24), nat_str (n div 2 ^ 16 mod 256),
                            nat_str (n div 2 ^ 8 mod 256), nat_str (n mod 256)]))"

text \<open>One line of \<^verbatim>\<open>ifconfig\<close>: the finished interfaces and the one being read.\<close>

definition ifconfig_line :: "iface list \<times> iface option \<Rightarrow> string \<Rightarrow> (iface list \<times> iface option) result" where
  "ifconfig_line acc line =
     (case match1 [Group [Rep 1 nonspace], Lit '':'', Rep 1 is_space, Lit ''flags=''] line of
        Some name \<Rightarrow>
          Inr (fst acc @ (case snd acc of None \<Rightarrow> [] | Some c \<Rightarrow> [c]),
               Some \<lparr>i_name = name, i_addresses = [], i_status = (if contains ''UP'' line then ''active'' else [])\<rparr>)
      | None \<Rightarrow>
          (case snd acc of
             None \<Rightarrow> Inr acc
           | Some c \<Rightarrow>
               bindE (case re_search ([Lit ''inet '', Group dotted, Lit '' netmask 0x'', Group [Rep 1 is_hex]]) line of
                        Some gs \<Rightarrow> bindE (ipv4_str (hex_val (gs ! 1))) (\<lambda>m.
                                     Inr (c\<lparr>i_addresses := i_addresses c @ [(gs ! 0, m)]\<rparr>))
                      | None \<Rightarrow> Inr c)
                 (\<lambda>c1. Inr (fst acc,
                    Some (case search1 [Lit ''status:'', Rep 1 is_space, Group [Rep 1 nonspace]] line of
                            Some s \<Rightarrow> c1\<lparr>i_status := s\<rparr> | None \<Rightarrow> c1)))))"

fun ifconfig_lines :: "iface list \<times> iface option \<Rightarrow> string list \<Rightarrow> iface list result" where
  "ifconfig_lines acc [] = Inr (fst acc @ (case snd acc of None \<Rightarrow> [] | Some c \<Rightarrow> [c]))"
| "ifconfig_lines acc (l # ls) = bindE (ifconfig_line acc l) (\<lambda>acc'. ifconfig_lines acc' ls)"

definition parse_ifconfig :: "string \<Rightarrow> iface list result" where
  "parse_ifconfig out = ifconfig_lines ([], None) (splitlines out)"

definition parse_route_line :: "string \<Rightarrow> route option" where
  "parse_route_line line =
     (case split_ws line of
        dest # gw # flags # ifn # _ \<Rightarrow>
          if dest = ''Destination'' \<or> dest = ''Routing'' then None
          else if re_match [Rep 1 is_dest, End] dest = None then None
          else Some \<lparr>r_destination = Some dest, r_gateway = Some gw, r_flags = flags, r_interface = Some ifn\<rparr>
      | _ \<Rightarrow> None)"

definition parse_netstat :: "string \<Rightarrow> route list" where
  "parse_netstat out = List.map_filter parse_route_line (splitlines out)"

definition lstrip_star :: "string \<Rightarrow> string" where
  "lstrip_star s = dropWhile (\<lambda>c. c = CHR ''*'' \<or> c = CHR '' '') s"

text \<open>One line of \<^verbatim>\<open>networksetup -listnetworkserviceorder\<close>. The enabled state is not read: it is set to true.\<close>

definition service_line :: "service list \<times> service option \<Rightarrow> string \<Rightarrow> service list \<times> service option" where
  "service_line acc line =
     (case re_match [Lit ''('', Group [Rep 1 is_digit], Lit '')'', Rep 1 is_space, Group [Rep 0 not_newline], End] line of
        Some gs \<Rightarrow>
          (fst acc @ (case snd acc of None \<Rightarrow> [] | Some c \<Rightarrow> [c]),
           Some \<lparr>s_order = int (dec_val (gs ! 0)), s_name = strip (lstrip_star (gs ! 1)), s_device = Some [],
                 s_enabled = True\<rparr>)
      | None \<Rightarrow>
          (case (search1 [Lit ''Device:'', Rep 1 is_space, Group [Rep 1 nonspace], Lit '')''] line, snd acc) of
             (Some dev, Some c) \<Rightarrow> (fst acc, Some (c\<lparr>s_device := Some dev\<rparr>))
           | _ \<Rightarrow> acc))"

definition parse_services :: "string \<Rightarrow> service list" where
  "parse_services out =
     (case foldl service_line ([], None) (splitlines out) of
        (done_svcs, cur) \<Rightarrow> done_svcs @ (case cur of None \<Rightarrow> [] | Some c \<Rightarrow> [c]))"

fun parse_wifi_device :: "string list \<Rightarrow> string option" where
  "parse_wifi_device [] = None"
| "parse_wifi_device [l] = None"
| "parse_wifi_device (l # m # ls) =
     (if re_match [Lit ''Hardware Port:'', Rep 1 is_space, AltLit [''Wi-Fi'', ''AirPort''], End] l \<noteq> None
      then (case match1 [Lit ''Device:'', Rep 1 is_space, Group [Rep 1 nonspace]] m of
              Some d \<Rightarrow> Some d
            | None \<Rightarrow> parse_wifi_device (m # ls))
      else parse_wifi_device (m # ls))"

definition parse_airport_power :: "string \<Rightarrow> bool option" where
  "parse_airport_power out =
     map_option (\<lambda>v. v = ''On'') (search1 [Lit '':'', Rep 0 is_space, Group [AltLit [''On'', ''Off'']]] out)"

definition parse_airport_network :: "string \<Rightarrow> string option" where
  "parse_airport_network out =
     (case search1 [Lit '':'', Rep 0 is_space, Group [Rep 1 not_newline], End] out of
        None \<Rightarrow> None
      | Some g \<Rightarrow> let ssid = strip g
                  in if prefix ''you are not associated'' (lower ssid) then None else Some ssid)"

definition addr_field :: "string \<Rightarrow> string \<Rightarrow> string option" where
  "addr_field key out =
     search1 [Lit key, Rep 0 is_space, Lit ''='', Rep 0 is_space, Group [Rep 1 is_addr]] out"

definition parse_getpacket :: "string \<Rightarrow> ipv4_info" where
  "parse_getpacket out =
     \<lparr>v4_mode = Some ''dhcp'', v4_address = addr_field ''yiaddr'' out,
      v4_subnet_mask = addr_field ''subnet_mask'' out, v4_router = addr_field ''router'' out\<rparr>"

definition parse_manual :: "string option \<Rightarrow> ipv4_info result" where
  "parse_manual out2 =
     (let info = \<lparr>v4_mode = Some ''manual'', v4_address = None, v4_subnet_mask = None, v4_router = None\<rparr>
      in case out2 of
           None \<Rightarrow> Inr info
         | Some o2 \<Rightarrow>
             (case re_search [Lit ''inet '', Group [Rep 1 is_addr], Lit '' netmask 0x'', Group [Rep 1 is_hex]] o2 of
                None \<Rightarrow> Inr info
              | Some gs \<Rightarrow> bindE (ipv4_str (hex_val (gs ! 1))) (\<lambda>m.
                             Inr (info\<lparr>v4_address := Some (gs ! 0), v4_subnet_mask := Some m\<rparr>))))"

definition parse_dns_servers :: "string \<Rightarrow> string list" where
  "parse_dns_servers out =
     filter (\<lambda>l. l \<noteq> [] \<and> re_match [Rep 1 is_addr, End] l \<noteq> None) (map strip (splitlines out))"

definition parse_search_domains :: "string \<Rightarrow> string list" where
  "parse_search_domains out =
     filter (\<lambda>l. l \<noteq> [] \<and> \<not> prefix ''there aren'' (lower l)) (map strip (splitlines out))"

section \<open>The host\<close>

text \<open>
  The state of the host is the machine and the list of the commands run so far. The seam has no
  exceptions in observations: where a parser raises (a netmask of more than 32 bits), the observation is
  the one for a failed command.
\<close>

definition ok_list :: "'a list result \<Rightarrow> 'a list" where
  "ok_list r = (case r of Inl _ \<Rightarrow> [] | Inr xs \<Rightarrow> xs)"

definition sys_usb_devices :: "'w os \<Rightarrow> 'w \<Rightarrow> usb_device list" where
  "sys_usb_devices os w =
     (case cmd_out os [''ioreg'', ''-p'', ''IOUSB'', ''-l'', ''-w'', ''0''] w of None \<Rightarrow> [] | Some out \<Rightarrow> parse_ioreg out)"

definition sys_interfaces :: "'w os \<Rightarrow> 'w \<Rightarrow> iface list" where
  "sys_interfaces os w =
     (case cmd_out os [''ifconfig''] w of None \<Rightarrow> [] | Some out \<Rightarrow> ok_list (parse_ifconfig out))"

definition sys_routes :: "'w os \<Rightarrow> 'w \<Rightarrow> route list" where
  "sys_routes os w =
     (case cmd_out os [''netstat'', ''-rn'', ''-f'', ''inet''] w of None \<Rightarrow> [] | Some out \<Rightarrow> parse_netstat out)"

definition sys_services :: "'w os \<Rightarrow> 'w \<Rightarrow> service list" where
  "sys_services os w =
     (case cmd_out os [''networksetup'', ''-listnetworkserviceorder''] w of None \<Rightarrow> [] | Some out \<Rightarrow> parse_services out)"

definition sys_wifi_device :: "'w os \<Rightarrow> 'w \<Rightarrow> string option" where
  "sys_wifi_device os w =
     Option.bind (cmd_out os [''networksetup'', ''-listallhardwareports''] w) (\<lambda>out. parse_wifi_device (splitlines out))"

definition sys_wifi_power :: "'w os \<Rightarrow> string \<Rightarrow> 'w \<Rightarrow> bool option" where
  "sys_wifi_power os dev w =
     Option.bind (cmd_out os [''networksetup'', ''-getairportpower'', dev] w) parse_airport_power"

definition sys_wifi_ssid :: "'w os \<Rightarrow> string \<Rightarrow> 'w \<Rightarrow> string option" where
  "sys_wifi_ssid os dev w =
     Option.bind (cmd_out os [''networksetup'', ''-getairportnetwork'', dev] w) parse_airport_network"

definition sys_wifi_ipv4 :: "'w os \<Rightarrow> string \<Rightarrow> 'w \<Rightarrow> ipv4_info" where
  "sys_wifi_ipv4 os dev w =
     (case cmd_out os [''ipconfig'', ''getpacket'', dev] w of
        Some out \<Rightarrow>
          if strip out \<noteq> [] then parse_getpacket out
          else (case parse_manual (cmd_out os [''ifconfig'', dev] w) of Inr v \<Rightarrow> v | Inl _ \<Rightarrow>
                  \<lparr>v4_mode = Some ''manual'', v4_address = None, v4_subnet_mask = None, v4_router = None\<rparr>)
      | None \<Rightarrow>
          (case parse_manual (cmd_out os [''ifconfig'', dev] w) of Inr v \<Rightarrow> v | Inl _ \<Rightarrow>
             \<lparr>v4_mode = Some ''manual'', v4_address = None, v4_subnet_mask = None, v4_router = None\<rparr>))"

definition sys_dns :: "'w os \<Rightarrow> string \<Rightarrow> 'w \<Rightarrow> dns_info" where
  "sys_dns os svc w =
     \<lparr>dns_server_list = (case cmd_out os [''networksetup'', ''-getdnsservers'', svc] w of
                           None \<Rightarrow> [] | Some out \<Rightarrow> parse_dns_servers out),
      dns_search_list = (case cmd_out os [''networksetup'', ''-getsearchdomains'', svc] w of
                           None \<Rightarrow> [] | Some out \<Rightarrow> parse_search_domains out)\<rparr>"

definition sys_heartbeat :: "'w os \<Rightarrow> string \<Rightarrow> 'w \<Rightarrow> bool" where
  "sys_heartbeat os peer w =
     (fst (sys_cmd os [''ping'', ''-c'', ''1'', ''-W'', ''1000'', ''-t'', ''1'', peer] (3, ''3.0'') w) = 0)"

definition sys_run :: "'w os \<Rightarrow> string list \<Rightarrow> 'w \<times> string list list \<Rightarrow> (run_result \<times> 'w \<times> string list list) result" where
  "sys_run os av h =
     (case os_act os av COMMAND_TIMEOUT_SECONDS (fst h) of
        (p, w') \<Rightarrow> Inr (proc_result av COMMAND_TIMEOUT_SECONDS p, w', snd h @ [av]))"

definition system_ops :: "'w os \<Rightarrow> ('w \<times> string list list) host_ops" where
  "system_ops os =
     \<lparr>usb_devices = sys_usb_devices os o fst,
      interfaces = sys_interfaces os o fst,
      routes = sys_routes os o fst,
      services = sys_services os o fst,
      service_order = (\<lambda>h. map s_name (sys_services os (fst h))),
      wifi_device = sys_wifi_device os o fst,
      wifi_power = (\<lambda>d. sys_wifi_power os d o fst),
      wifi_ssid = (\<lambda>d. sys_wifi_ssid os d o fst),
      wifi_ipv4 = (\<lambda>d. sys_wifi_ipv4 os d o fst),
      dns = (\<lambda>s. sys_dns os s o fst),
      heartbeat = (\<lambda>p. sys_heartbeat os p o fst),
      now = os_clock os o fst,
      run = sys_run os\<rparr>"

interpretation sys: recording_host "system_ops os" snd
  by unfold_locales (auto simp: system_ops_def sys_run_def split: prod.splits)

section \<open>What the parsers can see\<close>

lemma map_filter_set: "y \<in> set (List.map_filter f xs) \<longleftrightarrow> (\<exists>x \<in> set xs. f x = Some y)"
  by (induction xs) (auto simp: map_filter_simps split: option.splits)

lemma parse_route_line_numeric:
  assumes "parse_route_line line = Some r"
  shows "\<exists>dest c. r_destination r = Some dest \<and> dest \<noteq> [] \<and> is_dest (hd dest)"
proof -
  from assms obtain dest where dest: "r_destination r = Some dest" "re_match [Rep 1 is_dest, End] dest \<noteq> None"
    by (auto simp: parse_route_line_def split: list.splits if_splits)
  from re_match_whole_line [OF dest(2)] obtain k where "k > 0" "list_all is_dest (take k dest)" "k \<le> length dest"
    by blast
  then show ?thesis using dest(1) by (cases dest; cases k) auto
qed

lemma sys_routes_no_default:
  "r \<in> set (sys_routes os w) \<Longrightarrow> r_destination r \<noteq> Some ''default''"
  by (auto simp: sys_routes_def parse_netstat_def map_filter_set is_dest_def is_digit_def code_def
      split: option.splits dest!: parse_route_line_numeric)

lemma sys_services_enabled: "s \<in> set (sys_services os w) \<Longrightarrow> s_enabled s"
proof -
  have step: "list_all s_enabled (fst acc) \<and> pred_option s_enabled (snd acc) \<Longrightarrow>
      list_all s_enabled (fst (service_line acc l)) \<and> pred_option s_enabled (snd (service_line acc l))" for acc l
    by (auto simp: service_line_def split: option.splits)
  have "list_all s_enabled (fst (foldl service_line acc ls)) \<and> pred_option s_enabled (snd (foldl service_line acc ls))"
    if "list_all s_enabled (fst acc) \<and> pred_option s_enabled (snd acc)" for acc ls
    using that by (induction ls arbitrary: acc) (simp_all add: step)
  note inv = this [of "([], None)"]
  have "list_all s_enabled (parse_services out)" for out
    using inv [of "splitlines out"]
    by (cases "foldl service_line ([], None) (splitlines out)") (auto simp: parse_services_def split: option.splits)
  then show "s \<in> set (sys_services os w) \<Longrightarrow> s_enabled s"
    by (auto simp: sys_services_def list_all_iff split: option.splits)
qed

lemma system_ops_simps [simp]:
  "routes (system_ops os) h = sys_routes os (fst h)" "services (system_ops os) h = sys_services os (fst h)"
  by (simp_all add: system_ops_def)

section \<open>Properties\<close>

text \<open>
  C39. On the production host the verdict is never REPAIRED: the route parser drops the row that netstat
  prints as "default", so no default route is ever seen and the check that one outside BOOTMUX exists
  always fails, whatever the machine does.
\<close>

theorem system_host_never_repaired:
  "classify (verify (system_ops os) h i ob) \<noteq> ''REPAIRED''"
proof -
  have "filter (\<lambda>r. r_destination r = Some ''default'') (routes (system_ops os) h) = []"
    using sys_routes_no_default by (fastforce simp: filter_empty_conv)
  then have "(''wifi_default_route_restored'', False) \<in> set (verify (system_ops os) h i ob)"
    by (simp add: verify_def Let_def filter_empty_conv) blast
  then show ?thesis unfolding classify_verify_iff list_all_iff by fastforce
qed

text \<open>
  On the production host the BOOTMUX service never counts as disabled: every listed service is
  reported enabled and an unlisted one counts as enabled, so R2 plans its disabling on every repair of
  an interface that maps to a service.
\<close>

lemma system_host_always_disables:
  assumes "id_service i = Some svc" and "svc \<noteq> []"
  shows "argvs (plan_r2_service (system_ops os) h i) = [[''networksetup'', ''-setnetworkserviceenabled'', svc, ''off'']]"
proof -
  have "service_enabled_now (sys_services os (fst h)) svc"
    unfolding service_enabled_now_def
    by (auto split: option.splits intro: sys_services_enabled nth_mem simp: find_Some_iff)
  with assms show ?thesis by (simp add: argvs_def commands_r2 truthy_def)
qed

definition disabled_listing :: string where
  "disabled_listing = join [char_of (10 :: nat)]
     [''An asterisk (*) denotes that a network service is disabled.'',
      ''(1) Wi-Fi'',
      ''(Hardware Port: Wi-Fi, Device: en0)'',
      ''(*) BOOTMUX USB Ethernet'',
      ''(Hardware Port: BOOTMUX USB Ethernet, Device: en7)'']"

text \<open>
  A disabled service is misread: its heading, marked with an asterisk instead of a number, is not
  recognised, so its device line is taken for the device of the service listed before it. Once the
  BOOTMUX service is disabled, the BOOTMUX interface maps to the Wi-Fi service.
\<close>

lemma disabled_service_misattributed:
  "service_for_interface (parse_services disabled_listing) ''en7'' = Some ''Wi-Fi''
   \<and> service_for_interface (parse_services disabled_listing) ''en0'' = None"
  by code_simp

end
