(* ===== verification/Guardian_Witnesses.thy ===== *)
theory Guardian_Witnesses
  imports Guardian_Converge Guardian_Trace Guardian_SystemHost
begin

text \<open>
  Concrete runs of the guardian on the simulated host: hosts and stores on which the hypotheses of the
  guardian's properties hold, and the properties applied to them.
\<close>

section \<open>Hosts\<close>

definition plain_host :: fake_host where
  "plain_host = fake_init\<lparr>
     fh_routes := [\<lparr>r_destination = Some ''default'', r_gateway = Some ''192.168.1.1'', r_flags = ''UGS'', r_interface = Some ''en0''\<rparr>],
     fh_services := [\<lparr>s_order = 1, s_name = ''Wi-Fi'', s_device = Some ''en0'', s_enabled = True\<rparr>,
                     \<lparr>s_order = 2, s_name = ''LAN'', s_device = Some ''en1'', s_enabled = True\<rparr>],
     fh_wifi_device := Some ''en0'', fh_wifi_power := Some True, fh_wifi_ssid := Some ''home'',
     fh_wifi_ipv4 := \<lparr>v4_mode = Some ''dhcp'', v4_address = Some ''192.168.1.50'',
                      v4_subnet_mask = Some ''255.255.255.0'', v4_router = Some ''192.168.1.1''\<rparr>,
     fh_dns := [(''Wi-Fi'', \<lparr>dns_server_list = [''1.1.1.1''], dns_search_list = []\<rparr>)]\<rparr>"

definition stale_host :: fake_host where
  "stale_host = plain_host\<lparr>
     fh_routes := \<lparr>r_destination = Some ''default'', r_gateway = Some BOOTMUX_PEER, r_flags = ''UGS'', r_interface = Some ''en7''\<rparr>
                  # fh_routes plain_host,
     fh_wifi_power := Some False,
     fh_wifi_ipv4 := \<lparr>v4_mode = Some ''manual'', v4_address = None, v4_subnet_mask = None, v4_router = None\<rparr>\<rparr>"

definition attached_host :: fake_host where
  "attached_host = fake_init\<lparr>
     fh_usb := [\<lparr>u_vid = Some BOOTMUX_USB_VID, u_pid = Some BOOTMUX_USB_PID, u_product = [], u_serial = []\<rparr>],
     fh_interfaces := [\<lparr>i_name = ''en7'', i_addresses = [(''10.77.0.2'', ''255.255.255.0'')], i_status = ''active''\<rparr>],
     fh_heartbeat := False\<rparr>"

abbreviation stored :: state_store where
  "stored \<equiv> sample_store [(STATE_BASELINE, Doc (sample_baseline 1))]"

section \<open>Verification and plans\<close>


lemma quiet_plan_leaves_only_wifi_witness:
  "list_all (\<lambda>(k, ok). ok
      \<or> k \<in> {''wifi_power_matches_baseline'', ''wifi_ssid_matches_baseline_or_redacted_equivalent'',
             ''wifi_default_route_restored''}
      \<or> (k = ''wifi_ipv4_mode_matches_baseline'' \<and> ipv4_mode (wifi (sample_baseline 1)) \<noteq> Some ''dhcp''))
    (verify fake_ops plain_host (prove_identity fake_ops plain_host) (Some (sample_baseline 1)))"
  by (rule quiet_plan_leaves_only_wifi) code_simp+

section \<open>Convergence\<close>

lemma stale_repairable:
  "\<not> ambiguous (prove_identity fake_ops stale_host)" "read_validated stored = Inr (Some (sample_baseline 1))"
  "repairable stale_host (prove_identity fake_ops stale_host) (sample_baseline 1)"
  by code_simp+

lemma sample_recoverable: "wifi_recoverable (wifi (sample_baseline 1)) 1000 None"
  by code_simp

theorem repair_converges_witness:
  "\<exists>r h'. repair_once fake_ops stored (Some 1000) None stale_host = Inr (r, h')
     \<and> rep_classification r = ''REPAIRED'' \<and> rep_toggled r \<and> fh_commands h' = issued r"
proof -
  have "\<not> wifi_matches (wifi (sample_baseline 1)) stale_host" "fh_commands stale_host = []" by code_simp+
  then show ?thesis using repair_converges [OF stale_repairable disjI2 [OF sample_recoverable]] by simp
qed

theorem repair_idempotent_witness:
  "case repair_once fake_ops stored (Some 1000) None stale_host of
     Inr (r, h') \<Rightarrow> (\<exists>r2. repair_once fake_ops stored (Some 1001) (Some 1000) h' = Inr (r2, h')
        \<and> rep_classification r2 = ''REPAIRED'' \<and> issued r2 = [])
   | Inl _ \<Rightarrow> False"
proof -
  obtain r h' where run: "repair_once fake_ops stored (Some 1000) None stale_host = Inr (r, h')"
    using repair_with_converges [OF stale_repairable(3) disjI2 [OF sample_recoverable]]
      repair_once_run [OF stale_repairable(1,2), of "Some 1000" None] by auto
  from repair_idempotent [OF stale_repairable disjI2 [OF sample_recoverable] run] show ?thesis by (simp add: run)
qed

section \<open>The daemon over time\<close>

definition at_time :: "real \<Rightarrow> fake_host \<Rightarrow> fake_host" where
  "at_time t h = h\<lparr>fh_clock := t\<rparr>"

lemma at_time_clock [simp]: "fh_clock (at_time t h) = t"
  by (simp add: at_time_def)

lemma at_time_identity: "prove_identity fake_ops (at_time t h) = prove_identity fake_ops h"
  by (rule prove_identity_cong) (simp_all add: at_time_def)

lemma at_time_repairable: "repairable (at_time t h) i b = repairable h i b"
  by (simp add: repairable_def at_time_def)

abbreviation tmp1 :: io_env where "tmp1 \<equiv> state_tmp ''x'' PreviousFile"
abbreviation tmp2 :: io_env where "tmp2 \<equiv> state_tmp ''y'' BaselineFile"

text \<open>A tick on the host with a left-over route and Wi-Fi switched off repairs it, with a toggle.\<close>

lemma sample_store_valid: "store_valid (sample_store docs) = Inr None"
  by (simp add: store_valid_None_iff validate_dir_ok_iff sample_store_def)

lemma stale_identity:
  "\<not> proven (prove_identity fake_ops stale_host)" "\<not> ambiguous (prove_identity fake_ops stale_host)"
  by code_simp+

lemma stale_tick:
  assumes "wifi_recoverable sample_wifi t (last_wifi_toggle_at g)"
  shows "\<exists>rep g' h' r. tick fake_ops tmp1 tmp2 g (at_time t stale_host) stored = Inr (rep, g', h', stored)
     \<and> t_time rep = t \<and> t_repair rep = Some r \<and> rep_toggled r \<and> last_wifi_toggle_at g' = Some t
     \<and> h' \<noteq> at_time t stale_host"
proof -
  have off: "\<not> wifi_matches (wifi (sample_baseline 1)) (at_time t stale_host)"
    by (simp add: wifi_matches_def at_time_def stale_host_def sample_defs)
  have "repairable (at_time t stale_host) (prove_identity fake_ops (at_time t stale_host)) (sample_baseline 1)"
    using stale_repairable(3) by (simp only: at_time_repairable at_time_identity)
  from repair_with_converges [OF this disjI2, of t "last_wifi_toggle_at g"] assms
  obtain r h' where run: "repair_with fake_ops (prove_identity fake_ops (at_time t stale_host)) (Some (sample_baseline 1))
      t (last_wifi_toggle_at g) (at_time t stale_host) = Inr (r, h')" "rep_toggled r" "wifi_matches (wifi (sample_baseline 1)) h'"
    using off by (auto simp: sample_baseline_def)
  then have once: "repair_once fake_ops stored (Some t) (last_wifi_toggle_at g) (at_time t stale_host) = Inr (r, h')"
    using repair_once_run [of fake_ops "at_time t stale_host" stored "Some (sample_baseline 1)" "Some t"] stale_repairable(1,2)
    by (simp add: at_time_identity)
  have "stale_route fake_ops (at_time t stale_host)" by (simp add: stale_route_def at_time_def stale_host_def)
  with once run(2) stale_identity sample_store_valid off run(3) show ?thesis
    by (auto simp: tick_def Let_def do_repair_def at_time_identity)
qed

theorem tick_mutates_only_when_witness:
  "\<exists>rep g' h' st'. tick fake_ops tmp1 tmp2 guardian_init (at_time 1000 stale_host) stored = Inr (rep, g', h', st')
     \<and> h' \<noteq> at_time 1000 stale_host
     \<and> filter iface_in_bootmux_net (interfaces fake_ops (at_time 1000 stale_host)) = []"
proof -
  have "wifi_recoverable sample_wifi 1000 (last_wifi_toggle_at guardian_init)" by code_simp
  then obtain rep g' h' r where run:
    "tick fake_ops tmp1 tmp2 guardian_init (at_time 1000 stale_host) stored = Inr (rep, g', h', stored)"
    "h' \<noteq> at_time 1000 stale_host"
    using stale_tick by blast
  have "\<not> proven (prove_identity fake_ops (at_time 1000 stale_host))"
    by (simp add: at_time_identity stale_identity)
  with tick_mutates_only_when [OF run] run show ?thesis
    by (auto simp: guardian_init_def HEARTBEAT_FAIL_SECONDS_def)
qed


text \<open>Two toggles in one run: the second stale tick comes 130 seconds after the first.\<close>

lemma reachable_tick:
  assumes "daemon_reachable ops \<lparr>d_guardian = g, d_host = h0, d_store = st0, d_history = hist\<rparr>"
    and "tick ops env1 env2 g h st = Inr (rep, g', h', st')"
  shows "daemon_reachable ops \<lparr>d_guardian = g', d_host = h', d_store = st', d_history = hist @ [rep]\<rparr>"
proof -
  have "daemon_reachable ops \<lparr>d_guardian = g, d_host = h, d_store = st, d_history = hist\<rparr>"
    using daemon_reachable.Step [OF assms(1) daemon_step.World [where h' = h and st' = st]] by simp
  from daemon_reachable.Step [OF this daemon_step.Tick] assms(2) show ?thesis by simp
qed

theorem wifi_toggles_spaced_witness:
  "\<exists>d :: fake_host daemon. toggle_times (d_history d) = [1000, 1130]
     \<and> successively (\<lambda>a b. WIFI_TOGGLE_COOLDOWN_SECONDS \<le> b - a) (toggle_times (d_history d))"
proof -
  have "wifi_recoverable sample_wifi 1000 (last_wifi_toggle_at guardian_init)" by code_simp
  then obtain rep g h r where t1:
    "tick fake_ops tmp1 tmp2 guardian_init (at_time 1000 stale_host) stored = Inr (rep, g, h, stored)"
    "t_time rep = 1000" "t_repair rep = Some r" "rep_toggled r" "last_wifi_toggle_at g = Some 1000"
    using stale_tick by blast
  have "wifi_recoverable sample_wifi 1130 (last_wifi_toggle_at g)"
    using sample_recoverable t1(5)
    by (simp add: wifi_recoverable_def sample_baseline_def WIFI_TOGGLE_COOLDOWN_SECONDS_def)
  then obtain rep2 g2 h2 r2 where t2:
    "tick fake_ops tmp1 tmp2 g (at_time 1130 stale_host) stored = Inr (rep2, g2, h2, stored)"
    "t_time rep2 = 1130" "t_repair rep2 = Some r2" "rep_toggled r2"
    using stale_tick by blast
  let ?d = "\<lparr>d_guardian = g2, d_host = h2, d_store = stored, d_history = ([] @ [rep]) @ [rep2]\<rparr>"
  have "daemon_reachable fake_ops ?d"
    by (rule reachable_tick [OF reachable_tick [OF daemon_reachable.Init t1(1)] t2(1)])
  from wifi_toggles_spaced [OF this] t1 t2 show ?thesis
    by (intro exI [of _ ?d]) (simp add: toggle_times_def)
qed

text \<open>A lost heartbeat: failing at 1000, repaired five seconds later.\<close>

lemma attached_candidate:
  "filter iface_in_bootmux_net (fh_interfaces attached_host) = fh_interfaces attached_host"
proof -
  have "map parse_octet (split_on (CHR ''.'') ''10.77.0.2'') = [Some 10, Some 77, Some 0, Some 2]" by code_simp
  then show ?thesis
    by (simp add: attached_host_def iface_in_bootmux_net_def address_in_bootmux_net_iff)
qed

lemma attached_one:
  "filter iface_in_bootmux_net (interfaces fake_ops attached_host) =
     [\<lparr>i_name = ''en7'', i_addresses = [(''10.77.0.2'', ''255.255.255.0'')], i_status = ''active''\<rparr>]"
  using attached_candidate by (simp add: attached_host_def)

lemma attached_usb: "usb_hw_signals (usb_devices fake_ops attached_host) \<noteq> []"
  by code_simp

lemmas attached_identity =
  prove_identity_one(1) [OF attached_one, THEN iffD2, OF attached_usb]
  attached_usb [folded prove_identity_one(2) [OF attached_one]]
  prove_identity_one(3,4) [OF attached_one]

lemma attached_heartbeat [simp]: "\<not> fh_heartbeat (at_time t attached_host)"
  by (simp add: at_time_def attached_host_def)

lemma attached_failing_tick:
  "tick fake_ops tmp1 tmp2 guardian_init (at_time 1000 attached_host) (sample_store []) =
     Inr ((tick_report_init fake_ops (at_time 1000 attached_host) guardian_init)\<lparr>t_action := ''heartbeat_failing''\<rparr>,
          guardian_init\<lparr>g_state := ATTACHED, was_attached := True, heartbeat_fail_since := Some 1000\<rparr>,
          at_time 1000 attached_host, sample_store [])"
  by (simp add: tick_def sample_store_valid at_time_identity attached_identity tick_attached_def guardian_init_def
      HEARTBEAT_FAIL_SECONDS_def Let_def)

lemma attached_repair: "\<exists>r h'. repair_once fake_ops (sample_store []) (Some t) None (at_time t attached_host) = Inr (r, h')"
proof -
  have "commands (build_repair_plan fake_ops (at_time t attached_host) (prove_identity fake_ops attached_host) None) = []"
    using attached_identity(4)
    by (simp add: build_repair_plan_def plan_r1_routes_def plan_r2_service_def plan_r3_ipv4_def plan_r4_dns_def plan_r5_order_def
        service_for_interface_def truthy_def attached_identity at_time_def attached_host_def fake_init_def)
  from execute_empty_plan [OF this, of fake_ops "at_time t attached_host"]
  have "\<exists>r. repair_with fake_ops (prove_identity fake_ops attached_host) None t None (at_time t attached_host)
      = Inr (r, at_time t attached_host)"
    by (simp add: repair_with_def Let_def build_wifi_toggle_plan_def)
  moreover have "read_validated (sample_store []) = Inr None" by code_simp
  ultimately show ?thesis
    using repair_once_run [of fake_ops "at_time t attached_host" "sample_store []" None "Some t" None] attached_identity(2)
    by (auto simp: at_time_identity)
qed

lemma attached_repair_tick:
  "\<exists>rep g' h' st'. tick fake_ops tmp1 tmp2
       (guardian_init\<lparr>g_state := ATTACHED, was_attached := True, heartbeat_fail_since := Some 1000\<rparr>)
       (at_time 1005 attached_host) (sample_store []) = Inr (rep, g', h', st')
     \<and> t_repair rep \<noteq> None \<and> t_time rep = 1005"
  using attached_repair [of 1005]
  by (auto simp: tick_def sample_store_valid at_time_identity attached_identity tick_attached_def guardian_init_def
      HEARTBEAT_FAIL_SECONDS_def Let_def do_repair_def split: sum.splits)


text \<open>A clean host: idle at 1000, captured fifteen seconds later.\<close>

lemma plain_identity:
  "\<not> proven (prove_identity fake_ops plain_host)" "\<not> ambiguous (prove_identity fake_ops plain_host)"
  "host_is_clean fake_ops plain_host (prove_identity fake_ops plain_host)" "\<not> stale_route fake_ops plain_host"
  by code_simp+

lemma plain_at_time:
  "host_is_clean fake_ops (at_time t h) i = host_is_clean fake_ops h i" "stale_route fake_ops (at_time t h) = stale_route fake_ops h"
  by (simp_all add: host_is_clean_def stale_route_def at_time_def)

lemma sample_store_empty:
  "existing_baseline (sample_store []) = Inr None" "load (sample_store []) STATE_BASELINE = Inr None"
  by code_simp+

lemma plain_idle_tick:
  "tick fake_ops tmp1 tmp2 guardian_init (at_time 1000 plain_host) (sample_store []) =
     Inr ((tick_report_init fake_ops (at_time 1000 plain_host) guardian_init)\<lparr>t_action := ''monitoring_idle''\<rparr>,
          guardian_init\<lparr>g_state := NO_BOOTMUX, stable_since := Some 1000\<rparr>, at_time 1000 plain_host, sample_store [])"
  by (simp add: tick_def sample_store_valid at_time_identity plain_identity plain_at_time tick_idle_def guardian_init_def
      sample_store_empty BASELINE_STABILITY_SECONDS_def Let_def)

lemma plain_capture_tick:
  "\<exists>rep g' st'. tick fake_ops tmp1 tmp2 (guardian_init\<lparr>g_state := NO_BOOTMUX, stable_since := Some 1000\<rparr>)
       (at_time 1015 plain_host) (sample_store []) = Inr (rep, g', at_time 1015 plain_host, st')
     \<and> t_action rep = ''baseline_captured'' \<and> t_repair rep = None \<and> t_time rep = 1015"
  by (simp add: tick_def sample_store_valid at_time_identity plain_identity plain_at_time tick_idle_def guardian_init_def
      sample_store_empty BASELINE_STABILITY_SECONDS_def Let_def write_baseline_first [OF sample_store_ready])



lemma corrupt_baseline_escapes_witness:
  "repair_once fake_ops (sample_store [(STATE_BASELINE, Corrupt)]) None None plain_host = Inl JSONDecodeError"
  by (rule corrupt_baseline_escapes [OF _ _ _ _ _ plain_identity(2),
        where n = "\<lparr>n_link = False, n_exists = True, n_mode = MODE_600, n_uid = 0, n_content = Corrupt\<rparr>"])
     (simp_all add: store_entry_def root_isdir_def validate_dir_ok_iff validate_file_ok_iff sample_store_def)

lemma system_host_always_disables_witness:
  "argvs (plan_r2_service (system_ops (\<lparr>os_query = \<lambda>_ _ _. NotFound [], os_act = \<lambda>_ _ w. (NotFound [], w), os_clock = \<lambda>_. 0\<rparr> :: unit os))
      ((), []) \<lparr>proven = True, ambiguous = False, id_interface = Some ''en7'', id_service = Some ''BOOTMUX USB Ethernet'',
        hardware_signals = [], network_signals = [], id_reason = []\<rparr>)
   = [[''networksetup'', ''-setnetworkserviceenabled'', ''BOOTMUX USB Ethernet'', ''off'']]"
  by (rule system_host_always_disables) simp_all

end
