(* ===== verification/Gate.thy ===== *)
theory Gate
  imports Bootmux_Prelude
begin

text \<open>
  The interface that the checkers of the repository share: a list of named checks and a verdict that is
  positive exactly when every check holds. The guardian's R7 verification, the serial and USB oracles,
  the invariant comparison and the flash inspector are instances.
\<close>

locale gate =
  fixes checks :: "'x \<Rightarrow> bool dict"
    and passes :: "'x \<Rightarrow> bool"
  assumes passes_iff: "passes x \<longleftrightarrow> list_all snd (checks x)"
begin

lemma blocked: "(k, False) \<in> set (checks x) \<Longrightarrow> \<not> passes x"
  unfolding passes_iff list_all_iff by fastforce

lemma passed: "passes x \<Longrightarrow> (k, ok) \<in> set (checks x) \<Longrightarrow> ok"
  unfolding passes_iff list_all_iff by fastforce

lemma passes_iff_none_failing:
  "passes x \<longleftrightarrow> map fst (filter (\<lambda>kv. \<not> snd kv) (checks x)) = []"
  unfolding passes_iff list_all_iff by (auto simp: filter_empty_conv)

end

end
