(* ===== verification/Paths.thy ===== *)
theory Paths
  imports Bootmux_Prelude
begin

text \<open>
  The part of \<^verbatim>\<open>pathlib\<close> and of the file system that the flash tools use: an absolute path is the list
  of its components, a file system maps a path to the bytes of the file there.
\<close>

type_synonym path = "string list"
type_synonym files = "path \<Rightarrow> string option"

text \<open>Components of a path string: empty ones and single dots disappear.\<close>

definition components :: "string \<Rightarrow> string list" where
  "components s = filter (\<lambda>c. c \<noteq> [] \<and> c \<noteq> ''.'') (split_on (CHR ''/'') s)"

text \<open>\<^verbatim>\<open>p / s\<close>: an absolute right operand replaces the left one.\<close>

definition path_join :: "path \<Rightarrow> string \<Rightarrow> path" where
  "path_join p s = (if prefix ''/'' s then components s else p @ components s)"

text \<open>\<^verbatim>\<open>str(p)\<close> of an absolute path.\<close>

definition pstr :: "path \<Rightarrow> string" where "pstr p = ''/'' @ join ''/'' p"

definition parent :: "path \<Rightarrow> path" where
  "parent p = butlast p"

definition path_name :: "path \<Rightarrow> string" where
  "path_name p = (if p = [] then [] else last p)"

text \<open>\<^verbatim>\<open>str(p.relative_to(q))\<close>\<close>

definition relative_to :: "path \<Rightarrow> path \<Rightarrow> string result" where
  "relative_to p q =
     (if prefix q p then Inr (if p = q then ''.'' else join ''/'' (drop (length q) p)) else Inl ValueError)"

text \<open>\<^verbatim>\<open>os.path.splitext(os.path.basename(s))[0]\<close>\<close>

definition basename :: "string \<Rightarrow> string" where
  "basename s = rev (takeWhile (\<lambda>c. c \<noteq> CHR ''/'') (rev s))"

definition splitext_root :: "string \<Rightarrow> string" where
  "splitext_root s =
     (let dots = takeWhile (\<lambda>c. c = CHR ''.'') s;
          body = dropWhile (\<lambda>c. c = CHR ''.'') s
      in if CHR ''.'' \<in> set body then dots @ rev (drop 1 (dropWhile (\<lambda>c. c \<noteq> CHR ''.'') (rev body))) else s)"

section \<open>Paths and their strings\<close>

text \<open>A component that a path string can carry.\<close>

definition proper :: "string \<Rightarrow> bool" where
  "proper c \<longleftrightarrow> c \<noteq> [] \<and> c \<noteq> ''.'' \<and> CHR ''/'' \<notin> set c"

lemma split_on_from_noslash:
  "sep \<notin> set c \<Longrightarrow> split_on_from sep cur (c @ sep # rest) = (rev cur @ c) # split_on_from sep [] rest"
  "sep \<notin> set c \<Longrightarrow> split_on_from sep cur c = [rev cur @ c]"
  by (induction c arbitrary: cur) auto

lemma split_on_from_pieces: "p \<in> set (split_on_from sep cur s) \<Longrightarrow> sep \<notin> set cur \<Longrightarrow> sep \<notin> set p"
  by (induction sep cur s rule: split_on_from.induct) (auto split: if_splits)

lemma components_proper: "c \<in> set (components s) \<Longrightarrow> proper c"
  using split_on_from_pieces [of c "CHR ''/''" "[]" s] by (auto simp: components_def split_on_def proper_def)

lemma components_join:
  "list_all proper cs \<Longrightarrow> components (join ''/'' cs) = cs"
proof -
  have "list_all proper cs \<Longrightarrow> cs \<noteq> [] \<Longrightarrow> split_on (CHR ''/'') (join ''/'' cs) = cs"
    by (induction "''/''" cs rule: join.induct)
       (auto simp: split_on_def proper_def split_on_from_noslash)
  moreover have "filter (\<lambda>c. c \<noteq> [] \<and> c \<noteq> ''.'') cs = cs" if "list_all proper cs"
    using that by (auto simp: filter_id_conv list_all_iff proper_def)
  ultimately show "list_all proper cs \<Longrightarrow> components (join ''/'' cs) = cs"
    by (cases "cs = []") (auto simp: components_def split_on_def)
qed

lemma join_not_absolute: "list_all proper cs \<Longrightarrow> \<not> prefix ''/'' (join ''/'' cs)"
proof (cases cs)
  case (Cons c cs')
  assume "list_all proper cs"
  with Cons have "c \<noteq> []" "CHR ''/'' \<notin> set c" by (auto simp: proper_def)
  then have "hd c \<noteq> CHR ''/''" by (metis hd_in_set)
  moreover have "\<exists>t. join ''/'' cs = c @ t" using Cons by (cases cs') auto
  ultimately show ?thesis using \<open>c \<noteq> []\<close> by (cases c) auto
qed simp

text \<open>Going to the string of a relative path and back reaches the same file.\<close>

lemma path_join_relative:
  assumes "list_all proper cs" "cs \<noteq> []" "relative_to (q @ cs) q = Inr s"
  shows "path_join q s = q @ cs"
  using assms join_not_absolute [OF assms(1)] components_join [OF assms(1)]
  by (simp add: relative_to_def path_join_def)

end
