(* ===== verification/Flash_Inspect.thy ===== *)
theory Flash_Inspect
  imports Gate Paths Sha256
begin

text \<open>
  The safe-flash inspector (\<^verbatim>\<open>scripts/macos/bootmux-safe-flash-inspect.py\<close>): it compares the firmware
  images of a build with the manifest and scans them for strings of the USB network profile. The
  manifest is the parsed JSON document; the file system is a parameter.
\<close>

section \<open>Tables\<close>

definition FORBIDDEN_PATTERNS :: "string list" where
  "FORBIDDEN_PATTERNS =
     [''CDC_ECM'', ''CDC_NCM'', ''RNDIS'', ''rndis'',
      ''usb_network'', ''USB_NETIF'', ''tinyusb_net'', ''tusb_net'',
      ''napt_enable'', ''ip_forward_enable'',
      ''BOOTMUX Bridge Experimental'', ''BOOTMUX-R7A-NCM'',
      ''TUSB_CLASS_CDC'', ''CDC_COMM_SUBCLASS'',
      ''lwip_ip_forward'', ''IP_FORWARD'']"

definition REQUIRED_MARKERS :: "string list" where
  "REQUIRED_MARKERS = [''BOOTMUX Keyboard Safe'', ''BOOTMUX-HID-SAFE'']"

definition SAFE_OFF_MARKER :: string where
  "SAFE_OFF_MARKER = ''BOOTMUX_USB_NETWORK_SAFE_OFF''"

section \<open>Manifest\<close>

record artifact =
  a_name :: string
  a_path :: string
  a_offset :: string
  a_size :: nat
  a_sha256 :: string

record manifest =
  m_build_dir :: string
  m_sdkconfig_marker :: string \<comment> \<open>empty when the key is missing\<close>
  m_usb_identity :: "string dict"
  m_flash_params :: "string dict"
  m_artifacts :: "artifact list"

section \<open>Inspection\<close>

definition is_printable :: "char \<Rightarrow> bool" where
  "is_printable c = (32 \<le> code c \<and> code c \<le> 126)"

text \<open>The maximal runs of printable characters; \<open>cur\<close> is the reversed current run.\<close>

fun runs_from :: "string \<Rightarrow> string \<Rightarrow> string list" where
  "runs_from cur [] = (if cur = [] then [] else [rev cur])"
| "runs_from cur (c # s) =
     (if is_printable c then runs_from (c # cur) s
      else (if cur = [] then [] else [rev cur]) @ runs_from [] s)"

definition scan_binary_strings :: "string \<Rightarrow> string list" where
  "scan_binary_strings data = filter (\<lambda>r. length r \<ge> 6) (runs_from [] data)"

definition matching :: "string list \<Rightarrow> string list \<Rightarrow> string list" where
  "matching pats strings = filter (\<lambda>s. list_ex (\<lambda>p. contains p s) pats) strings"

record artifact_result =
  ar_name :: string
  ar_path :: path
  ar_exists :: bool
  ar_size_match :: bool
  ar_sha256_match :: bool
  ar_forbidden_found :: "string list"
  ar_forbidden_clean :: bool
  ar_required_found :: "string list"
  ar_status :: string

definition inspect_artifact :: "files \<Rightarrow> path \<Rightarrow> artifact \<Rightarrow> artifact_result" where
  "inspect_artifact fs p entry =
     (case fs p of
        None \<Rightarrow>
          \<lparr>ar_name = a_name entry, ar_path = p, ar_exists = False, ar_size_match = False,
           ar_sha256_match = False, ar_forbidden_found = [], ar_forbidden_clean = False,
           ar_required_found = [], ar_status = ''MISSING''\<rparr>
      | Some data \<Rightarrow>
          (let size_match = (length data = a_size entry);
               sha256_match = (sha256_hex data = a_sha256 entry);
               strings = scan_binary_strings data;
               forbidden_found = matching FORBIDDEN_PATTERNS strings;
               forbidden_clean = (forbidden_found = [])
           in \<lparr>ar_name = a_name entry, ar_path = p, ar_exists = True, ar_size_match = size_match,
               ar_sha256_match = sha256_match, ar_forbidden_found = forbidden_found,
               ar_forbidden_clean = forbidden_clean,
               ar_required_found = matching REQUIRED_MARKERS strings,
               ar_status = (if size_match \<and> sha256_match \<and> forbidden_clean then ''GREEN'' else ''RED'')\<rparr>))"

record usb_identity_result =
  ui_found :: "bool dict"
  ui_match :: bool
  ui_error :: "string option"

definition newline :: string where "newline = [char_of (10 :: nat)]"

definition all_text :: "string \<Rightarrow> string" where
  "all_text data = join newline (scan_binary_strings data)"

definition verify_usb_identity :: "files \<Rightarrow> manifest \<Rightarrow> path \<Rightarrow> usb_identity_result" where
  "verify_usb_identity fs m build_dir =
     (case find (\<lambda>a. a_name a = ''application'') (m_artifacts m) of
        None \<Rightarrow> \<lparr>ui_found = [], ui_match = False, ui_error = Some ''no application artifact in manifest''\<rparr>
      | Some app \<Rightarrow>
          (case fs (path_join (parent build_dir) (a_path app)) of
             None \<Rightarrow> \<lparr>ui_found = [], ui_match = False, 
                       ui_error = Some (''application binary not found: /''
                         @ join ''/'' (path_join (parent build_dir) (a_path app)))\<rparr>
           | Some data \<Rightarrow>
               (let found = map (\<lambda>k. (k, contains (dict_get (m_usb_identity m) k []) (all_text data)))
                              [''product'', ''serial'']
                in \<lparr>ui_found = found, ui_match = list_all snd found, ui_error = None\<rparr>)))"

record inspection =
  in_artifacts :: "artifact_result list"
  in_sdkconfig_marker :: bool
  in_safe_off_marker :: bool
  in_usb_identity :: usb_identity_result
  in_overall :: string

text \<open>The data of the last application artifact that exists.\<close>

definition app_data :: "files \<Rightarrow> manifest \<Rightarrow> path \<Rightarrow> string option" where
  "app_data fs m build_dir =
     foldl (\<lambda>d e. let c = fs (path_join (parent build_dir) (a_path e))
                   in if a_name e = ''application'' \<and> c \<noteq> None then c else d) None (m_artifacts m)"

definition sdkconfig_ok :: "files \<Rightarrow> manifest \<Rightarrow> path \<Rightarrow> bool" where
  "sdkconfig_ok fs m build_dir =
     (case fs (path_join (parent build_dir) ''sdkconfig'') of
        None \<Rightarrow> False
      | Some content \<Rightarrow> contains (m_sdkconfig_marker m) content)"

definition inspect_build :: "files \<Rightarrow> path \<Rightarrow> manifest \<Rightarrow> inspection" where
  "inspect_build fs build_dir m =
     (let arts = map (\<lambda>e. inspect_artifact fs (path_join (parent build_dir) (a_path e)) e) (m_artifacts m);
          all_green = list_all (\<lambda>r. ar_status r = ''GREEN'') arts;
          marker = sdkconfig_ok fs m build_dir;
          safe_off = (case app_data fs m build_dir of
                        None \<Rightarrow> False
                      | Some data \<Rightarrow> contains SAFE_OFF_MARKER (all_text data));
          usb = verify_usb_identity fs m build_dir
      in \<lparr>in_artifacts = arts, in_sdkconfig_marker = marker, in_safe_off_marker = safe_off,
          in_usb_identity = usb,
          in_overall = (if all_green \<and> marker \<and> safe_off \<and> ui_match usb then ''GREEN'' else ''RED'')\<rparr>)"

text \<open>The command line: the parsed manifest, if the file exists; the exit code.\<close>

definition inspect_main :: "files \<Rightarrow> manifest option \<Rightarrow> path \<Rightarrow> int" where
  "inspect_main fs m build_dir =
     (case m of
        None \<Rightarrow> 1
      | Some m \<Rightarrow> if in_overall (inspect_build fs build_dir m) = ''GREEN'' then 0 else 1)"

section \<open>The scanner\<close>

lemma runs_from_prefix:
  "list_all is_printable s \<Longrightarrow> rev cur @ s \<noteq> [] \<Longrightarrow> \<exists>r \<in> set (runs_from cur (s @ v)). prefix (rev cur @ s) r"
proof (induction s arbitrary: cur)
  case Nil
  then have "cur \<noteq> []" by simp
  then show ?case
  proof (induction v arbitrary: cur)
    case (Cons c v)
    show ?case
    proof (cases "is_printable c")
      case True
      with Cons.IH [of "c # cur"] show ?thesis
        by (auto dest: append_prefixD)
    qed (use Cons.prems in simp)
  qed simp
next
  case (Cons c s)
  with Cons.IH [of "c # cur"] show ?case by simp
qed

lemma runs_from_contains:
  "list_all is_printable s \<Longrightarrow> s \<noteq> [] \<Longrightarrow> \<exists>r \<in> set (runs_from cur (u @ s @ v)). contains s r"
proof (induction u arbitrary: cur)
  case Nil
  with runs_from_prefix [of s cur v] obtain r where r: "r \<in> set (runs_from cur (s @ v))" "prefix (rev cur @ s) r"
    by auto
  then obtain z where "r = rev cur @ s @ z" by (auto elim!: prefixE)
  then have "contains s r" using contains_appendI [OF contains_refl [of s], of "rev cur" z] by simp
  with r(1) show ?case by auto
next
  case (Cons c u)
  then show ?case by (cases "is_printable c") auto
qed

text \<open>Every stretch of at least six printable bytes is inside a reported string.\<close>

lemma scan_complete:
  assumes "list_all is_printable s" "6 \<le> length s"
  shows "\<exists>r \<in> set (scan_binary_strings (u @ s @ v)). contains s r"
proof -
  from assms have "s \<noteq> []" by auto
  with runs_from_contains [OF assms(1), of "[]" u v] obtain r where
    r: "r \<in> set (runs_from [] (u @ s @ v))" "contains s r" by blast
  from r(2) have "length s \<le> length r" by (auto simp: contains_iff)
  with r assms(2) show ?thesis by (auto simp: scan_binary_strings_def)
qed

section \<open>The inspector as a gate\<close>

definition build_checks :: "files \<times> path \<times> manifest \<Rightarrow> bool dict" where
  "build_checks x =
     (case x of (fs, build_dir, m) \<Rightarrow>
        map (\<lambda>e. (a_name e, ar_status (inspect_artifact fs (path_join (parent build_dir) (a_path e)) e) = ''GREEN''))
          (m_artifacts m)
        @ [(''sdkconfig_marker'', sdkconfig_ok fs m build_dir),
           (''safe_off_marker'', in_safe_off_marker (inspect_build fs build_dir m)),
           (''usb_identity'', ui_match (verify_usb_identity fs m build_dir))])"

lemma overall_green_checks:
  "in_overall (inspect_build fs d m) = ''GREEN'' \<longleftrightarrow> list_all snd (build_checks (fs, d, m))"
  by (auto simp: inspect_build_def build_checks_def Let_def list_all_iff)

interpretation inspector: gate build_checks "\<lambda>(fs, d, m). in_overall (inspect_build fs d m) = ''GREEN''"
  by unfold_locales (auto simp: overall_green_checks)

section \<open>Properties\<close>

text \<open>
  C34. A forbidden string cannot be flashed: if the image of some artifact of the manifest holds, anywhere,
  at least six consecutive printable bytes among which a forbidden pattern occurs, the inspection is not
  GREEN and the inspector exits with 1.
\<close>

theorem forbidden_string_blocks:
  assumes "e \<in> set (m_artifacts m)" and "fs (path_join (parent d) (a_path e)) = Some (u @ s @ v)"
    and "list_all is_printable s" and "6 \<le> length s" and "p \<in> set FORBIDDEN_PATTERNS" and "contains p s"
  shows "in_overall (inspect_build fs d m) \<noteq> ''GREEN'' \<and> inspect_main fs (Some m) d = 1"
proof -
  obtain r where "r \<in> set (scan_binary_strings (u @ s @ v))" "contains p r"
    using scan_complete [OF assms(3,4)] contains_trans [OF assms(6)] by blast
  with assms(5) have "matching FORBIDDEN_PATTERNS (scan_binary_strings (u @ s @ v)) \<noteq> []"
    by (auto simp: matching_def filter_empty_conv list_ex_iff)
  then have "ar_status (inspect_artifact fs (path_join (parent d) (a_path e)) e) \<noteq> ''GREEN''"
    by (simp add: inspect_artifact_def assms(2) Let_def)
  with assms(1) have "(a_name e, False) \<in> set (build_checks (fs, d, m))"
    by (force simp: build_checks_def)
  from inspector.blocked [OF this] show ?thesis by (simp add: inspect_main_def)
qed

text \<open>
  What GREEN certifies: the inspection is GREEN exactly when every artifact of the manifest exists
  with the recorded size and SHA-256 digest and without forbidden string, the sdkconfig holds the marker,
  an application image holds the safe-off marker, and the first application artifact holds product name and serial of
  the manifest.
\<close>

lemma inspection_green_iff:
  "in_overall (inspect_build fs d m) = ''GREEN'' \<longleftrightarrow>
     list_all (\<lambda>e. \<exists>data. fs (path_join (parent d) (a_path e)) = Some data
        \<and> length data = a_size e \<and> sha256_hex data = a_sha256 e
        \<and> matching FORBIDDEN_PATTERNS (scan_binary_strings data) = []) (m_artifacts m)
     \<and> (\<exists>content. fs (path_join (parent d) ''sdkconfig'') = Some content \<and> contains (m_sdkconfig_marker m) content)
     \<and> (\<exists>data. app_data fs m d = Some data \<and> contains SAFE_OFF_MARKER (all_text data))
     \<and> (\<exists>app data. find (\<lambda>a. a_name a = ''application'') (m_artifacts m) = Some app
          \<and> fs (path_join (parent d) (a_path app)) = Some data
          \<and> contains (dict_get (m_usb_identity m) ''product'' []) (all_text data)
          \<and> contains (dict_get (m_usb_identity m) ''serial'' []) (all_text data))"
proof -
  have art: "ar_status (inspect_artifact fs p e) = ''GREEN'' \<longleftrightarrow>
      (\<exists>data. fs p = Some data \<and> length data = a_size e \<and> sha256_hex data = a_sha256 e
         \<and> matching FORBIDDEN_PATTERNS (scan_binary_strings data) = [])" for p e
    by (auto simp: inspect_artifact_def Let_def split: option.split)
  have usb: "ui_match (verify_usb_identity fs m d) \<longleftrightarrow>
      (\<exists>app data. find (\<lambda>a. a_name a = ''application'') (m_artifacts m) = Some app
          \<and> fs (path_join (parent d) (a_path app)) = Some data
          \<and> contains (dict_get (m_usb_identity m) ''product'' []) (all_text data)
          \<and> contains (dict_get (m_usb_identity m) ''serial'' []) (all_text data))"
    by (auto simp: verify_usb_identity_def Let_def split: option.split)
  have sdk: "sdkconfig_ok fs m d \<longleftrightarrow>
      (\<exists>content. fs (path_join (parent d) ''sdkconfig'') = Some content \<and> contains (m_sdkconfig_marker m) content)"
    by (auto simp: sdkconfig_ok_def split: option.split)
  have off: "in_safe_off_marker (inspect_build fs d m) \<longleftrightarrow>
      (\<exists>data. app_data fs m d = Some data \<and> contains SAFE_OFF_MARKER (all_text data))"
    by (auto simp: inspect_build_def Let_def split: option.split)
  show ?thesis
    unfolding overall_green_checks build_checks_def prod.case list_all_append list.pred_inject snd_conv off sdk usb
    by (simp add: list_all_iff art)
qed

text \<open>
  Short forbidden names are missed: the scanner reports only runs of six or more characters, so an
  image in which RNDIS stands alone between zero bytes has no forbidden finding.
\<close>

lemma short_forbidden_missed:
  "''RNDIS'' \<in> set FORBIDDEN_PATTERNS
   \<and> matching FORBIDDEN_PATTERNS (scan_binary_strings ([char_of (0 :: nat)] @ ''RNDIS'' @ [char_of (0 :: nat)])) = []"
  by code_simp

end
