(* ===== verification/Flash_Manifest.thy ===== *)
theory Flash_Manifest
  imports Flash_Inspect Regex
begin

text \<open>
  The manifest generator (\<^verbatim>\<open>scripts/macos/generate-safe-manifest.py\<close>): it records the size and the
  SHA-256 digest of every image that \<^verbatim>\<open>flasher_args.json\<close> names and the sdkconfig line that shows the USB
  network profile to be off. Its output is what the inspector checks against, so the two are related
  here by a round trip.
\<close>

section \<open>Definitions\<close>

definition MARKER_KEY :: string where
  "MARKER_KEY = ''CONFIG_BOOTMUX_USB_NETWORK_EXPERIMENTAL''"

definition detect_marker :: "string \<Rightarrow> string \<Rightarrow> string" where
  "detect_marker txt key =
     (case find (\<lambda>l. prefix (''# '' @ key @ '' is not set'') l) (map strip (splitlines txt)) of
        None \<Rightarrow> []
      | Some l \<Rightarrow> l)"

definition extract_sdkconfig_marker :: "files \<Rightarrow> path \<Rightarrow> string" where
  "extract_sdkconfig_marker fs p =
     (case fs p of None \<Rightarrow> [] | Some txt \<Rightarrow> detect_marker txt MARKER_KEY)"

record flasher_args =
  fl_settings :: "string dict"
  fl_files :: "string dict" \<comment> \<open>offset to relative path\<close>

definition name_map :: "string dict" where
  "name_map = [(''0x0'', ''bootloader''), (''0x8000'', ''partition-table''), (''0x10000'', ''application'')]"

text \<open>The file behind a relative path: in the build directory, or beside it.\<close>

definition resolve_image :: "files \<Rightarrow> path \<Rightarrow> string \<Rightarrow> path option" where
  "resolve_image fs build_dir rel =
     (if fs (path_join build_dir rel) \<noteq> None then Some (path_join build_dir rel)
      else if fs (path_join (parent build_dir) rel) \<noteq> None then Some (path_join (parent build_dir) rel)
      else None)"

definition make_artifact :: "files \<Rightarrow> path \<Rightarrow> string \<times> string \<Rightarrow> artifact option result" where
  "make_artifact fs build_dir ofs_rel =
     (case ofs_rel of (offset_str, rel) \<Rightarrow>
        case resolve_image fs build_dir rel of
          None \<Rightarrow> Inr None
        | Some full \<Rightarrow>
            bindE (relative_to full (parent build_dir)) (\<lambda>rel_str.
              Inr (Some
                \<lparr>a_name = dict_get name_map offset_str (splitext_root (basename rel)),
                 a_path = rel_str, a_offset = offset_str,
                 a_size = length (the (fs full)), a_sha256 = sha256_hex (the (fs full))\<rparr>)))"

fun make_artifacts :: "files \<Rightarrow> path \<Rightarrow> (string \<times> string) list \<Rightarrow> artifact list result" where
  "make_artifacts fs d [] = Inr []"
| "make_artifacts fs d (x # xs) =
     bindE (make_artifact fs d x) (\<lambda>a.
       bindE (make_artifacts fs d xs) (\<lambda>as. Inr (case a of None \<Rightarrow> as | Some a \<Rightarrow> a # as)))"

definition sorted_files :: "flasher_args \<Rightarrow> (string \<times> string) list result" where
  "sorted_files fl =
     (if list_all (\<lambda>kv. hex_int (fst kv) \<noteq> None) (fl_files fl)
      then Inr (sort_key (\<lambda>kv. the (hex_int (fst kv))) (fl_files fl))
      else Inl ValueError)"

definition generated_marker :: "files \<Rightarrow> path \<Rightarrow> string" where
  "generated_marker fs build_dir =
     (let marker = extract_sdkconfig_marker fs (path_join (parent build_dir) ''sdkconfig'')
      in if marker \<noteq> [] then marker
         else case fs (path_join (parent build_dir) ''sdkconfig.defaults'') of
           None \<Rightarrow> marker
         | Some txt \<Rightarrow> detect_marker txt MARKER_KEY)"

text \<open>\<open>fl\<close> is the parsed \<^verbatim>\<open>flasher_args.json\<close>, absent when there is no such file (the tool then exits).\<close>

definition generate_manifest :: "files \<Rightarrow> path \<Rightarrow> flasher_args option \<Rightarrow> manifest option result" where
  "generate_manifest fs build_dir fl =
     (case fl of
        None \<Rightarrow> Inr None
      | Some fl \<Rightarrow>
          bindE (sorted_files fl) (\<lambda>entries.
          bindE (make_artifacts fs build_dir entries) (\<lambda>arts.
            Inr (Some
              \<lparr>m_build_dir = path_name build_dir,
               m_sdkconfig_marker = generated_marker fs build_dir,
               m_usb_identity =
                 [(''vid'', ''0x303A''), (''pid'', ''0x4014''), (''product'', ''BOOTMUX Keyboard Safe''),
                  (''serial'', ''BOOTMUX-HID-SAFE''), (''device_class'', ''0x00''),
                  (''device_subclass'', ''0x00''), (''device_protocol'', ''0x00'')],
               m_flash_params =
                 [(''flash_mode'', dict_get (fl_settings fl) ''flash_mode'' ''dio''),
                  (''flash_freq'', dict_get (fl_settings fl) ''flash_freq'' ''80m''),
                  (''flash_size'', dict_get (fl_settings fl) ''flash_size'' ''2MB'')],
               m_artifacts = arts\<rparr>))))"

section \<open>Lemmas\<close>

lemma path_join_ends_proper:
  assumes "path_join p rel = full" "list_all proper p"
  shows "list_all proper full"
  using assms components_proper by (auto simp: path_join_def list_all_iff split: if_splits)

lemma make_artifact_found:
  assumes "make_artifact fs d x = Inr (Some a)" "list_all proper d"
  shows "\<exists>data. fs (path_join (parent d) (a_path a)) = Some data
           \<and> a_size a = length data \<and> a_sha256 a = sha256_hex data"
proof -
  obtain off rel where x: "x = (off, rel)" by (cases x)
  from assms(1) obtain full rel_str where full: "resolve_image fs d rel = Some full"
    and rs: "relative_to full (parent d) = Inr rel_str"
    and a: "a_path a = rel_str" "a_size a = length (the (fs full))" "a_sha256 a = sha256_hex (the (fs full))"
    by (auto simp: make_artifact_def x bindE_Inr_iff split: option.splits)
  from full have ex: "fs full \<noteq> None" and j: "full = path_join d rel \<or> full = path_join (parent d) rel"
    by (auto simp: resolve_image_def split: if_splits)
  have "list_all proper (parent d)" using assms(2) by (auto simp: parent_def list_all_iff dest: in_set_butlastD)
  with j assms(2) have pf: "list_all proper full" using path_join_ends_proper by metis
  from rs obtain cs where cs: "full = parent d @ cs"
    by (auto simp: relative_to_def prefix_def split: if_splits)
  have "path_join (parent d) rel_str = full"
  proof (cases "cs = []")
    case True
    with rs cs have "rel_str = ''.''" by (simp add: relative_to_def)
    then show ?thesis using cs True by (simp add: path_join_def components_def split_on_def)
  next
    case False
    with path_join_relative [of cs "parent d" rel_str] pf rs cs show ?thesis by simp
  qed
  with a ex show ?thesis by (auto)
qed

lemma make_artifacts_found:
  assumes "make_artifacts fs d xs = Inr as" "list_all proper d" "a \<in> set as"
  shows "\<exists>data. fs (path_join (parent d) (a_path a)) = Some data
           \<and> a_size a = length data \<and> a_sha256 a = sha256_hex data"
  using assms
proof (induction xs arbitrary: as)
  case (Cons x xs)
  then obtain oa as' where "make_artifact fs d x = Inr oa" "make_artifacts fs d xs = Inr as'"
    "as = (case oa of None \<Rightarrow> as' | Some b \<Rightarrow> b # as')"
    by (auto simp: bindE_Inr_iff)
  with Cons.IH [of as'] Cons.prems make_artifact_found [of fs d x] show ?case by (auto split: option.splits)
qed simp

section \<open>Properties\<close>

text \<open>
  C35. Generate, then inspect: on unchanged files the inspector finds every artifact that the generator
  recorded, with matching size and matching digest; what can still make it RED are forbidden strings and
  the markers.
\<close>

theorem manifest_roundtrip:
  assumes "generate_manifest fs d fl = Inr (Some m)" and "list_all proper d" and "e \<in> set (m_artifacts m)"
  shows "let r = inspect_artifact fs (path_join (parent d) (a_path e)) e
         in ar_exists r \<and> ar_size_match r \<and> ar_sha256_match r
            \<and> (ar_status r = ''GREEN'' \<longleftrightarrow> ar_forbidden_found r = [])"
proof -
  from assms(1) obtain xs where "make_artifacts fs d xs = Inr (m_artifacts m)"
    by (auto simp: generate_manifest_def bindE_Inr_iff split: option.splits)
  from make_artifacts_found [OF this assms(2,3)] show ?thesis
    by (auto simp: inspect_artifact_def Let_def split: if_splits)
qed

text \<open>
  The sdkconfig check fails open: when neither sdkconfig nor its defaults show the USB network profile
  to be off (for instance because it is switched on), the generator records an empty marker, and the
  inspector finds the empty marker in any sdkconfig.
\<close>

lemma enabled_network_passes_marker:
  assumes "generate_manifest fs d fl = Inr (Some m)"
    and "fs (path_join (parent d) ''sdkconfig'') = Some txt" and "detect_marker txt MARKER_KEY = []"
    and "fs (path_join (parent d) ''sdkconfig.defaults'') = None"
  shows "m_sdkconfig_marker m = [] \<and> in_sdkconfig_marker (inspect_build fs d m)"
proof -
  have "m_sdkconfig_marker m = generated_marker fs d"
    using assms(1) by (auto simp: generate_manifest_def bindE_Inr_iff split: option.splits)
  also have "\<dots> = []"
    using assms(2-4) by (simp add: generated_marker_def extract_sdkconfig_marker_def)
  finally show ?thesis using assms(2) by (simp add: inspect_build_def Let_def sdkconfig_ok_def)
qed

end
