(* ===== verification/Flash_Ports.thy ===== *)
theory Flash_Ports
  imports Regex
begin

text \<open>
  Serial port detection of the safe-flash runner (\<^verbatim>\<open>scripts/macos/bootmux-safe-flash-runner.py\<close>): which
  device may be flashed. The reject patterns are compiled with \<^verbatim>\<open>re.IGNORECASE\<close>: pattern and port are
  compared in lower case.
\<close>

section \<open>Definitions\<close>

definition SERIAL_GLOB_PATTERNS :: "string list" where
  "SERIAL_GLOB_PATTERNS =
     [''/dev/cu.usbserial-*'', ''/dev/cu.usbmodem*'', ''/dev/cu.SLAB_*'', ''/dev/cu.wchusbserial*'']"

text \<open>The text of each pattern and its alternatives.\<close>

definition REJECT_PATTERNS :: "(string \<times> item list list) list" where
  "REJECT_PATTERNS =
     [(''Bluetooth'', [[Lit ''bluetooth'']]),
      (''iPhone|iPad|Android|Samsung|Pixel|Xiaomi'',
         map (\<lambda>s. [Lit s]) [''iphone'', ''ipad'', ''android'', ''samsung'', ''pixel'', ''xiaomi'']),
      (''disk[0-9]'', [[Lit ''disk'', Exact 1 is_digit]]),
      (''BOOTMUX.*Bridge|BOOTMUX.*NCM|BOOTMUX.*ECM'',
         map (\<lambda>s. [Lit ''bootmux'', Rep 0 not_newline, Lit s]) [''bridge'', ''ncm'', ''ecm'']),
      (''en[0-9]'', [[Lit ''en'', Exact 1 is_digit]]),
      (''bridge[0-9]'', [[Lit ''bridge'', Exact 1 is_digit]])]"

definition pattern_hits :: "item list list \<Rightarrow> string \<Rightarrow> bool" where
  "pattern_hits alts port = list_ex (\<lambda>ps. re_search ps (lower port) \<noteq> None) alts"

definition is_rejected_device :: "string \<Rightarrow> bool \<times> string" where
  "is_rejected_device port =
     (case find (\<lambda>p. pattern_hits (snd p) port) REJECT_PATTERNS of
        Some p \<Rightarrow> (True, ''matches reject pattern: '' @ fst p)
      | None \<Rightarrow> (False, []))"

text \<open>\<^verbatim>\<open>sorted(set(ports))\<close> of the matches of all patterns.\<close>

definition list_serial_ports :: "(string \<Rightarrow> string list) \<Rightarrow> string list" where
  "list_serial_ports glob = sort (remdups (concat (map glob SERIAL_GLOB_PATTERNS)))"

definition detect_new_port :: "string list \<Rightarrow> string list \<Rightarrow> string option \<times> string" where
  "detect_new_port before after =
     (let new_ports = filter (\<lambda>p. p \<notin> set before) after;
          candidates = filter (\<lambda>p. \<not> fst (is_rejected_device p)) new_ports;
          rejected = map (\<lambda>p. (p, snd (is_rejected_device p))) (filter (\<lambda>p. fst (is_rejected_device p)) new_ports)
      in case candidates of
           [] \<Rightarrow>
             if rejected \<noteq> []
             then (None, ''REJECTED: all new ports rejected: [''
                     @ join '', '' (map (\<lambda>(p, r). ''('' @ repr_str p @ '', '' @ repr_str r @ '')'') rejected) @ '']'')
             else (None, ''NO_NEW_PORT: no new serial device detected'')
         | [p] \<Rightarrow> (Some p, ''SINGLE_CANDIDATE'')
         | _ \<Rightarrow> (None, ''AMBIGUOUS: '' @ nat_str (length candidates) @ '' candidates: '' @ repr_list candidates))"

text \<open>For evaluation: a listing is only examined once it is known.\<close>

lemma detect_new_port_code [code]:
  "detect_new_port before [] = (None, ''NO_NEW_PORT: no new serial device detected'')"
  "detect_new_port before (x # xs) =
     (let new_ports = filter (\<lambda>p. p \<notin> set before) (x # xs);
          candidates = filter (\<lambda>p. \<not> fst (is_rejected_device p)) new_ports;
          rejected = map (\<lambda>p. (p, snd (is_rejected_device p))) (filter (\<lambda>p. fst (is_rejected_device p)) new_ports)
      in case candidates of
           [] \<Rightarrow>
             if rejected \<noteq> []
             then (None, ''REJECTED: all new ports rejected: [''
                     @ join '', '' (map (\<lambda>(p, r). ''('' @ repr_str p @ '', '' @ repr_str r @ '')'') rejected) @ '']'')
             else (None, ''NO_NEW_PORT: no new serial device detected'')
         | [p] \<Rightarrow> (Some p, ''SINGLE_CANDIDATE'')
         | _ \<Rightarrow> (None, ''AMBIGUOUS: '' @ nat_str (length candidates) @ '' candidates: '' @ repr_list candidates))"
  by (simp_all only: detect_new_port_def Let_def) simp

text \<open>
  What reading from the port gives: the library is missing, an exception with its text, or the bytes read.
\<close>

datatype serial_reply = NoPyserial | SerialFail string | SerialRead string

definition ROM_DOWNLOAD_MARKER :: string where "ROM_DOWNLOAD_MARKER = ''waiting for download''"
definition ROM_DOWNLOAD_ALT :: string where "ROM_DOWNLOAD_ALT = ''ESP-ROM:esp32s3''"

definition check_rom_download_mode :: "serial_reply \<Rightarrow> bool \<times> string" where
  "check_rom_download_mode reply =
     (case reply of
        NoPyserial \<Rightarrow> (False, ''PYSERIAL_MISSING: pip install pyserial required'')
      | SerialFail e \<Rightarrow> (False, ''SERIAL_ERROR: '' @ e)
      | SerialRead data \<Rightarrow>
          (let txt = lower data in
           if contains (lower ROM_DOWNLOAD_MARKER) txt \<or> contains (lower ROM_DOWNLOAD_ALT) txt
           then (True, ''ROM_DOWNLOAD_MODE_CONFIRMED'')
           else if length data > 0
           then (False, ''NOT_ROM_MODE: got '' @ nat_str (length data) @ '' bytes, no ROM marker'')
           else (False, ''NO_RESPONSE: device silent'')))"

section \<open>Lemmas\<close>

lemma filter_singleton_iff:
  "filter P xs = [x] \<longleftrightarrow> (\<exists>u v. xs = u @ x # v \<and> P x \<and> (\<forall>y \<in> set u. \<not> P y) \<and> (\<forall>y \<in> set v. \<not> P y))"
proof
  assume "filter P xs = [x]"
  from filter_eq_ConsD [OF this] obtain u v where
    "xs = u @ x # v" "\<forall>y \<in> set u. \<not> P y" "P x" "[] = filter P v" by blast
  then show "\<exists>u v. xs = u @ x # v \<and> P x \<and> (\<forall>y \<in> set u. \<not> P y) \<and> (\<forall>y \<in> set v. \<not> P y)"
    by (metis filter_empty_conv)
qed (auto simp: filter_empty_conv)

lemma detect_new_port_Some:
  "fst (detect_new_port before after) = Some p \<longleftrightarrow>
     filter (\<lambda>q. q \<notin> set before \<and> \<not> fst (is_rejected_device q)) after = [p]"
  by (auto simp: detect_new_port_def Let_def conj_commute split: list.split)

text \<open>A literal pattern is found wherever it occurs.\<close>

lemma re_search_literal: "contains l s \<Longrightarrow> re_search [Lit l] s \<noteq> None"
  by (induction s) (auto simp: re_match_def split: option.split)

lemma rejected_literal:
  assumes "(name, alts) \<in> set REJECT_PATTERNS" "[Lit l] \<in> set alts" "contains l (lower p)"
  shows "fst (is_rejected_device p)"
proof -
  have "pattern_hits alts p"
    unfolding pattern_hits_def list_ex_iff using assms(2) re_search_literal [OF assms(3)] by blast
  with assms(1) have "find (\<lambda>q. pattern_hits (snd q) p) REJECT_PATTERNS \<noteq> None"
    by (auto simp: find_None_iff)
  then show ?thesis by (auto simp: is_rejected_device_def)
qed

section \<open>Properties\<close>

text \<open>
  The port chosen for flashing is the only new one that is not rejected: a port is returned exactly
  when, among the ports that were not there before, precisely one matches no reject pattern.
\<close>

lemma detect_new_port_unique:
  "fst (detect_new_port before after) = Some p \<longleftrightarrow>
     (\<exists>u v. after = u @ p # v \<and> p \<notin> set before \<and> \<not> fst (is_rejected_device p)
        \<and> list_all (\<lambda>q. q \<in> set before \<or> fst (is_rejected_device q)) (u @ v))"
  unfolding detect_new_port_Some
  by (simp add: filter_singleton_iff list_all_iff ball_Un)

end
