(* ===== verification/Action.thy ===== *)
theory Action
  imports Bootmux_Prelude
begin

text \<open>
  Programs that change a state and may end with an exception: an action returns a value or an uncaught
  exception, and the state it has reached is kept in both cases (what was written is on disk, commands that were
  started have run). The flash runner and the attach shield are written as actions. The second half is
  the calculus for them: \<open>ends\<close> for what a returned value satisfies and the locale \<open>action_rel\<close>, which passes a
  preorder between the state before and after through the composition of actions.
\<close>

section \<open>Actions\<close>

type_synonym ('s, 'a) act = "'s \<Rightarrow> 'a result \<times> 's"

definition ret :: "'a \<Rightarrow> ('s, 'a) act" where "ret x r = (Inr x, r)"

definition bindA :: "('s, 'a) act \<Rightarrow> ('a \<Rightarrow> ('s, 'b) act) \<Rightarrow> ('s, 'b) act" where
  "bindA m f r = (case m r of (Inl x, r') \<Rightarrow> (Inl x, r') | (Inr v, r') \<Rightarrow> f v r')"

definition raiseA :: "exn \<Rightarrow> ('s, 'a) act" where "raiseA x r = (Inl x, r)"

definition gets :: "('s \<Rightarrow> 'a) \<Rightarrow> ('s, 'a) act" where "gets f r = (Inr (f r), r)"

definition modify :: "('s \<Rightarrow> 's) \<Rightarrow> ('s, unit) act" where "modify f r = (Inr (), f r)"

text \<open>\<^verbatim>\<open>try: m except Exception\<close>: the exception becomes a value.\<close>

definition tryA :: "('s, 'a) act \<Rightarrow> ('s, 'a result) act" where
  "tryA m r = (case m r of (x, r') \<Rightarrow> (Inr x, r'))"

text \<open>\<^verbatim>\<open>for x in xs: f(x)\<close>, without and with a variable that the body updates.\<close>

fun for_each :: "('x \<Rightarrow> ('s, unit) act) \<Rightarrow> 'x list \<Rightarrow> ('s, unit) act" where
  "for_each f [] = ret ()"
| "for_each f (x # xs) = bindA (f x) (\<lambda>_. for_each f xs)"

fun fold_act :: "('x \<Rightarrow> 'a \<Rightarrow> ('s, 'a) act) \<Rightarrow> 'x list \<Rightarrow> 'a \<Rightarrow> ('s, 'a) act" where
  "fold_act f [] a = ret a"
| "fold_act f (x # xs) a = bindA (f x a) (fold_act f xs)"

section \<open>What an action returns\<close>

definition ends :: "('a \<Rightarrow> 's \<Rightarrow> bool) \<Rightarrow> ('s, 'a) act \<Rightarrow> bool" where
  "ends Q m \<longleftrightarrow> (\<forall>r v r'. m r = (Inr v, r') \<longrightarrow> Q v r')"

lemma endsD: "ends Q m \<Longrightarrow> m r = (Inr v, r') \<Longrightarrow> Q v r'"
  unfolding ends_def by blast

named_theorems ends_rules \<open>composition rules for results\<close>

lemma ends_ret [ends_rules]: "(\<And>r. Q v r) \<Longrightarrow> ends Q (ret v)"
  by (simp add: ends_def ret_def)

lemma ends_raise [ends_rules]: "ends Q (raiseA x)"
  by (simp add: ends_def raiseA_def)

lemma bindA_Inr_iff:
  "bindA m f r = (Inr v, r') \<longleftrightarrow> (\<exists>x s. m r = (Inr x, s) \<and> f x s = (Inr v, r'))"
  by (auto simp: bindA_def split: prod.splits sum.splits)

lemma ends_bind [ends_rules]: "(\<And>v. ends Q (f v)) \<Longrightarrow> ends Q (bindA m f)"
  unfolding ends_def bindA_Inr_iff by blast

lemma ends_bind_value: "ends Q' m \<Longrightarrow> (\<And>v r. Q' v r \<Longrightarrow> ends Q (f v)) \<Longrightarrow> ends Q (bindA m f)"
  unfolding ends_def bindA_Inr_iff by blast

lemma ends_cond [ends_rules]: "(b \<Longrightarrow> ends Q m) \<Longrightarrow> (\<not> b \<Longrightarrow> ends Q n) \<Longrightarrow> ends Q (if b then m else n)"
  by simp

lemma ends_opt [ends_rules]:
  "(v = None \<Longrightarrow> ends Q m) \<Longrightarrow> (\<And>x. v = Some x \<Longrightarrow> ends Q (f x)) \<Longrightarrow> ends Q (case v of None \<Rightarrow> m | Some x \<Rightarrow> f x)"
  by (simp split: option.split)

lemma ends_pair [ends_rules]: "(\<And>x y. p = (x, y) \<Longrightarrow> ends Q (f x y)) \<Longrightarrow> ends Q (case p of (x, y) \<Rightarrow> f x y)"
  by (simp split: prod.split)

lemma ends_sum [ends_rules]:
  "(\<And>x. v = Inl x \<Longrightarrow> ends Q (f x)) \<Longrightarrow> (\<And>y. v = Inr y \<Longrightarrow> ends Q (g y)) \<Longrightarrow>
   ends Q (case v of Inl x \<Rightarrow> f x | Inr y \<Rightarrow> g y)"
  by (simp split: sum.split)

lemma ends_let [ends_rules]: "ends Q (f v) \<Longrightarrow> ends Q (let x = v in f x)"
  by simp

section \<open>Relations kept by actions\<close>

definition keeps :: "('s \<Rightarrow> 's \<Rightarrow> bool) \<Rightarrow> ('s, 'a) act \<Rightarrow> bool" where
  "keeps R m \<longleftrightarrow> (\<forall>r. R r (snd (m r)))"

lemma keepsD: "keeps R m \<Longrightarrow> m r = (x, r') \<Longrightarrow> R r r'"
  unfolding keeps_def by (metis snd_conv)

named_theorems keeps_rules \<open>composition rules for kept relations\<close>

locale action_rel =
  fixes R :: "'s \<Rightarrow> 's \<Rightarrow> bool"
  assumes refl: "R r r"
    and trans: "R r s \<Longrightarrow> R s t \<Longrightarrow> R r t"
begin

lemma ret [keeps_rules]: "keeps R (ret x)"
  by (simp add: keeps_def ret_def refl)

lemma raise [keeps_rules]: "keeps R (raiseA x)"
  by (simp add: keeps_def raiseA_def refl)

lemma gets [keeps_rules]: "keeps R (gets f)"
  by (simp add: keeps_def gets_def refl)

lemma bind [keeps_rules]: "keeps R m \<Longrightarrow> (\<And>x. keeps R (f x)) \<Longrightarrow> keeps R (bindA m f)"
  unfolding keeps_def bindA_def by (auto split: prod.split sum.split) (metis snd_conv trans)+

lemma bind_value: "keeps R m \<Longrightarrow> ends Q m \<Longrightarrow> (\<And>x r. Q x r \<Longrightarrow> keeps R (f x)) \<Longrightarrow> keeps R (bindA m f)"
  unfolding keeps_def ends_def bindA_def by (auto split: prod.split sum.split) (metis snd_conv trans)+

lemma cond [keeps_rules]: "(b \<Longrightarrow> keeps R m) \<Longrightarrow> (\<not> b \<Longrightarrow> keeps R n) \<Longrightarrow> keeps R (if b then m else n)"
  by simp

lemma opt [keeps_rules]:
  "(v = None \<Longrightarrow> keeps R m) \<Longrightarrow> (\<And>x. v = Some x \<Longrightarrow> keeps R (f x)) \<Longrightarrow>
   keeps R (case v of None \<Rightarrow> m | Some x \<Rightarrow> f x)"
  by (simp split: option.split)

lemma pair [keeps_rules]: "(\<And>x y. p = (x, y) \<Longrightarrow> keeps R (f x y)) \<Longrightarrow> keeps R (case p of (x, y) \<Rightarrow> f x y)"
  by (simp split: prod.split)

lemma sum [keeps_rules]:
  "(\<And>x. v = Inl x \<Longrightarrow> keeps R (f x)) \<Longrightarrow> (\<And>y. v = Inr y \<Longrightarrow> keeps R (g y)) \<Longrightarrow>
   keeps R (case v of Inl x \<Rightarrow> f x | Inr y \<Rightarrow> g y)"
  by (simp split: sum.split)

lemma let_in [keeps_rules]: "keeps R (f v) \<Longrightarrow> keeps R (let x = v in f x)"
  by simp

lemma modify: "(\<And>r. R r (f r)) \<Longrightarrow> keeps R (modify f)"
  by (simp add: keeps_def modify_def)

lemma caught [keeps_rules]: "keeps R m \<Longrightarrow> keeps R (tryA m)"
  unfolding keeps_def tryA_def by (auto split: prod.split) (metis snd_conv)

lemma each [keeps_rules]: "(\<And>x. x \<in> set xs \<Longrightarrow> keeps R (f x)) \<Longrightarrow> keeps R (for_each f xs)"
proof (induction xs)
  case (Cons x xs)
  then show ?case by (simp, intro bind) auto
qed (simp add: ret)

lemma folded [keeps_rules]: "(\<And>x a. x \<in> set xs \<Longrightarrow> keeps R (f x a)) \<Longrightarrow> keeps R (fold_act f xs a)"
proof (induction xs arbitrary: a)
  case (Cons x xs)
  then show ?case by (simp, intro bind) auto
qed (simp add: ret)

end

section \<open>Relation and result at once\<close>

text \<open>\<open>does R Q m\<close>: the states before and after \<open>m\<close> are related by \<open>R\<close>, and a returned value satisfies \<open>Q\<close>.\<close>

definition does :: "('s \<Rightarrow> 's \<Rightarrow> bool) \<Rightarrow> ('a \<Rightarrow> bool) \<Rightarrow> ('s, 'a) act \<Rightarrow> bool" where
  "does R Q m \<longleftrightarrow> keeps R m \<and> ends (\<lambda>v _. Q v) m"

named_theorems does_rules \<open>composition rules for relation and result\<close>

lemma does_keeps: "does R Q m \<Longrightarrow> keeps R m"
  by (simp add: does_def)

lemma keeps_does: "keeps R m \<Longrightarrow> does R (\<lambda>_. True) m"
  by (simp add: does_def ends_def)

lemma ends_bind_does: "does R Q' m \<Longrightarrow> (\<And>v. Q' v \<Longrightarrow> ends Q (f v)) \<Longrightarrow> ends Q (bindA m f)"
  unfolding does_def by (blast intro: ends_bind_value)

lemma does_cond [does_rules]:
  "(b \<Longrightarrow> does R Q m) \<Longrightarrow> (\<not> b \<Longrightarrow> does R Q n) \<Longrightarrow> does R Q (if b then m else n)"
  by simp

lemma does_opt [does_rules]:
  "(v = None \<Longrightarrow> does R Q m) \<Longrightarrow> (\<And>x. v = Some x \<Longrightarrow> does R Q (f x)) \<Longrightarrow>
   does R Q (case v of None \<Rightarrow> m | Some x \<Rightarrow> f x)"
  by (simp split: option.split)

lemma does_pair [does_rules]: "(\<And>x y. p = (x, y) \<Longrightarrow> does R Q (f x y)) \<Longrightarrow> does R Q (case p of (x, y) \<Rightarrow> f x y)"
  by (simp split: prod.split)

lemma does_sum [does_rules]:
  "(\<And>x. v = Inl x \<Longrightarrow> does R Q (f x)) \<Longrightarrow> (\<And>y. v = Inr y \<Longrightarrow> does R Q (g y)) \<Longrightarrow>
   does R Q (case v of Inl x \<Rightarrow> f x | Inr y \<Rightarrow> g y)"
  by (simp split: sum.split)

lemma does_let [does_rules]: "does R Q (f v) \<Longrightarrow> does R Q (let x = v in f x)"
  by simp

context action_rel
begin

lemma does_ret [does_rules]: "Q v \<Longrightarrow> does R Q (Action.ret v)"
  by (simp add: does_def ret ends_def Action.ret_def)

lemma does_raise [does_rules]: "does R Q (raiseA x)"
  by (simp add: does_def raise ends_def raiseA_def)

lemma does_bind [does_rules]: "does R Q' m \<Longrightarrow> (\<And>v. Q' v \<Longrightarrow> does R Q (f v)) \<Longrightarrow> does R Q (bindA m f)"
  unfolding does_def by (blast intro: bind_value ends_bind_value)

lemma does_fold: "(\<And>x a. x \<in> set xs \<Longrightarrow> Q a \<Longrightarrow> does R Q (f x a)) \<Longrightarrow> Q a \<Longrightarrow> does R Q (fold_act f xs a)"
proof (induction xs arbitrary: a)
  case (Cons x xs)
  then show ?case by (simp, intro does_bind [where Q' = Q]) auto
qed (simp add: does_ret)

end

section \<open>Preconditions\<close>

text \<open>\<open>hoare I m Q\<close>: from a state that satisfies \<open>I\<close>, a returned value and the state then satisfy \<open>Q\<close>.\<close>

definition hoare :: "('s \<Rightarrow> bool) \<Rightarrow> ('s, 'a) act \<Rightarrow> ('a \<Rightarrow> 's \<Rightarrow> bool) \<Rightarrow> bool" where
  "hoare I m Q \<longleftrightarrow> (\<forall>p v p'. I p \<longrightarrow> m p = (Inr v, p') \<longrightarrow> Q v p')"

text \<open>The relation of the states before and after an action that keeps an invariant.\<close>

definition stays :: "('s \<Rightarrow> bool) \<Rightarrow> 's \<Rightarrow> 's \<Rightarrow> bool" where "stays I p p' \<longleftrightarrow> (I p \<longrightarrow> I p')"

lemma hoareD: "hoare I m Q \<Longrightarrow> I p \<Longrightarrow> m p = (Inr v, p') \<Longrightarrow> Q v p'"
  unfolding hoare_def by blast

lemma ends_hoare: "ends Q m \<Longrightarrow> hoare I m Q"
  unfolding ends_def hoare_def by blast

lemma does_hoare: "does (stays I) Q m \<Longrightarrow> hoare I m (\<lambda>v p. Q v \<and> I p)"
  unfolding does_def keeps_def ends_def hoare_def stays_def by (metis snd_conv)

lemma hoare_bind: "hoare I m J \<Longrightarrow> (\<And>v. hoare (J v) (f v) Q) \<Longrightarrow> hoare I (bindA m f) Q"
  unfolding hoare_def bindA_Inr_iff by blast

lemma hoare_bind_does: "does (stays I) Q' m \<Longrightarrow> (\<And>v. Q' v \<Longrightarrow> hoare I (f v) Q) \<Longrightarrow> hoare I (bindA m f) Q"
  unfolding hoare_def bindA_Inr_iff using does_hoare unfolding hoare_def by blast

lemma hoare_cond: "(b \<Longrightarrow> hoare I m Q) \<Longrightarrow> (\<not> b \<Longrightarrow> hoare I n Q) \<Longrightarrow> hoare I (if b then m else n) Q"
  by simp

lemma hoare_pair: "(\<And>x y. p = (x, y) \<Longrightarrow> hoare I (f x y) Q) \<Longrightarrow> hoare I (case p of (x, y) \<Rightarrow> f x y) Q"
  by (simp split: prod.split)

lemma hoare_let: "hoare I (f v) Q \<Longrightarrow> hoare I (let x = v in f x) Q"
  by simp

lemma hoare_weaken: "hoare I m Q \<Longrightarrow> (\<And>v p. Q v p \<Longrightarrow> Q' v p) \<Longrightarrow> hoare I m Q'"
  unfolding hoare_def by blast

lemmas hoare_rules = hoare_cond hoare_pair hoare_let hoare_bind_does

end
