(* ===== verification/Json.thy ===== *)
theory Json
  imports Regex
begin

text \<open>
  The part of Python's \<^verbatim>\<open>json\<close> module that the scripts use: \<^verbatim>\<open>json.dumps(x)\<close>, \<^verbatim>\<open>json.dumps(x, indent=2)\<close>
  and \<^verbatim>\<open>json.loads(text)\<close>, with the truth value, equality and text of the values they exchange.

  \<^item> An object is a dictionary in insertion order (keys are distinct in a value that a program holds).
  \<^item> A float is a rational number; the floats of the scripts are timestamps, which are whole microseconds.
    \<^verbatim>\<open>NaN\<close> and \<^verbatim>\<open>Infinity\<close>, which the scripts never write, are not read.
  \<^item> Strings hold code points below 256; an escape of a larger one is read as a question mark.
\<close>

section \<open>Values\<close>

datatype json = JNull | JBool bool | JInt int | JFloat rat | JStr string | JList "json list" | JObj "(string \<times> json) list"

definition json_get :: "(string \<times> json) list \<Rightarrow> string \<Rightarrow> json \<Rightarrow> json" where
  "json_get kvs k d = (case map_of kvs k of None \<Rightarrow> d | Some v \<Rightarrow> v)"

text \<open>\<^verbatim>\<open>bool(x)\<close>\<close>

definition json_true :: "json \<Rightarrow> bool" where
  "json_true j =
     (case j of JNull \<Rightarrow> False | JBool b \<Rightarrow> b | JInt i \<Rightarrow> i \<noteq> 0 | JFloat x \<Rightarrow> x \<noteq> 0 | JStr s \<Rightarrow> s \<noteq> []
      | JList xs \<Rightarrow> xs \<noteq> [] | JObj kvs \<Rightarrow> kvs \<noteq> [])"

text \<open>\<^verbatim>\<open>x == y\<close>: numbers by value (a bool is a number), dictionaries without regard to order.\<close>

definition num_of :: "json \<Rightarrow> rat option" where
  "num_of j = (case j of JBool b \<Rightarrow> Some (if b then 1 else 0) | JInt i \<Rightarrow> Some (of_int i) | JFloat x \<Rightarrow> Some x | _ \<Rightarrow> None)"

function py_eq :: "json \<Rightarrow> json \<Rightarrow> bool" where
  "py_eq (JList xs) b =
     (case b of JList ys \<Rightarrow> length xs = length ys \<and> list_all (\<lambda>(x, y). py_eq x y) (zip xs ys) | _ \<Rightarrow> False)"
| "py_eq (JObj xs) b =
     (case b of
        JObj ys \<Rightarrow> length xs = length ys
          \<and> list_all (\<lambda>(k, v). case map_of ys k of None \<Rightarrow> False | Some w \<Rightarrow> py_eq v w) xs
      | _ \<Rightarrow> False)"
| "py_eq JNull b = (b = JNull)"
| "py_eq (JStr s) b = (b = JStr s)"
| "py_eq (JBool x) b = (num_of b = Some (if x then 1 else 0))"
| "py_eq (JInt x) b = (num_of b = Some (of_int x))"
| "py_eq (JFloat x) b = (num_of b = Some x)"
  by pat_completeness auto
termination
proof (relation "measure (size o fst)")
  fix xs ys :: "json list" and z x y
  assume "z \<in> set (zip xs ys)" "(x, y) = z"
  then have "x \<in> set xs" by (metis set_zip_leftD)
  from size_list_estimation' [OF this order_refl, of size]
  show "((x, y), (JList xs, b)) \<in> measure (size o fst)" for b by simp
next
  fix xs :: "(string \<times> json) list" and z k v w
  assume "z \<in> set xs" "(k, v) = z"
  then have "(k, v) \<in> set xs" by simp
  from size_list_estimation' [OF this order_refl, of "size_prod (\<lambda>_. 0) size"]
  show "((v, w), (JObj xs, b)) \<in> measure (size o fst)" for b by simp
qed simp

section \<open>Printing\<close>

definition int_str :: "int \<Rightarrow> string" where
  "int_str i = (if i < 0 then ''-'' @ nat_str (nat (- i)) else nat_str (nat i))"

text \<open>\<^verbatim>\<open>repr(x)\<close> of a float that is a whole number of microseconds, of the size of a timestamp.\<close>

fun drop_zeros :: "string \<Rightarrow> string" where
  "drop_zeros (c # d # s) = (if c = CHR ''0'' then drop_zeros (d # s) else c # d # s)"
| "drop_zeros s = s"

definition pad6 :: "nat \<Rightarrow> string" where
  "pad6 n = (let s = nat_str n in replicate (6 - length s) (CHR ''0'') @ s)"

definition float_str :: "rat \<Rightarrow> string" where
  "float_str x =
     (let m = nat (abs (floor (x * 1000000)))
      in (if x < 0 then ''-'' else []) @ nat_str (m div 1000000) @ ''.''
           @ rev (drop_zeros (rev (pad6 (m mod 1000000)))))"

definition QUOTE :: char where "QUOTE = char_of (34 :: nat)"
definition BACKSLASH :: char where "BACKSLASH = char_of (92 :: nat)"

definition json_escape :: "char \<Rightarrow> string" where
  "json_escape c =
     (let n = code c in
      if c = QUOTE \<or> c = BACKSLASH then [BACKSLASH, c]
      else if n = 10 then [BACKSLASH, CHR ''n''] else if n = 13 then [BACKSLASH, CHR ''r'']
      else if n = 9 then [BACKSLASH, CHR ''t''] else if n = 12 then [BACKSLASH, CHR ''f'']
      else if n = 8 then [BACKSLASH, CHR ''b'']
      else if 32 \<le> n \<and> n \<le> 126 then [c]
      else [BACKSLASH, CHR ''u'', CHR ''0'', CHR ''0'', hex_char (n div 16), hex_char (n mod 16)])"

definition json_quote :: "string \<Rightarrow> string" where
  "json_quote s = QUOTE # concat (map json_escape s) @ [QUOTE]"

text \<open>Line breaks and indentation at a nesting level; none in the compact form.\<close>

definition json_break :: "nat option \<Rightarrow> nat \<Rightarrow> string" where
  "json_break ind n = (case ind of None \<Rightarrow> [] | Some k \<Rightarrow> char_of (10 :: nat) # replicate (k * n) (CHR '' ''))"

definition json_sep :: "nat option \<Rightarrow> nat \<Rightarrow> string" where
  "json_sep ind n = (case ind of None \<Rightarrow> '', '' | Some k \<Rightarrow> '','' @ json_break ind n)"

fun json_dump :: "nat option \<Rightarrow> nat \<Rightarrow> json \<Rightarrow> string" where
  "json_dump ind n JNull = ''null''"
| "json_dump ind n (JBool b) = (if b then ''true'' else ''false'')"
| "json_dump ind n (JInt i) = int_str i"
| "json_dump ind n (JFloat x) = float_str x"
| "json_dump ind n (JStr s) = json_quote s"
| "json_dump ind n (JList xs) =
     (if xs = [] then ''[]''
      else ''['' @ json_break ind (Suc n) @ join (json_sep ind (Suc n)) (map (json_dump ind (Suc n)) xs)
             @ json_break ind n @ '']'')"
| "json_dump ind n (JObj kvs) =
     (if kvs = [] then ''{}''
      else ''{'' @ json_break ind (Suc n)
             @ join (json_sep ind (Suc n)) (map (\<lambda>(k, v). json_quote k @ '': '' @ json_dump ind (Suc n) v) kvs)
             @ json_break ind n @ ''}'')"

definition dumps :: "json \<Rightarrow> string" where "dumps j = json_dump None 0 j"

definition dumps_indent :: "json \<Rightarrow> string" where "dumps_indent j = json_dump (Some 2) 0 j"

text \<open>\<^verbatim>\<open>repr(x)\<close> and \<^verbatim>\<open>str(x)\<close>\<close>

fun py_repr :: "json \<Rightarrow> string" where
  "py_repr JNull = ''None''"
| "py_repr (JBool b) = (if b then ''True'' else ''False'')"
| "py_repr (JInt i) = int_str i"
| "py_repr (JFloat x) = float_str x"
| "py_repr (JStr s) = repr_str s"
| "py_repr (JList xs) = ''['' @ join '', '' (map py_repr xs) @ '']''"
| "py_repr (JObj kvs) = ''{'' @ join '', '' (map (\<lambda>(k, v). repr_str k @ '': '' @ py_repr v) kvs) @ ''}''"

definition py_str :: "json \<Rightarrow> string" where
  "py_str j = (case j of JStr s \<Rightarrow> s | _ \<Rightarrow> py_repr j)"

section \<open>Reading\<close>

definition skip_ws :: "string \<Rightarrow> string" where
  "skip_ws s = dropWhile (\<lambda>c. code c \<in> {9, 10, 13, 32}) s"

definition unescape :: "char \<Rightarrow> char option" where
  "unescape d =
     (if d = QUOTE \<or> d = BACKSLASH \<or> d = CHR ''/'' then Some d
      else if d = CHR ''n'' then Some (char_of (10 :: nat)) else if d = CHR ''r'' then Some (char_of (13 :: nat))
      else if d = CHR ''t'' then Some (char_of (9 :: nat)) else if d = CHR ''f'' then Some (char_of (12 :: nat))
      else if d = CHR ''b'' then Some (char_of (8 :: nat)) else None)"

definition unicode_escape :: "string \<Rightarrow> char option" where
  "unicode_escape h =
     (if length h = 4 \<and> list_all is_hex h
      then Some (if hex_val h < 256 then char_of (hex_val h) else CHR ''?'') else None)"

definition cons_fst :: "'a \<Rightarrow> ('a list \<times> 'b) option \<Rightarrow> ('a list \<times> 'b) option" where
  "cons_fst x p = map_option (\<lambda>(xs, r). (x # xs, r)) p"

text \<open>The rest of a string literal after its opening quote.\<close>

fun p_string :: "string \<Rightarrow> (string \<times> string) option" where
  "p_string [] = None"
| "p_string (c # s) =
     (if c = QUOTE then Some ([], s)
      else if c = BACKSLASH then
        (case s of
           [] \<Rightarrow> None
         | d # s' \<Rightarrow>
             if d = CHR ''u'' then (case unicode_escape (take 4 s') of None \<Rightarrow> None | Some x \<Rightarrow> cons_fst x (p_string (drop 4 s')))
             else (case unescape d of None \<Rightarrow> None | Some x \<Rightarrow> cons_fst x (p_string s')))
      else if code c < 32 then None
      else cons_fst c (p_string s))"

text \<open>\<^verbatim>\<open>(-?(?:0|[1-9]\d*))(\.\d+)?([eE][-+]?\d+)?\<close>\<close>

definition p_frac :: "string \<Rightarrow> string \<times> string" where
  "p_frac s =
     (case s of
        c # r \<Rightarrow> (let ds = takeWhile is_digit r in if c = CHR ''.'' \<and> ds \<noteq> [] then (ds, drop (length ds) r) else ([], s))
      | [] \<Rightarrow> ([], s))"

definition p_exp :: "string \<Rightarrow> (bool \<times> string) option \<times> string" where
  "p_exp s =
     (case s of
        c # r \<Rightarrow>
          (let neg = prefix ''-'' r; r' = (if neg \<or> prefix ''+'' r then tl r else r); ds = takeWhile is_digit r'
           in if (c = CHR ''e'' \<or> c = CHR ''E'') \<and> ds \<noteq> [] then (Some (neg, ds), drop (length ds) r') else (None, s))
      | [] \<Rightarrow> (None, s))"

definition p_number :: "string \<Rightarrow> (json \<times> string) option" where
  "p_number s =
     (let neg = prefix ''-'' s; r = (if neg then tl s else s); ds = takeWhile is_digit r;
          ip = (if prefix ''0'' ds then ''0'' else ds)
      in if ds = [] then None
         else case p_frac (drop (length ip) r) of (fd, r1) \<Rightarrow>
           (case p_exp r1 of (ex, r2) \<Rightarrow>
              if fd = [] \<and> ex = None then Some (JInt (if neg then - int (dec_val ip) else int (dec_val ip)), r2)
              else (let m = of_nat (dec_val (ip @ fd)) / 10 ^ length fd;
                        v = (case ex of None \<Rightarrow> m | Some (n, e) \<Rightarrow> if n then m / 10 ^ dec_val e else m * 10 ^ dec_val e)
                    in Some (JFloat (if neg then - v else v), r2))))"

text \<open>Values, the items of a list and the members of an object after the opening bracket. The first argument is fuel.\<close>

fun p_value :: "nat \<Rightarrow> string \<Rightarrow> (json \<times> string) option"
  and p_items :: "nat \<Rightarrow> string \<Rightarrow> (json list \<times> string) option"
  and p_members :: "nat \<Rightarrow> string \<Rightarrow> ((string \<times> json) list \<times> string) option" where
  "p_value 0 s = None"
| "p_value (Suc k) s =
     (case s of
        [] \<Rightarrow> None
      | c # r \<Rightarrow>
          if c = QUOTE then map_option (\<lambda>(x, r'). (JStr x, r')) (p_string r)
          else if c = CHR ''{'' then
            (if prefix ''}'' (skip_ws r) then Some (JObj [], tl (skip_ws r))
             else map_option (\<lambda>(kvs, r'). (JObj (dict_of kvs), r')) (p_members k (skip_ws r)))
          else if c = CHR ''['' then
            (if prefix '']'' (skip_ws r) then Some (JList [], tl (skip_ws r))
             else map_option (\<lambda>(xs, r'). (JList xs, r')) (p_items k (skip_ws r)))
          else if prefix ''null'' s then Some (JNull, drop 4 s)
          else if prefix ''true'' s then Some (JBool True, drop 4 s)
          else if prefix ''false'' s then Some (JBool False, drop 5 s)
          else p_number s)"
| "p_items 0 s = None"
| "p_items (Suc k) s =
     (case p_value k s of
        None \<Rightarrow> None
      | Some (v, r) \<Rightarrow>
          (case skip_ws r of
             c # r' \<Rightarrow> if c = CHR '']'' then Some ([v], r')
                       else if c = CHR '','' then cons_fst v (p_items k (skip_ws r')) else None
           | [] \<Rightarrow> None))"
| "p_members 0 s = None"
| "p_members (Suc k) s =
     (if \<not> prefix [QUOTE] s then None
      else case p_string (tl s) of
        None \<Rightarrow> None
      | Some (key, r) \<Rightarrow>
          if \<not> prefix '':'' (skip_ws r) then None
          else (case p_value k (skip_ws (tl (skip_ws r))) of
             None \<Rightarrow> None
           | Some (v, r1) \<Rightarrow>
               (case skip_ws r1 of
                  c # r' \<Rightarrow> if c = CHR ''}'' then Some ([(key, v)], r')
                            else if c = CHR '','' then cons_fst (key, v) (p_members k (skip_ws r')) else None
                | [] \<Rightarrow> None)))"

text \<open>\<^verbatim>\<open>json.loads\<close>; at most two nested calls are made on the same text, so twice its length is enough fuel.\<close>

definition loads :: "string \<Rightarrow> json result" where
  "loads s =
     (case p_value (Suc (2 * length s)) (skip_ws s) of
        Some (j, r) \<Rightarrow> if skip_ws r = [] then Inr j else Inl JSONDecodeError
      | None \<Rightarrow> Inl JSONDecodeError)"

text \<open>For evaluation: a text is only read once it is known.\<close>

lemma loads_code [code]:
  "loads [] = Inl JSONDecodeError"
  "loads (c # s) =
     (case p_value (Suc (2 * length (c # s))) (skip_ws (c # s)) of
        Some (j, r) \<Rightarrow> if skip_ws r = [] then Inr j else Inl JSONDecodeError
      | None \<Rightarrow> Inl JSONDecodeError)"
  by (simp_all only: loads_def) (simp add: skip_ws_def)

section \<open>Numbers\<close>

lemma code_digit_char: "d < 10 \<Longrightarrow> code (digit_char d) = 48 + d"
  by (simp add: code_def digit_char_def)

lemma dec_val_append: "dec_val (s @ t) = dec_val s * 10 ^ length t + dec_val t"
proof (induction t rule: rev_induct)
  case (snoc c t)
  then show ?case by (simp add: dec_val_def algebra_simps)
qed (simp add: dec_val_def)

lemma dec_val_digit: "d < 10 \<Longrightarrow> dec_val [digit_char d] = d"
  by (simp add: dec_val_def code_digit_char)

lemma prefix_one_append: "xs \<noteq> [] \<Longrightarrow> prefix [c] (xs @ ys) \<longleftrightarrow> prefix [c] xs"
  by (cases xs) auto

lemma base_str_digits: "list_all is_digit (base_str 10 n)" "base_str 10 n \<noteq> []" "dec_val (base_str 10 n) = n"
  "prefix ''0'' (base_str 10 n) \<Longrightarrow> base_str 10 n = ''0''"
proof -
  have main: "list_all is_digit (base_str 10 n) \<and> base_str 10 n \<noteq> [] \<and> dec_val (base_str 10 n) = n
     \<and> (0 < n \<longrightarrow> \<not> prefix ''0'' (base_str 10 n))"
  proof (induction n rule: less_induct)
    case (less n)
    show ?case
    proof (cases "n < 10")
      case True
      then have "hd (base_str 10 n) = CHR ''0'' \<Longrightarrow> n = 0"
        using code_digit_char [of n] by (simp add: base_str.simps code_def)
      with True show ?thesis
        by (auto simp: base_str.simps [of 10 n] is_digit_def code_digit_char dec_val_def)
    next
      case False
      then have eq: "base_str 10 n = base_str 10 (n div 10) @ [digit_char (n mod 10)]" "n div 10 < n" "0 < n div 10"
        by (simp_all add: base_str.simps [of 10 n])
      from less [OF this(2)] this show ?thesis
        by (auto simp: is_digit_def code_digit_char dec_val_append dec_val_digit prefix_one_append)
    qed
  qed
  have "base_str 10 0 = ''0''" by code_simp
  then show "prefix ''0'' (base_str 10 n) \<Longrightarrow> base_str 10 n = ''0''" using main by (cases "n = 0") auto
  show "list_all is_digit (base_str 10 n)" "base_str 10 n \<noteq> []" "dec_val (base_str 10 n) = n" using main by auto
qed

lemmas nat_str_digits = base_str_digits [folded nat_str_def]

text \<open>What may follow a number so that it ends there.\<close>

definition num_end :: "string \<Rightarrow> bool" where
  "num_end r = (case r of [] \<Rightarrow> True | c # _ \<Rightarrow> \<not> is_digit c \<and> c \<noteq> CHR ''.'' \<and> c \<noteq> CHR ''e'' \<and> c \<noteq> CHR ''E'')"

lemma takeWhile_digits: "list_all is_digit ds \<Longrightarrow> (r \<noteq> [] \<Longrightarrow> \<not> is_digit (hd r)) \<Longrightarrow> takeWhile is_digit (ds @ r) = ds"
  by (induction ds) (auto simp: takeWhile_eq_Nil_iff)

lemma num_end_parts: "num_end r \<Longrightarrow> p_exp r = (None, r)" "num_end r \<Longrightarrow> p_frac r = ([], r)"
  "num_end r \<Longrightarrow> r \<noteq> [] \<Longrightarrow> \<not> is_digit (hd r)"
  by (auto simp: num_end_def p_exp_def p_frac_def Let_def split: list.splits)

lemma not_digits: "\<not> is_digit (CHR ''-'')" "\<not> is_digit (CHR ''.'')"
  by code_simp+

definition sign_str :: "bool \<Rightarrow> string" where "sign_str neg = (if neg then ''-'' else [])"

lemma p_number_parts:
  assumes ip: "list_all is_digit ip" "ip \<noteq> []" "prefix ''0'' ip \<Longrightarrow> ip = ''0''"
    and fd: "list_all is_digit fd" and r: "num_end r"
  shows "p_number (sign_str neg @ ip @ (if fd = [] then [] else ''.'' @ fd) @ r) =
    Some (if fd = [] then JInt (if neg then - int (dec_val ip) else int (dec_val ip))
          else let v = of_nat (dec_val (ip @ fd)) / 10 ^ length fd in JFloat (if neg then - v else v), r)"
proof -
  let ?t = "(if fd = [] then [] else ''.'' @ fd) @ r"
  have neg: "prefix ''-'' (sign_str neg @ ip @ ?t) = neg"
    using ip(1,2) not_digits by (cases ip) (auto simp: sign_str_def)
  have rest: "(if neg then tl (sign_str neg @ ip @ ?t) else sign_str neg @ ip @ ?t) = ip @ ?t"
    by (simp add: sign_str_def)
  have digits: "takeWhile is_digit (ip @ ?t) = ip"
    using takeWhile_digits [OF ip(1), of ?t] num_end_parts(3) [OF r] not_digits by auto
  have "(if prefix ''0'' ip then ''0'' else ip) = ip" using ip(3) by auto
  moreover have "p_frac ?t = (fd, r)"
    using num_end_parts [OF r] takeWhile_digits [OF fd, of r] by (auto simp: p_frac_def Let_def split: list.split)
  ultimately show ?thesis
    unfolding p_number_def Let_def neg rest digits using ip(2) num_end_parts(1) [OF r] by simp
qed

lemma drop_zeros_split: "\<exists>k. s = replicate k (CHR ''0'') @ drop_zeros s"
proof (induction s rule: drop_zeros.induct)
  case (1 c d s)
  then show ?case by (cases "c = CHR ''0''") (auto intro: exI [of _ "Suc _"] exI [of _ 0])
qed (auto intro: exI [of _ 0])

lemma drop_zeros_Nil: "drop_zeros s = [] \<longleftrightarrow> s = []"
  by (induction s rule: drop_zeros.induct) auto

lemma zeros: "list_all is_digit (replicate k (CHR ''0''))" "dec_val (replicate k (CHR ''0'')) = 0"
proof -
  have "is_digit (CHR ''0'')" "code (CHR ''0'') = 48" by code_simp+
  then show "list_all is_digit (replicate k (CHR ''0''))" "dec_val (replicate k (CHR ''0'')) = 0"
    by (induction k) (simp_all add: dec_val_def)
qed

lemma length_nat_str: "n < 10 ^ k \<Longrightarrow> 0 < k \<Longrightarrow> length (nat_str n) \<le> k"
proof (induction k arbitrary: n)
  case (Suc k)
  show ?case
  proof (cases "n < 10")
    case False
    with Suc have "0 < k" "n div 10 < 10 ^ k" by (auto intro!: gr0I)
    with Suc.IH [of "n div 10"] False show ?thesis by (simp add: nat_str_def base_str.simps [of 10 n])
  qed (simp add: nat_str_def base_str.simps [of 10 n])
qed simp

lemma pad6_digits: "n < 1000000 \<Longrightarrow> list_all is_digit (pad6 n) \<and> length (pad6 n) = 6 \<and> dec_val (pad6 n) = n"
  using length_nat_str [of n 6] by (simp add: pad6_def Let_def nat_str_digits zeros dec_val_append)

text \<open>Whole microseconds.\<close>

definition micros :: "rat \<Rightarrow> bool" where "micros x = (of_int (floor (x * 1000000)) = x * 1000000)"

lemma float_fraction:
  assumes "m = q * 1000000 + f" "f < 1000000"
  shows "let fd = rev (drop_zeros (rev (pad6 f)))
    in list_all is_digit fd \<and> fd \<noteq> [] \<and> (of_nat (dec_val (nat_str q @ fd)) / 10 ^ length fd :: rat) = of_nat m / 1000000"
proof -
  let ?fd = "rev (drop_zeros (rev (pad6 f)))"
  obtain k where k: "rev (pad6 f) = replicate k (CHR ''0'') @ drop_zeros (rev (pad6 f))"
    using drop_zeros_split by blast
  then have pad: "pad6 f = ?fd @ replicate k (CHR ''0'')" by (metis rev_append rev_replicate rev_rev_ident)
  note p = pad6_digits [OF assms(2)]
  have len: "length ?fd + k = 6" using p pad by (metis length_append length_replicate)
  have "dec_val (nat_str q @ ?fd @ replicate k (CHR ''0'')) = m"
    using p by (simp add: pad [symmetric] dec_val_append nat_str_digits assms)
  then have "dec_val (nat_str q @ ?fd) * 10 ^ k = m"
    by (metis add.right_neutral append.assoc dec_val_append length_replicate zeros(2))
  then have num: "(of_nat m :: rat) = of_nat (dec_val (nat_str q @ ?fd)) * 10 ^ k"
    by (metis of_nat_mult of_nat_numeral of_nat_power)
  have "(10 :: rat) ^ (length ?fd + k) = 1000000" unfolding len by simp
  then have den: "(1000000 :: rat) = 10 ^ length ?fd * 10 ^ k" by (simp add: power_add)
  have "(of_nat m / 1000000 :: rat) = of_nat (dec_val (nat_str q @ ?fd)) * 10 ^ k / (10 ^ length ?fd * 10 ^ k)"
    by (simp only: num den)
  then have "(of_nat (dec_val (nat_str q @ ?fd)) / 10 ^ length ?fd :: rat) = of_nat m / 1000000" by simp
  moreover have "list_all is_digit ?fd" using p pad by (metis list_all_append)
  moreover have "?fd \<noteq> []" using p by (auto simp: drop_zeros_Nil)
  ultimately show ?thesis by (simp only: Let_def) blast
qed

lemma p_number_int: "num_end r \<Longrightarrow> p_number (int_str i @ r) = Some (JInt i, r)"
  using p_number_parts [of "nat_str (if i < 0 then nat (- i) else nat i)" "[]" r "i < 0"]
  by (auto simp: int_str_def sign_str_def nat_str_digits)

lemma p_number_float:
  assumes "micros x" "num_end r"
  shows "p_number (float_str x @ r) = Some (JFloat x, r)"
proof -
  let ?m = "nat (abs (floor (x * 1000000)))"
  let ?fd = "rev (drop_zeros (rev (pad6 (?m mod 1000000))))"
  have f: "list_all is_digit ?fd" "?fd \<noteq> []"
    and v: "(of_nat (dec_val (nat_str (?m div 1000000) @ ?fd)) / 10 ^ length ?fd :: rat) = of_nat ?m / 1000000"
    using float_fraction [of ?m "?m div 1000000" "?m mod 1000000"] by (auto simp: Let_def)
  have "(of_nat ?m :: rat) = abs (of_int (floor (x * 1000000)))" by simp
  also have "\<dots> = abs (x * 1000000)" using assms(1) by (simp only: micros_def)
  also have "\<dots> = abs x * 1000000" by (simp add: abs_mult)
  finally have m: "(of_nat ?m / 1000000 :: rat) = abs x" by simp
  have "(if x < 0 then - abs x else abs x) = x" by auto
  moreover have "float_str x = sign_str (x < 0) @ nat_str (?m div 1000000) @ (if ?fd = [] then [] else ''.'' @ ?fd)"
    using f(2) by (simp add: float_str_def sign_str_def Let_def)
  ultimately show ?thesis
    using p_number_parts [OF nat_str_digits(1,2,4) f(1) assms(2), of "?m div 1000000" "x < 0"] f(2)
    by (simp only: append.assoc if_False Let_def v m)
qed

section \<open>Strings\<close>

lemma code_of_nat [simp]: "n < 256 \<Longrightarrow> code (char_of n) = n"
  by (simp add: code_def)

lemma char_of_code [simp]: "char_of (code c) = c"
  by (simp add: code_def)

lemma code_less: "code c < 256"
  by (simp add: code_def)

lemma hex_char_val: "d < 16 \<Longrightarrow> is_hex (hex_char d) \<and> hex_digit (hex_char d) = d"
  by (auto simp: hex_char_def digit_char_def is_hex_def is_digit_def hex_digit_def)

lemma hex_zero: "is_hex (CHR ''0'')" "hex_digit (CHR ''0'') = 0"
  by code_simp+

lemma hex_byte:
  assumes "n < 256"
  shows "unicode_escape [CHR ''0'', CHR ''0'', hex_char (n div 16), hex_char (n mod 16)] = Some (char_of n)"
proof -
  have "n div 16 < 16" "n mod 16 < 16" using assms by auto
  note h = this [THEN hex_char_val]
  have "hex_val [CHR ''0'', CHR ''0'', hex_char (n div 16), hex_char (n mod 16)] = n"
    using h by (simp add: hex_val_def hex_zero)
  with h assms show ?thesis by (simp add: unicode_escape_def hex_zero)
qed

lemma escape_chars: "BACKSLASH \<noteq> QUOTE" "QUOTE \<noteq> CHR ''u''" "BACKSLASH \<noteq> CHR ''u''"
  "unescape (CHR ''n'') = Some (char_of (10 :: nat))" "unescape (CHR ''r'') = Some (char_of (13 :: nat))"
  "unescape (CHR ''t'') = Some (char_of (9 :: nat))" "unescape (CHR ''f'') = Some (char_of (12 :: nat))"
  "unescape (CHR ''b'') = Some (char_of (8 :: nat))" "unescape QUOTE = Some QUOTE" "unescape BACKSLASH = Some BACKSLASH"
  by code_simp+

lemma p_string_escape: "p_string (json_escape c @ s) = cons_fst c (p_string s)"
proof -
  have "char_of n = c \<longleftrightarrow> code c = n" if "n < 256" for n using that by auto
  then show ?thesis
    using hex_byte [OF code_less, of c]
    by (auto simp: json_escape_def Let_def escape_chars) (metis char_of_code)+
qed

lemma p_string_quote: "p_string (concat (map json_escape s) @ QUOTE # r) = Some (s, r)"
  by (induction s) (simp_all add: p_string_escape cons_fst_def)

section \<open>Reading what was printed\<close>

fun wf_json :: "json \<Rightarrow> bool" where
  "wf_json (JFloat x) = micros x"
| "wf_json (JList xs) = list_all wf_json xs"
| "wf_json (JObj kvs) = (distinct (map fst kvs) \<and> list_all (\<lambda>(_, v). wf_json v) kvs)"
| "wf_json j = True"

definition blank :: "char \<Rightarrow> bool" where "blank c = (code c \<in> {9, 10, 13, 32})"

lemma skip_ws_blank: "list_all blank w \<Longrightarrow> skip_ws (w @ s) = skip_ws s"
  by (induction w) (auto simp: skip_ws_def blank_def)

lemma skip_ws_start: "\<not> blank c \<Longrightarrow> skip_ws (c # s) = c # s"
  by (simp add: skip_ws_def blank_def)

lemma blanks: "blank (CHR '' '')" "blank (char_of (10 :: nat))" "\<not> blank (CHR '']'')" "\<not> blank (CHR ''}'')"
  "\<not> blank (CHR '','')" "\<not> blank (CHR '':'')" "\<not> blank QUOTE"
  by code_simp+

lemma blank_break: "list_all blank (json_break ind n)"
  by (auto simp: json_break_def blanks list_all_iff split: option.split)

text \<open>A separator is a comma and blanks.\<close>

lemma json_sep_blank: "\<exists>w. json_sep ind n = CHR '','' # w \<and> list_all blank w"
  using blank_break [of ind n] by (auto simp: json_sep_def blanks split: option.split)

lemma num_ends: "num_end []" "num_end (CHR '','' # s)" "num_end (json_break ind n @ CHR '']'' # s)"
  "num_end (json_break ind n @ CHR ''}'' # s)"
proof -
  have "\<not> is_digit c \<and> c \<noteq> CHR ''.'' \<and> c \<noteq> CHR ''e'' \<and> c \<noteq> CHR ''E''"
    if "c \<in> {CHR '','', CHR '']'', CHR ''}'', char_of (10 :: nat)}" for c
    using that by (elim insertE emptyE; hypsubst) (code_simp+)
  then show "num_end []" "num_end (CHR '','' # s)" "num_end (json_break ind n @ CHR '']'' # s)"
    "num_end (json_break ind n @ CHR ''}'' # s)"
    by (auto simp: num_end_def json_break_def split: option.split)
qed

text \<open>The first character of a printed value.\<close>

definition starts_value :: "char \<Rightarrow> bool" where
  "starts_value c = (c \<in> {QUOTE, CHR ''{'', CHR ''['', CHR ''n'', CHR ''t'', CHR ''f'', CHR ''-''} \<or> is_digit c)"

lemma quote_char: "QUOTE = CHR 0x22"
  by code_simp

lemma starts_value_not: "starts_value c \<Longrightarrow> \<not> blank c \<and> c \<noteq> CHR '']''"
proof -
  have "\<not> is_digit (CHR '']'')" "is_digit c \<Longrightarrow> \<not> blank c" by (code_simp, auto simp: is_digit_def blank_def)
  then show "starts_value c \<Longrightarrow> \<not> blank c \<and> c \<noteq> CHR '']''"
    unfolding starts_value_def quote_char by (auto; (simp add: blank_def code_def)?)
qed

lemma digits_start: "list_all is_digit ds \<Longrightarrow> ds \<noteq> [] \<Longrightarrow> \<exists>c s. ds = c # s \<and> is_digit c"
  by (cases ds) auto

lemma number_start: "\<exists>c s. int_str i = c # s \<and> (is_digit c \<or> c = CHR ''-'')"
  "\<exists>c s. float_str x = c # s \<and> (is_digit c \<or> c = CHR ''-'')"
  using digits_start [OF nat_str_digits(1,2)] by (auto simp: int_str_def float_str_def Let_def) (metis append_Cons)+

lemma dump_start: "\<exists>c s. json_dump ind n j = c # s \<and> starts_value c"
proof (cases j)
  case (JInt i)
  then show ?thesis using number_start(1) [of i] by (auto simp: starts_value_def)
next
  case (JFloat x)
  then show ?thesis using number_start(2) [of x] by (auto simp: starts_value_def)
qed (auto simp: starts_value_def json_quote_def)

lemma skip_dump: "skip_ws (json_dump ind n j @ r) = json_dump ind n j @ r"
  using dump_start [of ind n j] starts_value_not skip_ws_start by (metis append_Cons)

lemma p_value_number:
  assumes "is_digit c \<or> c = CHR ''-''"
  shows "p_value (Suc k) (c # s) = p_number (c # s)"
proof -
  have "c \<notin> {QUOTE, CHR ''{'', CHR ''['', CHR ''n'', CHR ''t'', CHR ''f''}"
    using assms by (auto simp: is_digit_def quote_char code_def)
  then show ?thesis by auto
qed

lemma p_items_join:
  assumes "\<And>x k r. x \<in> set xs \<Longrightarrow> num_end r \<Longrightarrow> length (json_dump ind m x) \<le> k \<Longrightarrow>
      p_value k (json_dump ind m x @ r) = Some (x, r)"
    and "xs \<noteq> []" "length (join (json_sep ind m) (map (json_dump ind m) xs)) < k"
  shows "p_items k (join (json_sep ind m) (map (json_dump ind m) xs) @ json_break ind n @ CHR '']'' # r) = Some (xs, r)"
  using assms
proof (induction xs arbitrary: k)
  case (Cons x xs)
  then obtain k' where k: "k = Suc k'" by (cases k) auto
  show ?case
  proof (cases xs)
    case Nil
    have "p_value k' (json_dump ind m x @ json_break ind n @ CHR '']'' # r) = Some (x, json_break ind n @ CHR '']'' # r)"
      using Cons.prems k Nil by (intro Cons.prems(1)) (auto simp: num_ends)
    then show ?thesis by (simp add: k Nil skip_ws_blank [OF blank_break] skip_ws_start blanks)
  next
    case (Cons y ys)
    obtain w where w: "json_sep ind m = CHR '','' # w" "list_all blank w" using json_sep_blank by blast
    let ?rest = "join (json_sep ind m) (map (json_dump ind m) xs)"
    have "p_value k' (json_dump ind m x @ CHR '','' # w @ ?rest @ json_break ind n @ CHR '']'' # r) =
        Some (x, CHR '','' # w @ ?rest @ json_break ind n @ CHR '']'' # r)"
      using Cons.prems k Cons by (intro Cons.prems(1)) (auto simp: num_ends)
    moreover have "p_items k' (?rest @ json_break ind n @ CHR '']'' # r) = Some (xs, r)"
      using Cons.prems k Cons w by (intro Cons.IH) auto
    moreover have "skip_ws (?rest @ t) = ?rest @ t" for t
      using skip_dump [of ind m y] Cons by (cases ys) simp_all
    ultimately show ?thesis
      using Cons by (simp add: k w skip_ws_start blanks skip_ws_blank [OF w(2)] cons_fst_def)
  qed
qed simp

definition dump_member :: "nat option \<Rightarrow> nat \<Rightarrow> string \<times> json \<Rightarrow> string" where
  "dump_member ind m kv = json_quote (fst kv) @ '': '' @ json_dump ind m (snd kv)"

lemma json_dump_obj:
  "json_dump ind n (JObj kvs) =
     (if kvs = [] then ''{}''
      else ''{'' @ json_break ind (Suc n) @ join (json_sep ind (Suc n)) (map (dump_member ind (Suc n)) kvs)
             @ json_break ind n @ ''}'')"
proof -
  have "(\<lambda>(k, v). json_quote k @ '': '' @ json_dump ind (Suc n) v) = dump_member ind (Suc n)"
    by (auto simp: dump_member_def fun_eq_iff)
  then show ?thesis by (simp only: json_dump.simps)
qed

lemma p_member_key:
  "prefix [QUOTE] (dump_member ind m kv @ r)"
  "p_string (tl (dump_member ind m kv @ r)) = Some (fst kv, '': '' @ json_dump ind m (snd kv) @ r)"
  "skip_ws (dump_member ind m kv @ r) = dump_member ind m kv @ r"
  by (simp_all add: dump_member_def json_quote_def p_string_quote skip_ws_start blanks)

lemma skip_colon: "skip_ws ('': '' @ s) = CHR '':'' # CHR '' '' # s" "skip_ws (CHR '' '' # s) = skip_ws s"
  by (simp_all add: skip_ws_start blanks skip_ws_blank [of "'' ''", simplified])

lemma p_members_join:
  assumes "\<And>kv k r. kv \<in> set kvs \<Longrightarrow> num_end r \<Longrightarrow> length (json_dump ind m (snd kv)) \<le> k \<Longrightarrow>
      p_value k (json_dump ind m (snd kv) @ r) = Some (snd kv, r)"
    and "kvs \<noteq> []" "length (join (json_sep ind m) (map (dump_member ind m) kvs)) < k"
  shows "p_members k (join (json_sep ind m) (map (dump_member ind m) kvs) @ json_break ind n @ CHR ''}'' # r) = Some (kvs, r)"
  using assms
proof (induction kvs arbitrary: k)
  case (Cons kv kvs)
  then obtain k' where k: "k = Suc k'" by (cases k) auto
  have val: "p_value k' (json_dump ind m (snd kv) @ t) = Some (snd kv, t)" if "num_end t" for t
    using Cons.prems k that by (cases kvs) (auto simp: dump_member_def intro!: Cons.prems(1))
  show ?case
  proof (cases kvs)
    case Nil
    then show ?thesis
      using val [OF num_ends(4), of ind n r]
      by (simp add: k p_member_key skip_colon skip_dump skip_ws_blank [OF blank_break] skip_ws_start blanks del: append.simps)
  next
    case (Cons y ys)
    obtain w where w: "json_sep ind m = CHR '','' # w" "list_all blank w" using json_sep_blank by blast
    let ?rest = "join (json_sep ind m) (map (dump_member ind m) kvs)"
    have "p_members k' (?rest @ json_break ind n @ CHR ''}'' # r) = Some (kvs, r)"
      using Cons.prems k Cons w by (intro Cons.IH) auto
    moreover have "skip_ws (?rest @ t) = ?rest @ t" for t
      using p_member_key(3) [of ind m y] Cons by (cases ys) simp_all
    ultimately show ?thesis
      using Cons val [OF num_ends(2), of "w @ ?rest @ json_break ind n @ CHR ''}'' # r"]
      by (simp add: k w p_member_key skip_colon skip_dump skip_ws_start blanks skip_ws_blank [OF w(2)] cons_fst_def)
  qed
qed simp

lemma join_start: "xs \<noteq> [] \<Longrightarrow> hd xs \<noteq> [] \<Longrightarrow> \<exists>t. join sep xs = hd (hd xs) # t"
  by (induction sep xs rule: join.induct) (auto simp: neq_Nil_conv)

lemma p_value_dump:
  "wf_json j \<Longrightarrow> num_end r \<Longrightarrow> length (json_dump ind n j) \<le> k \<Longrightarrow> p_value k (json_dump ind n j @ r) = Some (j, r)"
proof (induction j arbitrary: n k r)
  case (JInt i)
  obtain c s where "int_str i = c # s" "is_digit c \<or> c = CHR ''-''" using number_start by blast
  then show ?case using JInt p_value_number [of c "k - 1" "s @ r"] p_number_int [of r i] by (cases k) auto
next
  case (JFloat x)
  obtain c s where "float_str x = c # s" "is_digit c \<or> c = CHR ''-''" using number_start by blast
  then show ?case using JFloat p_value_number [of c "k - 1" "s @ r"] p_number_float [of x r] by (cases k) auto
next
  case (JStr s)
  then show ?case by (cases k) (auto simp: json_quote_def p_string_quote)
next
  case (JList xs)
  show ?case
  proof (cases xs)
    case Nil
    with JList show ?thesis by (cases k) (auto simp: quote_char skip_ws_start blanks)
  next
    case (Cons x ys)
    let ?body = "join (json_sep ind (Suc n)) (map (json_dump ind (Suc n)) xs)"
    from JList.prems Cons obtain k' where k: "k = Suc k'" "length ?body < k'" by (cases k) auto
    have "p_items k' (?body @ json_break ind n @ CHR '']'' # r) = Some (xs, r)"
      using JList k Cons by (intro p_items_join) (auto simp: list_all_iff)
    moreover obtain c s where c: "json_dump ind (Suc n) x = c # s" "starts_value c" using dump_start by blast
    then obtain t where "?body = c # t" using join_start [of "map (json_dump ind (Suc n)) xs"] Cons by auto
    ultimately show ?thesis
      using starts_value_not [OF c(2)] Cons
      by (simp add: k quote_char skip_ws_blank [OF blank_break] skip_ws_start del: join.simps) auto
  qed
next
  case (JObj kvs)
  show ?case
  proof (cases kvs)
    case Nil
    with JObj show ?thesis by (cases k) (auto simp: quote_char skip_ws_start blanks)
  next
    case (Cons x ys)
    let ?body = "join (json_sep ind (Suc n)) (map (dump_member ind (Suc n)) kvs)"
    from JObj.prems Cons obtain k' where k: "k = Suc k'" "length ?body < k'"
      by (cases k) (auto simp: json_dump_obj simp del: json_dump.simps(7))
    have "p_members k' (?body @ json_break ind n @ CHR ''}'' # r) = Some (kvs, r)"
    proof (rule p_members_join)
      fix kv k r
      assume "kv \<in> set kvs" "num_end r" "length (json_dump ind (Suc n) (snd kv)) \<le> k"
      then show "p_value k (json_dump ind (Suc n) (snd kv) @ r) = Some (snd kv, r)"
        using JObj.prems(1) by (intro JObj.IH [of kv "snd kv"]) (auto simp: list_all_iff)
    qed (use k Cons in auto)
    moreover have "dict_of kvs = kvs" using JObj.prems by (simp add: dict_of_id)
    moreover obtain t where "?body = QUOTE # t"
      using join_start [of "map (dump_member ind (Suc n)) kvs"] Cons by (auto simp: dump_member_def json_quote_def)
    moreover have "json_dump ind n (JObj kvs) @ r = CHR ''{'' # json_break ind (Suc n) @ ?body @ json_break ind n @ CHR ''}'' # r"
      using Cons by (simp add: json_dump_obj del: join.simps json_dump.simps)
    ultimately show ?thesis
      by (simp add: k skip_ws_blank [OF blank_break] skip_ws_start blanks del: join.simps json_dump.simps) (simp add: quote_char)
  qed
next
  case (JBool b)
  then show ?case by (cases k; cases b) (simp_all add: quote_char)
next
  case JNull
  then show ?case by (cases k) (simp_all add: quote_char)
qed

text \<open>\<^verbatim>\<open>json.loads\<close> reads back what \<^verbatim>\<open>json.dumps\<close> has printed, in both forms.\<close>

lemma loads_dump: "wf_json j \<Longrightarrow> loads (json_dump ind n j) = Inr j"
  using p_value_dump [of j "[]" ind n "Suc (2 * length (json_dump ind n j))"] skip_dump [of ind n j "[]"]
  by (simp add: loads_def num_ends skip_ws_def)

lemma loads_dumps: "wf_json j \<Longrightarrow> loads (dumps j) = Inr j" "wf_json j \<Longrightarrow> loads (dumps_indent j) = Inr j"
  by (simp_all add: dumps_def dumps_indent_def loads_dump)

section \<open>The compact form is one line\<close>

definition printable :: "char \<Rightarrow> bool" where "printable c = (32 \<le> code c \<and> code c \<le> 126)"

lemma printable_digits: "list_all is_digit s \<Longrightarrow> list_all printable s"
  by (auto simp: list_all_iff is_digit_def printable_def)

lemma printable_join: "list_all printable sep \<Longrightarrow> list_all (list_all printable) xs \<Longrightarrow> list_all printable (join sep xs)"
  by (induction sep xs rule: join.induct) auto

lemma printable_hex: "d < 16 \<Longrightarrow> printable (hex_char d)"
  by (auto simp: hex_char_def digit_char_def printable_def)

lemma printable_escape: "list_all printable (json_escape c)"
proof -
  have "printable BACKSLASH" "printable QUOTE" "printable (CHR ''n'')" "printable (CHR ''r'')" "printable (CHR ''t'')"
    "printable (CHR ''f'')" "printable (CHR ''b'')" "printable (CHR ''u'')" "printable (CHR ''0'')" by code_simp+
  moreover have "printable (hex_char (code c div 16))" "printable (hex_char (code c mod 16))"
    using code_less [of c] by (intro printable_hex; simp)+
  ultimately show ?thesis by (auto simp: json_escape_def Let_def printable_def)
qed

lemma printable_quote: "list_all printable (json_quote s)"
proof -
  have "printable QUOTE" by code_simp
  moreover have "list_all printable (concat (map json_escape s))"
    by (simp add: list_all_concat list_all_iff [of _ "map json_escape s"] printable_escape)
  ultimately show ?thesis by (simp add: json_quote_def)
qed

lemma printable_punctuation: "list_all printable ''-''" "list_all printable ''.''" "list_all printable '', ''" "list_all printable '': ''"
  "list_all printable ''[]''" "list_all printable ''{}''" "list_all printable ''null''" "list_all printable ''true''"
  "list_all printable ''false''" "list_all printable ''[''" "list_all printable '']''" "list_all printable ''{''" "list_all printable ''}''"
  by code_simp+

lemma printable_numbers: "list_all printable (int_str i)" "list_all printable (float_str x)"
proof -
  note n = nat_str_digits(1) [THEN printable_digits]
  show "list_all printable (int_str i)" using n printable_punctuation(1) by (auto simp: int_str_def)
  let ?m = "nat (abs (floor (x * 1000000)))"
  have "list_all is_digit (rev (drop_zeros (rev (pad6 (?m mod 1000000)))))"
    using float_fraction [of ?m "?m div 1000000" "?m mod 1000000"] by (simp add: Let_def)
  then show "list_all printable (float_str x)"
    using n printable_punctuation(1,2) printable_digits by (auto simp: float_str_def Let_def)
qed

lemma printable_dump: "list_all printable (json_dump None n j)"
proof (induction j arbitrary: n)
  case (JList xs)
  then have "list_all (list_all printable) (map (json_dump None (Suc n)) xs)" by (auto simp: list_all_iff [of _ "map _ _"])
  then show ?case
    using printable_join [OF printable_punctuation(3)] printable_punctuation
    by (auto simp: json_break_def json_sep_def)
next
  case (JObj kvs)
  then have "list_all (list_all printable) (map (dump_member None (Suc n)) kvs)"
    using printable_quote printable_punctuation(4)
    by (auto simp: list_all_iff [of _ "map _ _"] dump_member_def)
  then show ?case
    using printable_join [OF printable_punctuation(3)] printable_punctuation
    by (auto simp: json_dump_obj json_break_def json_sep_def simp del: json_dump.simps)
qed (use printable_numbers printable_quote printable_punctuation in auto)

lemma dumps_printable: "list_all printable (dumps j)"
  by (simp add: dumps_def printable_dump)

section \<open>Files of records\<close>

text \<open>A journal file holds one value per line; it is read back line by line.\<close>

definition journal_text :: "json list \<Rightarrow> string" where
  "journal_text es = concat (map (\<lambda>e. dumps e @ [char_of (10 :: nat)]) es)"

lemma journal_text_simps [simp]:
  "journal_text [] = []" "journal_text (e # es) = dumps e @ char_of (10 :: nat) # journal_text es"
  "journal_text (es @ es') = journal_text es @ journal_text es'"
  by (simp_all add: journal_text_def)

lemma splitlines_line:
  "list_all printable l \<Longrightarrow> splitlines_from cur b (l @ char_of (10 :: nat) # s) = (rev cur @ l) # splitlines_from [] False s"
proof (induction l arbitrary: cur b)
  case Nil
  have "code (char_of (10 :: nat) :: char) = 10" by simp
  then show ?case by (cases s) (simp_all add: is_linebreak_def)
next
  case (Cons c l)
  then have "\<not> is_linebreak c" "code c \<noteq> 13" by (auto simp: printable_def is_linebreak_def)
  with Cons show ?case by (cases "l @ char_of (10 :: nat) # s") auto
qed

lemma splitlines_journal: "splitlines (journal_text es) = map dumps es"
  by (induction es) (simp_all add: splitlines_def splitlines_line dumps_printable)

lemma dumps_object: "\<exists>s. dumps (JObj kvs) = ''{'' @ s @ ''}''"
proof (cases "kvs = []")
  case True
  then show ?thesis by (intro exI [of _ "[]"]) (simp add: dumps_def)
next
  case False
  then have "dumps (JObj kvs) = ''{'' @ (json_break None (Suc 0) @ join (json_sep None (Suc 0)) (map (\<lambda>(k, v). json_quote k @ '': '' @ json_dump None (Suc 0) v) kvs)
    @ json_break None 0) @ ''}''" by (simp add: dumps_def)
  then show ?thesis by blast
qed

lemma strip_dumps: "strip (dumps (JObj kvs)) = dumps (JObj kvs)" "dumps (JObj kvs) \<noteq> []"
proof -
  have sp: "\<not> is_space (CHR ''{'')" "\<not> is_space (CHR ''}'')" by code_simp+
  obtain s where "dumps (JObj kvs) = ''{'' @ s @ ''}''" using dumps_object by blast
  then show "strip (dumps (JObj kvs)) = dumps (JObj kvs)" "dumps (JObj kvs) \<noteq> []"
    using sp by (simp_all add: strip_def lstrip_def rstrip_def)
qed

end
