(* ===== verification/Flash_Runner.thy ===== *)
theory Flash_Runner
  imports Flash_Ports Flash_Inspect Action Json
begin

text \<open>
  The one-shot safe-flash runner (\<^verbatim>\<open>scripts/macos/bootmux-safe-flash-runner.py\<close>): journal, esptool
  commands, shield calls, the fourteen steps and the pipeline that runs them. Programs it starts, the
  serial library and the manifest reader are fields of the environment \<open>env\<close>, over a state of the world \<open>'w\<close>
  that started programs, file removals and the passing of time (\<open>env_tick\<close>) change. The model keeps the list of started programs.
  \<^verbatim>\<open>_interrupted\<close> is only set by a signal handler that at once exits the process, so a run that returns has
  not been interrupted.
\<close>

section \<open>Environment and state\<close>

type_synonym proc_out = "int \<times> string \<times> string" \<comment> \<open>return code, stdout, stderr\<close>

record 'w env =
  env_script_dir :: path
  env_python :: string
  env_home :: path
  env_idf_path :: string
  env_pythonpath :: string
  env_pid :: int
  env_files :: "'w \<Rightarrow> files"
  env_dirs :: "'w \<Rightarrow> path \<Rightarrow> bool"
  env_glob :: "string \<Rightarrow> 'w \<Rightarrow> string list"
  env_exec :: "string list \<Rightarrow> string option \<Rightarrow> 'w \<Rightarrow> proc_out result \<times> 'w" \<comment> \<open>second argument: PYTHONPATH, if set\<close>
  env_serial :: "string \<Rightarrow> 'w \<Rightarrow> serial_reply \<times> 'w"
  env_unlink :: "path \<Rightarrow> 'w \<Rightarrow> 'w"
  env_time :: "'w \<Rightarrow> real"
  env_tick :: "'w \<Rightarrow> 'w" \<comment> \<open>what happens by itself after the serial ports were listed\<close>
  env_manifest :: "string \<Rightarrow> manifest result"

record journal_entry =
  je_seq :: nat
  je_ts :: real
  je_event :: string
  je_data :: "(string \<times> json) list"
  je_status :: string

record 'w runner =
  r_session :: string
  r_dry_run :: bool
  r_preflight_only :: bool
  r_journal :: "journal_entry list"
  r_seq :: nat
  r_manifest :: "manifest option"
  r_build_dir :: "path option"
  r_serial_port :: "string option"
  r_serial_baseline :: "string list"
  r_pre_fingerprint :: "json option"
  r_post_fingerprint :: "json option"
  r_world :: 'w
  r_started :: "string list list" \<comment> \<open>every program started so far\<close>

definition TTL_SECONDS :: nat where "TTL_SECONDS = 1800"

lemma TTL_SECONDS_text [code_unfold]: "int TTL_SECONDS = 1800" "nat_str TTL_SECONDS = ''1800''"
  by (simp add: TTL_SECONDS_def, code_simp)

definition REPO_ROOT :: "'w env \<Rightarrow> path" where "REPO_ROOT e = parent (parent (env_script_dir e))"
definition FIRMWARE_DIR :: "'w env \<Rightarrow> path" where
  "FIRMWARE_DIR e = REPO_ROOT e @ [''firmware'', ''esp32s3-router-spike'']"
definition SHIELD_SCRIPT :: "'w env \<Rightarrow> path" where "SHIELD_SCRIPT e = env_script_dir e @ [''bootmux-attach-shield.py'']"
definition INSPECT_SCRIPT :: "'w env \<Rightarrow> path" where "INSPECT_SCRIPT e = env_script_dir e @ [''bootmux-safe-flash-inspect.py'']"
definition MANIFEST_PATH :: "'w env \<Rightarrow> path" where "MANIFEST_PATH e = FIRMWARE_DIR e @ [''safe-flash-manifest.json'']"

definition path_exists :: "'w env \<Rightarrow> 'w \<Rightarrow> path \<Rightarrow> bool" where
  "path_exists e w p = (env_files e w p \<noteq> None \<or> env_dirs e w p)"

section \<open>Actions\<close>

text \<open>An action of the runner (\<open>Action\<close>) over its state.\<close>

type_synonym ('w, 'a) action = "('w runner, 'a) act"

text \<open>\<^verbatim>\<open>subprocess.run\<close>: the program is started; an exception of the call is a value here, to be caught or raised.\<close>

definition run_prog :: "'w env \<Rightarrow> string list \<Rightarrow> string option \<Rightarrow> ('w, proc_out result) action" where
  "run_prog e av pp r =
     (case env_exec e av pp (r_world r) of
        (out, w) \<Rightarrow> (Inr out, r\<lparr>r_world := w, r_started := r_started r @ [av]\<rparr>))"

definition run_prog_ok :: "'w env \<Rightarrow> string list \<Rightarrow> string option \<Rightarrow> ('w, proc_out) action" where
  "run_prog_ok e av pp = bindA (run_prog e av pp) (\<lambda>out. case out of Inl x \<Rightarrow> raiseA x | Inr p \<Rightarrow> ret p)"

section \<open>Journal\<close>

definition journal_append :: "'w env \<Rightarrow> string \<Rightarrow> (string \<times> json) list \<Rightarrow> string \<Rightarrow> ('w, unit) action" where
  "journal_append e event data status = modify (\<lambda>r.
     r\<lparr>r_seq := Suc (r_seq r),
       r_journal := r_journal r @
         [\<lparr>je_seq = Suc (r_seq r), je_ts = env_time e (r_world r), je_event = event, je_data = data,
           je_status = status\<rparr>]\<rparr>)"

definition last_event :: "journal_entry list \<Rightarrow> string option" where
  "last_event entries = (if entries \<noteq> [] then Some (je_event (last entries)) else None)"

definition can_resume_from :: "journal_entry list \<Rightarrow> string \<Rightarrow> bool" where
  "can_resume_from entries event = (event \<in> set (map je_event entries))"

section \<open>esptool\<close>

type_synonym esptool = "string list \<times> string option"

definition esptool_candidates :: "'w env \<Rightarrow> 'w \<Rightarrow> path option \<Rightarrow> (string \<times> path) list" where
  "esptool_candidates e w bundle_dir =
     (let bundle = (case bundle_dir of
            None \<Rightarrow> []
          | Some d \<Rightarrow> (let p = d @ [''tools'', ''tool-esptoolpy'', ''esptool.py'']
                       in if path_exists e w p then [(''BUNDLE'', p)] else []));
          local = REPO_ROOT e @ [''tools'', ''tool-esptoolpy'', ''esptool.py''];
          auto = (if path_exists e w local \<and> \<not> list_ex (\<lambda>c. fst c = ''BUNDLE'' \<and> snd c = local) bundle
                  then [(''BUNDLE_AUTO'', local)] else []);
          idf = (if env_idf_path e \<noteq> []
                 then [(''IDF_PATH'', components (env_idf_path e) @ [''components'', ''esptool_py'', ''esptool'', ''esptool.py''])]
                 else []);
          system = [(''HOME_ESPRESSIF'', env_home e @ [''.espressif'', ''python_env'', ''idf_py'', ''bin'', ''esptool.py'']),
                    (''USR_BIN'', [''usr'', ''local'', ''bin'', ''esptool.py'']),
                    (''HOMEBREW'', [''opt'', ''homebrew'', ''bin'', ''esptool.py''])];
          pio = env_home e @ [''.platformio'', ''packages''];
          pio1 = pio @ [''tool-esptoolpy'', ''esptool.py''];
          pio2 = pio @ [''framework-espidf'', ''components'', ''esptool_py'', ''esptool'', ''esptool.py'']
      in bundle @ auto @ idf @ system
         @ (if path_exists e w pio1 then [(''PLATFORMIO'', pio1)] else [])
         @ (if path_exists e w pio2 then [(''IDF_PIO'', pio2)] else []))"

definition bundle_env :: "'w env \<Rightarrow> 'w \<Rightarrow> string \<times> path \<Rightarrow> string option" where
  "bundle_env e w c =
     (let tools_dir = parent (parent (snd c))
      in if prefix ''BUNDLE'' (fst c) \<and> path_exists e w (tools_dir @ [''serial''])
         then Some (pstr tools_dir @ '':'' @ env_pythonpath e) else None)"

fun try_candidates :: "'w env \<Rightarrow> (string \<times> path) list \<Rightarrow> ('w, esptool option) action" where
  "try_candidates e [] = ret None"
| "try_candidates e (c # cs) =
     bindA (gets r_world) (\<lambda>w.
       if \<not> path_exists e w (snd c) then try_candidates e cs
       else let extra = bundle_env e w c in
         bindA (run_prog e [env_python e, pstr (snd c), ''version''] extra) (\<lambda>out.
           case out of
             Inr (rc, _) \<Rightarrow> if rc = 0 then ret (Some ([env_python e, pstr (snd c)], extra)) else try_candidates e cs
           | Inl _ \<Rightarrow> try_candidates e cs))"

text \<open>The last resort \<^verbatim>\<open>python -m esptool\<close>.\<close>

definition module_esptool :: "'w env \<Rightarrow> ('w, esptool option) action" where
  "module_esptool e =
     bindA (run_prog e [env_python e, ''-m'', ''esptool'', ''version''] None) (\<lambda>out.
       case out of
         Inr (rc, _) \<Rightarrow> if rc = 0 then ret (Some ([env_python e, ''-m'', ''esptool''], None)) else ret None
       | Inl _ \<Rightarrow> ret None)"

definition find_esptool :: "'w env \<Rightarrow> path option \<Rightarrow> ('w, esptool option) action" where
  "find_esptool e bundle_dir =
     bindA (gets r_world) (\<lambda>w.
     bindA (try_candidates e (esptool_candidates e w bundle_dir)) (\<lambda>found.
       case found of
         Some t \<Rightarrow> ret (Some t)
       | None \<Rightarrow>
           bindA (run_prog e [''which'', ''esptool.py''] None) (\<lambda>out.
             case out of
               Inr (rc, stdout, _) \<Rightarrow> if rc = 0 then ret (Some ([strip stdout], None)) else module_esptool e
             | Inl _ \<Rightarrow> module_esptool e)))"

definition build_flash_command :: "esptool \<Rightarrow> string \<Rightarrow> manifest \<Rightarrow> path \<Rightarrow> esptool" where
  "build_flash_command tool port m build_dir =
     (fst tool
      @ [''--chip'', ''esp32s3'', ''--port'', port, ''--baud'', ''460800'', ''--before'', ''default_reset'',
         ''--after'', ''hard_reset'', ''write_flash'',
         ''--flash_mode'', dict_get (m_flash_params m) ''flash_mode'' ''dio'',
         ''--flash_freq'', dict_get (m_flash_params m) ''flash_freq'' ''80m'',
         ''--flash_size'', dict_get (m_flash_params m) ''flash_size'' ''2MB'']
      @ concat (map (\<lambda>a. [a_offset a, pstr (path_join (parent build_dir) (a_path a))]) (m_artifacts m)),
      snd tool)"

definition READBACK :: path where "READBACK = [''tmp'', ''bootmux-readback.bin'']"

record readback =
  rb_name :: string
  rb_status :: string

definition verify_artifact :: "'w env \<Rightarrow> esptool \<Rightarrow> string \<Rightarrow> artifact \<Rightarrow> ('w, readback) action" where
  "verify_artifact e tool port art =
     (case hex_int (a_offset art) of
        None \<Rightarrow> raiseA ValueError
      | Some offset \<Rightarrow>
          bindA (run_prog_ok e (fst tool @ [''--chip'', ''esp32s3'', ''--port'', port, ''read_flash'', hex_str offset,
                                   nat_str (a_size art), pstr READBACK]) (snd tool)) (\<lambda>(rc, _).
          if rc \<noteq> 0 then ret \<lparr>rb_name = a_name art, rb_status = ''RED''\<rparr>
          else bindA (gets (\<lambda>r. env_files e (r_world r) READBACK)) (\<lambda>data.
            case data of
              None \<Rightarrow> ret \<lparr>rb_name = a_name art, rb_status = ''RED''\<rparr>
            | Some d \<Rightarrow>
                bindA (modify (\<lambda>r. r\<lparr>r_world := env_unlink e READBACK (r_world r)\<rparr>)) (\<lambda>_.
                  ret \<lparr>rb_name = a_name art,
                       rb_status = (if sha256_hex d = a_sha256 art then ''GREEN'' else ''RED'')\<rparr>))))"

fun verify_artifacts :: "'w env \<Rightarrow> esptool \<Rightarrow> string \<Rightarrow> artifact list \<Rightarrow> ('w, readback list) action" where
  "verify_artifacts e tool port [] = ret []"
| "verify_artifacts e tool port (a # as) =
     bindA (verify_artifact e tool port a) (\<lambda>x.
     bindA (verify_artifacts e tool port as) (\<lambda>xs. ret (x # xs)))"

definition verify_flash_sha :: "'w env \<Rightarrow> string \<Rightarrow> manifest \<Rightarrow> path \<Rightarrow> ('w, string) action" where
  "verify_flash_sha e port m build_dir =
     bindA (find_esptool e None) (\<lambda>tool.
       case tool of
         None \<Rightarrow> ret ''YELLOW''
       | Some t \<Rightarrow> bindA (verify_artifacts e t port (m_artifacts m)) (\<lambda>rs.
                    ret (if list_all (\<lambda>r. rb_status r = ''GREEN'') rs then ''GREEN'' else ''RED'')))"

section \<open>Shield\<close>

definition shield_argv :: "'w env \<Rightarrow> string list \<Rightarrow> bool \<Rightarrow> string list" where
  "shield_argv e args sudo = (if sudo then [''sudo''] else []) @ [env_python e, pstr (SHIELD_SCRIPT e)] @ args"

definition run_shield :: "'w env \<Rightarrow> string list \<Rightarrow> bool \<Rightarrow> ('w, int \<times> string) action" where
  "run_shield e args sudo =
     bindA (run_prog_ok e (shield_argv e args sudo) None) (\<lambda>(rc, out, err). ret (rc, out @ err))"

definition shield_is_armed :: "'w env \<Rightarrow> ('w, bool) action" where
  "shield_is_armed e =
     bindA (run_shield e [''--status''] True) (\<lambda>(rc, out). ret (contains ''STATUS=ARMED'' out))"

section \<open>Steps\<close>

definition ok_red :: "bool \<Rightarrow> string" where "ok_red b = (if b then ''OK'' else ''RED'')"
definition green_red :: "bool \<Rightarrow> string" where "green_red b = (if b then ''GREEN'' else ''RED'')"

text \<open>\<^verbatim>\<open>len(fp) if fp else 0\<close>: the length of a container, none for a non-zero number or true, where \<^verbatim>\<open>len\<close> raises.\<close>

definition json_len :: "json \<Rightarrow> nat option" where
  "json_len j =
     (case j of
        JObj kvs \<Rightarrow> Some (length kvs) | JList xs \<Rightarrow> Some (length xs) | JStr s \<Rightarrow> Some (length s)
      | JNull \<Rightarrow> Some 0 | JBool b \<Rightarrow> if b then None else Some 0
      | JInt i \<Rightarrow> if i \<noteq> 0 then None else Some 0 | JFloat x \<Rightarrow> if x \<noteq> 0 then None else Some 0)"

text \<open>
  The manifest path and its bundle-relative fallback are the same path (both start from the repository
  root that the script directory gives), so there is one lookup.
\<close>

definition load_manifest :: "'w env \<Rightarrow> ('w, bool) action" where
  "load_manifest e =
     bindA (gets r_world) (\<lambda>w.
       case env_files e w (MANIFEST_PATH e) of
         None \<Rightarrow> ret False
       | Some txt \<Rightarrow>
           (case env_manifest e txt of
              Inl x \<Rightarrow> raiseA x
            | Inr m \<Rightarrow>
                (let candidate = path_join (FIRMWARE_DIR e) (m_build_dir m);
                     dir = (if path_exists e w candidate then candidate
                            else path_join (parent (MANIFEST_PATH e)) (m_build_dir m))
                 in bindA (modify (\<lambda>r. r\<lparr>r_manifest := Some m, r_build_dir := Some dir\<rparr>)) (\<lambda>_. ret True))))"

text \<open>\<^verbatim>\<open>json.loads(out)\<close> with \<^verbatim>\<open>except json.JSONDecodeError\<close>; the state field to set is an argument.\<close>

definition fingerprint_step ::
    "'w env \<Rightarrow> string \<Rightarrow> (json \<Rightarrow> 'w runner \<Rightarrow> 'w runner) \<Rightarrow> string \<Rightarrow> ('w, string) action" where
  "fingerprint_step e event keep out =
     (case loads out of
        Inr fp \<Rightarrow>
          bindA (modify (keep fp)) (\<lambda>_.
            case json_len fp of
              None \<Rightarrow> raiseA TypeError
            | Some n \<Rightarrow> bindA (journal_append e event [(''keys'', JInt (int n))] ''OK'') (\<lambda>_. ret ''GREEN''))
      | Inl JSONDecodeError \<Rightarrow>
          bindA (journal_append e event [(''error'', JStr ''parse failed'')] ''RED'') (\<lambda>_. ret ''RED'')
      | Inl x \<Rightarrow> raiseA x)"

definition step_pre_fingerprint :: "'w env \<Rightarrow> ('w, string) action" where
  "step_pre_fingerprint e =
     bindA (run_shield e [''--fingerprint''] False) (\<lambda>(rc, out).
     bindA (if rc \<noteq> 0 then run_shield e [''--fingerprint''] False else ret (rc, out)) (\<lambda>(rc, out).
       fingerprint_step e ''PRE_FINGERPRINT'' (\<lambda>fp r. r\<lparr>r_pre_fingerprint := Some fp\<rparr>) out))"

definition step_shield_install :: "'w env \<Rightarrow> ('w, string) action" where
  "step_shield_install e =
     bindA (gets r_dry_run) (\<lambda>dry.
       if dry then bindA (journal_append e ''SHIELD_INSTALL'' [(''dry_run'', JBool True)] ''OK'') (\<lambda>_. ret ''GREEN_DRY_RUN'')
       else bindA (run_prog_ok e [''sudo'', ''bash'', pstr (env_script_dir e @ [''install-bootmux-attach-shield.sh''])] None)
              (\<lambda>(rc, out, err). let ok = (rc = 0) in
                bindA (journal_append e ''SHIELD_INSTALL'' [(''ok'', JBool ok), (''output'', JStr (take 500 out))] (ok_red ok))
                  (\<lambda>_. ret (green_red ok))))"

definition step_shield_arm :: "'w env \<Rightarrow> ('w, string) action" where
  "step_shield_arm e =
     bindA (gets r_dry_run) (\<lambda>dry.
       if dry then bindA (journal_append e ''SHIELD_ARM'' [(''dry_run'', JBool True), (''ttl'', JInt (int TTL_SECONDS))] ''OK'')
                     (\<lambda>_. ret ''GREEN_DRY_RUN'')
       else bindA (run_shield e [''--arm'', ''--ttl'', nat_str TTL_SECONDS] True) (\<lambda>(rc, out).
              let ok = (rc = 0 \<and> contains ''CLASSIFICATION=GREEN'' out) in
              bindA (journal_append e ''SHIELD_ARM'' [(''ok'', JBool ok), (''ttl'', JInt (int TTL_SECONDS)),
                       (''output'', JStr (take 500 out))] (ok_red ok))
                (\<lambda>_. ret (green_red ok))))"

text \<open>Devices come and go without the runner: the world may have moved on after a listing.\<close>

definition ports_now :: "'w env \<Rightarrow> ('w, string list) action" where
  "ports_now e =
     bindA (gets (\<lambda>r. list_serial_ports (\<lambda>p. env_glob e p (r_world r)))) (\<lambda>ports.
     bindA (modify (\<lambda>r. r\<lparr>r_world := env_tick e (r_world r)\<rparr>)) (\<lambda>_. ret ports))"

definition step_serial_baseline :: "'w env \<Rightarrow> ('w, string) action" where
  "step_serial_baseline e =
     bindA (ports_now e) (\<lambda>ports.
     bindA (modify (\<lambda>r. r\<lparr>r_serial_baseline := ports\<rparr>)) (\<lambda>_.
     bindA (journal_append e ''SERIAL_BASELINE'' [(''ports'', JList (map JStr ports))] ''OK'') (\<lambda>_. ret ''GREEN'')))"

definition step_serial_detect :: "'w env \<Rightarrow> ('w, string) action" where
  "step_serial_detect e =
     bindA (ports_now e) (\<lambda>after.
     bindA (gets r_serial_baseline) (\<lambda>before.
       case detect_new_port before after of
         (None, reason) \<Rightarrow>
           bindA (journal_append e ''SERIAL_DETECT'' [(''reason'', JStr reason), (''after'', JList (map JStr after))] ''RED'')
             (\<lambda>_. ret (''RED:'' @ reason))
       | (Some port, reason) \<Rightarrow>
           bindA (modify (\<lambda>r. r\<lparr>r_serial_port := Some port\<rparr>)) (\<lambda>_.
           bindA (journal_append e ''SERIAL_DETECT'' [(''port'', JStr port), (''reason'', JStr reason)] ''OK'')
             (\<lambda>_. ret ''GREEN''))))"

definition step_rom_mode_check :: "'w env \<Rightarrow> ('w, string) action" where
  "step_rom_mode_check e =
     bindA (gets (\<lambda>r. (r_serial_port r, r_dry_run r))) (\<lambda>(port, dry).
       if \<not> truthy port then ret ''RED:NO_PORT''
       else if dry then bindA (journal_append e ''ROM_MODE_CHECK'' [(''dry_run'', JBool True), (''port'', JStr (the port))] ''OK'')
                          (\<lambda>_. ret ''GREEN_DRY_RUN'')
       else bindA (gets (\<lambda>r. env_serial e (the port) (r_world r))) (\<lambda>(reply, w).
            bindA (modify (\<lambda>r. r\<lparr>r_world := w\<rparr>)) (\<lambda>_.
              let (is_rom, detail) = check_rom_download_mode reply in
              bindA (journal_append e ''ROM_MODE_CHECK'' [(''port'', JStr (the port)), (''is_rom'', JBool is_rom),
                       (''detail'', JStr detail)] (ok_red is_rom))
                (\<lambda>_. ret (if is_rom then ''GREEN'' else ''RED:'' @ detail)))))"

definition inspector_argv :: "'w env \<Rightarrow> string list" where
  "inspector_argv e = [env_python e, pstr (INSPECT_SCRIPT e), ''--manifest'', pstr (MANIFEST_PATH e), ''--json'']"

text \<open>The re-verification loop: the first artifact that is missing or differs decides.\<close>

fun recheck :: "'w env \<Rightarrow> path \<Rightarrow> artifact list \<Rightarrow> ('w, string option) action" where
  "recheck e build_dir [] = ret None"
| "recheck e build_dir (a # as) =
     bindA (gets (\<lambda>r. env_files e (r_world r) (path_join (parent build_dir) (a_path a)))) (\<lambda>data.
       case data of
         None \<Rightarrow>
           bindA (journal_append e ''PRE_FLASH_GATE''
                    [(''error'', JStr (''artifact missing: '' @ pstr (path_join (parent build_dir) (a_path a))))] ''RED'')
             (\<lambda>_. ret (Some (''RED:ARTIFACT_MISSING:'' @ a_name a)))
       | Some d \<Rightarrow>
           if sha256_hex d \<noteq> a_sha256 a
           then bindA (journal_append e ''PRE_FLASH_GATE''
                         [(''artifact'', JStr (a_name a)), (''expected'', JStr (a_sha256 a)), (''actual'', JStr (sha256_hex d))] ''RED'')
                  (\<lambda>_. ret (Some (''RED:HASH_MISMATCH:'' @ a_name a)))
           else recheck e build_dir as)"

definition gate_report :: "(string \<times> json) list \<Rightarrow> (string \<times> json) list result" where
  "gate_report kvs =
     (case json_get kvs ''usb_identity'' (JObj []) of
        JObj u \<Rightarrow> Inr [(''overall'', json_get kvs ''overall'' (JStr ''RED'')),
                       (''safe_off'', json_get kvs ''safe_off_marker'' JNull),
                       (''usb_identity'', json_get u ''match'' JNull),
                       (''sdkconfig'', json_get kvs ''sdkconfig_marker'' JNull)]
      | _ \<Rightarrow> Inl AttributeError)"

definition step_pre_flash_gate :: "'w env \<Rightarrow> ('w, string) action" where
  "step_pre_flash_gate e =
     bindA (gets (\<lambda>r. (r_manifest r, r_build_dir r))) (\<lambda>(m, d).
       if m = None \<or> d = None then ret ''RED:PRECONDITIONS''
       else bindA (run_prog_ok e (inspector_argv e) None) (\<lambda>(rc, out, err).
         case loads out of
           Inl JSONDecodeError \<Rightarrow>
             bindA (journal_append e ''PRE_FLASH_GATE'' [(''error'', JStr ''inspector json parse failed''),
                      (''stderr'', JStr (take 300 err))] ''RED'') (\<lambda>_. ret ''RED:INSPECTOR_PARSE_FAILED'')
         | Inl x \<Rightarrow> raiseA x
         | Inr (JObj kvs) \<Rightarrow>
             (let overall = json_get kvs ''overall'' (JStr ''RED'') in
              if overall \<noteq> JStr ''GREEN''
              then (case gate_report kvs of
                      Inl x \<Rightarrow> raiseA x
                    | Inr rep \<Rightarrow> bindA (journal_append e ''PRE_FLASH_GATE'' rep ''RED'')
                                   (\<lambda>_. ret (''RED:INSPECTION_NOT_GREEN:'' @ py_str overall)))
              else bindA (recheck e (the d) (m_artifacts (the m))) (\<lambda>bad.
                     case bad of
                       Some red \<Rightarrow> ret red
                     | None \<Rightarrow>
                         bindA (journal_append e ''PRE_FLASH_GATE'' [(''overall'', JStr ''GREEN''),
                                  (''artifacts_verified'', JInt (int (length (m_artifacts (the m)))))] ''OK'')
                           (\<lambda>_. ret ''GREEN'')))
         | Inr _ \<Rightarrow> raiseA AttributeError))"

definition step_flash :: "'w env \<Rightarrow> ('w, string) action" where
  "step_flash e =
     bindA (gets (\<lambda>r. (r_serial_port r, r_manifest r, r_build_dir r, r_dry_run r))) (\<lambda>(port, m, d, dry).
       if \<not> truthy port \<or> m = None \<or> d = None then ret ''RED:PRECONDITIONS''
       else if dry
       then bindA (journal_append e ''FLASH'' [(''dry_run'', JBool True), (''port'', JStr (the port))] ''OK'')
              (\<lambda>_. ret ''GREEN_DRY_RUN'')
       else bindA (find_esptool e None) (\<lambda>tool.
         case tool of
           None \<Rightarrow> bindA (journal_append e ''FLASH'' [(''error'', JStr ''esptool not found'')] ''RED'')
                      (\<lambda>_. ret ''RED:ESPTOOL_MISSING'')
         | Some t \<Rightarrow>
             (let (cmd, pp) = build_flash_command t (the port) (the m) (the d) in
              bindA (journal_append e ''FLASH_START'' [(''cmd'', JStr (join '' '' (take 10 cmd) @ ''...''))] ''OK'') (\<lambda>_.
              bindA (run_prog_ok e cmd pp) (\<lambda>(rc, out, err).
                let ok = (rc = 0) in
                bindA (journal_append e ''FLASH'' [(''ok'', JBool ok), (''returncode'', JInt rc),
                         (''stderr_tail'', JStr (drop (length err - 500) err))] (ok_red ok))
                  (\<lambda>_. ret (if ok then ''GREEN'' else ''RED:FLASH_FAILED'')))))))"

definition step_flash_verify :: "'w env \<Rightarrow> ('w, string) action" where
  "step_flash_verify e =
     bindA (gets (\<lambda>r. (r_serial_port r, r_manifest r, r_build_dir r, r_dry_run r))) (\<lambda>(port, m, d, dry).
       if dry then bindA (journal_append e ''FLASH_VERIFY'' [(''dry_run'', JBool True)] ''OK'') (\<lambda>_. ret ''GREEN_DRY_RUN'')
       else if \<not> truthy port \<or> m = None \<or> d = None then ret ''RED:PRECONDITIONS''
       else bindA (verify_flash_sha e (the port) (the m) (the d)) (\<lambda>status.
            bindA (journal_append e ''FLASH_VERIFY'' [(''status'', JStr status)] (ok_red (status = ''GREEN'')))
              (\<lambda>_. ret status)))"

definition step_safe_identity_verify :: "'w env \<Rightarrow> ('w, string) action" where
  "step_safe_identity_verify e =
     bindA (run_prog_ok e (inspector_argv e) None) (\<lambda>(rc, out, err).
       if rc \<noteq> 0
       then bindA (journal_append e ''SAFE_IDENTITY_VERIFY'' [(''error'', JStr (take 500 err))] ''RED'') (\<lambda>_. ret ''RED'')
       else case loads out of
         Inl JSONDecodeError \<Rightarrow>
           bindA (journal_append e ''SAFE_IDENTITY_VERIFY'' [(''error'', JStr ''json parse'')] ''RED'') (\<lambda>_. ret ''RED'')
       | Inl x \<Rightarrow> raiseA x
       | Inr (JObj kvs) \<Rightarrow>
           (let overall = json_get kvs ''overall'' (JStr ''RED'') in
            bindA (journal_append e ''SAFE_IDENTITY_VERIFY'' [(''overall'', overall)] (ok_red (overall = JStr ''GREEN'')))
              (\<lambda>_. case overall of JStr s \<Rightarrow> ret s | _ \<Rightarrow> raiseA AttributeError))
       | Inr _ \<Rightarrow> raiseA AttributeError)"

definition step_shield_close :: "'w env \<Rightarrow> ('w, string) action" where
  "step_shield_close e =
     bindA (gets r_dry_run) (\<lambda>dry.
       if dry then bindA (journal_append e ''SHIELD_CLOSE'' [(''dry_run'', JBool True)] ''OK'') (\<lambda>_. ret ''GREEN_DRY_RUN'')
       else bindA (run_shield e [''--close-session''] True) (\<lambda>(rc, out).
            bindA (journal_append e ''SHIELD_CLOSE'' [(''rc'', JInt rc), (''output'', JStr (take 500 out))]
                     (if rc = 0 then ''OK'' else ''WARN''))
              (\<lambda>_. ret (if rc = 0 then ''GREEN'' else ''YELLOW''))))"

definition step_shield_purge :: "'w env \<Rightarrow> ('w, string) action" where
  "step_shield_purge e =
     bindA (gets r_dry_run) (\<lambda>dry.
       if dry then bindA (journal_append e ''SHIELD_PURGE'' [(''dry_run'', JBool True)] ''OK'') (\<lambda>_. ret ''GREEN_DRY_RUN'')
       else bindA (run_shield e [''--uninstall'', ''--purge''] True) (\<lambda>(rc, out).
            let ok = (rc = 0 \<and> contains ''PURGE=OK'' out) in
            bindA (journal_append e ''SHIELD_PURGE'' [(''ok'', JBool ok), (''output'', JStr (take 500 out))] (ok_red ok))
              (\<lambda>_. ret (green_red ok))))"

definition step_post_fingerprint :: "'w env \<Rightarrow> ('w, string) action" where
  "step_post_fingerprint e =
     bindA (run_shield e [''--fingerprint''] False) (\<lambda>(rc, out).
       fingerprint_step e ''POST_FINGERPRINT'' (\<lambda>fp r. r\<lparr>r_post_fingerprint := Some fp\<rparr>) out)"

text \<open>\<^verbatim>\<open>not fp\<close> on a stored fingerprint.\<close>

definition fp_missing :: "json option \<Rightarrow> bool" where
  "fp_missing fp = (case fp of None \<Rightarrow> True | Some j \<Rightarrow> \<not> json_true j)"

text \<open>
  Values are compared with \<^verbatim>\<open>==\<close>; \<^verbatim>\<open>get\<close> gives null for a missing key. The order in which Python
  visits the set of keys does not matter for the result.
\<close>

definition fp_diffs :: "(string \<times> json) list \<Rightarrow> (string \<times> json) list \<Rightarrow> string list" where
  "fp_diffs pre post =
     filter (\<lambda>k. \<not> py_eq (json_get pre k JNull) (json_get post k JNull)) (remdups (map fst pre @ map fst post))"

definition EXPECTED_DIFFS :: "string list" where
  "EXPECTED_DIFFS = [''shield_files'', ''routes'']"

definition step_fingerprint_compare :: "'w env \<Rightarrow> ('w, string) action" where
  "step_fingerprint_compare e =
     bindA (gets (\<lambda>r. (r_pre_fingerprint r, r_post_fingerprint r))) (\<lambda>(pre, post).
       if fp_missing pre \<or> fp_missing post then ret ''RED:MISSING_FINGERPRINTS''
       else case (the pre, the post) of
         (JObj a, JObj b) \<Rightarrow>
           (let diffs = fp_diffs a b;
                unexpected = filter (\<lambda>d. d \<notin> set EXPECTED_DIFFS) diffs;
                ok = (length unexpected = 0)
            in bindA (journal_append e ''FINGERPRINT_COMPARE'' [(''diffs'', JList (map JStr diffs)),
                        (''unexpected'', JList (map JStr unexpected)), (''match'', JBool ok)] (ok_red ok))
                 (\<lambda>_. ret (if ok then ''GREEN'' else ''RED:UNEXPECTED_DIFFS:'' @ repr_list unexpected)))
       | _ \<Rightarrow> raiseA AttributeError)"

section \<open>The pipeline\<close>

record run_report =
  rr_status :: string
  rr_reason :: "string option"
  rr_failed_step :: "string option"
  rr_results :: "string dict"

definition report :: "string \<Rightarrow> string option \<Rightarrow> string option \<Rightarrow> string dict \<Rightarrow> run_report" where
  "report status reason failed results =
     \<lparr>rr_status = status, rr_reason = reason, rr_failed_step = failed, rr_results = results\<rparr>"

definition rollback :: "'w env \<Rightarrow> ('w, unit) action" where
  "rollback e =
     bindA (shield_is_armed e) (\<lambda>armed.
       if armed then bindA (step_shield_close e) (\<lambda>_. bindA (step_shield_purge e) (\<lambda>_. ret ()))
       else ret ())"

fun run_steps :: "'w env \<Rightarrow> (string \<times> ('w, string) action) list \<Rightarrow> string dict \<Rightarrow> ('w, run_report) action" where
  "run_steps e [] results =
     bindA (journal_append e ''RUNNER_DONE'' [(''results'', JObj (map (\<lambda>kv. (fst kv, JStr (snd kv))) results))] ''OK'')
       (\<lambda>_. ret (report ''GREEN'' None None results))"
| "run_steps e ((name, fn) # rest) results =
     bindA fn (\<lambda>result.
       if prefix ''RED'' result
       then bindA (journal_append e ''RUNNER_ABORT'' [(''step'', JStr name), (''result'', JStr result)] ''RED'') (\<lambda>_.
            bindA (rollback e) (\<lambda>_. ret (report ''RED'' None (Some name) (results @ [(name, result)]))))
       else run_steps e rest (results @ [(name, result)]))"

definition pipeline :: "'w env \<Rightarrow> (string \<times> ('w, string) action) list" where
  "pipeline e =
     [(''PRE_FINGERPRINT'', step_pre_fingerprint e),
      (''SHIELD_INSTALL'', step_shield_install e),
      (''SHIELD_ARM'', step_shield_arm e),
      (''SERIAL_BASELINE'', step_serial_baseline e),
      (''SERIAL_DETECT'', step_serial_detect e),
      (''ROM_MODE_CHECK'', step_rom_mode_check e),
      (''PRE_FLASH_GATE'', step_pre_flash_gate e),
      (''FLASH'', step_flash e),
      (''FLASH_VERIFY'', step_flash_verify e),
      (''SAFE_IDENTITY_VERIFY'', step_safe_identity_verify e),
      (''SHIELD_CLOSE'', step_shield_close e),
      (''SHIELD_PURGE'', step_shield_purge e),
      (''POST_FINGERPRINT'', step_post_fingerprint e),
      (''FINGERPRINT_COMPARE'', step_fingerprint_compare e)]"

text \<open>The hash verification of the preflight: the result of the first artifact that is missing or differs.\<close>

fun preflight_hashes :: "files \<Rightarrow> path \<Rightarrow> artifact list \<Rightarrow> string" where
  "preflight_hashes fs d [] = ''GREEN''"
| "preflight_hashes fs d (a # as) =
     (case fs (path_join (parent d) (a_path a)) of
        None \<Rightarrow> ''RED:MISSING:'' @ a_name a
      | Some data \<Rightarrow> if sha256_hex data \<noteq> a_sha256 a then ''RED:HASH_MISMATCH:'' @ a_name a
                      else preflight_hashes fs d as)"

definition run_preflight :: "'w env \<Rightarrow> ('w, run_report) action" where
  "run_preflight e =
     bindA (modify (\<lambda>r. r\<lparr>r_journal := [], r_seq := 0\<rparr>)) (\<lambda>_.
     bindA (journal_append e ''PREFLIGHT_START'' [(''pid'', JInt (env_pid e))] ''OK'') (\<lambda>_.
     bindA (load_manifest e) (\<lambda>loaded.
       if \<not> loaded then ret (report ''RED'' (Some ''MANIFEST_MISSING'') None [])
       else
         bindA (gets (\<lambda>r. if path_exists e (r_world r) (FIRMWARE_DIR e) then Some (parent (FIRMWARE_DIR e)) else None)) (\<lambda>bundle.
         bindA (find_esptool e bundle) (\<lambda>tool.
           case tool of
             None \<Rightarrow> ret (report ''RED'' None (Some ''BUNDLE_ESPTOOL'') [(''BUNDLE_ESPTOOL'', ''RED'')])
           | Some _ \<Rightarrow>
               bindA (gets (\<lambda>r. (r_manifest r, r_build_dir r, r_world r))) (\<lambda>(m, d, w).
                 if m = None \<or> d = None
                 then ret (report ''RED'' None (Some ''HASH_VERIFY'')
                             [(''BUNDLE_ESPTOOL'', ''GREEN''), (''HASH_VERIFY'', ''RED:PRECONDITIONS'')])
                 else
                   let hashes = preflight_hashes (env_files e w) (the d) (m_artifacts (the m)) in
                   bindA (step_pre_flash_gate e) (\<lambda>gate.
                     ret (report (if prefix ''GREEN'' hashes \<and> prefix ''GREEN'' gate then ''GREEN'' else ''RED'') None None
                            [(''BUNDLE_ESPTOOL'', ''GREEN''), (''HASH_VERIFY'', hashes), (''PRE_FLASH_GATE'', gate)]))))))))"

definition run_full :: "'w env \<Rightarrow> ('w, run_report) action" where
  "run_full e =
     bindA (gets (\<lambda>r. (r_session r, r_dry_run r))) (\<lambda>(session, dry).
     bindA (journal_append e ''RUNNER_START'' [(''session_id'', JStr session), (''dry_run'', JBool dry),
              (''ttl'', JInt (int TTL_SECONDS)), (''pid'', JInt (env_pid e))] ''OK'') (\<lambda>_.
     bindA (load_manifest e) (\<lambda>loaded.
       if \<not> loaded then ret (report ''RED'' (Some ''MANIFEST_MISSING'') None [])
       else run_steps e (pipeline e) [])))"

definition runner_run :: "'w env \<Rightarrow> ('w, run_report) action" where
  "runner_run e =
     bindA (gets r_preflight_only) (\<lambda>pre. if pre then run_preflight e else run_full e)"

text \<open>
  \<^verbatim>\<open>FlashJournal.load\<close> reads the journal file of a session: each line is an object with the fields of \<^verbatim>\<open>JournalEntry\<close>, of which
  the runner uses the event. An unknown or a missing field is a \<^verbatim>\<open>TypeError\<close>.
\<close>

definition JOURNAL_DIR :: path where "JOURNAL_DIR = [''var'', ''db'', ''bootmux-flash-runner'']"

definition journal_path :: "string \<Rightarrow> path" where
  "journal_path session = path_join (path_join JOURNAL_DIR session) ''journal.jsonl''"

definition ENTRY_FIELDS :: "string list" where "ENTRY_FIELDS = [''seq'', ''ts'', ''event'', ''data'', ''status'']"

definition load_event :: "string \<Rightarrow> json result" where
  "load_event line = bindE (loads line) (\<lambda>d.
     case d of
       JObj kvs \<Rightarrow>
         if set (map fst kvs) \<subseteq> set ENTRY_FIELDS \<and> set (take 3 ENTRY_FIELDS) \<subseteq> set (map fst kvs)
         then Inr (json_get kvs ''event'' JNull) else Inl TypeError
     | _ \<Rightarrow> Inl TypeError)"

definition journal_load :: "string option \<Rightarrow> json list result" where
  "journal_load txt =
     (case txt of
        None \<Rightarrow> Inr []
      | Some s \<Rightarrow> all_results load_event (filter (\<lambda>l. l \<noteq> []) (map strip (splitlines s))))"

text \<open>\<^verbatim>\<open>{e.event for e in entries}\<close> raises for a list or an object.\<close>

definition hashable :: "json \<Rightarrow> bool" where "hashable v = (case v of JList _ \<Rightarrow> False | JObj _ \<Rightarrow> False | _ \<Rightarrow> True)"

definition runner_resume :: "'w env \<Rightarrow> ('w, run_report) action" where
  "runner_resume e =
     bindA (gets (\<lambda>r. journal_load (env_files e (r_world r) (journal_path (r_session r))))) (\<lambda>loaded.
       case loaded of
         Inl x \<Rightarrow> raiseA x
       | Inr events \<Rightarrow>
           if events = [] then ret (report ''RED'' (Some ''NO_JOURNAL'') None [])
           else if \<not> list_all hashable events then raiseA TypeError
           else if JStr ''RUNNER_DONE'' \<in> set events then ret (report ''GREEN'' (Some ''ALREADY_DONE'') None [])
           else bindA (rollback e) (\<lambda>_. ret (report ''YELLOW'' (Some ''RESUMED_AND_CLEANED'') None [])))"

definition runner_init :: "string \<Rightarrow> bool \<Rightarrow> bool \<Rightarrow> 'w \<Rightarrow> 'w runner" where
  "runner_init session dry pre w =
     \<lparr>r_session = session, r_dry_run = dry, r_preflight_only = pre, r_journal = [], r_seq = 0,
      r_manifest = None, r_build_dir = None, r_serial_port = None, r_serial_baseline = [],
      r_pre_fingerprint = None, r_post_fingerprint = None, r_world = w, r_started = []\<rparr>"

section \<open>The command line\<close>

record runner_args =
  ra_status :: bool
  ra_resume :: "string option"
  ra_session_id :: "string option"
  ra_execute :: bool
  ra_preflight_only :: bool

text \<open>\<^verbatim>\<open>session_id or f"flash-{int(time.time()):x}"\<close>\<close>

definition session_or_new :: "'w env \<Rightarrow> string option \<Rightarrow> 'w \<Rightarrow> string" where
  "session_or_new e session w = (if truthy session then the session else ''flash-'' @ hex_digits (nat \<lfloor>env_time e w\<rfloor>))"

definition exit_of :: "run_report \<Rightarrow> int" where "exit_of rep = (if rr_status rep = ''GREEN'' then 0 else 1)"

definition runner_main :: "'w env \<Rightarrow> runner_args \<Rightarrow> 'w \<Rightarrow> int result \<times> 'w runner" where
  "runner_main e args w =
     (if ra_status args then bindA (find_esptool e None) (\<lambda>_. ret 0) (runner_init [] True False w)
      else if truthy (ra_resume args)
      then bindA (runner_resume e) (\<lambda>rep. ret (exit_of rep)) (runner_init (the (ra_resume args)) (\<not> ra_execute args) False w)
      else bindA (runner_run e) (\<lambda>rep. ret (exit_of rep))
             (runner_init (session_or_new e (ra_session_id args) w) (\<not> ra_execute args) (ra_preflight_only args) w))"

end
