(* ===== verification/Flash_Safety.thy ===== *)
theory Flash_Safety
  imports Flash_Runner
begin

text \<open>
  What a run of the flash runner may do. The locale \<open>action_rel\<close> states once how a relation between the
  state before and after (a preorder) passes through the composition of actions; it is interpreted for the
  journal's numbering, for the programs of a dry run and for the flash command. The properties say
  that writing the flash is reached only through all gates, that a dry run starts nothing but three read-only
  programs, and what the verdict of a run means.
\<close>

section \<open>Shapes of results\<close>

lemma ends_exn_case [ends_rules]:
  "(\<And>x. ends Q (f x)) \<Longrightarrow> ends Q m \<Longrightarrow> ends Q (case x of JSONDecodeError \<Rightarrow> m | _ \<Rightarrow> f x)"
  by (simp split: exn.split)

lemma ends_json_case [ends_rules]:
  "(\<And>x. ends Q (f x)) \<Longrightarrow> ends Q m \<Longrightarrow> ends Q (case j of JObj x \<Rightarrow> f x | _ \<Rightarrow> m)"
  by (simp split: json.split)

text \<open>The shapes an esptool command can have.\<close>

definition tool_shape :: "'w env \<Rightarrow> string list \<Rightarrow> bool" where
  "tool_shape e t \<longleftrightarrow> length t \<le> 2 \<or> t = [env_python e, ''-m'', ''esptool'']"

lemma find_esptool_shape: "ends (\<lambda>t _. pred_option (tool_shape e o fst) t) (find_esptool e d)"
proof -
  let ?Q = "\<lambda>t (_ :: 'a runner). pred_option (tool_shape e o fst) t"
  have "ends ?Q (try_candidates e cs)" for cs
    by (induction cs) (auto simp: tool_shape_def Let_def split: sum.split prod.split intro!: ends_rules)
  then show ?thesis
    unfolding find_esptool_def module_esptool_def
    by (intro ends_bind [where m = "gets _"] ends_bind_value [where Q' = ?Q and m = "try_candidates _ _"] ends_rules)
       (simp_all add: tool_shape_def)
qed

section \<open>Relations kept by the runner\<close>

text \<open>
  A relation that allows journal entries, changes of the other fields and the start of programs in \<open>P\<close>
  is kept by every step that starts programs in \<open>P\<close> only.
\<close>

locale runner_rel = action_rel R for R :: "'w runner \<Rightarrow> 'w runner \<Rightarrow> bool" +
  fixes P :: "string list \<Rightarrow> bool"
  assumes append: "R r (snd (journal_append e ev d st r))"
    and start: "P av \<Longrightarrow> R r (r\<lparr>r_world := w, r_started := r_started r @ [av]\<rparr>)"
    and frame: "r_journal r' = r_journal r \<Longrightarrow> r_seq r' = r_seq r \<Longrightarrow> r_started r' = r_started r \<Longrightarrow>
      r_dry_run r' = r_dry_run r \<Longrightarrow> R r r'"
begin

lemma entry [keeps_rules]: "keeps R (journal_append e ev d st)"
  by (simp add: keeps_def append)

lemma program:
  assumes "P av"
  shows "keeps R (run_prog e av pp)" "keeps R (run_prog_ok e av pp)"
proof -
  show run: "keeps R (run_prog e av pp)"
    using start [OF assms] by (simp add: keeps_def run_prog_def split: prod.split)
  show "keeps R (run_prog_ok e av pp)"
    unfolding run_prog_ok_def by (intro bind run sum raise ret)
qed

lemma set_field:
  "(\<And>r. r_journal (f r) = r_journal r \<and> r_seq (f r) = r_seq r \<and> r_started (f r) = r_started r
      \<and> r_dry_run (f r) = r_dry_run r) \<Longrightarrow> keeps R (modify f)"
  by (rule modify) (simp add: frame)

lemma exn_case [keeps_rules]:
  "(\<And>x. keeps R (f x)) \<Longrightarrow> keeps R m \<Longrightarrow> keeps R (case x of JSONDecodeError \<Rightarrow> m | _ \<Rightarrow> f x)"
  by (simp split: exn.split)

lemma json_case [keeps_rules]:
  "(\<And>x. keeps R (f x)) \<Longrightarrow> keeps R m \<Longrightarrow> keeps R (case j of JObj x \<Rightarrow> f x | _ \<Rightarrow> m)"
  by (simp split: json.split)

lemmas rules = keeps_rules program set_field

lemma find_tool:
  assumes "\<And>p. P [env_python e, p, ''version'']" "P [''which'', ''esptool.py'']" "P [env_python e, ''-m'', ''esptool'', ''version'']"
  shows "keeps R (find_esptool e d)"
proof -
  have "keeps R (try_candidates e cs)" for cs
    by (induction cs) (auto simp: Let_def split: sum.split prod.split intro!: rules assms)
  then show ?thesis
    unfolding find_esptool_def module_esptool_def by (intro rules assms)
qed

lemma shield: "P (shield_argv e args sudo) \<Longrightarrow> keeps R (run_shield e args sudo)"
  unfolding run_shield_def by (intro rules)

lemma armed: "P (shield_argv e [''--status''] True) \<Longrightarrow> keeps R (shield_is_armed e)"
  unfolding shield_is_armed_def by (intro rules shield)

lemma manifest: "keeps R (load_manifest e)"
  unfolding load_manifest_def by (intro rules) simp_all

lemma fingerprint:
  "(\<And>fp r. r_journal (k fp r) = r_journal r \<and> r_seq (k fp r) = r_seq r \<and> r_started (k fp r) = r_started r
      \<and> r_dry_run (k fp r) = r_dry_run r) \<Longrightarrow> keeps R (fingerprint_step e ev k out)"
  unfolding fingerprint_step_def by (intro rules) (auto split: exn.split intro!: rules)

lemma fingerprints:
  assumes "P (shield_argv e [''--fingerprint''] False)"
  shows "keeps R (step_pre_fingerprint e)" "keeps R (step_post_fingerprint e)"
  unfolding step_pre_fingerprint_def step_post_fingerprint_def
  by (intro rules shield fingerprint assms, simp)+

lemma serial: "keeps R (step_serial_baseline e)" "keeps R (step_serial_detect e)" "keeps R (step_rom_mode_check e)"
  unfolding step_serial_baseline_def step_serial_detect_def ports_now_def step_rom_mode_check_def
  by (intro rules; simp)+

lemma rechecked: "keeps R (recheck e d as)"
  by (induction as) (simp_all, intro rules, auto intro!: rules)

lemma flash_gate: "P (inspector_argv e) \<Longrightarrow> keeps R (step_pre_flash_gate e)"
  unfolding step_pre_flash_gate_def
  by (intro rules rechecked) (auto split: exn.split intro!: rules)

lemma inspected: "P (inspector_argv e) \<Longrightarrow> keeps R (step_safe_identity_verify e)"
  unfolding step_safe_identity_verify_def by (intro rules; auto split: exn.split json.split intro!: rules)

lemma compared: "keeps R (step_fingerprint_compare e)"
  unfolding step_fingerprint_compare_def by (intro rules; auto split: json.split intro!: rules)

lemma readback:
  assumes "\<And>p. P [env_python e, p, ''version'']" "P [''which'', ''esptool.py'']" "P [env_python e, ''-m'', ''esptool'', ''version'']"
    and "\<And>t x s. tool_shape e t \<Longrightarrow> P (t @ [''--chip'', ''esp32s3'', ''--port'', port, ''read_flash'', x, s, pstr READBACK])"
  shows "keeps R (verify_flash_sha e port m d)"
proof -
  have one: "tool_shape e (fst t) \<Longrightarrow> keeps R (verify_artifact e t port a)" for t a
    unfolding verify_artifact_def by (intro rules assms) simp_all
  have "tool_shape e (fst t) \<Longrightarrow> keeps R (verify_artifacts e t port as)" for t as
  proof (induction as)
    case (Cons a as)
    then show ?case by (simp, intro rules one)
  qed (simp, intro rules)
  then show ?thesis
    unfolding verify_flash_sha_def
    by (intro bind_value [OF find_tool [OF assms(1-3)] find_esptool_shape] rules) auto
qed

lemma steps:
  assumes "list_all (keeps R o snd) ss" "keeps R (rollback e)"
  shows "keeps R (run_steps e ss acc)"
  using assms(1)
proof (induction ss arbitrary: acc)
  case (Cons s ss)
  obtain n fn where s: "s = (n, fn)" by (cases s)
  have "keeps R fn" "\<And>acc. keeps R (run_steps e ss acc)"
    using Cons by (simp_all add: s)
  then show ?case unfolding s by (simp, intro rules assms(2))
qed (simp, intro rules)

end

section \<open>Journal numbering\<close>

definition journal_grows :: "'w runner \<Rightarrow> 'w runner \<Rightarrow> bool" where
  "journal_grows r r' \<longleftrightarrow>
     (\<exists>es. r_journal r' = r_journal r @ es \<and> map je_seq es = [Suc (r_seq r)..<Suc (r_seq r')] \<and> r_seq r \<le> r_seq r')"

lemma upt_split: "i \<le> j \<Longrightarrow> j \<le> k \<Longrightarrow> [i..<j] @ [j..<k] = [i..<k]"
  using upt_add_eq_append [of i j "k - j"] by simp

lemma journal_grows_trans:
  assumes "journal_grows r s" "journal_grows s t"
  shows "journal_grows r t"
proof -
  from assms obtain es es' where
    "r_journal s = r_journal r @ es" "map je_seq es = [Suc (r_seq r)..<Suc (r_seq s)]" "r_seq r \<le> r_seq s"
    "r_journal t = r_journal s @ es'" "map je_seq es' = [Suc (r_seq s)..<Suc (r_seq t)]" "r_seq s \<le> r_seq t"
    unfolding journal_grows_def by blast
  then show ?thesis
    unfolding journal_grows_def
    by (intro exI [of _ "es @ es'"]) (simp add: upt_split del: upt_Suc)
qed

interpretation journal: runner_rel journal_grows "\<lambda>_. True"
proof unfold_locales
  show "journal_grows r s \<Longrightarrow> journal_grows s t \<Longrightarrow> journal_grows r t" for r s t :: "'w runner"
    by (rule journal_grows_trans)
qed (simp_all add: journal_grows_def journal_append_def modify_def)

section \<open>Programs\<close>

definition writes_flash :: "string list \<Rightarrow> bool" where
  "writes_flash av \<longleftrightarrow> sublist [''--after'', ''hard_reset'', ''write_flash''] av"

definition starts_only :: "(string list \<Rightarrow> bool) \<Rightarrow> 'w runner \<Rightarrow> 'w runner \<Rightarrow> bool" where
  "starts_only P r r' \<longleftrightarrow> r_dry_run r' = r_dry_run r \<and>
     (\<exists>ps. r_started r' = r_started r @ ps \<and> list_all P ps)"

lemma starts_only_trans:
  assumes "starts_only P r s" "starts_only P s t"
  shows "starts_only P r t"
proof -
  from assms obtain ps qs where "r_started s = r_started r @ ps" "list_all P ps" "r_started t = r_started s @ qs" "list_all P qs"
    unfolding starts_only_def by blast
  with assms show ?thesis unfolding starts_only_def by (intro conjI exI [of _ "ps @ qs"]) simp_all
qed

interpretation starting: runner_rel "starts_only P" P
proof unfold_locales
  show "starts_only P r s \<Longrightarrow> starts_only P s t \<Longrightarrow> starts_only P r t" for r s t :: "'w runner"
    by (rule starts_only_trans)
qed (simp_all add: starts_only_def journal_append_def modify_def)

lemma pstr_slash: "\<exists>s. pstr p = CHR ''/'' # s"
  by (simp add: pstr_def)

lemma no_write:
  "\<not> writes_flash [a, b, ''version'']" "\<not> writes_flash [''which'', ''esptool.py'']"
  "\<not> writes_flash [a, ''-m'', ''esptool'', ''version'']"
  "\<not> writes_flash [''sudo'', ''bash'', b]"
  by (simp_all add: writes_flash_def sublist_Cons_right)

lemma no_write_shield: "list_all (\<lambda>a. a \<noteq> ''write_flash'') args \<Longrightarrow> \<not> writes_flash (shield_argv e args sudo)"
  using pstr_slash [of "SHIELD_SCRIPT e"]
  by (auto simp: writes_flash_def shield_argv_def sublist_def append_eq_Cons_conv Cons_eq_append_conv list_all_iff split: if_splits)

lemma no_write_inspector: "\<not> writes_flash (inspector_argv e)"
  using pstr_slash [of "INSPECT_SCRIPT e"] pstr_slash [of "MANIFEST_PATH e"]
  by (auto simp: writes_flash_def inspector_argv_def sublist_Cons_right)

lemma no_write_readback:
  "tool_shape e t \<Longrightarrow> \<not> writes_flash (t @ [''--chip'', ''esp32s3'', ''--port'', port, ''read_flash'', x, s, pstr READBACK])"
  using pstr_slash [of READBACK]
  by (cases t rule: list.exhaust; cases "tl t" rule: list.exhaust)
     (auto simp: writes_flash_def tool_shape_def sublist_Cons_right)

abbreviation no_writes :: "'w runner \<Rightarrow> 'w runner \<Rightarrow> bool" where
  "no_writes \<equiv> starts_only (\<lambda>av. \<not> writes_flash av)"

lemma no_writes_close: "keeps no_writes (step_shield_close e)" "keeps no_writes (step_shield_purge e)"
  unfolding step_shield_close_def step_shield_purge_def
  by (intro keeps_rules starting.shield no_write_shield; simp)+

lemma no_writes_rollback: "keeps no_writes (rollback e)"
  unfolding rollback_def by (intro keeps_rules starting.armed no_writes_close no_write_shield) simp

lemma no_writes_steps:
  "list_all (keeps no_writes o snd) (take 7 (pipeline e))" "list_all (keeps no_writes o snd) (drop 8 (pipeline e))"
proof -
  have "keeps no_writes (step_shield_install e)"
    unfolding step_shield_install_def by (intro keeps_rules starting.program no_write)
  moreover have "keeps no_writes (step_shield_arm e)"
    unfolding step_shield_arm_def
    by (intro keeps_rules starting.shield no_write_shield) (simp add: TTL_SECONDS_def, code_simp)
  moreover have "keeps no_writes (step_flash_verify e)"
    unfolding step_flash_verify_def by (intro keeps_rules starting.readback no_write no_write_readback)
  moreover have "keeps no_writes (step_pre_fingerprint e)" "keeps no_writes (step_post_fingerprint e)"
    by (intro starting.fingerprints no_write_shield; simp)+
  moreover have "keeps no_writes (step_pre_flash_gate e)" "keeps no_writes (step_safe_identity_verify e)"
    by (intro starting.flash_gate starting.inspected no_write_inspector)+
  ultimately show "list_all (keeps no_writes o snd) (take 7 (pipeline e))" "list_all (keeps no_writes o snd) (drop 8 (pipeline e))"
    by (simp_all add: pipeline_def no_writes_close starting.serial starting.compared)
qed

section \<open>Runs of the pipeline\<close>

text \<open>The states along the steps that were passed, and their results.\<close>

fun passed :: "(string \<times> ('w, string) action) list \<Rightarrow> 'w runner \<Rightarrow> string dict \<Rightarrow> 'w runner \<Rightarrow> bool" where
  "passed [] r rs r' \<longleftrightarrow> rs = [] \<and> r' = r"
| "passed ((n, fn) # ss) r rs r' \<longleftrightarrow>
     (\<exists>x r1 rs'. fn r = (Inr x, r1) \<and> \<not> prefix ''RED'' x \<and> rs = (n, x) # rs' \<and> passed ss r1 rs' r')"

context runner_rel
begin

lemma aborted:
  assumes "keeps R (rollback e)"
  shows "keeps R (bindA (journal_append e ev d st) (\<lambda>_. bindA (rollback e) (\<lambda>_. ret v)))"
  by (intro rules assms)

lemma passed_rel:
  assumes "passed ss r rs r'" "list_all (keeps R o snd) ss"
  shows "R r r'"
  using assms
proof (induction ss arbitrary: r rs)
  case (Cons s ss)
  obtain n fn where s: "s = (n, fn)" by (cases s)
  from Cons.prems(1) obtain x r1 rs' where "fn r = (Inr x, r1)" "passed ss r1 rs' r'" by (auto simp: s)
  then show ?case using Cons.IH [of r1 rs'] Cons.prems(2) keepsD [of R fn r] by (auto simp: s intro: trans)
qed (simp add: refl)

text \<open>A run over \<open>ss @ rest\<close> aborts within \<open>ss\<close>, or passes \<open>ss\<close> and goes on with \<open>rest\<close>.\<close>

lemma steps_split:
  assumes "run_steps e (ss @ rest) acc r = (res, r')"
    and "list_all (keeps R o snd) ss" and "keeps R (rollback e)"
  shows "R r r' \<or> (\<exists>rs r1. passed ss r rs r1 \<and> run_steps e rest (acc @ rs) r1 = (res, r'))"
  using assms(1,2)
proof (induction ss arbitrary: acc r)
  case (Cons s ss)
  obtain n fn where s: "s = (n, fn)" by (cases s)
  have fn: "keeps R fn" using Cons.prems(2) by (simp add: s)
  obtain x r1 where run: "fn r = (x, r1)" by (cases "fn r")
  have r1: "R r r1" using keepsD [OF fn run] .
  show ?case
  proof (cases "\<exists>v. x = Inr v \<and> \<not> prefix ''RED'' v")
    case True
    then obtain v where v: "x = Inr v" "\<not> prefix ''RED'' v" by blast
    have "run_steps e (ss @ rest) (acc @ [(n, v)]) r1 = (res, r')"
      using Cons.prems(1) run v by (simp add: s bindA_def)
    from Cons.IH [OF this] Cons.prems(2) consider "R r1 r'"
      | rs r2 where "passed ss r1 rs r2" "run_steps e rest ((acc @ [(n, v)]) @ rs) r2 = (res, r')" by (auto simp: s)
    then show ?thesis
    proof cases
      case 1
      then show ?thesis using r1 trans by blast
    next
      case 2
      then have "passed (s # ss) r ((n, v) # rs) r2 \<and> run_steps e rest (acc @ (n, v) # rs) r2 = (res, r')"
        using run v by (simp add: s)
      then show ?thesis by blast
    qed
  next
    case False
    have "R r1 r'"
    proof (cases x)
      case (Inl y)
      then show ?thesis using Cons.prems(1) run by (simp add: s bindA_def refl)
    next
      case (Inr y)
      then show ?thesis
        using Cons.prems(1) run False keepsD [OF aborted [OF assms(3)]]
        by (simp add: s bindA_def [of fn])
    qed
    then show ?thesis using r1 trans by blast
  qed
qed auto

lemma after_step:
  assumes "run_steps e ((n, fn) # ss) acc r = (res, r')"
    and "list_all (keeps R o snd) ss" and "keeps R (rollback e)"
  shows "R (snd (fn r)) r'"
proof -
  obtain x r1 where run: "fn r = (x, r1)" by (cases "fn r")
  have "keeps R (run_steps e ss acc')" for acc' by (rule steps [OF assms(2,3)])
  from keepsD [OF this] keepsD [OF aborted [OF assms(3)]] assms(1) show ?thesis
    by (cases x) (auto simp: run bindA_def [of fn] refl split: if_splits)
qed

end

section \<open>The journal of a run\<close>

lemma journal_rollback: "keeps journal_grows (rollback e)"
  "keeps journal_grows (step_shield_close e)" "keeps journal_grows (step_shield_purge e)"
  unfolding rollback_def step_shield_close_def step_shield_purge_def
  by (intro keeps_rules journal.armed journal.shield TrueI)+

lemma journal_steps: "list_all (keeps journal_grows o snd) (pipeline e)"
proof -
  have "keeps journal_grows (step_shield_install e)" "keeps journal_grows (step_shield_arm e)"
    unfolding step_shield_install_def step_shield_arm_def
    by (intro keeps_rules journal.program journal.shield TrueI)+
  moreover have "keeps journal_grows (step_flash e)"
    unfolding step_flash_def by (intro keeps_rules journal.find_tool journal.program TrueI)
  moreover have "keeps journal_grows (step_flash_verify e)"
    unfolding step_flash_verify_def by (intro keeps_rules journal.readback TrueI)
  ultimately show ?thesis
    by (simp add: pipeline_def journal_rollback journal.serial journal.compared journal.fingerprints
        journal.flash_gate journal.inspected)
qed

lemma journal_run_full: "keeps journal_grows (run_full e)"
  unfolding run_full_def
  by (intro keeps_rules journal.manifest journal.steps journal_steps journal_rollback)

lemma keeps_after_modify:
  fixes r :: "'w runner"
  shows "f r = r \<Longrightarrow> keeps R (k ()) \<Longrightarrow> R r (snd (bindA (modify f) k r))"
  by (simp add: keeps_def bindA_def modify_def)

lemma journal_preflight:
  assumes "r_journal r = []" "r_seq r = 0"
  shows "journal_grows r (snd (run_preflight e r))"
  unfolding run_preflight_def
proof (rule keeps_after_modify)
  show "r\<lparr>r_journal := [], r_seq := 0\<rparr> = r" using assms by (cases r) simp
qed (intro keeps_rules journal.manifest journal.find_tool journal.flash_gate TrueI)

section \<open>Evidence of a step\<close>

definition approved :: "string \<Rightarrow> 'w runner \<Rightarrow> bool" where
  "approved ev r \<longleftrightarrow> list_ex (\<lambda>x. je_event x = ev \<and> je_status x = ''OK'') (r_journal r)"

abbreviation evidence :: "string \<Rightarrow> string \<Rightarrow> 'w runner \<Rightarrow> bool" where
  "evidence ev v r \<equiv> prefix ''RED'' v \<or> approved ev r"

lemma ends_entry:
  "prefix ''RED'' v \<or> st = ''OK'' \<Longrightarrow> ends (evidence ev) (bindA (journal_append e ev d st) (\<lambda>_. ret v))"
  by (auto simp: ends_def bindA_Inr_iff journal_append_def modify_def ret_def approved_def)

lemma approved_steps:
  "ends (evidence ''SHIELD_ARM'') (step_shield_arm e)" "ends (evidence ''SERIAL_DETECT'') (step_serial_detect e)"
  "ends (evidence ''ROM_MODE_CHECK'') (step_rom_mode_check e)" "ends (evidence ''PRE_FLASH_GATE'') (step_pre_flash_gate e)"
proof -
  have "ends (\<lambda>v _. pred_option (prefix ''RED'') v) (recheck e d as)" for d as
    by (induction as) (auto split: option.split intro!: ends_rules)
  note gate = ends_bind_value [OF this, where Q = "evidence ''PRE_FLASH_GATE''"]
  show "ends (evidence ''PRE_FLASH_GATE'') (step_pre_flash_gate e)"
    unfolding step_pre_flash_gate_def
    by (intro gate ends_entry ends_rules) (auto split: exn.split intro!: ends_entry ends_rules)
  show "ends (evidence ''SHIELD_ARM'') (step_shield_arm e)" "ends (evidence ''SERIAL_DETECT'') (step_serial_detect e)"
    "ends (evidence ''ROM_MODE_CHECK'') (step_rom_mode_check e)"
    unfolding step_shield_arm_def step_serial_detect_def step_rom_mode_check_def
    by (intro ends_entry ends_rules; simp add: green_red_def ok_red_def)+
qed

lemma approved_grows: "journal_grows r r' \<Longrightarrow> approved ev r \<Longrightarrow> approved ev r'"
  by (auto simp: journal_grows_def approved_def)

section \<open>Writing the flash\<close>

lemma bindA_snd:
  "snd (bindA m f r) = (case fst (m r) of Inl _ \<Rightarrow> snd (m r) | Inr v \<Rightarrow> snd (f v (snd (m r))))"
  by (simp add: bindA_def split: prod.split sum.split)

text \<open>A command that \<^verbatim>\<open>step_flash\<close> starts and that writes the flash is the one built from port, manifest and build directory.\<close>

lemma step_flash_writes:
  assumes "av \<in> set (r_started (snd (step_flash e r)))" "av \<notin> set (r_started r)" "writes_flash av"
  shows "\<not> r_dry_run r \<and> (\<exists>tool port m d. r_serial_port r = Some port \<and> r_manifest r = Some m \<and> r_build_dir r = Some d
            \<and> av = fst (build_flash_command tool port m d))
       \<and> (\<exists>es. r_journal (snd (step_flash e r)) = r_journal r @ es \<and> list_ex (\<lambda>x. je_event x = ''FLASH_START'') es)"
proof -
  have "keeps no_writes (find_esptool e None)" by (intro starting.find_tool no_write)
  then have tool: "no_writes r (snd (find_esptool e None r))" by (simp add: keeps_def)
  have "keeps journal_grows (find_esptool e None)" by (intro journal.find_tool TrueI)
  then have grows: "journal_grows r (snd (find_esptool e None r))" by (simp add: keeps_def)
  have new: "av \<notin> set (r_started (snd (find_esptool e None r)))"
    using tool assms(2,3) by (auto simp: starts_only_def list_all_iff)
  obtain t r1 where t: "find_esptool e None r = (t, r1)" by (cases "find_esptool e None r")
  let ?f = "\<lambda>r. (r_serial_port r, r_manifest r, r_build_dir r, r_dry_run r)"
  have "snd (step_flash e r) = r" if "\<not> truthy (r_serial_port r) \<or> r_manifest r = None \<or> r_build_dir r = None"
    using that by (auto simp: step_flash_def bindA_def gets_def ret_def)
  then have pre: "truthy (r_serial_port r)" "r_manifest r \<noteq> None" "r_build_dir r \<noteq> None"
    using assms(1,2) by (metis (full_types))+
  have "r_started (snd (step_flash e r)) = r_started r" if "r_dry_run r"
    using that pre by (simp add: step_flash_def bindA_def gets_def ret_def journal_append_def modify_def)
  then have dry: "\<not> r_dry_run r" using assms(1,2) by auto
  obtain port m d where st: "r_serial_port r = Some port" "r_manifest r = Some m" "r_build_dir r = Some d"
    using pre by (auto simp: truthy_iff)
  obtain tl where tl: "t = Inr (Some tl)"
    using assms(1) new pre dry
    by (cases t) (auto simp: step_flash_def bindA_snd gets_def ret_def t journal_append_def modify_def split: option.splits)
  let ?cmd = "fst (build_flash_command tl port m d)" and ?pp = "snd (build_flash_command tl port m d)"
  obtain out w where out: "env_exec e ?cmd ?pp (r_world r1) = (out, w)" by (cases "env_exec e ?cmd ?pp (r_world r1)")
  have run: "r_started (snd (step_flash e r)) = r_started r1 @ [?cmd]
      \<and> (\<exists>es. r_journal (snd (step_flash e r)) = r_journal r1 @ es \<and> list_ex (\<lambda>x. je_event x = ''FLASH_START'') es)"
    using pre dry
    by (cases out) (simp_all add: step_flash_def bindA_snd gets_def ret_def t tl st journal_append_def modify_def Let_def
        case_prod_beta run_prog_ok_def run_prog_def out raiseA_def bindA_def)
  then have "av = ?cmd" using assms(1) new t by auto
  moreover obtain es0 where "r_journal r1 = r_journal r @ es0" using grows t by (auto simp: journal_grows_def)
  ultimately show ?thesis using run dry st by fastforce
qed

lemma pipeline_split: "pipeline e = take 7 (pipeline e) @ (''FLASH'', step_flash e) # drop 8 (pipeline e)"
  by (simp add: pipeline_def)

definition FLASH_GATES :: "string list" where
  "FLASH_GATES = [''SHIELD_ARM'', ''SERIAL_DETECT'', ''ROM_MODE_CHECK'', ''PRE_FLASH_GATE'']"

lemma passed_gates:
  assumes "passed (take 7 (pipeline e)) r rs r'"
  shows "list_all (\<lambda>ev. approved ev r') FLASH_GATES"
proof -
  from assms obtain x3 r3 x4 r4 x5 r5 x6 r6 x7 r2 where
    s: "step_shield_arm e r2 = (Inr x3, r3)" "step_serial_baseline e r3 = (Inr x4, r4)" "step_serial_detect e r4 = (Inr x5, r5)"
      "step_rom_mode_check e r5 = (Inr x6, r6)" "step_pre_flash_gate e r6 = (Inr x7, r')"
    and ok: "\<not> prefix ''RED'' x3" "\<not> prefix ''RED'' x5" "\<not> prefix ''RED'' x6" "\<not> prefix ''RED'' x7"
    by (auto simp: pipeline_def)
  note ev = endsD [OF approved_steps(1) s(1)] endsD [OF approved_steps(2) s(3)] endsD [OF approved_steps(3) s(4)]
    endsD [OF approved_steps(4) s(5)]
  note grows = keepsD [OF journal.serial(1) s(2)] keepsD [OF journal.serial(2) s(3)] keepsD [OF journal.serial(3) s(4)]
    keepsD [OF journal.flash_gate [OF TrueI] s(5)]
  have to_end: "journal_grows r5 r'" "journal_grows r3 r'" using grows journal_grows_trans by blast+
  show ?thesis
    using ev ok approved_grows [OF to_end(2)] approved_grows [OF to_end(1)] approved_grows [OF grows(4)]
    by (simp add: FLASH_GATES_def)
qed

lemma run_full_cases:
  assumes "run_full e r = (res, r')"
  shows "(no_writes r r' \<and> journal_grows r r')
       \<or> (\<exists>r0 res'. no_writes r r0 \<and> journal_grows r r0 \<and> run_steps e (pipeline e) [] r0 = (res', r'))"
proof -
  let ?start = "bindA (gets (\<lambda>r. (r_session r, r_dry_run r))) (\<lambda>(session, dry).
     journal_append e ''RUNNER_START'' [(''session_id'', JStr session), (''dry_run'', JBool dry),
              (''ttl'', JInt (int TTL_SECONDS)), (''pid'', JInt (env_pid e))] ''OK'')"
  let ?init = "bindA ?start (\<lambda>_. load_manifest e)"
  have run: "run_full e r = bindA ?init (\<lambda>loaded. if \<not> loaded then ret (report ''RED'' (Some ''MANIFEST_MISSING'') None [])
       else run_steps e (pipeline e) []) r"
    by (simp add: run_full_def bindA_def gets_def split: prod.split sum.split)
  obtain v r0 where v: "?init r = (v, r0)" by (cases "?init r")
  have "keeps no_writes ?init" "keeps journal_grows ?init"
    by (intro keeps_rules starting.manifest journal.manifest)+
  from this [THEN keepsD, OF v] have r0: "no_writes r r0" "journal_grows r r0" .
  show ?thesis
  proof (cases "v = Inr True")
    case True
    then have "run_steps e (pipeline e) [] r0 = (res, r')"
      using run assms v by (simp add: bindA_def [of ?init])
    with r0 show ?thesis by blast
  next
    case False
    then have "r' = r0" using run assms v
      by (cases v) (auto simp: bindA_def [of ?init] ret_def)
    with r0 show ?thesis by simp
  qed
qed

section \<open>Dry runs\<close>

definition dry_programs :: "'w env \<Rightarrow> string list list" where
  "dry_programs e = [shield_argv e [''--fingerprint''] False, inspector_argv e, shield_argv e [''--status''] True]"

definition dry_rel :: "'w env \<Rightarrow> 'w runner \<Rightarrow> 'w runner \<Rightarrow> bool" where
  "dry_rel e r r' \<longleftrightarrow> (r_dry_run r \<longrightarrow> starts_only (\<lambda>av. av \<in> set (dry_programs e)) r r')"

interpretation dry: runner_rel "dry_rel e" "\<lambda>av. av \<in> set (dry_programs e)"
proof unfold_locales
  show "dry_rel e r s \<Longrightarrow> dry_rel e s t \<Longrightarrow> dry_rel e r t" for r s t
    using starts_only_trans by (auto simp: dry_rel_def starts_only_def)
qed (auto simp: dry_rel_def starts_only_def journal_append_def modify_def)

lemma dry_guard:
  assumes "\<And>r. r_dry_run r \<Longrightarrow> keeps (dry_rel e) (g (f r))"
  shows "keeps (dry_rel e) (bindA (gets f) g)"
proof -
  have "dry_rel e r (snd (g (f r) r))" for r
    using assms [of r] by (cases "r_dry_run r") (auto simp: keeps_def dry_rel_def)
  then show ?thesis by (simp add: keeps_def bindA_def gets_def)
qed

lemma dry_guarded:
  "keeps (dry_rel e) (step_shield_install e)" "keeps (dry_rel e) (step_shield_arm e)"
  "keeps (dry_rel e) (step_flash e)" "keeps (dry_rel e) (step_flash_verify e)"
  "keeps (dry_rel e) (step_shield_close e)" "keeps (dry_rel e) (step_shield_purge e)"
  unfolding step_shield_install_def step_shield_arm_def step_flash_def step_flash_verify_def
    step_shield_close_def step_shield_purge_def
  by (rule dry_guard; simp; intro keeps_rules impI conjI)+

lemma dry_rollback: "keeps (dry_rel e) (rollback e)"
  unfolding rollback_def by (intro keeps_rules dry.armed dry_guarded) (simp add: dry_programs_def)

lemma dry_steps: "list_all (keeps (dry_rel e) o snd) (pipeline e)"
  by (simp add: pipeline_def dry_guarded dry.serial dry.compared dry.fingerprints dry.flash_gate dry.inspected dry_programs_def)

section \<open>Verdicts\<close>

lemma run_steps_green:
  "run_steps e ss acc r = (Inr rep, r') \<Longrightarrow> rr_status rep = ''GREEN'' \<Longrightarrow>
   \<exists>rs r1. passed ss r rs r1 \<and> rr_results rep = acc @ rs"
proof (induction ss arbitrary: acc r)
  case (Cons s ss)
  obtain n fn where s: "s = (n, fn)" by (cases s)
  from Cons.prems obtain x r1 where x: "fn r = (Inr x, r1)" by (auto simp: s bindA_Inr_iff)
  show ?case
  proof (cases "prefix ''RED'' x")
    case True
    with Cons.prems x show ?thesis
      by (auto simp: s bindA_Inr_iff bindA_def [of fn] ret_def report_def split: if_splits)
  next
    case False
    with Cons.prems x have "run_steps e ss (acc @ [(n, x)]) r1 = (Inr rep, r')" by (simp add: s bindA_def [of fn])
    from Cons.IH [OF this Cons.prems(2)] x False show ?thesis by (auto simp: s)
  qed
qed (auto simp: bindA_Inr_iff ret_def report_def)

lemma run_steps_red:
  "run_steps e ss acc r = (Inr rep, r') \<Longrightarrow> rr_status rep \<noteq> ''GREEN'' \<Longrightarrow>
   \<exists>done n fn rest rs r1 r2 x. ss = done @ (n, fn) # rest \<and> passed done r rs r1 \<and> fn r1 = (Inr x, r2) \<and> prefix ''RED'' x
     \<and> rr_status rep = ''RED'' \<and> rr_failed_step rep = Some n \<and> rr_results rep = acc @ rs @ [(n, x)]
     \<and> r' = snd (rollback e (snd (journal_append e ''RUNNER_ABORT'' [(''step'', JStr n), (''result'', JStr x)] ''RED'' r2)))"
proof (induction ss arbitrary: acc r)
  case (Cons s ss)
  obtain n fn where s: "s = (n, fn)" by (cases s)
  from Cons.prems obtain x r1 where x: "fn r = (Inr x, r1)" by (auto simp: s bindA_Inr_iff)
  show ?case
  proof (cases "prefix ''RED'' x")
    case True
    with Cons.prems x show ?thesis
      by (intro exI [of _ "[]"] exI [of _ n] exI [of _ fn] exI [of _ ss] exI [of _ r] exI [of _ r1] exI [of _ x])
         (auto simp: s bindA_Inr_iff bindA_def [of fn] ret_def report_def)
  next
    case False
    with Cons.prems x have "run_steps e ss (acc @ [(n, x)]) r1 = (Inr rep, r')" by (simp add: s bindA_def [of fn])
    from Cons.IH [OF this Cons.prems(2)] obtain don m gn rest rs r2 r3 y where
      "ss = don @ (m, gn) # rest" "passed don r1 rs r2" "gn r2 = (Inr y, r3)" "prefix ''RED'' y"
      "rr_status rep = ''RED''" "rr_failed_step rep = Some m" "rr_results rep = (acc @ [(n, x)]) @ rs @ [(m, y)]"
      "r' = snd (rollback e (snd (journal_append e ''RUNNER_ABORT'' [(''step'', JStr m), (''result'', JStr y)] ''RED'' r3)))"
      by blast
    with x False show ?thesis
      by (intro exI [of _ "s # don"] exI [of _ m] exI [of _ gn] exI [of _ rest] exI [of _ "(n, x) # rs"] exI [of _ r2]
          exI [of _ r3] exI [of _ y]) (auto simp: s)
  qed
qed (auto simp: bindA_Inr_iff ret_def report_def)

lemma passed_prefix: "passed (ss @ ts) r rs r' \<Longrightarrow> \<exists>rs' r1. passed ss r rs' r1"
proof (induction ss arbitrary: r rs)
  case (Cons s ss)
  obtain n fn where s: "s = (n, fn)" by (cases s)
  from Cons.prems obtain x r1 rs' where "fn r = (Inr x, r1)" "\<not> prefix ''RED'' x" "passed (ss @ ts) r1 rs' r'" by (auto simp: s)
  with Cons.IH [of r1 rs'] show ?case by (auto simp: s)
next
  case Nil
  show ?case by (intro exI [of _ "[]"] exI [of _ r]) simp
qed

lemma passed_results:
  "passed ss r rs r' \<Longrightarrow> map fst rs = map fst ss \<and> list_all (\<lambda>kv. \<not> prefix ''RED'' (snd kv)) rs"
proof (induction ss arbitrary: r rs)
  case (Cons s ss)
  then show ?case by (cases s) auto
qed simp

section \<open>The gate\<close>

lemma bindA_gets: "bindA (gets f) k r = k (f r) r"
  by (simp add: bindA_def gets_def)

lemma bindA_run_prog_ok:
  "env_exec e av pp (r_world r) = (Inr p, w) \<Longrightarrow>
   bindA (run_prog_ok e av pp) k r = k p (r\<lparr>r_world := w, r_started := r_started r @ [av]\<rparr>)"
  by (simp add: bindA_def run_prog_ok_def run_prog_def ret_def)

lemma recheck_None_iff:
  "fst (recheck e d as r) = Inr None \<longleftrightarrow>
     list_all (\<lambda>a. map_option sha256_hex (env_files e (r_world r) (path_join (parent d) (a_path a))) = Some (a_sha256 a)) as"
  by (induction as) (auto simp: bindA_def gets_def ret_def journal_append_def modify_def split: option.splits)

lemma recheck_red: "\<exists>v r'. recheck e d as r = (Inr v, r') \<and> pred_option (prefix ''RED'') v"
  by (induction as) (auto simp: bindA_def gets_def ret_def journal_append_def modify_def split: option.splits)

lemma gate_tail:
  "fst ((case loads out of
           Inl JSONDecodeError \<Rightarrow>
             bindA (journal_append e ''PRE_FLASH_GATE'' [(''error'', JStr ''inspector json parse failed''),
                      (''stderr'', JStr (take 300 err))] ''RED'') (\<lambda>_. ret ''RED:INSPECTOR_PARSE_FAILED'')
         | Inl x \<Rightarrow> raiseA x
         | Inr (JObj kvs) \<Rightarrow>
             (let overall = json_get kvs ''overall'' (JStr ''RED'') in
              if overall \<noteq> JStr ''GREEN''
              then (case gate_report kvs of
                      Inl x \<Rightarrow> raiseA x
                    | Inr rep \<Rightarrow> bindA (journal_append e ''PRE_FLASH_GATE'' rep ''RED'')
                                   (\<lambda>_. ret (''RED:INSPECTION_NOT_GREEN:'' @ py_str overall)))
              else bindA (recheck e d (m_artifacts m)) (\<lambda>bad.
                     case bad of
                       Some red \<Rightarrow> ret red
                     | None \<Rightarrow>
                         bindA (journal_append e ''PRE_FLASH_GATE'' [(''overall'', JStr ''GREEN''),
                                  (''artifacts_verified'', JInt (int (length (m_artifacts m))))] ''OK'')
                           (\<lambda>_. ret ''GREEN'')))
         | Inr _ \<Rightarrow> raiseA AttributeError) r) = Inr ''GREEN'' \<longleftrightarrow>
   (\<exists>kvs. loads out = Inr (JObj kvs) \<and> map_of kvs ''overall'' = Some (JStr ''GREEN'')
      \<and> fst (recheck e d (m_artifacts m) r) = Inr None)"
proof -
  have act: "bindA (journal_append e ev dt st) (\<lambda>_. ret v) r1 = (Inr v, snd (journal_append e ev dt st r1))"
    for ev dt st r1 and v :: string
    by (simp add: bindA_def journal_append_def modify_def ret_def)
  obtain v r' where v: "recheck e d (m_artifacts m) r = (Inr v, r')" "pred_option (prefix ''RED'') v"
    using recheck_red by blast
  then have tail: "fst (bindA (recheck e d (m_artifacts m)) (\<lambda>bad. case bad of Some red \<Rightarrow> ret red
      | None \<Rightarrow> bindA (journal_append e ''PRE_FLASH_GATE'' dt ''OK'') (\<lambda>_. ret ''GREEN'')) r) = Inr ''GREEN'' \<longleftrightarrow> v = None" for dt
    by (cases v) (auto simp: bindA_def [of "recheck _ _ _"] act ret_def)
  show ?thesis
    using v(1) tail
    by (cases "loads out")
       (auto simp: act raiseA_def json_get_def Let_def split: exn.splits json.splits sum.splits option.splits if_splits)
qed

section \<open>Properties\<close>

text \<open>
  C7. Writing the flash is gated: when a run starts a program that writes the flash, it is not a dry run, the
  program is the command built from the detected port, the manifest and the build directory, and at that
  point the journal already has successful entries for arming the shield, detecting the port, the ROM
  download mode and the inspection gate. This holds also for runs that end with an exception.
\<close>

theorem flash_gated:
  assumes "run_full e (runner_init s dry pre w) = (res, r')" and "av \<in> set (r_started r')" and "writes_flash av"
  shows "\<not> dry \<and> (\<exists>tool port m d. av = fst (build_flash_command tool port m d))
     \<and> (\<exists>before x after. r_journal r' = before @ x # after \<and> je_event x = ''FLASH_START''
          \<and> list_all (\<lambda>ev. list_ex (\<lambda>y. je_event y = ev \<and> je_status y = ''OK'') before) FLASH_GATES)"
proof -
  let ?r = "runner_init s dry pre w"
  have none: "\<not> no_writes ?r r'"
    using assms(2,3) by (auto simp: starts_only_def runner_init_def list_all_iff)
  with run_full_cases [OF assms(1)] obtain r0 res' where r0: "no_writes ?r r0" "journal_grows ?r r0"
    and run: "run_steps e (take 7 (pipeline e) @ (''FLASH'', step_flash e) # drop 8 (pipeline e)) [] r0 = (res', r')"
    using pipeline_split [of e] by auto
  have "\<not> no_writes r0 r'" using none r0(1) starts_only_trans by blast
  with starting.steps_split [OF run no_writes_steps(1) no_writes_rollback] obtain rs rk
    where rk: "passed (take 7 (pipeline e)) r0 rs rk"
      "run_steps e ((''FLASH'', step_flash e) # drop 8 (pipeline e)) rs rk = (res', r')" by auto
  have to_rk: "no_writes ?r rk"
    using starting.passed_rel [OF rk(1) no_writes_steps(1)] r0(1) starts_only_trans by blast
  note rest = starting.after_step [OF rk(2) no_writes_steps(2) no_writes_rollback]
  have "list_all (keeps journal_grows o snd) (drop 8 (pipeline e))" using journal_steps [of e] by (simp add: pipeline_def)
  note jrest = journal.after_step [OF rk(2) this journal_rollback(1)]
  have "av \<notin> set (r_started rk)" using to_rk assms(3) by (auto simp: starts_only_def runner_init_def list_all_iff)
  moreover have "av \<in> set (r_started (snd (step_flash e rk)))"
    using rest assms(2,3) by (auto simp: starts_only_def list_all_iff)
  ultimately obtain es where w: "\<not> r_dry_run rk" "\<exists>tool port m d. av = fst (build_flash_command tool port m d)"
    "r_journal (snd (step_flash e rk)) = r_journal rk @ es" "list_ex (\<lambda>x. je_event x = ''FLASH_START'') es"
    using step_flash_writes [OF _ _ assms(3)] by blast
  from w(4) obtain es1 x es2 where es: "es = es1 @ x # es2" "je_event x = ''FLASH_START''"
    by (auto simp: list_ex_iff dest: split_list)
  obtain es3 where "r_journal r' = r_journal rk @ es1 @ x # es2 @ es3"
    using jrest w(3) es by (auto simp: journal_grows_def)
  moreover have "list_all (\<lambda>ev. list_ex (\<lambda>y. je_event y = ev \<and> je_status y = ''OK'') (r_journal rk @ es1)) FLASH_GATES"
    using passed_gates [OF rk(1)] by (auto simp: list_all_iff approved_def)
  ultimately have "r_journal r' = (r_journal rk @ es1) @ x # (es2 @ es3) \<and> je_event x = ''FLASH_START''
      \<and> list_all (\<lambda>ev. list_ex (\<lambda>y. je_event y = ev \<and> je_status y = ''OK'') (r_journal rk @ es1)) FLASH_GATES"
    using es(2) by simp
  then have "\<exists>before x after. r_journal r' = before @ x # after \<and> je_event x = ''FLASH_START''
      \<and> list_all (\<lambda>ev. list_ex (\<lambda>y. je_event y = ev \<and> je_status y = ''OK'') before) FLASH_GATES"
    by blast
  then show ?thesis using w(1,2) to_rk by (simp add: starts_only_def runner_init_def)
qed

text \<open>
  The journal is gapless: after any run, full or preflight, ended normally or by an exception, its
  entries are numbered 1, 2, 3, ... in order.
\<close>

lemma journal_numbered:
  "let r' = snd (runner_run e (runner_init s dry pre w))
   in map je_seq (r_journal r') = [1..<Suc (length (r_journal r'))]"
proof -
  let ?r = "runner_init s dry pre w"
  have "journal_grows ?r (snd (runner_run e ?r))"
    using journal_run_full [of e] journal_preflight [of ?r e]
    by (auto simp: runner_run_def bindA_def gets_def keeps_def runner_init_def)
  then obtain n where "map je_seq (r_journal (snd (runner_run e ?r))) = [Suc 0..<Suc n]"
    by (auto simp: journal_grows_def runner_init_def simp del: upt_Suc)
  moreover from arg_cong [OF this, of length] have "length (r_journal (snd (runner_run e ?r))) = n" by (simp del: upt_Suc)
  ultimately show ?thesis by (simp del: upt_Suc)
qed

text \<open>
  C15. A dry run is harmless: however it ends, it starts no programs but the shield's fingerprint and status
  queries and the inspector.
\<close>

theorem dry_run_harmless:
  "set (r_started (snd (run_full e (runner_init s True pre w)))) \<subseteq>
     {shield_argv e [''--fingerprint''] False, inspector_argv e, shield_argv e [''--status''] True}"
proof -
  have "keeps (dry_rel e) (run_full e)"
    unfolding run_full_def by (intro keeps_rules dry.manifest dry.steps dry_steps dry_rollback)
  then have "dry_rel e (runner_init s True pre w) (snd (run_full e (runner_init s True pre w)))" by (simp add: keeps_def)
  then show ?thesis by (auto simp: dry_rel_def starts_only_def runner_init_def dry_programs_def list_all_iff)
qed

text \<open>
  What the gate before the flash certifies: its result is GREEN exactly when the manifest is loaded, the
  inspector printed a JSON object whose overall verdict is GREEN, and after that every artifact of the manifest
  was on disk with the recorded SHA-256 digest.
\<close>

lemma pre_flash_gate_green_iff:
  "fst (step_pre_flash_gate e r) = Inr ''GREEN'' \<longleftrightarrow>
     (\<exists>m d rc out err w kvs. r_manifest r = Some m \<and> r_build_dir r = Some d
        \<and> env_exec e (inspector_argv e) None (r_world r) = (Inr (rc, out, err), w)
        \<and> loads out = Inr (JObj kvs) \<and> map_of kvs ''overall'' = Some (JStr ''GREEN'')
        \<and> list_all (\<lambda>a. map_option sha256_hex (env_files e w (path_join (parent d) (a_path a))) = Some (a_sha256 a)) (m_artifacts m))"
proof (cases "r_manifest r = None \<or> r_build_dir r = None")
  case False
  then obtain m d where md: "r_manifest r = Some m" "r_build_dir r = Some d" by auto
  obtain res w where ex: "env_exec e (inspector_argv e) None (r_world r) = (res, w)" by (cases "env_exec e (inspector_argv e) None (r_world r)")
  let ?r = "r\<lparr>r_world := w, r_started := r_started r @ [inspector_argv e]\<rparr>"
  show ?thesis
  proof (cases res)
    case (Inl x)
    then show ?thesis using md ex
      by (simp add: step_pre_flash_gate_def bindA_def gets_def run_prog_ok_def run_prog_def raiseA_def)
  next
    case (Inr p)
    obtain rc out err where p: "p = (rc, out, err)" by (cases p)
    have "fst (step_pre_flash_gate e r) = Inr ''GREEN'' \<longleftrightarrow>
        (\<exists>kvs. loads out = Inr (JObj kvs) \<and> map_of kvs ''overall'' = Some (JStr ''GREEN'')
           \<and> fst (recheck e (the (Some d)) (m_artifacts (the (Some m))) ?r) = Inr None)"
      by (rule trans [OF _ gate_tail [where err = err]])
         (use md ex Inr p in \<open>simp add: step_pre_flash_gate_def bindA_gets bindA_run_prog_ok\<close>)
    then show ?thesis using md ex Inr p by (simp add: recheck_None_iff)
  qed
qed (auto simp: step_pre_flash_gate_def bindA_def gets_def ret_def)

text \<open>
  C16. The verdict of the pipeline: GREEN exactly when every one of the fourteen steps ran and none was RED;
  otherwise the run stops at the first RED step, names it, and ends with the rollback.
\<close>

theorem pipeline_verdict:
  assumes "run_steps e (pipeline e) [] r = (Inr rep, r')"
  shows "(rr_status rep = ''GREEN'' \<longleftrightarrow>
            map fst (rr_results rep) = map fst (pipeline e) \<and> list_all (\<lambda>kv. \<not> prefix ''RED'' (snd kv)) (rr_results rep))
       \<and> (rr_status rep = ''GREEN'' \<or>
            (\<exists>k < length (pipeline e). map fst (rr_results rep) = map fst (take (Suc k) (pipeline e))
               \<and> rr_failed_step rep = Some (fst (pipeline e ! k)) \<and> prefix ''RED'' (snd (last (rr_results rep)))
               \<and> list_all (\<lambda>kv. \<not> prefix ''RED'' (snd kv)) (butlast (rr_results rep))))"
proof (cases "rr_status rep = ''GREEN''")
  case True
  then show ?thesis using run_steps_green [OF assms] passed_results by force
next
  case False
  from run_steps_red [OF assms False] obtain don n fn rest rs r1 x where
    p: "pipeline e = don @ (n, fn) # rest" "passed don r rs r1" "prefix ''RED'' x"
      "rr_failed_step rep = Some n" "rr_results rep = rs @ [(n, x)]" by auto
  note rs = passed_results [OF p(2)]
  from p rs False show ?thesis
    by (intro conjI disjI2 exI [of _ "length don"]) auto
qed

text \<open>
  The comparison of the fingerprints is GREEN exactly when both are non-empty JSON objects that agree, with
  null for a missing key, on every key but the two that are expected to differ.
\<close>

lemma fingerprint_compare_green_iff:
  "fst (step_fingerprint_compare e r) = Inr ''GREEN'' \<longleftrightarrow>
     (\<exists>a b. r_pre_fingerprint r = Some (JObj a) \<and> r_post_fingerprint r = Some (JObj b) \<and> a \<noteq> [] \<and> b \<noteq> []
        \<and> (\<forall>k. k \<in> {''shield_files'', ''routes''} \<or> py_eq (json_get a k JNull) (json_get b k JNull)))"
proof -
  have "py_eq (json_get a k JNull) (json_get b k JNull)" if "k \<notin> set (map fst a @ map fst b)" for a b k
    using that by (simp add: json_get_def map_of_eq_None_iff [symmetric] split: option.split)
  then have diffs: "filter (\<lambda>d. d \<notin> set EXPECTED_DIFFS) (fp_diffs a b) = [] \<longleftrightarrow>
      (\<forall>k. k \<in> {''shield_files'', ''routes''} \<or> py_eq (json_get a k JNull) (json_get b k JNull))" for a b
    unfolding fp_diffs_def EXPECTED_DIFFS_def filter_empty_conv by auto blast
  have "fst (bindA (journal_append e ev d st) (\<lambda>_. ret v) r) = Inr v" for ev d st and v :: string
    by (simp add: bindA_def journal_append_def modify_def ret_def)
  then show ?thesis
    by (cases "r_pre_fingerprint r"; cases "r_post_fingerprint r")
       (auto simp: step_fingerprint_compare_def bindA_gets fp_missing_def json_true_def Let_def diffs ret_def raiseA_def split: json.splits)
qed

text \<open>
  C17. An abort does not leave the shield armed silently: when the status query of the rollback reports it armed,
  the rollback of a real run asks the shield to close the session and, if that program could be run, to
  uninstall and purge.
\<close>

theorem rollback_closes_armed_shield:
  assumes "env_exec e (shield_argv e [''--status''] True) None (r_world r) = (Inr (rc, out, err), w)"
    and "contains ''STATUS=ARMED'' (out @ err)" and "\<not> r_dry_run r"
  shows "\<exists>more. r_started (snd (rollback e r)) =
            r_started r @ [shield_argv e [''--status''] True, shield_argv e [''--close-session''] True] @ more
         \<and> (fst (rollback e r) = Inr () \<longrightarrow> more = [shield_argv e [''--uninstall'', ''--purge''] True])"
proof -
  let ?r = "r\<lparr>r_world := w, r_started := r_started r @ [shield_argv e [''--status''] True]\<rparr>"
  have status: "shield_is_armed e r = (Inr True, ?r)"
    using assms(1,2) by (simp add: shield_is_armed_def run_shield_def bindA_def run_prog_ok_def run_prog_def ret_def)
  have shield: "\<exists>v r1. run_shield e args True r0 = (v, r1) \<and> r_started r1 = r_started r0 @ [shield_argv e args True]
      \<and> r_dry_run r1 = r_dry_run r0" for args r0
    by (cases "env_exec e (shield_argv e args True) None (r_world r0)"; cases "fst (env_exec e (shield_argv e args True) None (r_world r0))")
       (auto simp: run_shield_def bindA_def run_prog_ok_def run_prog_def ret_def raiseA_def)
  obtain v1 r1 where c: "run_shield e [''--close-session''] True ?r = (v1, r1)"
    "r_started r1 = r_started r @ [shield_argv e [''--status''] True, shield_argv e [''--close-session''] True]" "r_dry_run r1 = r_dry_run r"
    using shield [of "[''--close-session'']" ?r] by auto
  show ?thesis
  proof (cases v1)
    case (Inl x)
    then show ?thesis using c assms(3)
      by (simp add: rollback_def bindA_def [of "shield_is_armed e"] status step_shield_close_def gets_def bindA_def)
  next
    case (Inr p)
    obtain r2 where cl: "step_shield_close e ?r = (Inr (if fst p = 0 then ''GREEN'' else ''YELLOW''), r2)"
      "r_started r2 = r_started r1" "r_dry_run r2 = r_dry_run r1"
      using c Inr assms(3) by (cases p) (simp add: step_shield_close_def gets_def bindA_def journal_append_def modify_def ret_def)
    obtain v3 r3 where pu: "run_shield e [''--uninstall'', ''--purge''] True r2 = (v3, r3)"
      "r_started r3 = r_started r2 @ [shield_argv e [''--uninstall'', ''--purge''] True]"
      using shield [of "[''--uninstall'', ''--purge'']" r2] by auto
    have "r_started (snd (step_shield_purge e r2)) = r_started r3"
      using pu(1) cl(3) c(3) assms(3)
      by (cases v3) (auto simp: step_shield_purge_def gets_def bindA_def journal_append_def modify_def ret_def Let_def)
    then have "r_started (snd (rollback e r)) = r_started r3"
      by (auto simp: rollback_def bindA_def status cl(1) ret_def split: prod.split sum.split)
    then show ?thesis using pu(2) cl(2) c(2) by simp
  qed
qed

text \<open>
  C40. There is no waiting for the device: the pipeline lists the serial ports twice in a row. Unless the port
  appears by itself between the two listings, the run ends RED at the detection (or before) and never writes
  the flash.
\<close>

theorem no_wait_for_device:
  assumes "\<And>p w. env_glob e p (env_tick e w) = env_glob e p w"
    and "run_steps e (pipeline e) [] r = (Inr rep, r')"
  shows "rr_status rep = ''RED'' \<and> rr_failed_step rep \<in> Some ` set (map fst (take 5 (pipeline e)))"
proof -
  have red: "\<not> passed (take 5 (pipeline e)) r0 rs r1" for r0 rs r1
  proof
    assume "passed (take 5 (pipeline e)) r0 rs r1"
    then obtain r3 r4 x y where s: "step_serial_baseline e r3 = (Inr x, r4)" "step_serial_detect e r4 = (Inr y, r1)" "\<not> prefix ''RED'' y"
      by (auto simp: pipeline_def)
    let ?ports = "list_serial_ports (\<lambda>p. env_glob e p (r_world r3))"
    have r4: "r_serial_baseline r4 = ?ports" "list_serial_ports (\<lambda>p. env_glob e p (r_world r4)) = ?ports"
      using s(1) assms(1) by (auto simp: step_serial_baseline_def ports_now_def bindA_def gets_def modify_def ret_def journal_append_def)
    have "detect_new_port ?ports ?ports = (None, ''NO_NEW_PORT: no new serial device detected'')"
      by (simp add: detect_new_port_def Let_def)
    then show False using s(2,3) r4
      by (auto simp: step_serial_detect_def ports_now_def bindA_def gets_def modify_def ret_def journal_append_def)
  qed
  have "rr_status rep \<noteq> ''GREEN''"
    using run_steps_green [OF assms(2)] passed_prefix [of "take 5 (pipeline e)" "drop 5 (pipeline e)" r] red
    by (auto simp del: passed.simps)
  from run_steps_red [OF assms(2) this] obtain don n fn rest rs r1 where
    p: "pipeline e = don @ (n, fn) # rest" "passed don r rs r1" "rr_status rep = ''RED''" "rr_failed_step rep = Some n" by auto
  have "length don < 5"
  proof (rule ccontr)
    assume "\<not> length don < 5"
    then have "take 5 (pipeline e) @ drop 5 don = don" using p(1) by simp
    then show False using passed_prefix [of "take 5 (pipeline e)" "drop 5 don" r rs r1] p(2) red by simp
  qed
  then have "(n, fn) \<in> set (take 5 (pipeline e))" by (simp add: p(1) take_Cons')
  with p(3,4) show ?thesis by force
qed

end
