(* ===== verification/Flash_Main.thy ===== *)
theory Flash_Main
  imports Flash_Safety
begin

text \<open>
  The command line of the flash runner and the resumption of an interrupted run.
\<close>

section \<open>Reading the journal\<close>

text \<open>A journal of well-formed entries is read back, each line giving the event of its entry.\<close>

definition entry_ok :: "(string \<times> json) list \<Rightarrow> bool" where
  "entry_ok kvs \<longleftrightarrow> wf_json (JObj kvs) \<and> set (map fst kvs) \<subseteq> set ENTRY_FIELDS \<and> set (take 3 ENTRY_FIELDS) \<subseteq> set (map fst kvs)"

lemma load_entry: "entry_ok kvs \<Longrightarrow> load_event (dumps (JObj kvs)) = Inr (json_get kvs ''event'' JNull)"
  unfolding load_event_def entry_ok_def by (simp only: loads_dumps bindE_simps json.case if_True simp_thms)

lemma journal_load_entries:
  assumes "list_all entry_ok es"
  shows "journal_load (Some (journal_text (map JObj es))) = Inr (map (\<lambda>kvs. json_get kvs ''event'' JNull) es)"
proof -
  have lines: "filter (\<lambda>l. l \<noteq> []) (map strip (splitlines (journal_text (map JObj es)))) = map (\<lambda>kvs. dumps (JObj kvs)) es"
    unfolding splitlines_journal by (induction es) (simp_all add: strip_dumps)
  have "all_results load_event (map (\<lambda>kvs. dumps (JObj kvs)) es) = Inr (map (\<lambda>kvs. json_get kvs ''event'' JNull) es)"
    using assms by (induction es) (simp_all add: load_entry)
  then show ?thesis by (simp add: journal_load_def lines)
qed

section \<open>Resuming\<close>

lemma armed_status:
  assumes "env_exec e (shield_argv e [''--status''] True) None (r_world r) = (Inr (rc, out, err), w)" "contains ''STATUS=ARMED'' (out @ err)"
  shows "shield_is_armed e r = (Inr True, r\<lparr>r_world := w, r_started := r_started r @ [shield_argv e [''--status''] True]\<rparr>)"
  using assms by (simp add: shield_is_armed_def run_shield_def bindA_def run_prog_ok_def run_prog_def ret_def)

text \<open>
  C25. Resuming as the runner recommends after an interruption, with the option for the session and without the one for execution, cleans nothing:
  the run counts as a dry run, so that an armed shield is neither closed nor removed, although the report says RESUMED_AND_CLEANED. The
  only program started is the status query.
\<close>

theorem resume_leaves_shield_armed:
  assumes "\<not> ra_status args" "ra_resume args = Some sid" "sid \<noteq> []" "\<not> ra_execute args"
    and "journal_load (env_files e w (journal_path sid)) = Inr events" "events \<noteq> []" "list_all hashable events" "JStr ''RUNNER_DONE'' \<notin> set events"
    and "env_exec e (shield_argv e [''--status''] True) None w = (Inr (rc, out, err), w')" "contains ''STATUS=ARMED'' (out @ err)"
  shows "\<exists>r'. runner_main e args w = (Inr 1, r') \<and> r_started r' = [shield_argv e [''--status''] True] \<and> r_world r' = w'
    \<and> fst (runner_resume e (runner_init sid True False w)) = Inr (report ''YELLOW'' (Some ''RESUMED_AND_CLEANED'') None [])"
proof -
  let ?r = "runner_init sid True False w"
  have armed: "shield_is_armed e ?r = (Inr True, ?r\<lparr>r_world := w', r_started := [shield_argv e [''--status''] True]\<rparr>)"
    using armed_status [of e ?r] assms(9,10) by (simp add: runner_init_def)
  have r: "r_world ?r = w" "r_session ?r = sid" "r_dry_run ?r" by (simp_all add: runner_init_def)
  have "\<exists>r'. rollback e ?r = (Inr (), r') \<and> r_started r' = [shield_argv e [''--status''] True] \<and> r_world r' = w'"
    using armed r(3) by (simp add: rollback_def step_shield_close_def step_shield_purge_def bindA_def gets_def ret_def journal_append_def modify_def)
  then obtain r' where "rollback e ?r = (Inr (), r')" "r_started r' = [shield_argv e [''--status''] True]" "r_world r' = w'" by blast
  then have "runner_resume e ?r = (Inr (report ''YELLOW'' (Some ''RESUMED_AND_CLEANED'') None []), r')
    \<and> r_started r' = [shield_argv e [''--status''] True] \<and> r_world r' = w'"
    using assms(5-8) r(1,2) by (simp add: runner_resume_def bindA_def gets_def ret_def)
  then show ?thesis using assms(1-4) by (auto simp: runner_main_def truthy_def bindA_def ret_def exit_of_def report_def)
qed

text \<open>With the option for execution the armed shield is closed and, if that program could be run, removed.\<close>

lemma resume_closes_shield:
  assumes "\<not> ra_status args" "ra_resume args = Some sid" "sid \<noteq> []" "ra_execute args"
    and "journal_load (env_files e w (journal_path sid)) = Inr events" "events \<noteq> []" "list_all hashable events" "JStr ''RUNNER_DONE'' \<notin> set events"
    and "runner_main e args w = (Inr x, r')"
  shows "x = 1 \<and> (\<exists>q. rollback e (runner_init sid False False w) = (Inr (), q) \<and> r_started r' = r_started q)"
proof (cases "rollback e (runner_init sid False False w)")
  case (Pair y q)
  with assms show ?thesis
    by (cases y) (auto simp: runner_main_def truthy_def runner_resume_def bindA_def gets_def ret_def runner_init_def exit_of_def report_def)
qed

end
