(* ===== verification/Physical_Oracle.thy ===== *)
theory Physical_Oracle
  imports Guardian_Plan Gate Sha256
begin

text \<open>
  The physical-acceptance oracle (\<^verbatim>\<open>scripts/macos/bootmux-physical-oracle.py\<close>): a sanitized snapshot of
  the host, built on the guardian's baseline capture, and its comparison with a stored snapshot. The
  report lines that \<^verbatim>\<open>compare_invariants\<close> returns beside the violations only print the same
  information and are left out.
\<close>

section \<open>Sanitizing\<close>

definition token :: "string option \<Rightarrow> string" where
  "token v = (case v of None \<Rightarrow> ''<none>'' | Some s \<Rightarrow> ''tok:'' @ take 12 (sha256_hex s))"

text \<open>Decimal digits only, and their value (\<^verbatim>\<open>b.isdigit()\<close>, \<^verbatim>\<open>int(b)\<close>).\<close>

definition isdigit :: "string \<Rightarrow> bool" where
  "isdigit s = (s \<noteq> [] \<and> list_all is_digit s)"

definition int_of :: "string \<Rightarrow> nat" where
  "int_of s = foldl (\<lambda>n c. 10 * n + (code c - 48)) 0 s"

definition ip_class :: "string option \<Rightarrow> string" where
  "ip_class v =
     (if \<not> truthy v then ''<none>''
      else case split_on (CHR ''.'') (the v) of
        [a, b, c, d] \<Rightarrow>
          if a = ''169'' then ''169.254.x.x(link-local)''
          else if a = ''10'' then ''10.x.x.x(private)''
          else if a = ''192'' \<and> b = ''168'' then ''192.168.x.x(private)''
          else if a = ''172'' \<and> isdigit b \<and> 16 \<le> int_of b \<and> int_of b \<le> 31 then ''172.16-31.x.x(private)''
          else ''<ip>''
      | _ \<Rightarrow> ''<ip>'')"

fun default_route_lines :: "string list \<Rightarrow> string option \<times> string option \<Rightarrow> string option \<times> string option" where
  "default_route_lines [] acc = acc"
| "default_route_lines (l # ls) (iface, gw) =
     (let line = strip l in
      if prefix ''interface:'' line then default_route_lines ls (Some (strip (after_first (CHR '':'') line)), gw)
      else if prefix ''gateway:'' line then default_route_lines ls (iface, Some (strip (after_first (CHR '':'') line)))
      else default_route_lines ls (iface, gw))"

definition read_default_route :: "'h host_ops \<Rightarrow> 'h \<Rightarrow> ((string option \<times> string) \<times> 'h) result" where
  "read_default_route ops h =
     bindE (run ops [''route'', ''-n'', ''get'', ''default''] h) (\<lambda>((rc, out, err), h').
       case (if rc = 0 then default_route_lines (splitlines out) (None, None) else (None, None)) of
         (iface, gw) \<Rightarrow> Inr ((iface, ip_class gw), h'))"

record snap_wifi =
  sw_hardware_device :: "string option"
  sw_service_name :: "string option"
  sw_power :: "bool option"
  sw_ssid_token :: string
  sw_associated :: bool
  sw_ipv4_mode :: "string option"
  sw_ipv4_class :: string
  sw_router_class :: string
  sw_dns_server_count :: nat
  sw_dns_server_tokens :: "string list"
  sw_search_domain_count :: nat

record snap_network =
  sn_default_gateway_class :: string
  sn_default_interface :: "string option"
  sn_network_service_order :: "string list"
  sn_service_enabled_states :: "bool dict"
  sn_bootmux_routes :: "route list"

record snapshot =
  snap_captured_at :: int
  snap_wifi :: snap_wifi
  snap_network :: snap_network
  snap_bootmux_services :: "string list"

definition sanitize_wifi :: "wifi_block \<Rightarrow> snap_wifi" where
  "sanitize_wifi w =
     \<lparr>sw_hardware_device = hardware_device w, sw_service_name = service_name w, sw_power = power w,
      sw_ssid_token = token (associated_ssid w), sw_associated = (associated_ssid w \<noteq> None),
      sw_ipv4_mode = ipv4_mode w, sw_ipv4_class = ip_class (ipv4_address w), sw_router_class = ip_class (router w),
      sw_dns_server_count = length (dns_servers w), sw_dns_server_tokens = map (\<lambda>s. token (Some s)) (dns_servers w),
      sw_search_domain_count = length (search_domains w)\<rparr>"

definition sanitize_network :: "string option \<times> string \<Rightarrow> network_block \<Rightarrow> snap_network" where
  "sanitize_network dr n =
     \<lparr>sn_default_gateway_class = snd dr, sn_default_interface = fst dr,
      sn_network_service_order = network_service_order n, sn_service_enabled_states = service_enabled_states n,
      sn_bootmux_routes = bootmux_routes n\<rparr>"

definition snapshot_of :: "baseline \<Rightarrow> string option \<times> string \<Rightarrow> snapshot" where
  "snapshot_of base dr =
     \<lparr>snap_captured_at = captured_at base, snap_wifi = sanitize_wifi (wifi base),
      snap_network = sanitize_network dr (network base),
      snap_bootmux_services =
        filter (\<lambda>n. contains ''bootmux'' (lower n)) (network_service_order (network base))\<rparr>"

definition sanitize_snapshot :: "'h host_ops \<Rightarrow> 'h \<Rightarrow> (snapshot \<times> 'h) result" where
  "sanitize_snapshot ops h =
     (let base = capture_baseline ops h in
      bindE (read_default_route ops h) (\<lambda>(dr, h'). Inr (snapshot_of base dr, h')))"

section \<open>Comparing\<close>

text \<open>
  The value of an invariant field; two dictionaries are equal when they map the same keys to the same
  values. In a stored document a field may be unreadable (a missing key): it is then absent from the list.
\<close>

datatype field =
    FBool "bool option"
  | FStr "string option"
  | FNat nat
  | FList "string list"
  | FStates "bool dict"

fun field_eq :: "field \<Rightarrow> field \<Rightarrow> bool" where
  "field_eq (FStates a) (FStates b) = (set (map fst a) = set (map fst b) \<and> list_all (\<lambda>k. map_of a k = map_of b k) (map fst a))"
| "field_eq a b = (a = b)"

definition INVARIANT_FIELDS :: "snapshot \<Rightarrow> field dict" where
  "INVARIANT_FIELDS s =
     [(''wifi.power'', FBool (sw_power (snap_wifi s))),
      (''wifi.ssid_token'', FStr (Some (sw_ssid_token (snap_wifi s)))),
      (''wifi.ipv4_mode'', FStr (sw_ipv4_mode (snap_wifi s))),
      (''wifi.dns_server_count'', FNat (sw_dns_server_count (snap_wifi s))),
      (''wifi.dns_server_tokens'', FList (sw_dns_server_tokens (snap_wifi s))),
      (''network.default_interface'', FStr (sn_default_interface (snap_network s))),
      (''network.default_gateway_class'', FStr (Some (sn_default_gateway_class (snap_network s)))),
      (''network.network_service_order'', FList (sn_network_service_order (snap_network s))),
      (''network.service_enabled_states'', FStates (sn_service_enabled_states (snap_network s)))]"

definition field_ok :: "field dict \<Rightarrow> string \<times> field \<Rightarrow> bool" where
  "field_ok baseline kv =
     (case map_of baseline (fst kv) of None \<Rightarrow> False | Some b \<Rightarrow> field_eq b (snd kv))"

definition compare_invariants :: "field dict \<Rightarrow> snapshot \<Rightarrow> bool \<Rightarrow> string list" where
  "compare_invariants baseline current require_clean =
     map fst (filter (\<lambda>kv. \<not> field_ok baseline kv) (INVARIANT_FIELDS current))
     @ (if sn_bootmux_routes (snap_network current) \<noteq> [] then [''bootmux_routes_absent''] else [])
     @ (if require_clean \<and> snap_bootmux_services current \<noteq> [] then [''bootmux_services_absent''] else [])"

text \<open>\<^verbatim>\<open>compare FILE\<close>: the stored document, if the file exists; the exit code.\<close>

definition physical_cmd_compare :: "'h host_ops \<Rightarrow> field dict option \<Rightarrow> bool \<Rightarrow> 'h \<Rightarrow> (int \<times> 'h) result" where
  "physical_cmd_compare ops file require_clean h =
     (case file of
        None \<Rightarrow> Inr (2, h)
      | Some baseline \<Rightarrow>
          bindE (sanitize_snapshot ops h) (\<lambda>(current, h').
            Inr (if compare_invariants baseline current require_clean \<noteq> [] then 1 else 0, h')))"

section \<open>The comparison as a gate\<close>

definition invariant_checks :: "field dict \<times> snapshot \<times> bool \<Rightarrow> bool dict" where
  "invariant_checks x =
     (case x of (baseline, current, require_clean) \<Rightarrow>
        map (\<lambda>kv. (fst kv, field_ok baseline kv)) (INVARIANT_FIELDS current)
        @ [(''bootmux_routes_absent'', sn_bootmux_routes (snap_network current) = []),
           (''bootmux_services_absent'', \<not> require_clean \<or> snap_bootmux_services current = [])])"

lemma compare_invariants_failing:
  "compare_invariants b c r = map fst (filter (\<lambda>kv. \<not> snd kv) (invariant_checks (b, c, r)))"
  by (simp add: compare_invariants_def invariant_checks_def filter_map o_def)

interpretation invariants: gate invariant_checks "\<lambda>(b, c, r). compare_invariants b c r = []"
  by unfold_locales (auto simp: compare_invariants_failing filter_empty_conv list_all_iff)

lemma field_eq_refl: "field_eq f f"
  by (cases f) (auto simp: list_all_iff)

lemma distinct_invariant_fields: "distinct (map fst (INVARIANT_FIELDS s))"
  by (simp add: INVARIANT_FIELDS_def)

lemma snapshot_no_routes:
  "sanitize_snapshot ops h = Inr (s, h') \<Longrightarrow> sn_bootmux_routes (snap_network s) = []"
  by (auto simp: sanitize_snapshot_def bindE_Inr_iff snapshot_of_def sanitize_network_def
      capture_baseline_def capture_network_def Let_def)

section \<open>Properties\<close>

text \<open>
  An unchanged host passes: comparing a host with the snapshot taken from it reports no violation
  but the presence of BOOTMUX services, and that only when a clean host is required.
\<close>

lemma unchanged_host_passes:
  assumes "sanitize_snapshot ops h = Inr (s, h')"
  shows "compare_invariants (INVARIANT_FIELDS s) s require_clean =
    (if require_clean \<and> snap_bootmux_services s \<noteq> [] then [''bootmux_services_absent''] else [])"
proof -
  have "field_ok (INVARIANT_FIELDS s) kv" if "kv \<in> set (INVARIANT_FIELDS s)" for kv
  proof -
    have "map_of (INVARIANT_FIELDS s) (fst kv) = Some (snd kv)"
      using that distinct_invariant_fields by (intro map_of_is_SomeI) auto
    then show ?thesis by (simp add: field_ok_def field_eq_refl)
  qed
  then show ?thesis using snapshot_no_routes [OF assms] by (simp add: compare_invariants_def)
qed

text \<open>
  Any change of a compared field is reported by name: the comparison is empty exactly when every
  invariant field of the stored snapshot is readable and equal to the current one, no BOOTMUX route is
  listed and, if a clean host is required, no BOOTMUX service is.
\<close>

lemma compare_invariants_empty_iff:
  "compare_invariants baseline current require_clean = [] \<longleftrightarrow>
     list_all (\<lambda>(k, v). case map_of baseline k of None \<Rightarrow> False | Some b \<Rightarrow> field_eq b v) (INVARIANT_FIELDS current)
     \<and> sn_bootmux_routes (snap_network current) = []
     \<and> \<not> (require_clean \<and> snap_bootmux_services current \<noteq> [])"
  using invariants.passes_iff [of "(baseline, current, require_clean)"]
  by (simp add: invariant_checks_def list_all_iff field_ok_def case_prod_beta) blast

text \<open>
  C36. The snapshot does not leak: it is the same for any two captured states that differ only in the
  network name, addresses, subnet mask, DNS servers and search domains, as long as the digest tokens,
  the address classes and the number of search domains agree.
\<close>

theorem snapshot_noninterference:
  assumes "token (Some s) = token (Some s')" and "ip_class a = ip_class a'" and "ip_class r = ip_class r'"
    and "map (\<lambda>x. token (Some x)) ds = map (\<lambda>x. token (Some x)) ds'" and "length sd = length sd'"
  shows "snapshot_of (b\<lparr>wifi := (wifi b)\<lparr>associated_ssid := Some s, ipv4_address := a, subnet_mask := m,
                        router := r, dns_servers := ds, search_domains := sd\<rparr>\<rparr>) dr =
         snapshot_of (b\<lparr>wifi := (wifi b)\<lparr>associated_ssid := Some s', ipv4_address := a', subnet_mask := m',
                        router := r', dns_servers := ds', search_domains := sd'\<rparr>\<rparr>) dr"
  using assms map_eq_imp_length_eq [OF assms(4)] by (simp add: snapshot_of_def sanitize_wifi_def)

text \<open>
  The check for BOOTMUX routes is vacuous on live snapshots: the captured baseline never lists a
  route, so the comparison of a snapshot never reports one, whatever the routing table holds.
\<close>

lemma bootmux_route_check_vacuous:
  assumes "sanitize_snapshot ops h = Inr (s, h')"
  shows "''bootmux_routes_absent'' \<notin> set (compare_invariants baseline s require_clean)"
proof -
  have "''bootmux_routes_absent'' \<notin> set (map fst (INVARIANT_FIELDS s))"
    by (simp add: INVARIANT_FIELDS_def)
  then show ?thesis
    using snapshot_no_routes [OF assms] by (auto simp: compare_invariants_def)
qed

end
