(* ===== verification/Flash_Witnesses.thy ===== *)
theory Flash_Witnesses
  imports Flash_Manifest Flash_Main Physical_Oracle Guardian_FakeHost
begin

text \<open>
  Concrete builds, manifests and hosts on which the hypotheses of the properties of the flash tools and
  of the physical oracle hold, and those properties applied to them.
\<close>

section \<open>A build\<close>

definition sample_dir :: path where "sample_dir = [''fw'', ''build'']"

definition sample_files :: "string \<Rightarrow> files" where
  "sample_files img p =
     (if p = [''fw'', ''build'', ''app.bin''] then Some img
      else if p = [''fw'', ''sdkconfig''] then Some ''CONFIG_BOOTMUX_USB_NETWORK_EXPERIMENTAL=y''
      else None)"

definition sample_manifest :: manifest where
  "sample_manifest =
     \<lparr>m_build_dir = ''build'', m_sdkconfig_marker = [], m_usb_identity = [], m_flash_params = [],
      m_artifacts = [\<lparr>a_name = ''application'', a_path = ''build/app.bin'', a_offset = ''0x0'', a_size = 0, a_sha256 = []\<rparr>]\<rparr>"

definition sample_flasher :: flasher_args where
  "sample_flasher = \<lparr>fl_settings = [], fl_files = [(''0x0'', ''app.bin'')]\<rparr>"

lemma sample_paths:
  "parent sample_dir = [''fw'']" "path_join sample_dir ''app.bin'' = [''fw'', ''build'', ''app.bin'']"
  "path_join [''fw''] ''build/app.bin'' = [''fw'', ''build'', ''app.bin'']"
  "path_join [''fw''] ''sdkconfig'' = [''fw'', ''sdkconfig'']"
  "path_join [''fw''] ''sdkconfig.defaults'' = [''fw'', ''sdkconfig.defaults'']"
  "relative_to [''fw'', ''build'', ''app.bin''] [''fw''] = Inr ''build/app.bin''"
  "hex_int ''0x0'' = Some 0"
  by code_simp+

lemma sample_generate:
  "\<exists>m a. generate_manifest (sample_files img) sample_dir (Some sample_flasher) = Inr (Some m) \<and> m_artifacts m = [a]"
  by (simp add: generate_manifest_def sorted_files_def sample_flasher_def make_artifact_def resolve_image_def sample_paths
      sample_files_def)

section \<open>Inspector and generator\<close>

theorem forbidden_string_blocks_witness:
  "inspect_main (sample_files (''ab'' @ ''usb CDC_NCM'' @ [])) (Some sample_manifest) sample_dir = 1"
proof -
  have "hd (m_artifacts sample_manifest) \<in> set (m_artifacts sample_manifest)"
    "sample_files (''ab'' @ ''usb CDC_NCM'' @ []) (path_join (parent sample_dir) (a_path (hd (m_artifacts sample_manifest))))
     = Some (''ab'' @ ''usb CDC_NCM'' @ [])"
    "list_all is_printable ''usb CDC_NCM''" "6 \<le> length ''usb CDC_NCM''" "''CDC_NCM'' \<in> set FORBIDDEN_PATTERNS"
    "contains ''CDC_NCM'' ''usb CDC_NCM''"
    by code_simp+
  from forbidden_string_blocks [where u = "''ab''" and s = "''usb CDC_NCM''" and v = "[]"
      and fs = "sample_files (''ab'' @ ''usb CDC_NCM'' @ [])" and d = sample_dir, OF this] show ?thesis by simp
qed

theorem manifest_roundtrip_witness:
  "\<exists>m a. generate_manifest (sample_files ''abc'') sample_dir (Some sample_flasher) = Inr (Some m) \<and> a \<in> set (m_artifacts m)
     \<and> ar_sha256_match (inspect_artifact (sample_files ''abc'') (path_join (parent sample_dir) (a_path a)) a)"
proof -
  obtain m a where m: "generate_manifest (sample_files ''abc'') sample_dir (Some sample_flasher) = Inr (Some m)"
    "a \<in> set (m_artifacts m)"
    using sample_generate by force
  have "list_all proper sample_dir" by code_simp
  from manifest_roundtrip [OF m(1) this m(2)] m show ?thesis by (auto simp: Let_def)
qed

lemma enabled_network_passes_marker_witness:
  "\<exists>m. generate_manifest (sample_files ''abc'') sample_dir (Some sample_flasher) = Inr (Some m)
     \<and> m_sdkconfig_marker m = [] \<and> in_sdkconfig_marker (inspect_build (sample_files ''abc'') sample_dir m)"
proof -
  obtain m where m: "generate_manifest (sample_files ''abc'') sample_dir (Some sample_flasher) = Inr (Some m)"
    using sample_generate by blast
  have "sample_files ''abc'' (path_join (parent sample_dir) ''sdkconfig'') = Some ''CONFIG_BOOTMUX_USB_NETWORK_EXPERIMENTAL=y''"
    "detect_marker ''CONFIG_BOOTMUX_USB_NETWORK_EXPERIMENTAL=y'' MARKER_KEY = []"
    "sample_files ''abc'' (path_join (parent sample_dir) ''sdkconfig.defaults'') = None"
    by code_simp+
  from enabled_network_passes_marker [OF m this] m show ?thesis by blast
qed

section \<open>Runner\<close>

text \<open>
  An environment in which every program succeeds and prints a text that depends on its arguments; a serial port is there from the
  second listing on, if the world moves on after a listing.
\<close>

definition sample_env :: "(string list \<Rightarrow> string) \<Rightarrow> (nat \<Rightarrow> nat) \<Rightarrow> nat env" where
  "sample_env txt nxt =
     \<lparr>env_script_dir = [''r'', ''scripts'', ''macos''], env_python = ''py'', env_home = [''h''], env_idf_path = [],
      env_pythonpath = [], env_pid = 1,
      env_files = (\<lambda>_ p. if p = [''r'', ''firmware'', ''esp32s3-router-spike'', ''safe-flash-manifest.json''] then Some [] else None),
      env_dirs = (\<lambda>_ _. False), env_glob = (\<lambda>_ w. if w = 0 then [] else [''/dev/cu.1'']),
      env_exec = (\<lambda>av _ w. (Inr (0, txt av, []), w)), env_serial = (\<lambda>_ w. (SerialRead ''waiting for download'', w)),
      env_unlink = (\<lambda>_ w. w), env_time = (\<lambda>_. 0), env_tick = nxt,
      env_manifest = (\<lambda>_. Inr \<lparr>m_build_dir = ''build'', m_sdkconfig_marker = [], m_usb_identity = [], m_flash_params = [], m_artifacts = []\<rparr>)\<rparr>"

definition good_out :: "string list \<Rightarrow> string" where
  "good_out av =
     (if ''--arm'' \<in> set av then ''CLASSIFICATION=GREEN''
      else if ''--purge'' \<in> set av then ''PURGE=OK''
      else if ''--fingerprint'' \<in> set av then ''[1]''
      else if ''--json'' \<in> set av then ''{'' @ [QUOTE] @ ''overall'' @ [QUOTE] @ '':'' @ [QUOTE] @ ''GREEN'' @ [QUOTE] @ ''}''
      else ''ok'')"

abbreviation good_env :: "nat env" where "good_env \<equiv> sample_env good_out Suc"

definition sample_flash_argv :: "string list" where
  "sample_flash_argv = fst (build_flash_command ([''ok''], None) ''/dev/cu.1''
     \<lparr>m_build_dir = ''build'', m_sdkconfig_marker = [], m_usb_identity = [], m_flash_params = [], m_artifacts = []\<rparr> [])"

lemma sample_flash_writes: "writes_flash sample_flash_argv"
  by (simp add: writes_flash_def sample_flash_argv_def build_flash_command_def sublist_Cons_right)

lemma sample_run_flashes:
  "list_ex (\<lambda>av. av = sample_flash_argv) (r_started (snd (run_full good_env (runner_init ''s'' False False 0))))"
  by code_simp

theorem flash_gated_witness:
  "\<exists>before x after. r_journal (snd (run_full good_env (runner_init ''s'' False False 0))) = before @ x # after
     \<and> je_event x = ''FLASH_START''
     \<and> list_all (\<lambda>ev. list_ex (\<lambda>y. je_event y = ev \<and> je_status y = ''OK'') before) FLASH_GATES"
proof -
  obtain res r' where run: "run_full good_env (runner_init ''s'' False False 0) = (res, r')" by (cases "run_full good_env (runner_init ''s'' False False 0)")
  have "sample_flash_argv \<in> set (r_started r')" using sample_run_flashes by (auto simp: run list_ex_iff)
  from flash_gated [OF run this sample_flash_writes] show ?thesis unfolding run by simp
qed

theorem pipeline_verdict_witness:
  "case run_steps good_env (pipeline good_env) [] (runner_init ''s'' True False 0) of
     (Inr rep, _) \<Rightarrow> rr_failed_step rep = Some ''PRE_FLASH_GATE'' \<and> rr_status rep \<noteq> ''GREEN''
   | (Inl _, _) \<Rightarrow> False"
proof -
  let ?run = "run_steps good_env (pipeline good_env) [] (runner_init ''s'' True False 0)"
  have "case ?run of (Inr rep, _) \<Rightarrow> rr_failed_step rep = Some ''PRE_FLASH_GATE'' \<and> length (rr_results rep) = 7 | (Inl _, _) \<Rightarrow> False"
    by code_simp
  then obtain rep r' where run: "?run = (Inr rep, r')"
    and rep: "rr_failed_step rep = Some ''PRE_FLASH_GATE''" "length (rr_results rep) = 7"
    by (auto split: prod.splits sum.splits)
  have "length (map fst (rr_results rep)) \<noteq> length (map fst (pipeline good_env))" using rep(2) by (simp add: pipeline_def)
  then have "map fst (rr_results rep) \<noteq> map fst (pipeline good_env)" by metis
  with pipeline_verdict [OF run] rep(1) show ?thesis by (simp add: run)
qed

theorem rollback_closes_armed_shield_witness:
  "let e = sample_env (\<lambda>_. ''STATUS=ARMED'') Suc; r = runner_init ''s'' False False 0
   in \<exists>more. r_started (snd (rollback e r)) = [shield_argv e [''--status''] True, shield_argv e [''--close-session''] True] @ more"
proof -
  let ?e = "sample_env (\<lambda>_. ''STATUS=ARMED'') Suc"
  have "env_exec ?e (shield_argv ?e [''--status''] True) None (r_world (runner_init ''s'' False False 0)) = (Inr (0, ''STATUS=ARMED'', []), 0)"
    by (simp add: sample_env_def runner_init_def)
  moreover have "contains ''STATUS=ARMED'' (''STATUS=ARMED'' @ [])" by code_simp
  ultimately show ?thesis
    using rollback_closes_armed_shield [of ?e "runner_init ''s'' False False 0"] by (auto simp: runner_init_def Let_def)
qed

theorem no_wait_for_device_witness:
  "let e = sample_env good_out (\<lambda>w. w) in
   case run_steps e (pipeline e) [] (runner_init ''s'' False False 0) of
     (Inr rep, _) \<Rightarrow> rr_status rep = ''RED'' | (Inl _, _) \<Rightarrow> False"
proof -
  let ?e = "sample_env good_out (\<lambda>w. w)"
  let ?run = "run_steps ?e (pipeline ?e) [] (runner_init ''s'' False False 0)"
  have "case ?run of (Inr _, _) \<Rightarrow> True | (Inl _, _) \<Rightarrow> False" by code_simp
  then obtain rep r' where run: "?run = (Inr rep, r')" by (auto split: prod.splits sum.splits)
  have "env_glob ?e p (env_tick ?e w) = env_glob ?e p w" for p w by (simp add: sample_env_def)
  from no_wait_for_device [OF this run] show ?thesis by (simp add: run Let_def)
qed

section \<open>Physical oracle\<close>

lemma sample_snapshot: "\<exists>s h'. sanitize_snapshot fake_ops fake_init = Inr (s, h')"
  by (simp add: sanitize_snapshot_def read_default_route_def fake_run_def fake_init_def simulate_def Let_def
      split: prod.split)

lemma unchanged_host_passes_witness:
  "\<exists>s h'. sanitize_snapshot fake_ops fake_init = Inr (s, h')
     \<and> set (compare_invariants (INVARIANT_FIELDS s) s True) \<subseteq> {''bootmux_services_absent''}"
proof -
  obtain s h' where s: "sanitize_snapshot fake_ops fake_init = Inr (s, h')" using sample_snapshot by blast
  then show ?thesis using unchanged_host_passes [OF s, of True] by auto
qed

theorem snapshot_noninterference_witness:
  "snapshot_of ((sample_baseline 1)\<lparr>wifi := (wifi (sample_baseline 1))\<lparr>associated_ssid := Some ''home'', ipv4_address := Some ''10.1.2.3'', subnet_mask := None,
                    router := Some ''10.0.0.1'', dns_servers := [], search_domains := [''lan'']\<rparr>\<rparr>) (None, ''<none>'') =
   snapshot_of ((sample_baseline 1)\<lparr>wifi := (wifi (sample_baseline 1))\<lparr>associated_ssid := Some ''home'', ipv4_address := Some ''10.9.8.7'', subnet_mask := Some ''255.0.0.0'',
                    router := Some ''10.7.7.7'', dns_servers := [], search_domains := [''corp'']\<rparr>\<rparr>) (None, ''<none>'')"
proof -
  have "ip_class (Some ''10.1.2.3'') = ip_class (Some ''10.9.8.7'')" "ip_class (Some ''10.0.0.1'') = ip_class (Some ''10.7.7.7'')"
    by code_simp+
  from snapshot_noninterference [where s = "''home''", OF refl this, where ds = "[]" and ds' = "[]" and sd = "[''lan'']" and sd' = "[''corp'']"
      and b = "sample_baseline 1" and m = None and m' = "Some ''255.0.0.0''" and dr = "(None, ''<none>'')"]
  show ?thesis by simp
qed

lemma bootmux_route_check_vacuous_witness:
  "\<exists>s h'. sanitize_snapshot fake_ops fake_init = Inr (s, h')
     \<and> ''bootmux_routes_absent'' \<notin> set (compare_invariants [] s True)"
proof -
  obtain s h' where s: "sanitize_snapshot fake_ops fake_init = Inr (s, h')" using sample_snapshot by blast
  then show ?thesis using bootmux_route_check_vacuous [OF s, of "[]" True] by blast
qed

section \<open>Resuming\<close>

definition sample_entry :: "(string \<times> json) list" where
  "sample_entry = [(''seq'', JInt 1), (''ts'', JFloat 1), (''event'', JStr ''SHIELD_ARM'')]"

definition journal_line :: string where "journal_line = journal_text (map JObj [sample_entry])"

definition armed_env :: "nat env" where
  "armed_env = (sample_env (\<lambda>_. ''STATUS=ARMED_TEMPORARY'') Suc)\<lparr>env_files := (\<lambda>_ p. if p = journal_path ''s1'' then Some journal_line else None)\<rparr>"

definition resume_args :: runner_args where
  "resume_args = \<lparr>ra_status = False, ra_resume = Some ''s1'', ra_session_id = None, ra_execute = False, ra_preflight_only = False\<rparr>"

lemma journal_line_loaded: "journal_load (Some journal_line) = Inr [JStr ''SHIELD_ARM'']"
proof -
  have "micros (1 :: rat)" by (simp add: micros_def)
  then have "entry_ok sample_entry" by (simp add: entry_ok_def sample_entry_def ENTRY_FIELDS_def)
  then have "list_all entry_ok [sample_entry]" by simp
  from journal_load_entries [OF this] show ?thesis by (simp only: journal_line_def) (simp add: sample_entry_def json_get_def)
qed

lemma sample_armed: "contains ''STATUS=ARMED'' (''STATUS=ARMED_TEMPORARY'' @ [])"
  by code_simp

theorem resume_leaves_shield_armed_witness:
  "\<exists>r'. runner_main armed_env resume_args 0 = (Inr 1, r') \<and> r_started r' = [shield_argv armed_env [''--status''] True]"
proof -
  have a: "\<not> ra_status resume_args" "ra_resume resume_args = Some ''s1''" "''s1'' \<noteq> []" "\<not> ra_execute resume_args"
    by (simp_all add: resume_args_def)
  have j: "journal_load (env_files armed_env 0 (journal_path ''s1'')) = Inr [JStr ''SHIELD_ARM'']"
    by (simp add: armed_env_def journal_line_loaded)
  have h: "[JStr ''SHIELD_ARM''] \<noteq> []" "list_all hashable [JStr ''SHIELD_ARM'']" "JStr ''RUNNER_DONE'' \<notin> set [JStr ''SHIELD_ARM'']"
    by (simp_all add: hashable_def)
  have x: "env_exec armed_env (shield_argv armed_env [''--status''] True) None 0 = (Inr (0, ''STATUS=ARMED_TEMPORARY'', []), 0)"
    by (simp add: armed_env_def sample_env_def)
  from resume_leaves_shield_armed [OF a j h x sample_armed] show ?thesis by blast
qed

end
