(* ===== verification/Serial_Oracle.thy ===== *)
theory Serial_Oracle
  imports Gate
begin

text \<open>
  The serial marker oracle (\<^verbatim>\<open>scripts/macos/bootmux-serial-marker-oracle.py\<close>): a captured firmware log
  is clean when it has the markers its profile requires and none of the panic markers, which are
  searched without regard to case.
\<close>

section \<open>Definitions\<close>

definition SAFE_REQUIRED :: "string list" where
  "SAFE_REQUIRED = [''BOOTMUX_USB_NETWORK_SAFE_OFF'']"

definition EXPERIMENTAL_REQUIRED :: "string list" where
  "EXPERIMENTAL_REQUIRED =
     [''BOOTMUX_USB_NETIF_DOWN_AT_BOOT_EXPERIMENTAL'', ''BOOTMUX_USB_NETWORK_NO_DHCP_NO_DEFAULT_ROUTE'']"

definition PANIC_MARKERS :: "string list" where
  "PANIC_MARKERS =
     [''guru meditation error'', ''panic'', ''watchdog'', ''brownout'', ''abort()'', ''backtrace:'',
      ''core  0 panic'', ''core  1 panic'']"

record serial_report =
  sr_profile :: string
  sr_required_markers :: "bool dict"
  sr_missing_required :: "string list"
  sr_panic_markers_found :: "string list"
  sr_verdict :: string

definition required_for :: "string \<Rightarrow> string list" where
  "required_for profile =
     (if profile = ''safe'' then SAFE_REQUIRED
      else if profile = ''experimental'' then EXPERIMENTAL_REQUIRED else [])"

definition check_serial_log :: "string \<Rightarrow> string \<Rightarrow> serial_report" where
  "check_serial_log txt profile =
     (let low = lower txt;
          found_required = dict_of (map (\<lambda>m. (m, contains m txt)) (required_for profile));
          missing_required = map fst (filter (\<lambda>kv. \<not> snd kv) found_required);
          panic_found = filter (\<lambda>m. contains m low) PANIC_MARKERS
      in \<lparr>sr_profile = profile, sr_required_markers = found_required,
          sr_missing_required = missing_required, sr_panic_markers_found = panic_found,
          sr_verdict = (if missing_required \<noteq> [] then ''MISSING_REQUIRED_MARKERS''
                        else if panic_found \<noteq> [] then ''PANIC_DETECTED'' else ''CLEAN'')\<rparr>)"

text \<open>\<^verbatim>\<open>check FILE\<close>: the text of the file, or nothing when it cannot be read; the exit code.\<close>

definition serial_cmd_check :: "string option \<Rightarrow> string \<Rightarrow> int" where
  "serial_cmd_check file profile =
     (case file of
        None \<Rightarrow> 2
      | Some txt \<Rightarrow> if sr_verdict (check_serial_log txt profile) = ''CLEAN'' then 0 else 1)"

section \<open>Self test\<close>

definition FIXTURE_SAFE_CLEAN :: string where
  "FIXTURE_SAFE_CLEAN = join [char_of (10 :: nat)]
     ['''',
      ''I (312) main_task: Started on CPU0'',
      ''I (312) BOOTMUX: USB descriptors loaded'',
      ''I (313) BOOTMUX: BOOTMUX_USB_NETWORK_SAFE_OFF'',
      ''I (314) main_task: Calling app_main()'',
      '''']"

definition FIXTURE_SAFE_PANIC :: string where
  "FIXTURE_SAFE_PANIC = join [char_of (10 :: nat)]
     ['''',
      ''I (312) BOOTMUX: BOOTMUX_USB_NETWORK_SAFE_OFF'',
      ''Guru Meditation Error: Core  0 panic'' @ [char_of (39 :: nat)] @ ''ed (LoadProhibited)'',
      ''Backtrace: 0x400d1234:0x3ffb5678'',
      '''']"

definition FIXTURE_SAFE_MISSING :: string where
  "FIXTURE_SAFE_MISSING = join [char_of (10 :: nat)]
     ['''',
      ''I (312) main_task: Started on CPU0'',
      ''I (313) BOOTMUX: USB descriptors loaded'',
      '''']"

definition FIXTURE_EXP_CLEAN :: string where
  "FIXTURE_EXP_CLEAN = join [char_of (10 :: nat)]
     ['''',
      ''I (312) BOOTMUX: BOOTMUX_USB_NETIF_DOWN_AT_BOOT_EXPERIMENTAL'',
      ''I (313) BOOTMUX: BOOTMUX_USB_NETWORK_NO_DHCP_NO_DEFAULT_ROUTE'',
      ''I (314) main_task: Calling app_main()'',
      '''']"

text \<open>The names and outcomes of the built-in checks; the exit code.\<close>

definition serial_selftest :: "bool dict" where
  "serial_selftest =
     (let r1 = check_serial_log FIXTURE_SAFE_CLEAN ''safe'';
          r2 = check_serial_log FIXTURE_SAFE_PANIC ''safe'';
          r3 = check_serial_log FIXTURE_SAFE_MISSING ''safe'';
          r4 = check_serial_log FIXTURE_EXP_CLEAN ''experimental''
      in [(''safe clean -> CLEAN'', sr_verdict r1 = ''CLEAN''),
          (''safe panic -> PANIC_DETECTED'', sr_verdict r2 = ''PANIC_DETECTED''),
          (''safe panic markers found'', length (sr_panic_markers_found r2) \<ge> 2),
          (''safe missing -> MISSING_REQUIRED_MARKERS'', sr_verdict r3 = ''MISSING_REQUIRED_MARKERS''),
          (''exp clean -> CLEAN'', sr_verdict r4 = ''CLEAN'')])"

definition serial_selftest_code :: int where
  "serial_selftest_code = (if list_all snd serial_selftest then 0 else 1)"

section \<open>The oracle as a gate\<close>

definition serial_checks :: "string \<times> string \<Rightarrow> bool dict" where
  "serial_checks x =
     map (\<lambda>m. (m, contains m (fst x))) (required_for (snd x))
     @ map (\<lambda>m. (m, \<not> contains m (lower (fst x)))) PANIC_MARKERS"

lemma distinct_required: "distinct (required_for profile)"
  by (simp add: required_for_def SAFE_REQUIRED_def EXPERIMENTAL_REQUIRED_def)

lemma found_required: "dict_of (map (\<lambda>m. (m, f m)) (required_for p)) = map (\<lambda>m. (m, f m)) (required_for p)"
  by (rule dict_of_id) (simp add: o_def distinct_required)

lemma verdict_clean_iff:
  "sr_verdict (check_serial_log txt profile) = ''CLEAN'' \<longleftrightarrow> list_all snd (serial_checks (txt, profile))"
  by (auto simp: check_serial_log_def Let_def found_required serial_checks_def list_all_iff filter_empty_conv ball_Un)

interpretation serial: gate serial_checks "\<lambda>x. sr_verdict (check_serial_log (fst x) (snd x)) = ''CLEAN''"
  by unfold_locales (simp add: verdict_clean_iff)

section \<open>Properties\<close>

text \<open>
  The serial verdict: a log is CLEAN for a profile exactly when every marker the profile requires
  occurs in it and no panic marker occurs in it in any mixture of cases.
\<close>

lemma serial_clean_iff:
  "sr_verdict (check_serial_log txt profile) = ''CLEAN'' \<longleftrightarrow>
     list_all (\<lambda>m. contains m txt) (required_for profile)
     \<and> list_all (\<lambda>m. \<not> contains m (lower txt)) PANIC_MARKERS"
  by (simp add: verdict_clean_iff serial_checks_def list_all_iff ball_Un)

text \<open>
  C38. A panic cannot be missed: text around it and its spelling in upper or lower case do not matter,
  and the command line check of such a log never exits with 0.
\<close>

theorem serial_panic_detected:
  assumes "lower m \<in> set PANIC_MARKERS"
  shows "sr_verdict (check_serial_log (before @ m @ after) profile) \<noteq> ''CLEAN''
       \<and> serial_cmd_check (Some (before @ m @ after)) profile = 1"
proof -
  have "contains (lower m) (lower (before @ m @ after))"
    by (intro contains_lower contains_appendI contains_refl)
  with assms have "(lower m, False) \<in> set (serial_checks (before @ m @ after, profile))"
    unfolding serial_checks_def by force
  from serial.blocked [OF this] show ?thesis by (simp add: serial_cmd_check_def)
qed

theorem serial_panic_detected_witness:
  "lower ''BackTrace:'' \<in> set PANIC_MARKERS \<and>
   sr_verdict (check_serial_log (''x '' @ ''BackTrace:'' @ '' 0x40'') ''safe'') \<noteq> ''CLEAN''"
proof -
  have "lower ''BackTrace:'' \<in> set PANIC_MARKERS" by code_simp
  with serial_panic_detected [OF this, of "''x ''" "'' 0x40''" "''safe''"] show ?thesis by blast
qed

text \<open>
  The serial oracle passes its own self test: its four captured logs get the verdicts CLEAN,
  PANIC_DETECTED, MISSING_REQUIRED_MARKERS and CLEAN.
\<close>

lemma serial_selftest_passes: "serial_selftest_code = 0"
  by code_simp

end
