(* ===== verification/Usb_Oracle.thy ===== *)
theory Usb_Oracle
  imports Gate Regex
begin

text \<open>
  The USB identity oracle (\<^verbatim>\<open>scripts/macos/bootmux-usb-identity-oracle.py\<close>): parsing what
  \<^verbatim>\<open>system_profiler SPUSBDataType\<close> prints into devices, and deciding whether the BOOTMUX device is the
  safe HID-only one.
\<close>

section \<open>Definitions\<close>

definition SAFE_PRODUCT :: string where "SAFE_PRODUCT = ''BOOTMUX Keyboard Safe''"
definition SAFE_SERIAL :: string where "SAFE_SERIAL = ''BOOTMUX-HID-SAFE''"

definition NETWORK_CLASS_MARKERS :: "string list" where
  "NETWORK_CLASS_MARKERS =
     [''ncm'', ''ecm'', ''rndis'', ''cdc-ethernet'', ''cdc ethernet'', ''usb ethernet'', ''ethernet'', ''network'', ''eem'']"

definition HID_MARKERS :: "string list" where
  "HID_MARKERS = [''hid'', ''keyboard'', ''human interface'']"

record usb_entry =
  ue_name :: string
  ue_fields :: "string dict"

text \<open>One line of the listing: the finished devices and the one being read.\<close>

definition usb_line :: "usb_entry list \<times> usb_entry option \<Rightarrow> string \<Rightarrow> usb_entry list \<times> usb_entry option" where
  "usb_line acc raw =
     (let stripped = strip (rstrip raw) in
      if stripped = [] then acc
      else case match1 [Group [Lazy 1 not_newline], Lit '':'', Rep 0 is_space, End] stripped of
        Some name \<Rightarrow>
          (fst acc @ (case snd acc of None \<Rightarrow> [] | Some c \<Rightarrow> [c]),
           Some \<lparr>ue_name = strip name, ue_fields = []\<rparr>)
      | None \<Rightarrow>
          (case (re_match [Group [Lazy 1 not_newline], Lit '':'', Rep 1 is_space, Group [Rep 0 not_newline], End] stripped,
                 snd acc) of
             (Some gs, Some c) \<Rightarrow>
               (fst acc, Some (c\<lparr>ue_fields := AList.update (strip (gs ! 0)) (strip (gs ! 1)) (ue_fields c)\<rparr>))
           | _ \<Rightarrow> acc))"

definition parse_usb_devices :: "string \<Rightarrow> usb_entry list" where
  "parse_usb_devices txt =
     (case foldl usb_line ([], None) (splitlines txt) of
        (ds, cur) \<Rightarrow> ds @ (case cur of None \<Rightarrow> [] | Some c \<Rightarrow> [c]))"

record usb_verdict =
  uv_present :: bool
  uv_product_is_safe :: "bool option"
  uv_serial_is_safe :: "bool option"
  uv_hid_present :: "bool option"
  uv_network_class_absent :: "bool option"
  uv_network_markers_found :: "string list"
  uv_verdict :: string

definition is_bootmux_entry :: "usb_entry \<Rightarrow> bool" where
  "is_bootmux_entry d =
     (contains ''bootmux'' (lower (ue_name d))
      \<or> contains ''bootmux'' (lower (dict_get (ue_fields d) ''Product ID'' []))
      \<or> contains (lower SAFE_PRODUCT) (lower (dict_get (ue_fields d) ''Product'' []))
      \<or> contains (lower SAFE_PRODUCT) (lower (ue_name d)))"

definition usb_blob :: "usb_entry \<Rightarrow> string" where
  "usb_blob d =
     lower (join '' '' (map (\<lambda>kv. fst kv @ '' '' @ snd kv) (ue_fields d))) @ '' '' @ lower (ue_name d)"

definition product_safe :: "usb_entry \<Rightarrow> bool" where
  "product_safe d = (strip (dict_get (ue_fields d) ''Product'' (ue_name d)) = SAFE_PRODUCT)"

definition network_markers :: "usb_entry \<Rightarrow> string list" where
  "network_markers d = filter (\<lambda>m. contains m (usb_blob d)) NETWORK_CLASS_MARKERS"

definition hid_marked :: "usb_entry \<Rightarrow> bool" where
  "hid_marked d = list_ex (\<lambda>m. contains m (usb_blob d)) HID_MARKERS"

definition classify_bootmux :: "usb_entry list \<Rightarrow> usb_verdict" where
  "classify_bootmux devices =
     (case filter is_bootmux_entry devices of
        [] \<Rightarrow>
          \<lparr>uv_present = False, uv_product_is_safe = None, uv_serial_is_safe = None, uv_hid_present = None,
           uv_network_class_absent = None, uv_network_markers_found = [], uv_verdict = ''NO_BOOTMUX_DEVICE''\<rparr>
      | dev # _ \<Rightarrow>
          (let serial = dict_get (ue_fields dev) ''Serial Number'' [];
               product_is_safe = product_safe dev;
               serial_is_safe = (if serial \<noteq> [] then Some (strip serial = SAFE_SERIAL) else None);
               hid_present = hid_marked dev;
               found = network_markers dev
           in \<lparr>uv_present = True, uv_product_is_safe = Some product_is_safe,
               uv_serial_is_safe = serial_is_safe, uv_hid_present = Some hid_present,
               uv_network_class_absent = Some (length found = 0), uv_network_markers_found = found,
               uv_verdict =
                 (if product_is_safe \<and> hid_present \<and> length found = 0 then ''SAFE_HID_ONLY''
                  else if found \<noteq> [] then ''NETWORK_CLASS_PRESENT''
                  else if \<not> product_is_safe then ''UNSAFE_PRODUCT''
                  else ''AMBIGUOUS'')\<rparr>))"

text \<open>\<^verbatim>\<open>live\<close>: the return code and output of \<^verbatim>\<open>system_profiler\<close>; the exit code.\<close>

definition usb_live :: "int \<Rightarrow> string \<Rightarrow> int" where
  "usb_live returncode stdout =
     (if returncode \<noteq> 0 then 2
      else if uv_verdict (classify_bootmux (parse_usb_devices stdout)) \<in> {''SAFE_HID_ONLY'', ''NO_BOOTMUX_DEVICE''}
      then 0 else 1)"

section \<open>The oracle as a gate\<close>

text \<open>The checks on the first BOOTMUX device of the list; without one the check that one is present fails.\<close>

definition usb_checks :: "usb_entry list \<Rightarrow> bool dict" where
  "usb_checks devices =
     (case filter is_bootmux_entry devices of
        [] \<Rightarrow> [(''present'', False)]
      | dev # _ \<Rightarrow> [(''present'', True), (''product'', product_safe dev), (''hid'', hid_marked dev)]
                   @ map (\<lambda>m. (m, \<not> contains m (usb_blob dev))) NETWORK_CLASS_MARKERS)"

lemma safe_hid_only_checks:
  "uv_verdict (classify_bootmux devices) = ''SAFE_HID_ONLY'' \<longleftrightarrow> list_all snd (usb_checks devices)"
  by (auto simp: classify_bootmux_def usb_checks_def Let_def network_markers_def filter_empty_conv list_all_iff
      split: list.split)

interpretation usb: gate usb_checks "\<lambda>ds. uv_verdict (classify_bootmux ds) = ''SAFE_HID_ONLY''"
  by unfold_locales (rule safe_hid_only_checks)

section \<open>Properties\<close>


text \<open>
  The serial number does not take part in the verdict: a device with a foreign serial number is
  reported as SAFE_HID_ONLY although the report itself says that the serial is not the safe one.
\<close>

lemma foreign_serial_accepted:
  "let v = classify_bootmux (parse_usb_devices (join [char_of (10 :: nat)]
       [''USB:'', ''  BOOTMUX Keyboard Safe:'', ''    Serial Number: SOMETHING-ELSE'', ''    Product: BOOTMUX Keyboard Safe'']))
   in uv_verdict v = ''SAFE_HID_ONLY'' \<and> uv_serial_is_safe v = Some False"
  by code_simp

end
