(* ===== verification/Shield_Host.thy ===== *)
theory Shield_Host
  imports Action Regex Paths Sha256
begin

text \<open>
  The host interface of the attach shield (\<^verbatim>\<open>scripts/macos/bootmux-attach-shield.py\<close>): its constants,
  redaction, the operations of \<^verbatim>\<open>class Host\<close> as a record of functions over a state of the machine, the two
  implementations \<^verbatim>\<open>SystemHost\<close> and \<^verbatim>\<open>FakeHost\<close>, and the actions with which the shield uses them. What a program
  of the system prints and changes is a parameter (\<open>mo_exec\<close>). The state of a run keeps the printed lines and the
  list of commands, which the properties speak about. The locale \<open>file_host\<close> is the contract of the files.
\<close>

section \<open>Constants\<close>

definition PF_ANCHOR :: string where "PF_ANCHOR = ''com.bootmux.attach-shield''"
definition STATE_DIR :: path where "STATE_DIR = [''var'', ''db'', ''bootmux-shield'']"
definition STATE_FILE :: string where "STATE_FILE = pstr (STATE_DIR @ [''shield-state.json''])"
definition SESSION_DIR :: path where "SESSION_DIR = STATE_DIR @ [''sessions'']"
definition LAUNCHD_LABEL :: string where "LAUNCHD_LABEL = ''com.bootmux.attach-shield''"
definition LAUNCHD_PLIST :: string where "LAUNCHD_PLIST = ''/Library/LaunchDaemons/'' @ LAUNCHD_LABEL @ ''.plist''"
definition INSTALL_DIR :: path where "INSTALL_DIR = [''usr'', ''local'', ''bootmux'', ''scripts'', ''macos'']"
definition INSTALLED_SHIELD :: string where "INSTALLED_SHIELD = pstr (INSTALL_DIR @ [''bootmux-attach-shield.py''])"
definition WATCHDOG_INTERVAL_S :: rat where "WATCHDOG_INTERVAL_S = 1 / 4"
definition BOOTMUX_PRODUCT_HINTS :: "string list" where "BOOTMUX_PRODUCT_HINTS = [''bootmux'', ''ncm'', ''ecm'', ''rndis'']"
definition BOOTMUX_SUBNET :: string where "BOOTMUX_SUBNET = ''10.77.0.0/24''"
definition SPLIT_ROUTES_V4 :: "string list" where "SPLIT_ROUTES_V4 = [''0.0.0.0/1'', ''128.0.0.0/1'']"
definition SPLIT_ROUTES_V6 :: "string list" where "SPLIT_ROUTES_V6 = [''::/1'', ''8000::/1'']"
definition REDACTED :: string where "REDACTED = ''<redacted>''"
definition MAX_LOG_BYTES :: nat where "MAX_LOG_BYTES = 10 * 1024 * 1024"
definition DEFAULT_TTL_S :: int where "DEFAULT_TTL_S = 1800"
definition MAX_TTL_S :: int where "MAX_TTL_S = 7200"
definition MIN_TTL_S :: int where "MIN_TTL_S = 60"
definition SHIELD_LOCATION_PREFIX :: string where "SHIELD_LOCATION_PREFIX = ''BOOTMUX-SHIELD-''"

text \<open>\<^verbatim>\<open>str(SESSION_DIR / session_id)\<close> and a file in it.\<close>

definition session_dir :: "string \<Rightarrow> string" where "session_dir sid = pstr (path_join SESSION_DIR sid)"

definition session_file :: "string \<Rightarrow> string \<Rightarrow> string" where
  "session_file sid name = pstr (path_join (path_join SESSION_DIR sid) name)"

section \<open>Redaction\<close>

text \<open>
  A pattern as a function of the preceding character and the text from a position on: the length of the match that
  starts there, if any. \<^verbatim>\<open>_MAC_RE\<close> has one length; in \<^verbatim>\<open>_IP_RE\<close> a run of digits is followed by a dot or, at the end,
  by a word boundary, so that only the whole run can match.
\<close>

type_synonym pattern = "char option \<Rightarrow> string \<Rightarrow> nat option"

definition MAC_CLASSES :: "(char \<Rightarrow> bool) list" where
  "MAC_CLASSES =
     concat (replicate 5 [is_hex, is_hex, \<lambda>c. c = CHR '':'' \<or> c = CHR ''-'']) @ [is_hex, is_hex]"

definition mac_at :: pattern where
  "mac_at before s =
     (if 17 \<le> length s \<and> list_all (\<lambda>(p, c). p c) (zip MAC_CLASSES s) then Some 17 else None)"

text \<open>One to three digits: their number.\<close>

definition octet_run :: "string \<Rightarrow> nat option" where
  "octet_run s = (let n = length (takeWhile is_digit s) in if 1 \<le> n \<and> n \<le> 3 then Some n else None)"

fun octets_at :: "nat \<Rightarrow> string \<Rightarrow> nat option" where
  "octets_at 0 s =
     (case octet_run s of
        None \<Rightarrow> None
      | Some n \<Rightarrow> (case drop n s of c # _ \<Rightarrow> if is_word c then None else Some n | [] \<Rightarrow> Some n))"
| "octets_at (Suc k) s =
     (case octet_run s of
        None \<Rightarrow> None
      | Some n \<Rightarrow> if prefix ''.'' (drop n s) then map_option (\<lambda>m. n + 1 + m) (octets_at k (drop (n + 1) s)) else None)"

definition ip_at :: pattern where
  "ip_at before s = (case before of Some c \<Rightarrow> if is_word c then None else octets_at 3 s | None \<Rightarrow> octets_at 3 s)"

definition user_path_at :: pattern where
  "user_path_at before s =
     (let n = length (takeWhile (\<lambda>c. c \<noteq> CHR ''/'' \<and> \<not> is_space c) (drop 7 s))
      in if prefix ''/Users/'' s \<and> 1 \<le> n then Some (7 + n) else None)"

text \<open>\<^verbatim>\<open>pattern.sub(REDACTED, s)\<close>: matches from left to right that do not overlap.\<close>

function sub_all :: "pattern \<Rightarrow> string \<Rightarrow> char option \<Rightarrow> string \<Rightarrow> string" where
  "sub_all pat new before [] = []"
| "sub_all pat new before (c # s) =
     (case pat before (c # s) of
        Some n \<Rightarrow> if n = 0 then c # sub_all pat new (Some c) s
                  else new @ sub_all pat new (Some (last (take n (c # s)))) (drop n (c # s))
      | None \<Rightarrow> c # sub_all pat new (Some c) s)"
  by pat_completeness auto
termination by (relation "measure (\<lambda>(_, _, _, s). length s)") auto

definition redact :: "string \<Rightarrow> string" where
  "redact text0 =
     (let t1 = sub_all mac_at REDACTED None text0;
          t2 = sub_all ip_at REDACTED None t1
      in sub_all user_path_at REDACTED None t2)"

text \<open>\<^verbatim>\<open>s.encode()\<close>\<close>

definition utf8_bytes :: "string \<Rightarrow> string" where
  "utf8_bytes s =
     concat (map (\<lambda>c. if code c < 128 then [c] else [char_of (192 + code c div 64), char_of (128 + code c mod 64)]) s)"

definition ssid_digest :: "string \<Rightarrow> string" where
  "ssid_digest ssid = take 16 (sha256_hex (utf8_bytes ssid))"

section \<open>Hosts\<close>

record cmd_result =
  cr_cmd :: "string list"
  cr_exit_code :: int
  cr_stdout :: string
  cr_stderr :: string

text \<open>
  What the program uses of the process besides the host: the clock, sleeping, a fresh identifier, \<^verbatim>\<open>os.rmdir\<close>
  (whose \<^verbatim>\<open>OSError\<close> is ignored) and whether a stop signal has arrived.
\<close>

record 's services =
  sv_time :: "'s \<Rightarrow> rat"
  sv_sleep :: "rat \<Rightarrow> 's \<Rightarrow> 's"
  sv_uuid :: "'s \<Rightarrow> string"
  sv_rmdir :: "string \<Rightarrow> 's \<Rightarrow> 's"
  sv_signalled :: "'s \<Rightarrow> bool"

record 's host =
  h_services :: "'s services"
  h_run :: "string list \<Rightarrow> 's \<Rightarrow> cmd_result result \<times> 's"
  h_read_file :: "string \<Rightarrow> 's \<Rightarrow> string option"
  h_write_file :: "string \<Rightarrow> string \<Rightarrow> nat \<Rightarrow> 's \<Rightarrow> unit result \<times> 's"
  h_mkdir_p :: "string \<Rightarrow> nat \<Rightarrow> 's \<Rightarrow> unit result \<times> 's"
  h_path_exists :: "string \<Rightarrow> 's \<Rightarrow> bool"
  h_remove_file :: "string \<Rightarrow> 's \<Rightarrow> 's"
  h_remove_dir :: "string \<Rightarrow> 's \<Rightarrow> 's"
  h_list_dir :: "string \<Rightarrow> 's \<Rightarrow> string list"

definition MODE_600 :: nat where "MODE_600 = 384"
definition MODE_700 :: nat where "MODE_700 = 448"

text \<open>The first component below a directory, of the paths under it.\<close>

definition entries_below :: "string \<Rightarrow> string list \<Rightarrow> string list" where
  "entries_below dir paths =
     sort (remdups (map (\<lambda>k. takeWhile (\<lambda>c. c \<noteq> CHR ''/'') (drop (length dir) k)) (filter (prefix dir) paths)))"

subsection \<open>FakeHost\<close>

record fake =
  fk_commands :: "string list list"
  fk_responses :: "cmd_result dict"
  fk_files :: "string dict"
  fk_dirs :: "string list"
  fk_clock :: rat \<comment> \<open>the wall clock, which the class does not replace\<close>

definition fake_new :: "rat \<Rightarrow> fake" where
  "fake_new t = \<lparr>fk_commands = [], fk_responses = [], fk_files = [], fk_dirs = [], fk_clock = t\<rparr>"

definition set_response :: "string \<Rightarrow> string \<Rightarrow> int \<Rightarrow> fake \<Rightarrow> fake" where
  "set_response cmd_prefix out rc s =
     s\<lparr>fk_responses := AList.update cmd_prefix
         \<lparr>cr_cmd = split_ws cmd_prefix, cr_exit_code = rc, cr_stdout = out, cr_stderr = []\<rparr> (fk_responses s)\<rparr>"

definition fake_response :: "string list \<Rightarrow> fake \<Rightarrow> cmd_result" where
  "fake_response cmd s =
     (let key = join '' '' cmd in
      case map_of (fk_responses s) key of
        Some r \<Rightarrow> r
      | None \<Rightarrow> (case find (\<lambda>kr. prefix (fst kr) key) (fk_responses s) of
                   Some kr \<Rightarrow> snd kr
                 | None \<Rightarrow> \<lparr>cr_cmd = cmd, cr_exit_code = 0, cr_stdout = [], cr_stderr = []\<rparr>))"

definition fake_run :: "string list \<Rightarrow> fake \<Rightarrow> cmd_result result \<times> fake" where
  "fake_run cmd s = (Inr (fake_response cmd s), s\<lparr>fk_commands := fk_commands s @ [cmd]\<rparr>)"

definition fake_write_file :: "string \<Rightarrow> string \<Rightarrow> nat \<Rightarrow> fake \<Rightarrow> unit result \<times> fake" where
  "fake_write_file path content mode s = (Inr (), s\<lparr>fk_files := AList.update path content (fk_files s)\<rparr>)"

definition fake_mkdir_p :: "string \<Rightarrow> nat \<Rightarrow> fake \<Rightarrow> unit result \<times> fake" where
  "fake_mkdir_p path mode s = (Inr (), s\<lparr>fk_dirs := List.insert path (fk_dirs s)\<rparr>)"

definition fake_path_exists :: "string \<Rightarrow> fake \<Rightarrow> bool" where
  "fake_path_exists path s = (map_of (fk_files s) path \<noteq> None \<or> path \<in> set (fk_dirs s))"

definition fake_remove_file :: "string \<Rightarrow> fake \<Rightarrow> fake" where
  "fake_remove_file path s = s\<lparr>fk_files := AList.delete path (fk_files s)\<rparr>"

definition fake_remove_dir :: "string \<Rightarrow> fake \<Rightarrow> fake" where
  "fake_remove_dir path s =
     s\<lparr>fk_dirs := removeAll path (fk_dirs s), fk_files := filter (\<lambda>kv. \<not> prefix (path @ ''/'') (fst kv)) (fk_files s)\<rparr>"

definition fake_list_dir :: "string \<Rightarrow> fake \<Rightarrow> string list" where
  "fake_list_dir path s =
     entries_below (rev (dropWhile (\<lambda>c. c = CHR ''/'') (rev path)) @ ''/'') (map fst (fk_files s) @ fk_dirs s)"

definition fake_host :: "fake services \<Rightarrow> fake host" where
  "fake_host sv =
     \<lparr>h_services = sv, h_run = fake_run, h_read_file = (\<lambda>p s. map_of (fk_files s) p),
      h_write_file = fake_write_file, h_mkdir_p = fake_mkdir_p, h_path_exists = fake_path_exists,
      h_remove_file = fake_remove_file, h_remove_dir = fake_remove_dir, h_list_dir = fake_list_dir\<rparr>"

subsection \<open>SystemHost\<close>

text \<open>How a started program ends; the last case is an exception that \<^verbatim>\<open>run\<close> does not catch.\<close>

datatype proc_end = ProcExit int string string | ProcTimeout | ProcMissing | ProcRaises exn

text \<open>
  The machine: started programs change the world; files and directories are those of the shield, with their modes.
  \<open>mo_denied\<close> tells on which paths the operating system refuses access (\<^verbatim>\<open>OSError\<close>).
\<close>

record 'w mac_os =
  mo_exec :: "string list \<Rightarrow> 'w \<Rightarrow> proc_end \<times> 'w"
  mo_denied :: "string \<Rightarrow> bool"

record 'w sysd =
  sd_files :: "(string \<times> nat) dict"
  sd_dirs :: "nat dict"
  sd_world :: 'w

definition sys_run :: "'w mac_os \<Rightarrow> string list \<Rightarrow> 'w sysd \<Rightarrow> cmd_result result \<times> 'w sysd" where
  "sys_run os cmd s =
     (case mo_exec os cmd (sd_world s) of
        (p, w) \<Rightarrow>
          (case p of
             ProcExit rc out err \<Rightarrow> Inr \<lparr>cr_cmd = cmd, cr_exit_code = rc, cr_stdout = out, cr_stderr = err\<rparr>
           | ProcTimeout \<Rightarrow> Inr \<lparr>cr_cmd = cmd, cr_exit_code = 124, cr_stdout = [], cr_stderr = ''timeout''\<rparr>
           | ProcMissing \<Rightarrow> Inr \<lparr>cr_cmd = cmd, cr_exit_code = 127, cr_stdout = [], cr_stderr = ''not found: '' @ hd cmd\<rparr>
           | ProcRaises e \<Rightarrow> Inl e,
           s\<lparr>sd_world := w\<rparr>))"

definition sys_read_file :: "'w mac_os \<Rightarrow> string \<Rightarrow> 'w sysd \<Rightarrow> string option" where
  "sys_read_file os path s =
     (if mo_denied os path then None else map_option fst (map_of (sd_files s) path))"

text \<open>The directories above a path.\<close>

definition ancestors :: "string \<Rightarrow> string list" where
  "ancestors path = map (\<lambda>i. take i path) (filter (\<lambda>i. path ! i = CHR ''/'') [1..<length path])"

definition MODE_755 :: nat where "MODE_755 = 493"

text \<open>\<^verbatim>\<open>mkdir(parents=True, exist_ok=True)\<close>: directories that exist keep their mode.\<close>

definition make_dirs :: "string list \<Rightarrow> nat dict \<Rightarrow> nat dict" where
  "make_dirs ds dirs = fold (\<lambda>d ds. if map_of ds d = None then ds @ [(d, MODE_755)] else ds) ds dirs"

text \<open>\<^verbatim>\<open>p.with_suffix('.tmp')\<close>: the suffix starts at the last dot of the name unless that is its first or last character.\<close>

definition with_suffix_tmp :: "string \<Rightarrow> string" where
  "with_suffix_tmp path =
     (let name = basename path;
          ext = takeWhile (\<lambda>c. c \<noteq> CHR ''.'') (rev name);
          cut = (if CHR ''.'' \<in> set name \<and> ext \<noteq> [] \<and> length ext + 1 < length name then length ext + 1 else 0)
      in take (length path - cut) path @ ''.tmp'')"

definition sys_write_file :: "'w mac_os \<Rightarrow> string \<Rightarrow> string \<Rightarrow> nat \<Rightarrow> 'w sysd \<Rightarrow> unit result \<times> 'w sysd" where
  "sys_write_file os path content mode s =
     (let tmp = with_suffix_tmp path; s' = s\<lparr>sd_dirs := make_dirs (ancestors path) (sd_dirs s)\<rparr> in
      if mo_denied os path then (Inl (OSError path), s)
      else if mo_denied os tmp then (Inl (OSError tmp), s')
      else (Inr (), s'\<lparr>sd_files := AList.update path (content, mode) (AList.delete tmp (sd_files s))\<rparr>))"

definition sys_mkdir_p :: "'w mac_os \<Rightarrow> string \<Rightarrow> nat \<Rightarrow> 'w sysd \<Rightarrow> unit result \<times> 'w sysd" where
  "sys_mkdir_p os path mode s =
     (if mo_denied os path \<or> map_of (sd_files s) path \<noteq> None then (Inl (OSError path), s)
      else (Inr (), s\<lparr>sd_dirs := AList.update path mode (make_dirs (ancestors path) (sd_dirs s))\<rparr>))"

definition sys_path_exists :: "'w mac_os \<Rightarrow> string \<Rightarrow> 'w sysd \<Rightarrow> bool" where
  "sys_path_exists os path s =
     (\<not> mo_denied os path \<and> (map_of (sd_files s) path \<noteq> None \<or> map_of (sd_dirs s) path \<noteq> None))"

definition sys_remove_file :: "'w mac_os \<Rightarrow> string \<Rightarrow> 'w sysd \<Rightarrow> 'w sysd" where
  "sys_remove_file os path s =
     (if mo_denied os path then s else s\<lparr>sd_files := AList.delete path (sd_files s)\<rparr>)"

definition sys_remove_dir :: "'w mac_os \<Rightarrow> string \<Rightarrow> 'w sysd \<Rightarrow> 'w sysd" where
  "sys_remove_dir os path s =
     (let gone = (\<lambda>p. (p = path \<or> prefix (path @ ''/'') p) \<and> \<not> mo_denied os p) in
      if map_of (sd_dirs s) path = None then s
      else s\<lparr>sd_files := filter (\<lambda>kv. \<not> gone (fst kv)) (sd_files s), sd_dirs := filter (\<lambda>kv. \<not> gone (fst kv)) (sd_dirs s)\<rparr>)"

definition sys_list_dir :: "'w mac_os \<Rightarrow> string \<Rightarrow> 'w sysd \<Rightarrow> string list" where
  "sys_list_dir os path s =
     (if map_of (sd_dirs s) path = None \<or> mo_denied os path then []
      else entries_below (path @ ''/'') (map fst (sd_files s) @ map fst (sd_dirs s)))"

definition system_host :: "'w mac_os \<Rightarrow> 'w sysd services \<Rightarrow> 'w sysd host" where
  "system_host os sv =
     \<lparr>h_services = sv, h_run = sys_run os, h_read_file = sys_read_file os, h_write_file = sys_write_file os,
      h_mkdir_p = sys_mkdir_p os, h_path_exists = sys_path_exists os, h_remove_file = sys_remove_file os,
      h_remove_dir = sys_remove_dir os, h_list_dir = sys_list_dir os\<rparr>"

section \<open>A run of the program\<close>

record 's prog =
  pg_host :: 's
  pg_out :: "string list" \<comment> \<open>printed lines\<close>
  pg_cmds :: "string list list" \<comment> \<open>commands run so far\<close>

type_synonym ('s, 'a) sh = "('s prog, 'a) act"

definition run_cmd :: "'s host \<Rightarrow> string list \<Rightarrow> ('s, cmd_result) sh" where
  "run_cmd h cmd p =
     (case h_run h cmd (pg_host p) of (r, s) \<Rightarrow> (r, p\<lparr>pg_host := s, pg_cmds := pg_cmds p @ [cmd]\<rparr>))"

definition read_file :: "'s host \<Rightarrow> string \<Rightarrow> ('s, string option) sh" where
  "read_file h path = gets (\<lambda>p. h_read_file h path (pg_host p))"

definition on_host :: "('s \<Rightarrow> 'a result \<times> 's) \<Rightarrow> ('s, 'a) sh" where
  "on_host f p = (case f (pg_host p) of (r, s) \<Rightarrow> (r, p\<lparr>pg_host := s\<rparr>))"

definition write_file :: "'s host \<Rightarrow> string \<Rightarrow> string \<Rightarrow> nat \<Rightarrow> ('s, unit) sh" where
  "write_file h path content mode = on_host (h_write_file h path content mode)"

definition mkdir_p :: "'s host \<Rightarrow> string \<Rightarrow> nat \<Rightarrow> ('s, unit) sh" where
  "mkdir_p h path mode = on_host (h_mkdir_p h path mode)"

definition host_do :: "('s \<Rightarrow> 's) \<Rightarrow> ('s, unit) sh" where
  "host_do f = modify (\<lambda>p. p\<lparr>pg_host := f (pg_host p)\<rparr>)"

definition time_now :: "'s host \<Rightarrow> ('s, rat) sh" where
  "time_now h = gets (\<lambda>p. sv_time (h_services h) (pg_host p))"

definition sleep :: "'s host \<Rightarrow> rat \<Rightarrow> ('s, unit) sh" where
  "sleep h t = host_do (sv_sleep (h_services h) t)"

definition print :: "string \<Rightarrow> ('s, unit) sh" where
  "print line = modify (\<lambda>p. p\<lparr>pg_out := pg_out p @ [line]\<rparr>)"

text \<open>A command whose result is not used.\<close>

definition exec :: "'s host \<Rightarrow> string list \<Rightarrow> ('s, unit) sh" where
  "exec h cmd = bindA (run_cmd h cmd) (\<lambda>_. ret ())"

section \<open>The contract of the files\<close>

text \<open>
  The files in \<open>own\<close> change only when they are written or removed: what was written is read back, writing another
  file or running a command leaves them alone.
\<close>

locale file_host =
  fixes h :: "'s host" and own :: "string \<Rightarrow> bool"
  assumes read_written: "own p \<Longrightarrow> h_write_file h p c m s = (Inr (), s') \<Longrightarrow>
      h_read_file h p s' = Some c"
    and read_other: "own q \<Longrightarrow> q \<noteq> p \<Longrightarrow> h_write_file h p c m s = (r, s') \<Longrightarrow> h_read_file h q s' = h_read_file h q s"
    and read_mkdir: "own q \<Longrightarrow> h_mkdir_p h p m s = (r, s') \<Longrightarrow> h_read_file h q s' = h_read_file h q s"
    and read_run: "own q \<Longrightarrow> h_run h av s = (x, s') \<Longrightarrow> h_read_file h q s' = h_read_file h q s"
    and exists_read: "own p \<Longrightarrow> h_read_file h p s \<noteq> None \<Longrightarrow> h_path_exists h p s"
    and read_removed: "own q \<Longrightarrow> q \<noteq> p \<Longrightarrow> h_read_file h q (h_remove_file h p s) = h_read_file h q s"

interpretation fake_files: file_host "fake_host sv" "\<lambda>_. True"
  by unfold_locales
     (auto simp: fake_host_def fake_write_file_def fake_mkdir_p_def fake_run_def fake_path_exists_def fake_remove_file_def
        update_conv' delete_conv')

lemma with_suffix_tmp_suffix: "suffix ''.tmp'' (with_suffix_tmp p)"
  by (simp add: with_suffix_tmp_def Let_def suffix_def)

interpretation system_files: file_host "system_host os sv" "\<lambda>p. \<not> suffix ''.tmp'' p"
proof
  fix p q c m s s' and r :: "unit result"
  assume q: "\<not> suffix ''.tmp'' q"
  then have tmp: "q \<noteq> with_suffix_tmp p" for p using with_suffix_tmp_suffix by metis
  show "h_write_file (system_host os sv) q c m s = (Inr (), s') \<Longrightarrow>
      h_read_file (system_host os sv) q s' = Some c"
    by (auto simp: system_host_def sys_write_file_def sys_read_file_def Let_def update_conv' split: if_splits)
  show "q \<noteq> p \<Longrightarrow> h_write_file (system_host os sv) p c m s = (r, s') \<Longrightarrow>
      h_read_file (system_host os sv) q s' = h_read_file (system_host os sv) q s"
    using tmp [of p]
    by (auto simp: system_host_def sys_write_file_def sys_read_file_def Let_def update_conv' delete_conv' split: if_splits)
qed (auto simp: system_host_def sys_mkdir_p_def sys_run_def sys_remove_file_def sys_read_file_def sys_path_exists_def delete_conv'
       split: if_splits prod.splits)

end
