(* ===== verification/Shield_Baseline.thy ===== *)
theory Shield_Baseline
  imports Shield_Host Json
begin

text \<open>
  Parsers of the attach shield for the output of \<^verbatim>\<open>networksetup\<close>, \<^verbatim>\<open>route\<close> and \<^verbatim>\<open>pfctl\<close>, the baseline of the network
  configuration, its capture and its JSON form. A stored document whose fields have other types than the shield writes
  is read as \<open>TypeError\<close>, the exception that the first use of such a field raises.
\<close>

section \<open>Parsers\<close>

text \<open>\<^verbatim>\<open>\((\d+|\*)\)\s+(.+)\<close>: the two alternatives of the marker exclude each other.\<close>

definition order_line :: "string \<Rightarrow> (string \<times> string) option" where
  "order_line line =
     (let rest = [Lit '')'', Rep 1 is_space, Group [Rep 1 not_newline]] in
      case re_match ([Lit ''('', Group [Rep 1 is_digit]] @ rest) line of
        Some gs \<Rightarrow> Some (gs ! 0, strip (gs ! 1))
      | None \<Rightarrow> map_option (\<lambda>gs. (gs ! 0, strip (gs ! 1))) (re_match ([Lit ''('', Group [Lit ''*'']] @ rest) line))"

definition parse_service_order :: "string \<Rightarrow> string list \<times> bool dict" where
  "parse_service_order txt =
     foldl (\<lambda>(order, enabled) line.
         case order_line line of
           Some (marker, name) \<Rightarrow> (order @ [name], AList.update name (marker \<noteq> ''*'') enabled)
         | None \<Rightarrow> (order, enabled))
       ([], []) (splitlines txt)"

text \<open>\<^verbatim>\<open>line.split(":", 1)[1].strip()\<close>\<close>

definition after_colon :: "string \<Rightarrow> string" where
  "after_colon line = strip (after_first (CHR '':'') line)"

definition parse_default_route :: "string \<Rightarrow> string \<times> string" where
  "parse_default_route txt =
     foldl (\<lambda>(gw, iface) line0. let line = strip line0 in
         if prefix ''gateway:'' line then (after_colon line, iface)
         else if prefix ''interface:'' line then (gw, after_colon line)
         else (gw, iface))
       ([], []) (splitlines txt)"

definition parse_interfaces :: "string \<Rightarrow> string dict" where
  "parse_interfaces txt =
     fst (foldl (\<lambda>(result, current_port) line0. let line = strip line0 in
         if prefix ''Hardware Port:'' line then (result, after_colon line)
         else if prefix ''Device:'' line \<and> current_port \<noteq> [] then (AList.update (after_colon line) current_port result, current_port)
         else (result, current_port))
       ([], []) (splitlines txt))"

definition parse_ipv4_info :: "string \<Rightarrow> string \<times> string dict option" where
  "parse_ipv4_info txt =
     foldl (\<lambda>(mode, manual) line. let stripped = strip line in
         if prefix ''DHCP Configuration:'' stripped then (''DHCP'', manual)
         else if prefix ''Manual Configuration:'' stripped then (''Manual'', Some [])
         else case manual of
           None \<Rightarrow> (mode, None)
         | Some m \<Rightarrow>
             if prefix ''IP address:'' stripped then (mode, Some (AList.update ''ip'' (after_colon stripped) m))
             else if prefix ''Subnet mask:'' stripped then (mode, Some (AList.update ''subnet'' (after_colon stripped) m))
             else if prefix ''Router:'' stripped then (mode, Some (AList.update ''router'' (after_colon stripped) m))
             else (mode, Some m))
       (''DHCP'', None) (splitlines txt)"

definition parse_ipv6_mode :: "string \<Rightarrow> string" where
  "parse_ipv6_mode txt =
     (case find (\<lambda>line. prefix ''IPv6:'' (strip line)) (splitlines txt) of
        Some line \<Rightarrow> after_colon (strip line)
      | None \<Rightarrow> ''Automatic'')"

text \<open>The two lists that \<^verbatim>\<open>networksetup\<close> prints one entry a line, with the text that says that none is set.\<close>

definition parse_listed :: "string \<Rightarrow> string \<Rightarrow> string list \<times> bool" where
  "parse_listed none_set txt =
     (if contains none_set txt \<or> contains (''There aren'' @ [CHR 0x27] @ ''t any'') txt then ([], True)
      else (map strip (filter (\<lambda>l. strip l \<noteq> [] \<and> \<not> prefix ''There'' l) (splitlines txt)), False))"

definition parse_dns_servers :: "string \<Rightarrow> string list \<times> bool" where
  "parse_dns_servers txt = parse_listed (''aren'' @ [CHR 0x27] @ ''t any DNS Servers set'') txt"

definition parse_search_domains :: "string \<Rightarrow> string list \<times> bool" where
  "parse_search_domains txt = parse_listed (''aren'' @ [CHR 0x27] @ ''t any Search Domains set'') txt"

definition is_virtual_service :: "string \<Rightarrow> bool" where
  "is_virtual_service name =
     list_ex (\<lambda>k. contains k (lower name))
       [''tailscale'', ''vpn'', ''utun'', ''loopback'', ''awdl'', ''bridge'', ''thunderbolt'']"

definition pf_is_enabled :: "'s host \<Rightarrow> ('s, bool) sh" where
  "pf_is_enabled h =
     bindA (run_cmd h [''pfctl'', ''-s'', ''info'']) (\<lambda>r.
       ret (if cr_exit_code r \<noteq> 0 then False else contains ''Status: Enabled'' (cr_stdout r)))"

section \<open>Baseline\<close>

record baseline =
  b_network_location :: string
  b_wifi_device :: string
  b_wifi_service :: string
  b_wifi_enabled :: bool
  b_wifi_power :: bool
  b_ssid :: string
  b_ssid_digest :: string
  b_ipv4_mode :: string
  b_ipv4_manual :: "string dict option"
  b_ipv6_mode :: string
  b_gateway :: string
  b_gateway_interface :: string
  b_dns_servers :: "string list"
  b_dns_automatic :: bool
  b_dns_search :: "string list"
  b_search_automatic :: bool
  b_service_order :: "string list"
  b_service_enabled :: "bool dict"
  b_interfaces :: "string dict"
  b_virtual_services :: "string list"
  b_pf_enabled :: bool
  b_captured_at :: rat

definition baseline_default :: baseline where
  "baseline_default =
     \<lparr>b_network_location = [], b_wifi_device = [], b_wifi_service = [], b_wifi_enabled = False, b_wifi_power = False,
      b_ssid = [], b_ssid_digest = [], b_ipv4_mode = [], b_ipv4_manual = None, b_ipv6_mode = [], b_gateway = [],
      b_gateway_interface = [], b_dns_servers = [], b_dns_automatic = True, b_dns_search = [], b_search_automatic = True,
      b_service_order = [], b_service_enabled = [], b_interfaces = [], b_virtual_services = [], b_pf_enabled = False,
      b_captured_at = 0\<rparr>"

definition jstrs :: "string list \<Rightarrow> json" where "jstrs xs = JList (map JStr xs)"
definition jstr_dict :: "string dict \<Rightarrow> json" where "jstr_dict d = JObj (map (\<lambda>(k, v). (k, JStr v)) d)"
definition jbool_dict :: "bool dict \<Rightarrow> json" where "jbool_dict d = JObj (map (\<lambda>(k, v). (k, JBool v)) d)"

definition baseline_to_dict :: "baseline \<Rightarrow> (string \<times> json) list" where
  "baseline_to_dict b =
     [(''network_location'', JStr (b_network_location b)),
      (''wifi_device'', JStr (b_wifi_device b)),
      (''wifi_service'', JStr (b_wifi_service b)),
      (''wifi_enabled'', JBool (b_wifi_enabled b)),
      (''wifi_power'', JBool (b_wifi_power b)),
      (''ssid'', JStr (b_ssid b)),
      (''ssid_digest'', JStr (b_ssid_digest b)),
      (''ipv4_mode'', JStr (b_ipv4_mode b)),
      (''ipv4_manual'', case b_ipv4_manual b of None \<Rightarrow> JNull | Some m \<Rightarrow> jstr_dict m),
      (''ipv6_mode'', JStr (b_ipv6_mode b)),
      (''gateway'', JStr (b_gateway b)),
      (''gateway_interface'', JStr (b_gateway_interface b)),
      (''dns_servers'', jstrs (b_dns_servers b)),
      (''dns_automatic'', JBool (b_dns_automatic b)),
      (''dns_search'', jstrs (b_dns_search b)),
      (''search_automatic'', JBool (b_search_automatic b)),
      (''service_order'', jstrs (b_service_order b)),
      (''service_enabled'', jbool_dict (b_service_enabled b)),
      (''interfaces'', jstr_dict (b_interfaces b)),
      (''virtual_services'', jstrs (b_virtual_services b)),
      (''pf_enabled'', JBool (b_pf_enabled b)),
      (''captured_at'', JFloat (b_captured_at b))]"

definition redacted_dict :: "baseline \<Rightarrow> (string \<times> json) list" where
  "redacted_dict b =
     AList.update ''dns_servers'' (jstrs (replicate (length (b_dns_servers b)) REDACTED))
       (AList.update ''gateway'' (JStr REDACTED) (AList.update ''ssid'' (JStr REDACTED) (baseline_to_dict b)))"

subsection \<open>Reading a stored baseline\<close>

definition as_str :: "json \<Rightarrow> string result" where
  "as_str j = (case j of JStr s \<Rightarrow> Inr s | _ \<Rightarrow> Inl TypeError)"

definition as_bool :: "json \<Rightarrow> bool result" where
  "as_bool j = (case j of JBool b \<Rightarrow> Inr b | _ \<Rightarrow> Inl TypeError)"

definition as_num :: "json \<Rightarrow> rat result" where
  "as_num j = (case j of JInt i \<Rightarrow> Inr (of_int i) | JFloat x \<Rightarrow> Inr x | _ \<Rightarrow> Inl TypeError)"

definition as_int :: "json \<Rightarrow> int result" where
  "as_int j = (case j of JInt i \<Rightarrow> Inr i | _ \<Rightarrow> Inl TypeError)"

definition as_strs :: "json \<Rightarrow> string list result" where
  "as_strs j = (case j of JList xs \<Rightarrow> all_results as_str xs | _ \<Rightarrow> Inl TypeError)"

definition as_dict :: "(json \<Rightarrow> 'a result) \<Rightarrow> json \<Rightarrow> 'a dict result" where
  "as_dict f j =
     (case j of JObj kvs \<Rightarrow> all_results (\<lambda>(k, v). bindE (f v) (\<lambda>x. Inr (k, x))) kvs | _ \<Rightarrow> Inl TypeError)"

definition as_optional :: "(json \<Rightarrow> 'a result) \<Rightarrow> json \<Rightarrow> 'a option result" where
  "as_optional f j = (case j of JNull \<Rightarrow> Inr None | _ \<Rightarrow> bindE (f j) (\<lambda>x. Inr (Some x)))"

text \<open>
  The attributes with their readers: \<^verbatim>\<open>if hasattr(b, k): setattr(b, k, v)\<close>. The fields have the types that the class
  declares. Python would store a value of any type and fail where it is used; here such a value is refused
  when it is read, with the \<^verbatim>\<open>TypeError\<close> that its use would raise.
\<close>

definition set_field :: "(json \<Rightarrow> 'a result) \<Rightarrow> ('a \<Rightarrow> 'r \<Rightarrow> 'r) \<Rightarrow> json \<Rightarrow> 'r \<Rightarrow> 'r result" where
  "set_field rd up v b = bindE (rd v) (\<lambda>x. Inr (up x b))"

definition baseline_fields :: "(string \<times> (json \<Rightarrow> baseline \<Rightarrow> baseline result)) list" where
  "baseline_fields =
     [(''network_location'', set_field as_str (\<lambda>x b. b\<lparr>b_network_location := x\<rparr>)),
      (''wifi_device'', set_field as_str (\<lambda>x b. b\<lparr>b_wifi_device := x\<rparr>)),
      (''wifi_service'', set_field as_str (\<lambda>x b. b\<lparr>b_wifi_service := x\<rparr>)),
      (''wifi_enabled'', set_field as_bool (\<lambda>x b. b\<lparr>b_wifi_enabled := x\<rparr>)),
      (''wifi_power'', set_field as_bool (\<lambda>x b. b\<lparr>b_wifi_power := x\<rparr>)),
      (''ssid'', set_field as_str (\<lambda>x b. b\<lparr>b_ssid := x\<rparr>)),
      (''ssid_digest'', set_field as_str (\<lambda>x b. b\<lparr>b_ssid_digest := x\<rparr>)),
      (''ipv4_mode'', set_field as_str (\<lambda>x b. b\<lparr>b_ipv4_mode := x\<rparr>)),
      (''ipv4_manual'', set_field (as_optional (as_dict as_str)) (\<lambda>x b. b\<lparr>b_ipv4_manual := x\<rparr>)),
      (''ipv6_mode'', set_field as_str (\<lambda>x b. b\<lparr>b_ipv6_mode := x\<rparr>)),
      (''gateway'', set_field as_str (\<lambda>x b. b\<lparr>b_gateway := x\<rparr>)),
      (''gateway_interface'', set_field as_str (\<lambda>x b. b\<lparr>b_gateway_interface := x\<rparr>)),
      (''dns_servers'', set_field as_strs (\<lambda>x b. b\<lparr>b_dns_servers := x\<rparr>)),
      (''dns_automatic'', set_field as_bool (\<lambda>x b. b\<lparr>b_dns_automatic := x\<rparr>)),
      (''dns_search'', set_field as_strs (\<lambda>x b. b\<lparr>b_dns_search := x\<rparr>)),
      (''search_automatic'', set_field as_bool (\<lambda>x b. b\<lparr>b_search_automatic := x\<rparr>)),
      (''service_order'', set_field as_strs (\<lambda>x b. b\<lparr>b_service_order := x\<rparr>)),
      (''service_enabled'', set_field (as_dict as_bool) (\<lambda>x b. b\<lparr>b_service_enabled := x\<rparr>)),
      (''interfaces'', set_field (as_dict as_str) (\<lambda>x b. b\<lparr>b_interfaces := x\<rparr>)),
      (''virtual_services'', set_field as_strs (\<lambda>x b. b\<lparr>b_virtual_services := x\<rparr>)),
      (''pf_enabled'', set_field as_bool (\<lambda>x b. b\<lparr>b_pf_enabled := x\<rparr>)),
      (''captured_at'', set_field as_num (\<lambda>x b. b\<lparr>b_captured_at := x\<rparr>))]"

text \<open>\<^verbatim>\<open>for k, v in d.items(): if hasattr(x, k): setattr(x, k, v)\<close>\<close>

fun set_fields :: "(string \<times> (json \<Rightarrow> 'r \<Rightarrow> 'r result)) list \<Rightarrow> (string \<times> json) list \<Rightarrow> 'r \<Rightarrow> 'r result" where
  "set_fields fs [] b = Inr b"
| "set_fields fs ((k, v) # kvs) b =
     bindE (case map_of fs k of None \<Rightarrow> Inr b | Some f \<Rightarrow> f v b) (set_fields fs kvs)"

definition baseline_from_dict :: "(string \<times> json) list \<Rightarrow> baseline result" where
  "baseline_from_dict d = set_fields baseline_fields d baseline_default"

section \<open>Capture\<close>

definition wifi_name :: "string \<Rightarrow> bool" where "wifi_name s = contains ''wi-fi'' (lower s)"

text \<open>The first entry that satisfies a test, or the empty string.\<close>

definition first_or_empty :: "string option \<Rightarrow> string" where
  "first_or_empty x = (case x of None \<Rightarrow> [] | Some s \<Rightarrow> s)"

definition capture_wifi_radio :: "'s host \<Rightarrow> string \<Rightarrow> baseline \<Rightarrow> ('s, baseline) sh" where
  "capture_wifi_radio h dev b =
     (if dev = [] then ret b
      else bindA (run_cmd h [''networksetup'', ''-getairportpower'', dev]) (\<lambda>r1.
           bindA (run_cmd h [''networksetup'', ''-getairportnetwork'', dev]) (\<lambda>r2.
             let b1 = b\<lparr>b_wifi_power := contains ''On'' (cr_stdout r1)\<rparr> in
             ret (case search1 [Lit ''Current Wi-Fi Network:'', Rep 0 is_space, Group [Rep 1 not_newline]] (cr_stdout r2) of
                    Some ssid \<Rightarrow> b1\<lparr>b_ssid := strip ssid, b_ssid_digest := ssid_digest (strip ssid)\<rparr>
                  | None \<Rightarrow> b1))))"

definition capture_wifi_ip :: "'s host \<Rightarrow> string \<Rightarrow> baseline \<Rightarrow> ('s, baseline) sh" where
  "capture_wifi_ip h svc b =
     (if svc = [] then ret b
      else bindA (run_cmd h [''networksetup'', ''-getinfo'', svc]) (\<lambda>r.
             case parse_ipv4_info (cr_stdout r) of (mode, manual) \<Rightarrow>
               ret (b\<lparr>b_ipv4_mode := mode, b_ipv4_manual := manual, b_ipv6_mode := parse_ipv6_mode (cr_stdout r)\<rparr>)))"

definition capture_wifi_dns :: "'s host \<Rightarrow> string \<Rightarrow> baseline \<Rightarrow> ('s, baseline) sh" where
  "capture_wifi_dns h svc b =
     (if svc = [] then ret b
      else bindA (run_cmd h [''networksetup'', ''-getdnsservers'', svc]) (\<lambda>r1.
           bindA (run_cmd h [''networksetup'', ''-getsearchdomains'', svc]) (\<lambda>r2.
             case parse_dns_servers (cr_stdout r1) of (servers, auto) \<Rightarrow>
             (case parse_search_domains (cr_stdout r2) of (domains, sauto) \<Rightarrow>
               ret (b\<lparr>b_dns_servers := servers, b_dns_automatic := auto, b_dns_search := domains, b_search_automatic := sauto\<rparr>)))))"

definition capture_baseline :: "'s host \<Rightarrow> ('s, baseline) sh" where
  "capture_baseline h =
     bindA (time_now h) (\<lambda>t.
     bindA (run_cmd h [''networksetup'', ''-getcurrentlocation'']) (\<lambda>r_loc.
     bindA (run_cmd h [''networksetup'', ''-listallhardwareports'']) (\<lambda>r_ports.
     bindA (run_cmd h [''networksetup'', ''-listnetworkserviceorder'']) (\<lambda>r_order.
       let ifaces = parse_interfaces (cr_stdout r_ports);
           dev = first_or_empty (map_option fst (find (\<lambda>(d, port). wifi_name port) ifaces)) in
       case parse_service_order (cr_stdout r_order) of (order, enabled) \<Rightarrow>
         (let svc = first_or_empty (find wifi_name order);
              b = baseline_default\<lparr>b_captured_at := t,
                    b_network_location := (if cr_exit_code r_loc = 0 then strip (cr_stdout r_loc) else []),
                    b_interfaces := ifaces, b_wifi_device := dev,
                    b_service_order := order, b_service_enabled := enabled, b_wifi_service := svc\<rparr> in
     bindA (capture_wifi_radio h dev b) (\<lambda>b.
     bindA (capture_wifi_ip h svc b) (\<lambda>b.
     bindA (run_cmd h [''route'', ''-n'', ''get'', ''default'']) (\<lambda>r_route.
       case parse_default_route (cr_stdout r_route) of (gw, gw_iface) \<Rightarrow>
     bindA (capture_wifi_dns h svc (b\<lparr>b_gateway := gw, b_gateway_interface := gw_iface\<rparr>)) (\<lambda>b.
     bindA (pf_is_enabled h) (\<lambda>pf.
       ret (b\<lparr>b_pf_enabled := pf, b_virtual_services := filter is_virtual_service order\<rparr>)))))))))))"

section \<open>Round trip\<close>

lemma as_simps [simp]:
  "as_str (JStr s) = Inr s" "as_bool (JBool b) = Inr b" "as_num (JFloat x) = Inr x" "as_int (JInt i) = Inr i"
  by (simp_all add: as_str_def as_bool_def as_num_def as_int_def)

lemma all_results_map: "(\<And>x. f (g x) = Inr x) \<Longrightarrow> all_results f (map g xs) = Inr xs"
  by (induction xs) auto

lemma as_containers [simp]: "as_strs (jstrs xs) = Inr xs" "as_dict as_str (jstr_dict d) = Inr d" "as_dict as_bool (jbool_dict e) = Inr e"
  by (simp_all add: as_strs_def jstrs_def as_dict_def jstr_dict_def jbool_dict_def all_results_map split_beta)

lemma as_optional_dict [simp]:
  "as_optional (as_dict as_str) (case m of None \<Rightarrow> JNull | Some d \<Rightarrow> jstr_dict d) = Inr m"
proof (cases m)
  case (Some d)
  have "as_optional (as_dict as_str) (jstr_dict d) = bindE (as_dict as_str (jstr_dict d)) (\<lambda>x. Inr (Some x))"
    by (simp add: as_optional_def jstr_dict_def)
  with Some show ?thesis by simp
qed (simp add: as_optional_def)

lemma baseline_dict_roundtrip: "baseline_from_dict (baseline_to_dict b) = Inr b"
  unfolding baseline_from_dict_def baseline_to_dict_def
  by (simp add: baseline_fields_def set_field_def baseline_default_def)

lemma wf_containers [simp]: "wf_json (jstrs xs)" "distinct (map fst d) \<Longrightarrow> wf_json (jstr_dict d)"
  "distinct (map fst e) \<Longrightarrow> wf_json (jbool_dict e)"
  by (simp_all add: jstrs_def jstr_dict_def jbool_dict_def list_all_iff o_def split_beta)

definition baseline_ok :: "baseline \<Rightarrow> bool" where
  "baseline_ok b \<longleftrightarrow> micros (b_captured_at b) \<and> distinct (map fst (b_service_enabled b)) \<and> distinct (map fst (b_interfaces b))
     \<and> (case b_ipv4_manual b of None \<Rightarrow> True | Some m \<Rightarrow> distinct (map fst m))"

lemma wf_baseline: "baseline_ok b \<Longrightarrow> wf_json (JObj (baseline_to_dict b))"
  unfolding baseline_ok_def baseline_to_dict_def by (auto split: option.splits)

end
