(* ===== verification/Shield_Journal.thy ===== *)
theory Shield_Journal
  imports Shield_Baseline
begin

text \<open>
  The mutation journal of the attach shield (\<^verbatim>\<open>class MutationJournal\<close>): an append-only file of JSON lines with the value
  before each change, and the rollback that undoes the changes from the last to the first. The abstract
  view is a list of typed changes (\<open>mutation\<close>), each with the command that undoes it.
\<close>

section \<open>The journal\<close>

record journal =
  j_path :: string
  j_seq :: int

definition text_or_empty :: "string option \<Rightarrow> string" where
  "text_or_empty t = (case t of None \<Rightarrow> [] | Some s \<Rightarrow> s)"

text \<open>The highest sequence number; lines that are not JSON objects are skipped (and a number that is no integer, which the shield never writes, is refused).\<close>

fun max_seq :: "int \<Rightarrow> string list \<Rightarrow> int result" where
  "max_seq n [] = Inr n"
| "max_seq n (line # ls) =
     (case loads line of
        Inr (JObj kvs) \<Rightarrow> bindE (as_int (json_get kvs ''seq'' (JInt 0))) (\<lambda>m. max_seq (max n m) ls)
      | _ \<Rightarrow> max_seq n ls)"

definition journal_open :: "'s host \<Rightarrow> string \<Rightarrow> ('s, journal) sh" where
  "journal_open h sid =
     (let path = session_file sid ''journal.jsonl'' in
      bindA (read_file h path) (\<lambda>existing.
        case max_seq 0 (splitlines (text_or_empty existing)) of
          Inl e \<Rightarrow> raiseA e
        | Inr n \<Rightarrow> ret \<lparr>j_path = path, j_seq = n\<rparr>))"

definition journal_entry_json :: "int \<Rightarrow> rat \<Rightarrow> string \<Rightarrow> string \<Rightarrow> json \<Rightarrow> string list \<Rightarrow> int \<Rightarrow> json" where
  "journal_entry_json seq ts category target pre_value cmd exit_code =
     JObj [(''seq'', JInt seq), (''ts'', JFloat ts), (''category'', JStr category), (''target'', JStr target),
           (''pre_value'', pre_value), (''cmd'', jstrs (map redact cmd)), (''exit_code'', JInt exit_code)]"

definition journal_record ::
    "'s host \<Rightarrow> journal \<Rightarrow> string \<Rightarrow> string \<Rightarrow> json \<Rightarrow> string list \<Rightarrow> int \<Rightarrow> ('s, journal) sh" where
  "journal_record h j category target pre_value cmd exit_code =
     bindA (time_now h) (\<lambda>ts.
       let seq = j_seq j + 1;
           line = dumps (journal_entry_json seq ts category target pre_value cmd exit_code) in
       bindA (read_file h (j_path j)) (\<lambda>existing.
       bindA (write_file h (j_path j) (text_or_empty existing @ line @ [char_of (10 :: nat)]) MODE_600) (\<lambda>_.
         ret (j\<lparr>j_seq := seq\<rparr>))))"

text \<open>Lines that are not JSON are skipped.\<close>

definition parse_lines :: "string \<Rightarrow> json list" where
  "parse_lines txt = List.map_filter (\<lambda>l. case loads l of Inr e \<Rightarrow> Some e | Inl _ \<Rightarrow> None) (splitlines txt)"

definition journal_entries :: "'s host \<Rightarrow> journal \<Rightarrow> ('s, json list) sh" where
  "journal_entries h j = bindA (read_file h (j_path j)) (\<lambda>txt. ret (parse_lines (text_or_empty txt)))"

section \<open>Rollback\<close>

definition dict_value :: "json \<Rightarrow> string \<Rightarrow> json \<Rightarrow> json result" where
  "dict_value d k v = (case d of JObj kvs \<Rightarrow> Inr (json_get kvs k v) | _ \<Rightarrow> Inl AttributeError)"

text \<open>Command arguments must be strings; \<^verbatim>\<open>[...] + x\<close> needs a list.\<close>

definition exec_args :: "'s host \<Rightarrow> json list \<Rightarrow> ('s, unit) sh" where
  "exec_args h args = (case all_results as_str args of Inl e \<Rightarrow> raiseA e | Inr cmd \<Rightarrow> exec h cmd)"

definition exec_list :: "'s host \<Rightarrow> json list \<Rightarrow> json \<Rightarrow> ('s, unit) sh" where
  "exec_list h args rest = (case rest of JList xs \<Rightarrow> exec_args h (args @ xs) | _ \<Rightarrow> raiseA TypeError)"

definition with_value :: "json \<Rightarrow> string \<Rightarrow> json \<Rightarrow> (json \<Rightarrow> ('s, unit) sh) \<Rightarrow> ('s, unit) sh" where
  "with_value pre k d f = (case dict_value pre k d of Inl e \<Rightarrow> raiseA e | Inr v \<Rightarrow> f v)"

definition whenA :: "bool \<Rightarrow> ('s, unit) sh \<Rightarrow> ('s, unit) sh" where
  "whenA b m = (if b then m else ret ())"

abbreviation networksetup :: "string \<Rightarrow> json list \<Rightarrow> json list" where
  "networksetup verb args \<equiv> JStr ''networksetup'' # JStr verb # args"

abbreviation route_cmd :: "string \<Rightarrow> string \<Rightarrow> json list \<Rightarrow> json list" where
  "route_cmd verb kind args \<equiv> JStr ''route'' # JStr ''-n'' # JStr verb # JStr kind # args"

text \<open>A list setting: back to automatic, or to the former values if there were any.\<close>

definition undo_list :: "'s host \<Rightarrow> string \<Rightarrow> string \<Rightarrow> json \<Rightarrow> json \<Rightarrow> ('s, unit) sh" where
  "undo_list h verb key target pre =
     with_value pre ''automatic'' (JBool True) (\<lambda>auto.
       if json_true auto then exec_args h (networksetup verb [target, JStr ''Empty''])
       else with_value pre key (JList []) (\<lambda>vals.
              whenA (json_true vals) (exec_list h (networksetup verb [target]) vals)))"

definition rollback_one :: "'s host \<Rightarrow> json \<Rightarrow> json \<Rightarrow> json \<Rightarrow> ('s, unit) sh" where
  "rollback_one h cat target pre =
     (if cat = JStr ''service_disable'' then
        with_value pre ''enabled'' (JBool False) (\<lambda>v.
          whenA (json_true v) (exec_args h (networksetup ''-setnetworkserviceenabled'' [target, JStr ''on''])))
      else if cat = JStr ''service_enable'' then
        with_value pre ''enabled'' (JBool True) (\<lambda>v.
          whenA (\<not> json_true v) (exec_args h (networksetup ''-setnetworkserviceenabled'' [target, JStr ''off''])))
      else if cat = JStr ''route_add'' then
        (case target of
           JStr t \<Rightarrow>
             (let parts = split_ws t in
              whenA (4 \<le> length parts)
                (exec_args h (route_cmd ''delete'' (if parts ! 0 = ''inet6'' then ''-inet6'' else ''-net'') [JStr (parts ! 1), JStr (parts ! 3)])))
         | _ \<Rightarrow> raiseA AttributeError)
      else if cat = JStr ''route_delete'' then
        with_value pre ''existed'' JNull (\<lambda>existed.
          whenA (json_true existed)
            (with_value pre ''gateway'' (JStr []) (\<lambda>gw.
             with_value pre ''family'' (JStr ''inet'') (\<lambda>family.
               exec_args h (route_cmd ''add'' (if family = JStr ''inet6'' then ''-inet6'' else ''-net'') [target, gw])))))
      else if cat = JStr ''dns_set'' then undo_list h ''-setdnsservers'' ''servers'' target pre
      else if cat = JStr ''search_set'' then undo_list h ''-setsearchdomains'' ''domains'' target pre
      else if cat = JStr ''order_set'' then
        with_value pre ''order'' (JList []) (\<lambda>order.
          whenA (json_true order) (exec_list h (networksetup ''-ordernetworkservices'' []) order))
      else if cat = JStr ''ipv4_set'' then
        with_value pre ''mode'' (JStr ''DHCP'') (\<lambda>mode.
          if mode = JStr ''DHCP'' then exec_args h (networksetup ''-setdhcp'' [target])
          else whenA (mode = JStr ''Manual'')
            (with_value pre ''manual'' (JObj []) (\<lambda>m.
              whenA (json_true m)
                (with_value m ''ip'' (JStr []) (\<lambda>ip.
                 with_value m ''subnet'' (JStr []) (\<lambda>subnet.
                 with_value m ''router'' (JStr []) (\<lambda>router.
                   exec_args h (networksetup ''-setmanual'' [target, ip, subnet, router]))))))))
      else if cat = JStr ''ipv6_set'' then
        with_value pre ''mode'' (JStr ''Automatic'') (\<lambda>mode.
          whenA (mode = JStr ''Automatic'') (exec_args h (networksetup ''-setv6automatic'' [target])))
      else if cat = JStr ''pf_enable'' then
        with_value pre ''enabled'' (JBool True) (\<lambda>v. whenA (\<not> json_true v) (exec h [''pfctl'', ''-d'']))
      else if cat = JStr ''pf_anchor_load'' then exec_args h [JStr ''pfctl'', JStr ''-a'', target, JStr ''-F'', JStr ''all'']
      else if cat = JStr ''location_switch'' then
        with_value pre ''location'' (JStr []) (\<lambda>loc.
          whenA (json_true loc) (exec_args h (networksetup ''-switchtolocation'' [loc])))
      else if cat = JStr ''location_create'' then
        with_value pre ''existed'' (JBool True) (\<lambda>existed.
          whenA (\<not> json_true existed) (exec_args h (networksetup ''-deletelocation'' [target])))
      else if cat = JStr ''wifi_power_set'' then
        with_value pre ''power'' (JBool True) (\<lambda>power.
          exec_args h (networksetup ''-setairportpower'' [target, JStr (if json_true power then ''on'' else ''off'')]))
      else ret ())"

text \<open>The text of an exception is abbreviated to its class.\<close>

definition exn_text :: "exn \<Rightarrow> string" where
  "exn_text e =
     (case e of TypeError \<Rightarrow> ''TypeError'' | AttributeError \<Rightarrow> ''AttributeError'' | OSError m \<Rightarrow> m
      | ValueError \<Rightarrow> ''ValueError'' | _ \<Rightarrow> ''Exception'')"

definition rollback_entry :: "'s host \<Rightarrow> json \<Rightarrow> string list \<Rightarrow> ('s, string list) sh" where
  "rollback_entry h entry issues =
     (case entry of
        JObj kvs \<Rightarrow>
          (let cat = json_get kvs ''category'' (JStr []); pre = json_get kvs ''pre_value'' JNull;
               target = json_get kvs ''target'' (JStr []) in
           if \<not> py_eq (json_get kvs ''exit_code'' (JInt 1)) (JInt 0) then ret issues
           else if pre = JNull
             then ret (issues @ [''INCOMPLETE_ROLLBACK_UNKNOWN_PRESTATE:'' @ py_str cat @ '':'' @ py_str target])
           else bindA (tryA (rollback_one h cat target pre)) (\<lambda>res.
             case res of
               Inr _ \<Rightarrow> ret issues
             | Inl e \<Rightarrow> ret (issues @ [''ROLLBACK_ERROR:'' @ py_str cat @ '':'' @ py_str target @ '':'' @ exn_text e])))
      | _ \<Rightarrow> raiseA AttributeError)"

definition journal_rollback :: "'s host \<Rightarrow> journal \<Rightarrow> ('s, bool \<times> string list) sh" where
  "journal_rollback h j =
     bindA (journal_entries h j) (\<lambda>entries.
     bindA (fold_act (rollback_entry h) (rev entries) []) (\<lambda>issues.
       ret (issues = [], issues)))"

end
