(* ===== verification/Shield_Net.thy ===== *)
theory Shield_Net
  imports Shield_Journal
begin

text \<open>
  What the attach shield does to the network: fingerprints, the temporary network location, the quarantine of BOOTMUX
  services, the packet filter anchor, the pinned routes, the detection of new Ethernet devices and the recovery steps
  Q1 to Q9. The journal is passed along where the code shares the journal object.
\<close>

section \<open>Fingerprint\<close>

definition SKIPPED_DESTINATIONS :: "string list" where
  "SKIPPED_DESTINATIONS = [''fe80'', ''ff0'', ''127.'', ''::1'', ''224.'', ''0.0.0.0/1'', ''128.0.0.0/1'']"

definition fingerprint_route :: "string \<Rightarrow> string option" where
  "fingerprint_route line =
     (let parts = split_ws line in
      if length parts < 4 then None
      else if list_ex (\<lambda>p. prefix p (parts ! 0)) SKIPPED_DESTINATIONS then None
      else if contains ''link#'' line \<and> \<not> contains ''UGS'' line then None
      else Some (parts ! 0 @ '' via '' @ parts ! 1 @ '' on '' @ parts ! 3))"

definition fingerprint_dns :: "'s host \<Rightarrow> string \<Rightarrow> ('s, (string \<times> json) list) sh" where
  "fingerprint_dns h svc =
     (if svc = [] then ret
        [(''dns'', JObj [(''servers'', JList []), (''automatic'', JBool True)]),
         (''search'', JObj [(''domains'', JList []), (''automatic'', JBool True)]),
         (''wifi_ipv4_mode'', JStr []), (''wifi_ipv6_mode'', JStr [])]
      else
        bindA (run_cmd h [''networksetup'', ''-getdnsservers'', svc]) (\<lambda>r1.
        bindA (run_cmd h [''networksetup'', ''-getsearchdomains'', svc]) (\<lambda>r2.
        bindA (run_cmd h [''networksetup'', ''-getinfo'', svc]) (\<lambda>r3.
          case parse_dns_servers (cr_stdout r1) of (servers, auto) \<Rightarrow>
          (case parse_search_domains (cr_stdout r2) of (domains, sauto) \<Rightarrow>
            ret [(''dns'', JObj [(''servers'', jstrs servers), (''automatic'', JBool auto)]),
                 (''search'', JObj [(''domains'', jstrs domains), (''automatic'', JBool sauto)]),
                 (''wifi_ipv4_mode'', JStr (fst (parse_ipv4_info (cr_stdout r3)))),
                 (''wifi_ipv6_mode'', JStr (parse_ipv6_mode (cr_stdout r3)))])))))"

definition capture_fingerprint :: "'s host \<Rightarrow> ('s, (string \<times> json) list) sh" where
  "capture_fingerprint h =
     bindA (run_cmd h [''networksetup'', ''-getcurrentlocation'']) (\<lambda>r_loc.
     bindA (run_cmd h [''networksetup'', ''-listnetworkserviceorder'']) (\<lambda>r_order.
       case parse_service_order (cr_stdout r_order) of (order, enabled) \<Rightarrow>
     bindA (run_cmd h [''netstat'', ''-rn'']) (\<lambda>r_routes.
     bindA (fingerprint_dns h (first_or_empty (find wifi_name order))) (\<lambda>dns.
     bindA (pf_is_enabled h) (\<lambda>pf.
     bindA (run_cmd h [''pfctl'', ''-s'', ''Anchors'']) (\<lambda>r_anchors.
     bindA (run_cmd h [''launchctl'', ''list'', LAUNCHD_LABEL]) (\<lambda>r_launchd.
     bindA (gets (\<lambda>p. filter (\<lambda>f. h_path_exists h f (pg_host p)) [LAUNCHD_PLIST, INSTALLED_SHIELD, STATE_FILE])) (\<lambda>files.
       ret ([(''network_location'', JStr (if cr_exit_code r_loc = 0 then strip (cr_stdout r_loc) else [])),
             (''service_order'', jstrs order),
             (''service_enabled'', jbool_dict enabled),
             (''routes'', jstrs (sort (List.map_filter fingerprint_route (splitlines (cr_stdout r_routes)))))]
            @ dns
            @ [(''pf_enabled'', JBool pf),
               (''pf_anchors'', jstrs (sort (map strip (filter (\<lambda>l. strip l \<noteq> [] \<and> \<not> contains ''ALTQ'' l \<and> \<not> contains ''disabled'' l)
                  (splitlines (cr_stdout r_anchors)))))),
               (''launchd_loaded'', JBool (cr_exit_code r_launchd = 0)),
               (''shield_files'', jstrs (sort files))])))))))))"

definition compare_fingerprints :: "(string \<times> json) list \<Rightarrow> (string \<times> json) list \<Rightarrow> bool \<times> string list" where
  "compare_fingerprints a b =
     (let keys = sort (remdups (map fst a @ map fst b));
          differing = filter (\<lambda>k. \<not> py_eq (json_get a k JNull) (json_get b k JNull)) keys;
          diffs = map (\<lambda>k. k @ '': '' @ dumps (json_get a k JNull) @ '' != '' @ dumps (json_get b k JNull)) differing
      in (diffs = [], diffs))"

section \<open>Network location\<close>

definition location_supported :: "'s host \<Rightarrow> ('s, bool) sh" where
  "location_supported h =
     bindA (run_cmd h [''networksetup'', ''-help'']) (\<lambda>r.
       ret (list_all (\<lambda>cmd. contains cmd (cr_stdout r @ cr_stderr r))
              [''-createlocation'', ''-switchtolocation'', ''-deletelocation'']))"

definition get_current_location :: "'s host \<Rightarrow> ('s, string) sh" where
  "get_current_location h =
     bindA (run_cmd h [''networksetup'', ''-getcurrentlocation'']) (\<lambda>r.
       ret (if cr_exit_code r = 0 then strip (cr_stdout r) else []))"

definition create_shield_location :: "'s host \<Rightarrow> string \<Rightarrow> journal \<Rightarrow> ('s, string option \<times> journal) sh" where
  "create_shield_location h sid j =
     (let loc_name = SHIELD_LOCATION_PREFIX @ sid in
      bindA (get_current_location h) (\<lambda>pre_loc.
      bindA (run_cmd h [''networksetup'', ''-listlocations'']) (\<lambda>r.
        let existed = loc_name \<in> set (splitlines (cr_stdout r)) in
      bindA (run_cmd h [''networksetup'', ''-createlocation'', loc_name, ''populate'']) (\<lambda>r.
        if cr_exit_code r \<noteq> 0 then ret (None, j)
        else
      bindA (journal_record h j ''location_create'' loc_name (JObj [(''existed'', JBool existed)]) (cr_cmd r) (cr_exit_code r)) (\<lambda>j.
      bindA (run_cmd h [''networksetup'', ''-switchtolocation'', loc_name]) (\<lambda>r.
        if cr_exit_code r \<noteq> 0
        then bindA (exec h [''networksetup'', ''-deletelocation'', loc_name]) (\<lambda>_. ret (None, j))
        else
      bindA (journal_record h j ''location_switch'' ''network_location'' (JObj [(''location'', JStr pre_loc)]) (cr_cmd r) (cr_exit_code r)) (\<lambda>j.
        ret (Some loc_name, j))))))))"

definition restore_location :: "'s host \<Rightarrow> string \<Rightarrow> string \<Rightarrow> journal \<Rightarrow> ('s, bool \<times> journal) sh" where
  "restore_location h original shield_loc j =
     bindA (run_cmd h [''networksetup'', ''-switchtolocation'', original]) (\<lambda>r.
       if cr_exit_code r \<noteq> 0 then ret (False, j)
       else
     bindA (journal_record h j ''location_switch'' ''network_location'' (JObj [(''location'', JStr shield_loc)]) (cr_cmd r) (cr_exit_code r)) (\<lambda>j.
     bindA (run_cmd h [''networksetup'', ''-deletelocation'', shield_loc]) (\<lambda>r.
       ret (cr_exit_code r = 0, j))))"

section \<open>Identification and quarantine\<close>

definition SUBNET_BASE :: string where "SUBNET_BASE = takeWhile (\<lambda>c. c \<noteq> CHR ''/'') BOOTMUX_SUBNET"

text \<open>The first interface of \<^verbatim>\<open>ifconfig\<close> with a 10.77 line.\<close>

fun iface_1077 :: "string \<Rightarrow> string list \<Rightarrow> string" where
  "iface_1077 current [] = []"
| "iface_1077 current (line # ls) =
     (let current' = (case match1 [Group [Rep 1 is_word], Lit '':''] line of Some i \<Rightarrow> i | None \<Rightarrow> current) in
      if contains ''10.77.'' line \<and> current' \<noteq> [] then current' else iface_1077 current' ls)"

definition same_hardware :: "string \<Rightarrow> string \<Rightarrow> bool" where
  "same_hardware hwport svc = (contains (lower hwport) (lower svc) \<or> contains (lower svc) (lower hwport))"

definition identify_bootmux_services :: "'s host \<Rightarrow> baseline \<Rightarrow> ('s, string list) sh" where
  "identify_bootmux_services h b =
     (let candidates = filter (\<lambda>svc. list_ex (\<lambda>k. contains k (lower svc)) BOOTMUX_PRODUCT_HINTS) (b_service_order b) in
      bindA (run_cmd h [''scutil'', ''--nwi'']) (\<lambda>r.
        if contains SUBNET_BASE (cr_stdout r)
        then bindA (run_cmd h [''ifconfig'']) (\<lambda>r2.
               let hwport = (case iface_1077 [] (splitlines (cr_stdout r2)) of
                               [] \<Rightarrow> [] | iface \<Rightarrow> dict_get (b_interfaces b) iface []) in
               ret (if hwport = [] then candidates
                    else foldl (\<lambda>cs svc. if same_hardware hwport svc \<and> svc \<notin> set cs then cs @ [svc] else cs)
                           candidates (b_service_order b)))
        else ret candidates))"

record quarantine_result =
  qr_bootmux_services_found :: "string list"
  qr_services_disabled :: "string list"
  qr_routes_removed :: "string list"
  qr_wifi_first :: bool
  qr_default_route_on_wifi :: bool
  qr_classification :: string

text \<open>\<^verbatim>\<open>networksetup -setnetworkserviceenabled svc off\<close> with its journal entry; the journal may be absent.\<close>

definition record_opt ::
    "'s host \<Rightarrow> journal option \<Rightarrow> string \<Rightarrow> string \<Rightarrow> json \<Rightarrow> string list \<Rightarrow> int \<Rightarrow> ('s, journal option) sh" where
  "record_opt h j category target pre cmd rc =
     (case j of
        None \<Rightarrow> ret None
      | Some j \<Rightarrow> bindA (journal_record h j category target pre cmd rc) (\<lambda>j. ret (Some j)))"

definition disable_service :: "'s host \<Rightarrow> baseline \<Rightarrow> string \<Rightarrow> journal option \<Rightarrow> ('s, bool \<times> journal option) sh" where
  "disable_service h b svc j =
     bindA (run_cmd h [''networksetup'', ''-setnetworkserviceenabled'', svc, ''off'']) (\<lambda>r.
     bindA (record_opt h j ''service_disable'' svc (JObj [(''enabled'', JBool (dict_get (b_service_enabled b) svc True))])
              (cr_cmd r) (cr_exit_code r)) (\<lambda>j.
       ret (cr_exit_code r = 0, j)))"

definition quarantine_services ::
    "'s host \<Rightarrow> baseline \<Rightarrow> string list \<Rightarrow> string list \<times> journal option \<Rightarrow> ('s, string list \<times> journal option) sh" where
  "quarantine_services h b =
     fold_act (\<lambda>svc (disabled, j).
       bindA (disable_service h b svc j) (\<lambda>(ok, j). ret (if ok then disabled @ [svc] else disabled, j)))"

definition quarantine_route :: "'s host \<Rightarrow> string \<Rightarrow> string list \<times> journal \<Rightarrow> ('s, string list \<times> journal) sh" where
  "quarantine_route h line = (\<lambda>(removed, j).
     let parts = split_ws line in
     if contains SUBNET_BASE line \<and> 2 \<le> length parts
     then
       bindA (journal_record h j ''route_delete'' (parts ! 0)
                (JObj [(''existed'', JBool True), (''gateway'', JStr (parts ! 1)), (''family'', JStr ''inet'')])
                [''route'', ''-n'', ''delete'', parts ! 0, parts ! 1] 0) (\<lambda>j.
       bindA (exec h [''route'', ''-n'', ''delete'', parts ! 0, parts ! 1]) (\<lambda>_.
         ret (removed @ [parts ! 0], j)))
     else ret (removed, j))"

definition quarantine_order :: "'s host \<Rightarrow> baseline \<Rightarrow> journal \<Rightarrow> ('s, bool \<times> journal) sh" where
  "quarantine_order h b j =
     (if b_wifi_service b \<noteq> [] \<and> b_service_order b \<noteq> []
      then
        bindA (run_cmd h ([''networksetup'', ''-ordernetworkservices'', b_wifi_service b]
                 @ filter (\<lambda>s. s \<noteq> b_wifi_service b) (b_service_order b))) (\<lambda>r.
        bindA (journal_record h j ''order_set'' ''network_services'' (JObj [(''order'', jstrs (b_service_order b))])
                 (cr_cmd r) (cr_exit_code r)) (\<lambda>j.
          ret (True, j)))
      else ret (False, j))"

definition quarantine_bootmux :: "'s host \<Rightarrow> baseline \<Rightarrow> journal \<Rightarrow> ('s, quarantine_result \<times> journal) sh" where
  "quarantine_bootmux h b j =
     bindA (identify_bootmux_services h b) (\<lambda>found.
     bindA (quarantine_services h b found ([], Some j)) (\<lambda>(disabled, j').
     bindA (run_cmd h [''netstat'', ''-rn'']) (\<lambda>r.
     bindA (fold_act (quarantine_route h) (splitlines (cr_stdout r)) ([], case j' of Some j \<Rightarrow> j | None \<Rightarrow> j)) (\<lambda>(removed, j).
     bindA (quarantine_order h b j) (\<lambda>(wifi_first, j).
     bindA (run_cmd h [''route'', ''-n'', ''get'', ''default'']) (\<lambda>r.
       let on_wifi = (snd (parse_default_route (cr_stdout r)) = b_wifi_device b) in
       ret (\<lparr>qr_bootmux_services_found = found, qr_services_disabled = disabled, qr_routes_removed = removed,
             qr_wifi_first = wifi_first, qr_default_route_on_wifi = on_wifi,
             qr_classification = (if on_wifi \<and> wifi_first then ''GREEN'' else ''YELLOW'')\<rparr>, j)))))))"

section \<open>Packet filter\<close>

text \<open>The dash of the comment is one code point; it stands here as the bytes of its UTF-8 form.\<close>

definition pf_anchor_rules :: "string \<Rightarrow> string" where
  "pf_anchor_rules interface =
     ''# '' @ PF_ANCHOR @ '' '' @ [CHR 0xE2, CHR 0x80, CHR 0x94] @ '' auto-generated'' @ [char_of (10 :: nat)]
     @ ''block drop quick on '' @ interface @ '' all'' @ [char_of (10 :: nat)]"

definition rules_path :: "string \<Rightarrow> string" where
  "rules_path interface = ''/tmp/'' @ PF_ANCHOR @ ''-'' @ interface @ ''.rules''"

definition pf_install_anchor :: "'s host \<Rightarrow> string \<Rightarrow> journal \<Rightarrow> bool \<Rightarrow> ('s, bool \<times> journal) sh" where
  "pf_install_anchor h interface j pf_was_enabled =
     bindA (write_file h (rules_path interface) (pf_anchor_rules interface) MODE_600) (\<lambda>_.
     bindA (run_cmd h [''pfctl'', ''-a'', PF_ANCHOR, ''-f'', rules_path interface]) (\<lambda>r.
     bindA (host_do (h_remove_file h (rules_path interface))) (\<lambda>_.
     bindA (journal_record h j ''pf_anchor_load'' PF_ANCHOR (JObj [(''rules'', JStr [])]) (cr_cmd r) (cr_exit_code r)) (\<lambda>j.
       if pf_was_enabled then ret (cr_exit_code r = 0, j)
       else
         bindA (run_cmd h [''pfctl'', ''-E'']) (\<lambda>r2.
         bindA (journal_record h j ''pf_enable'' ''pf'' (JObj [(''enabled'', JBool False)]) (cr_cmd r2) (cr_exit_code r2)) (\<lambda>j.
           ret (cr_exit_code r = 0, j)))))))"

definition pf_remove_anchor :: "'s host \<Rightarrow> journal \<Rightarrow> bool \<Rightarrow> ('s, bool \<times> journal) sh" where
  "pf_remove_anchor h j pf_was_enabled =
     bindA (run_cmd h [''pfctl'', ''-a'', PF_ANCHOR, ''-F'', ''all'']) (\<lambda>r.
     bindA (journal_record h j ''pf_anchor_load'' PF_ANCHOR (JObj [(''rules'', JStr ''flushed'')]) (cr_cmd r) (cr_exit_code r)) (\<lambda>j.
     bindA (whenA (\<not> pf_was_enabled) (exec h [''pfctl'', ''-d''])) (\<lambda>_.
       ret (cr_exit_code r = 0, j))))"

definition pf_anchor_active :: "'s host \<Rightarrow> ('s, bool) sh" where
  "pf_anchor_active h =
     bindA (run_cmd h [''pfctl'', ''-a'', PF_ANCHOR, ''-s'', ''rules'']) (\<lambda>r.
       ret (cr_exit_code r = 0 \<and> contains ''block'' (cr_stdout r)))"

section \<open>Pinned routes\<close>

record pin_result =
  rp_pinned_routes :: "string list"
  rp_classification :: string
  rp_error :: string

definition pin_entry :: "string \<Rightarrow> string \<Rightarrow> string \<Rightarrow> string" where
  "pin_entry family dest gw = family @ '' '' @ dest @ '' via '' @ gw"

text \<open>The IPv4 routes: the first failure removes those already pinned and ends the call with its error.\<close>

fun pin_v4 :: "'s host \<Rightarrow> string \<Rightarrow> string list \<Rightarrow> string list \<Rightarrow> journal \<Rightarrow> ('s, string list \<times> string option \<times> journal) sh" where
  "pin_v4 h gw [] pinned j = ret (pinned, None, j)"
| "pin_v4 h gw (dest # dests) pinned j =
     bindA (run_cmd h [''route'', ''-n'', ''add'', ''-net'', dest, gw]) (\<lambda>r.
     bindA (journal_record h j ''route_add'' (pin_entry ''inet'' dest gw) (JObj [(''existed'', JBool False)]) (cr_cmd r) (cr_exit_code r)) (\<lambda>j.
       if cr_exit_code r = 0 then pin_v4 h gw dests (pinned @ [pin_entry ''inet'' dest gw]) j
       else
         bindA (for_each (\<lambda>e. exec h [''route'', ''-n'', ''delete'', ''-net'', split_ws e ! 1, gw]) pinned) (\<lambda>_.
           ret ([], Some (''failed to pin '' @ dest @ '': '' @ strip (cr_stderr r)), j))))"

definition pin_v6 :: "'s host \<Rightarrow> string \<Rightarrow> string list \<times> journal \<Rightarrow> ('s, string list \<times> journal) sh" where
  "pin_v6 h gw =
     fold_act (\<lambda>dest (pinned, j).
       bindA (run_cmd h [''route'', ''-n'', ''add'', ''-inet6'', dest, gw]) (\<lambda>r.
       bindA (journal_record h j ''route_add'' (pin_entry ''inet6'' dest gw) (JObj [(''existed'', JBool False)]) (cr_cmd r) (cr_exit_code r)) (\<lambda>j.
         ret (if cr_exit_code r = 0 then pinned @ [pin_entry ''inet6'' dest gw] else pinned, j)))) SPLIT_ROUTES_V6"

definition YELLOW_PIN :: string where "YELLOW_PIN = ''YELLOW_ROUTE_PIN_UNAVAILABLE''"

definition pin_split_routes :: "'s host \<Rightarrow> string \<Rightarrow> string \<Rightarrow> journal \<Rightarrow> ('s, pin_result \<times> journal) sh" where
  "pin_split_routes h gateway interface j =
     (if gateway = [] \<or> interface = []
      then ret (\<lparr>rp_pinned_routes = [], rp_classification = YELLOW_PIN, rp_error = ''no gateway/interface''\<rparr>, j)
      else
        bindA (pin_v4 h gateway SPLIT_ROUTES_V4 [] j) (\<lambda>(pinned, err, j).
          case err of
            Some e \<Rightarrow> ret (\<lparr>rp_pinned_routes = pinned, rp_classification = YELLOW_PIN, rp_error = e\<rparr>, j)
          | None \<Rightarrow>
              bindA (pin_v6 h gateway (pinned, j)) (\<lambda>(pinned, j).
                ret (\<lparr>rp_pinned_routes = pinned, rp_classification = ''GREEN'', rp_error = []\<rparr>, j))))"

definition unpin_route :: "'s host \<Rightarrow> string \<Rightarrow> ('s, unit) sh" where
  "unpin_route h entry =
     (let parts = split_ws entry in
      whenA (4 \<le> length parts)
        (exec h [''route'', ''-n'', ''delete'', if parts ! 0 = ''inet6'' then ''-inet6'' else ''-net'', parts ! 1, parts ! 3]))"

definition unpin_split_routes :: "'s host \<Rightarrow> string list \<Rightarrow> ('s, unit) sh" where
  "unpin_split_routes h pinned = for_each (unpin_route h) pinned"

end
