(* ===== verification/Shield_Session.thy ===== *)
theory Shield_Session
  imports Shield_Net
begin

text \<open>
  Recovery, session state, logging, closing, uninstalling, the watchdog daemon and the commands of the attach
  shield. A \<^verbatim>\<open>while\<close> of the daemon is a recursion with the number of iterations as fuel; its iteration is
  a definition of its own.
\<close>

section \<open>Recovery\<close>

record recovery_result =
  rr_steps :: "string dict"
  rr_classification :: string

definition get_current_interfaces :: "'s host \<Rightarrow> ('s, string dict) sh" where
  "get_current_interfaces h =
     bindA (run_cmd h [''networksetup'', ''-listallhardwareports'']) (\<lambda>r. ret (parse_interfaces (cr_stdout r)))"

definition ETHERNET_HINTS :: "string list" where
  "ETHERNET_HINTS = [''ethernet'', ''ncm'', ''ecm'', ''rndis'', ''thunderbolt'']"

definition untrusted_port :: "baseline \<Rightarrow> string \<times> string \<Rightarrow> bool" where
  "untrusted_port b = (\<lambda>(dev, port).
     \<not> (dev \<in> set (map fst (b_interfaces b)) \<or> dev = ''lo0'' \<or> dev = ''awdl0'')
     \<and> \<not> is_virtual_service port
     \<and> list_ex (\<lambda>k. contains k (lower port)) ETHERNET_HINTS)"

definition detect_new_external_ethernet :: "'s host \<Rightarrow> baseline \<Rightarrow> ('s, string list) sh" where
  "detect_new_external_ethernet h b =
     bindA (get_current_interfaces h) (\<lambda>current. ret (map fst (filter (untrusted_port b) current)))"

text \<open>Q1: block each untrusted interface.\<close>

definition recover_q1 :: "'s host \<Rightarrow> baseline \<Rightarrow> string \<Rightarrow> string dict \<times> journal option \<Rightarrow> ('s, string dict \<times> journal option) sh" where
  "recover_q1 h b iface = (\<lambda>(steps, j).
     case j of
       None \<Rightarrow> ret (AList.update (''Q1:'' @ iface) ''INCOMPLETE:pf_block'' steps, None)
     | Some j \<Rightarrow>
         bindA (pf_install_anchor h iface j (b_pf_enabled b)) (\<lambda>(ok, j).
           ret (AList.update (''Q1:'' @ iface) (if ok then ''OK'' else ''INCOMPLETE:pf_block'') steps, Some j)))"

text \<open>Q2: disable the services of its hardware port.\<close>

definition recover_q2 ::
    "'s host \<Rightarrow> baseline \<Rightarrow> string dict \<Rightarrow> string \<Rightarrow> string dict \<times> journal option \<Rightarrow> ('s, string dict \<times> journal option) sh" where
  "recover_q2 h b current iface acc =
     (let hwport = dict_get current iface (dict_get (b_interfaces b) iface []) in
      if hwport = [] then ret acc
      else fold_act (\<lambda>svc (steps, j).
             if same_hardware hwport svc
             then bindA (disable_service h b svc j) (\<lambda>(ok, j).
                    ret (AList.update (''Q2:'' @ svc) (if ok then ''OK'' else ''INCOMPLETE:disable'') steps, j))
             else ret (steps, j)) (b_service_order b) acc)"

text \<open>Q3: delete default routes of lines that mention an untrusted interface.\<close>

definition recover_q3 :: "'s host \<Rightarrow> string list \<Rightarrow> string \<Rightarrow> string dict \<Rightarrow> ('s, string dict) sh" where
  "recover_q3 h untrusted line =
     fold_act (\<lambda>iface steps.
       let parts = split_ws line in
       if contains iface line \<and> (contains ''default'' line \<or> contains ''::/0'' line) \<and> parts \<noteq> []
       then bindA (exec h [''route'', ''-n'', ''delete'', parts ! 0]) (\<lambda>_. ret (AList.update (''Q3:'' @ parts ! 0) ''OK'' steps))
       else ret steps) untrusted"

definition power_cycle :: "'s host \<Rightarrow> string \<Rightarrow> ('s, unit) sh" where
  "power_cycle h dev =
     bindA (exec h [''networksetup'', ''-setairportpower'', dev, ''off'']) (\<lambda>_.
     bindA (sleep h 1) (\<lambda>_. exec h [''networksetup'', ''-setairportpower'', dev, ''on'']))"

text \<open>Q4 to Q6: addressing mode, DNS servers and service order of the baseline.\<close>

definition recover_q456 :: "'s host \<Rightarrow> baseline \<Rightarrow> string dict \<Rightarrow> ('s, string dict) sh" where
  "recover_q456 h b steps =
     (let svc = b_wifi_service b in
      bindA (whenA (svc \<noteq> [] \<and> b_ipv4_mode b = ''DHCP'') (exec h [''networksetup'', ''-setdhcp'', svc])) (\<lambda>_.
      bindA (whenA (svc \<noteq> [])
              (if b_dns_automatic b then exec h [''networksetup'', ''-setdnsservers'', svc, ''Empty'']
               else whenA (b_dns_servers b \<noteq> []) (exec h ([''networksetup'', ''-setdnsservers'', svc] @ b_dns_servers b)))) (\<lambda>_.
      bindA (whenA (b_service_order b \<noteq> []) (exec h ([''networksetup'', ''-ordernetworkservices''] @ b_service_order b))) (\<lambda>_.
        ret (AList.update ''Q6'' (if b_service_order b \<noteq> [] then ''OK'' else ''SKIP:no_order_baseline'')
              (AList.update ''Q5'' (if svc \<noteq> [] then ''OK'' else ''SKIP:no_dns_baseline'')
              (AList.update ''Q4'' (if svc \<noteq> [] then ''OK'' else ''SKIP:no_wifi_service'') steps)))))))"

definition recover_q7 :: "'s host \<Rightarrow> baseline \<Rightarrow> string dict \<Rightarrow> ('s, string dict) sh" where
  "recover_q7 h b steps =
     (if b_wifi_device b = [] then ret (AList.update ''Q7'' ''SKIP:no_wifi_device'' steps)
      else
        bindA (run_cmd h [''networksetup'', ''-getairportnetwork'', b_wifi_device b]) (\<lambda>r.
          if contains ''Current Wi-Fi Network:'' (cr_stdout r) then ret (AList.update ''Q7'' ''SKIP:associated'' steps)
          else bindA (power_cycle h (b_wifi_device b)) (\<lambda>_. ret (AList.update ''Q7'' ''OK:power_cycled'' steps))))"

definition recover_q8 :: "'s host \<Rightarrow> baseline \<Rightarrow> string dict \<Rightarrow> ('s, string dict) sh" where
  "recover_q8 h b steps =
     (if list_ex (\<lambda>(k, v). prefix ''INCOMPLETE'' v) steps \<and> b_wifi_device b \<noteq> []
      then bindA (power_cycle h (b_wifi_device b)) (\<lambda>_. ret (AList.update ''Q8'' ''OK'' steps))
      else ret (AList.update ''Q8'' ''SKIP:not_needed'' steps))"

definition run_recovery :: "'s host \<Rightarrow> baseline \<Rightarrow> string list \<Rightarrow> journal option \<Rightarrow> ('s, recovery_result \<times> journal option) sh" where
  "run_recovery h b untrusted j =
     bindA (fold_act (recover_q1 h b) untrusted ([], j)) (\<lambda>acc.
     bindA (get_current_interfaces h) (\<lambda>current.
     bindA (fold_act (recover_q2 h b current) untrusted acc) (\<lambda>(steps, j).
     bindA (run_cmd h [''netstat'', ''-rn'']) (\<lambda>r.
     bindA (fold_act (recover_q3 h untrusted) (splitlines (cr_stdout r)) steps) (\<lambda>steps.
     bindA (recover_q456 h b steps) (\<lambda>steps.
     bindA (recover_q7 h b steps) (\<lambda>steps.
     bindA (recover_q8 h b steps) (\<lambda>steps.
     bindA (run_cmd h [''route'', ''-n'', ''get'', ''default'']) (\<lambda>r.
       if snd (parse_default_route (cr_stdout r)) = b_wifi_device b
       then ret (\<lparr>rr_steps = AList.update ''Q9'' ''OK'' steps, rr_classification = ''GREEN''\<rparr>, j)
       else ret (\<lparr>rr_steps = AList.update ''Q9'' ''INCOMPLETE:route_not_restored'' steps,
                  rr_classification = ''INCOMPLETE:Q9''\<rparr>, j))))))))))"

section \<open>Session state\<close>

record shield_state =
  st_armed :: bool
  st_session_id :: string
  st_baseline :: "(string \<times> json) list option"
  st_pinned_routes :: "string list"
  st_quarantined_services :: "string list"
  st_untrusted_interfaces :: "string list"
  st_pf_anchor_active :: bool
  st_pf_was_enabled :: bool
  st_armed_at :: rat
  st_expires_at :: rat
  st_ttl_seconds :: int
  st_classification :: string
  st_shield_location :: string
  st_original_location :: string
  st_location_mode :: bool
  st_session_closed :: bool

definition state_default :: shield_state where
  "state_default =
     \<lparr>st_armed = False, st_session_id = [], st_baseline = None, st_pinned_routes = [], st_quarantined_services = [],
      st_untrusted_interfaces = [], st_pf_anchor_active = False, st_pf_was_enabled = False, st_armed_at = 0,
      st_expires_at = 0, st_ttl_seconds = DEFAULT_TTL_S, st_classification = [], st_shield_location = [],
      st_original_location = [], st_location_mode = False, st_session_closed = False\<rparr>"

definition state_dict :: "shield_state \<Rightarrow> (string \<times> json) list" where
  "state_dict s =
     [(''armed'', JBool (st_armed s)),
      (''session_id'', JStr (st_session_id s)),
      (''baseline'', case st_baseline s of None \<Rightarrow> JNull | Some b \<Rightarrow> JObj b),
      (''pinned_routes'', jstrs (st_pinned_routes s)),
      (''quarantined_services'', jstrs (st_quarantined_services s)),
      (''untrusted_interfaces'', jstrs (st_untrusted_interfaces s)),
      (''pf_anchor_active'', JBool (st_pf_anchor_active s)),
      (''pf_was_enabled'', JBool (st_pf_was_enabled s)),
      (''armed_at'', JFloat (st_armed_at s)),
      (''expires_at'', JFloat (st_expires_at s)),
      (''ttl_seconds'', JInt (st_ttl_seconds s)),
      (''classification'', JStr (st_classification s)),
      (''shield_location'', JStr (st_shield_location s)),
      (''original_location'', JStr (st_original_location s)),
      (''location_mode'', JBool (st_location_mode s)),
      (''session_closed'', JBool (st_session_closed s))]"

definition state_to_json :: "shield_state \<Rightarrow> string" where
  "state_to_json s = dumps_indent (JObj (state_dict s))"

definition as_obj :: "json \<Rightarrow> (string \<times> json) list result" where
  "as_obj j = (case j of JObj kvs \<Rightarrow> Inr kvs | _ \<Rightarrow> Inl TypeError)"

definition state_fields :: "(string \<times> (json \<Rightarrow> shield_state \<Rightarrow> shield_state result)) list" where
  "state_fields =
     [(''armed'', set_field as_bool (\<lambda>x s. s\<lparr>st_armed := x\<rparr>)),
      (''session_id'', set_field as_str (\<lambda>x s. s\<lparr>st_session_id := x\<rparr>)),
      (''baseline'', set_field (as_optional as_obj) (\<lambda>x s. s\<lparr>st_baseline := x\<rparr>)),
      (''pinned_routes'', set_field as_strs (\<lambda>x s. s\<lparr>st_pinned_routes := x\<rparr>)),
      (''quarantined_services'', set_field as_strs (\<lambda>x s. s\<lparr>st_quarantined_services := x\<rparr>)),
      (''untrusted_interfaces'', set_field as_strs (\<lambda>x s. s\<lparr>st_untrusted_interfaces := x\<rparr>)),
      (''pf_anchor_active'', set_field as_bool (\<lambda>x s. s\<lparr>st_pf_anchor_active := x\<rparr>)),
      (''pf_was_enabled'', set_field as_bool (\<lambda>x s. s\<lparr>st_pf_was_enabled := x\<rparr>)),
      (''armed_at'', set_field as_num (\<lambda>x s. s\<lparr>st_armed_at := x\<rparr>)),
      (''expires_at'', set_field as_num (\<lambda>x s. s\<lparr>st_expires_at := x\<rparr>)),
      (''ttl_seconds'', set_field as_int (\<lambda>x s. s\<lparr>st_ttl_seconds := x\<rparr>)),
      (''classification'', set_field as_str (\<lambda>x s. s\<lparr>st_classification := x\<rparr>)),
      (''shield_location'', set_field as_str (\<lambda>x s. s\<lparr>st_shield_location := x\<rparr>)),
      (''original_location'', set_field as_str (\<lambda>x s. s\<lparr>st_original_location := x\<rparr>)),
      (''location_mode'', set_field as_bool (\<lambda>x s. s\<lparr>st_location_mode := x\<rparr>)),
      (''session_closed'', set_field as_bool (\<lambda>x s. s\<lparr>st_session_closed := x\<rparr>))]"

definition state_from_json :: "string \<Rightarrow> shield_state result" where
  "state_from_json txt =
     bindE (loads txt) (\<lambda>d.
       case d of JObj kvs \<Rightarrow> set_fields state_fields kvs state_default | _ \<Rightarrow> Inl AttributeError)"

definition is_expired :: "shield_state \<Rightarrow> rat \<Rightarrow> bool" where
  "is_expired s t = (st_armed s \<and> t > st_expires_at s)"

definition ttl_remaining :: "shield_state \<Rightarrow> rat \<Rightarrow> rat" where
  "ttl_remaining s t = max 0 (st_expires_at s - t)"

definition load_state :: "'s host \<Rightarrow> ('s, shield_state option) sh" where
  "load_state h =
     bindA (read_file h STATE_FILE) (\<lambda>txt.
       if text_or_empty txt = [] then ret None
       else case state_from_json (text_or_empty txt) of
              Inr s \<Rightarrow> ret (Some s)
            | Inl e \<Rightarrow> (case e of JSONDecodeError \<Rightarrow> ret None | KeyError _ \<Rightarrow> ret None | _ \<Rightarrow> raiseA e))"

definition save_state :: "'s host \<Rightarrow> shield_state \<Rightarrow> ('s, unit) sh" where
  "save_state h s =
     bindA (mkdir_p h (pstr STATE_DIR) MODE_700) (\<lambda>_. write_file h STATE_FILE (state_to_json s) MODE_600)"

section \<open>Session log\<close>

record logger =
  lg_session_id :: string
  lg_file :: string
  lg_bytes_written :: nat

definition logger_open :: "'s host \<Rightarrow> string \<Rightarrow> ('s, logger) sh" where
  "logger_open h sid =
     bindA (mkdir_p h (session_dir sid) MODE_700) (\<lambda>_.
       ret \<lparr>lg_session_id = sid, lg_file = session_dir sid @ ''/shield.jsonl'', lg_bytes_written = 0\<rparr>)"

definition log_event :: "'s host \<Rightarrow> logger \<Rightarrow> string \<Rightarrow> (string \<times> json) list \<Rightarrow> ('s, logger) sh" where
  "log_event h lg event data =
     bindA (time_now h) (\<lambda>ts.
       let line = redact (dumps (JObj [(''ts'', JFloat ts), (''session'', JStr (lg_session_id lg)),
                                       (''event'', JStr event), (''data'', JObj data)])) in
       if lg_bytes_written lg + length line > MAX_LOG_BYTES then ret lg
       else
         bindA (read_file h (lg_file lg)) (\<lambda>existing.
         bindA (write_file h (lg_file lg) (text_or_empty existing @ line @ [char_of (10 :: nat)]) MODE_600) (\<lambda>_.
           ret (lg\<lparr>lg_bytes_written := lg_bytes_written lg + length line + 1\<rparr>))))"

end
