(* ===== verification/Shield_Commands.thy ===== *)
theory Shield_Commands
  imports Shield_Session
begin

text \<open>
  Closing a session (steps C1 to C12), uninstalling, the watchdog daemon, the post-mortem report and the command line
  of the attach shield.
\<close>

section \<open>Closing a session\<close>

definition lift_result :: "'a result \<Rightarrow> ('s, 'a) sh" where
  "lift_result x = (case x of Inl e \<Rightarrow> raiseA e | Inr v \<Rightarrow> ret v)"

text \<open>\<^verbatim>\<open>Baseline.from_dict(d) if d else Baseline()\<close>\<close>

definition stored_baseline :: "(string \<times> json) list option \<Rightarrow> baseline result" where
  "stored_baseline d = (case d of None \<Rightarrow> Inr baseline_default | Some kvs \<Rightarrow>
     if kvs = [] then Inr baseline_default else baseline_from_dict kvs)"

definition still_present :: "'s host \<Rightarrow> shield_state \<Rightarrow> bool \<Rightarrow> ('s, string list) sh" where
  "still_present h st force =
     (if force \<or> st_untrusted_interfaces st = [] then ret []
      else bindA (get_current_interfaces h) (\<lambda>current.
             ret (filter (\<lambda>i. i \<in> set (map fst current)) (st_untrusted_interfaces st))))"

text \<open>C11: compare with the fingerprint stored when the session was armed.\<close>

definition compare_stored :: "'s host \<Rightarrow> string \<Rightarrow> logger \<Rightarrow> (string \<times> json) list \<Rightarrow> ('s, bool \<times> logger) sh" where
  "compare_stored h sid lg fp_post =
     bindA (read_file h (session_file sid ''fingerprint-pre.json'')) (\<lambda>txt.
       if text_or_empty txt = []
       then bindA (log_event h lg ''C11_fingerprint_verify'' [(''equal'', JBool False), (''reason'', JStr ''no_pre_fingerprint'')]) (\<lambda>lg.
              ret (False, lg))
       else
         bindA (lift_result (loads (text_or_empty txt))) (\<lambda>fp_pre.
           case fp_pre of
             JObj pre \<Rightarrow>
               (case compare_fingerprints pre fp_post of (equal, ds) \<Rightarrow>
                  bindA (log_event h lg ''C11_fingerprint_verify'' [(''equal'', JBool equal), (''diffs'', jstrs (take 5 ds))]) (\<lambda>lg.
                    ret (equal, lg)))
           | _ \<Rightarrow> raiseA AttributeError))"

definition verify_fingerprint :: "'s host \<Rightarrow> string \<Rightarrow> logger \<Rightarrow> ('s, bool \<times> logger) sh" where
  "verify_fingerprint h sid lg = bindA (capture_fingerprint h) (compare_stored h sid lg)"

definition close_location :: "'s host \<Rightarrow> shield_state \<Rightarrow> journal \<Rightarrow> logger \<Rightarrow> ('s, logger) sh" where
  "close_location h st j lg =
     (if st_location_mode st \<and> st_original_location st \<noteq> [] \<and> st_shield_location st \<noteq> []
      then bindA (restore_location h (st_original_location st) (st_shield_location st) j) (\<lambda>_.
             log_event h lg ''C9_location_restored'' [(''original'', JStr (st_original_location st))])
      else ret lg)"

definition closed_state :: "shield_state \<Rightarrow> shield_state" where
  "closed_state st =
     st\<lparr>st_armed := False, st_session_closed := True, st_pinned_routes := [], st_pf_anchor_active := False,
        st_quarantined_services := []\<rparr>"

definition close_classification :: "bool \<Rightarrow> bool \<Rightarrow> string list \<Rightarrow> string" where
  "close_classification ok equal issues =
     (if issues \<noteq> [] then ''INCOMPLETE_ROLLBACK:'' @ join '';'' (take 3 issues)
      else if ok \<and> equal then ''GREEN_CLOSE_COMPLETE'' else ''YELLOW_CLOSE_PARTIAL'')"

definition close_session :: "'s host \<Rightarrow> shield_state \<Rightarrow> bool \<Rightarrow> ('s, bool \<times> string) sh" where
  "close_session h st force =
     bindA (lift_result (stored_baseline (st_baseline st))) (\<lambda>b.
     bindA (journal_open h (st_session_id st)) (\<lambda>j.
     bindA (logger_open h (st_session_id st)) (\<lambda>lg.
     bindA (still_present h st force) (\<lambda>present.
       if present \<noteq> [] then ret (False, ''REFUSED_DEVICE_PRESENT='' @ repr_list present)
       else
     bindA (log_event h lg ''close_session_start'' [(''force'', JBool force)]) (\<lambda>lg.
     bindA (exec h [''launchctl'', ''unload'', LAUNCHD_PLIST]) (\<lambda>_.
     bindA (log_event h lg ''C1_daemon_stopped'' []) (\<lambda>lg.
     bindA (exec h [''pfctl'', ''-a'', PF_ANCHOR, ''-F'', ''all'']) (\<lambda>_.
     bindA (log_event h lg ''C2_pf_anchor_cleared'' []) (\<lambda>lg.
     bindA (whenA (\<not> st_pf_was_enabled st) (exec h [''pfctl'', ''-d''])) (\<lambda>_.
     bindA (log_event h lg (if st_pf_was_enabled st then ''C3_pf_preserved'' else ''C3_pf_disabled'')
              [(''was_enabled'', JBool (st_pf_was_enabled st))]) (\<lambda>lg.
     bindA (unpin_split_routes h (st_pinned_routes st)) (\<lambda>_.
     bindA (log_event h lg ''C4_routes_removed'' [(''count'', JInt (int (length (st_pinned_routes st))))]) (\<lambda>lg.
     bindA (journal_rollback h j) (\<lambda>(ok, issues).
     bindA (log_event h lg ''C5_C8_journal_rollback'' [(''ok'', JBool ok), (''issues'', jstrs issues)]) (\<lambda>lg.
     bindA (close_location h st j lg) (\<lambda>lg.
     bindA (log_event h lg ''C10_location_deleted'' []) (\<lambda>lg.
     bindA (verify_fingerprint h (st_session_id st) lg) (\<lambda>(equal, lg).
     bindA (save_state h (closed_state st)) (\<lambda>_.
     bindA (log_event h lg ''C12_session_closed'' []) (\<lambda>lg.
       ret (ok \<and> equal, close_classification ok equal issues)))))))))))))))))))))"

section \<open>Uninstall\<close>

definition archive_evidence :: "'s host \<Rightarrow> string \<Rightarrow> shield_state \<Rightarrow> ('s, unit) sh" where
  "archive_evidence h path st =
     bindA (capture_fingerprint h) (\<lambda>fp.
     bindA (write_file h path (dumps_indent (JObj [(''session_id'', JStr (st_session_id st)),
              (''classification'', JStr (st_classification st)), (''armed_at'', JFloat (st_armed_at st)),
              (''fingerprint_post'', JObj fp)])) MODE_600) (\<lambda>_.
       print (''EVIDENCE_ARCHIVED='' @ path)))"

definition remove_if_empty :: "'s host \<Rightarrow> string \<Rightarrow> ('s, unit) sh" where
  "remove_if_empty h d =
     bindA (gets (\<lambda>p. h_path_exists h d (pg_host p) \<and> h_list_dir h d (pg_host p) = [])) (\<lambda>empty.
       whenA empty (host_do (sv_rmdir (h_services h) d)))"

text \<open>
  \<^verbatim>\<open>close_session\<close> changes the state object in place, but of the fields that the report shows it changes none, so the
  report may use the state as loaded.
\<close>

definition cmd_uninstall :: "'s host \<Rightarrow> bool \<Rightarrow> string \<Rightarrow> ('s, int) sh" where
  "cmd_uninstall h purge evidence_path =
     bindA (load_state h) (\<lambda>state.
     bindA (case state of
              Some st \<Rightarrow> whenA (st_armed st)
                (bindA (close_session h st True) (\<lambda>(ok, cls). print (''PRE_CLOSE='' @ cls)))
            | None \<Rightarrow> ret ()) (\<lambda>_.
     bindA (case state of
              Some st \<Rightarrow> whenA (evidence_path \<noteq> []) (archive_evidence h evidence_path st)
            | None \<Rightarrow> ret ()) (\<lambda>_.
     bindA (exec h [''launchctl'', ''unload'', LAUNCHD_PLIST]) (\<lambda>_.
     bindA (exec h [''pfctl'', ''-a'', PF_ANCHOR, ''-F'', ''all'']) (\<lambda>_.
     bindA (host_do (h_remove_file h LAUNCHD_PLIST)) (\<lambda>_.
     bindA (host_do (h_remove_file h INSTALLED_SHIELD)) (\<lambda>_.
     bindA (host_do (if purge then h_remove_dir h (pstr STATE_DIR) else h_remove_file h STATE_FILE)) (\<lambda>_.
     bindA (for_each (remove_if_empty h) [pstr INSTALL_DIR, pstr (parent INSTALL_DIR)]) (\<lambda>_.
     bindA (print (''UNINSTALL='' @ (if purge then ''PURGE'' else ''KEEP_EVIDENCE'') @ ''=OK'')) (\<lambda>_.
       ret 0))))))))))"

section \<open>Daemon\<close>

text \<open>\<^verbatim>\<open>list(set(a + b))\<close>; the order, which Python leaves open, is that of the first occurrences.\<close>

definition merge_interfaces :: "string list \<Rightarrow> string list \<Rightarrow> string list" where
  "merge_interfaces a b = rev (remdups (rev (a @ b)))"

definition log_recovery :: "'s host \<Rightarrow> logger \<Rightarrow> recovery_result \<Rightarrow> ('s, logger) sh" where
  "log_recovery h lg rr =
     log_event h lg ''recovery'' [(''result'', jstr_dict (rr_steps rr)), (''classification'', JStr (rr_classification rr))]"

text \<open>An iteration after its pause: the session is over (with the logger), or the state for the next one.\<close>

definition daemon_check ::
    "'s host \<Rightarrow> baseline \<Rightarrow> shield_state \<Rightarrow> journal \<Rightarrow> logger \<Rightarrow> ('s, logger + shield_state \<times> journal \<times> logger) sh" where
  "daemon_check h b st j lg =
     bindA (time_now h) (\<lambda>t.
       if is_expired st t
       then bindA (log_event h lg ''ttl_expired_auto_rollback'' []) (\<lambda>lg.
            bindA (close_session h st True) (\<lambda>_. ret (Inl lg)))
       else
     bindA (detect_new_external_ethernet h b) (\<lambda>new.
       if new \<noteq> []
       then
         bindA (log_event h lg ''untrusted_detected'' [(''interfaces'', jstrs new)]) (\<lambda>lg.
           let st = st\<lparr>st_untrusted_interfaces := merge_interfaces (st_untrusted_interfaces st) new\<rparr> in
         bindA (save_state h st) (\<lambda>_.
         bindA (run_recovery h b new (Some j)) (\<lambda>(rr, j').
         bindA (log_recovery h lg rr) (\<lambda>lg.
           ret (Inr (st, case j' of Some j \<Rightarrow> j | None \<Rightarrow> j, lg))))))
       else
     bindA (run_cmd h [''route'', ''-n'', ''get'', ''default'']) (\<lambda>r.
       let iface = snd (parse_default_route (cr_stdout r)) in
       if iface \<noteq> b_wifi_device b
       then
         bindA (log_event h lg ''route_drift'' [(''expected'', JStr (b_wifi_device b)), (''actual'', JStr iface)]) (\<lambda>lg.
         bindA (run_recovery h b (st_untrusted_interfaces st) (Some j)) (\<lambda>(rr, j').
         bindA (log_recovery h lg rr) (\<lambda>lg.
           ret (Inr (st, case j' of Some j \<Rightarrow> j | None \<Rightarrow> j, lg)))))
       else ret (Inr (st, j, lg)))))"

definition daemon_step ::
    "'s host \<Rightarrow> baseline \<Rightarrow> shield_state \<Rightarrow> journal \<Rightarrow> logger \<Rightarrow> ('s, logger + shield_state \<times> journal \<times> logger) sh" where
  "daemon_step h b st j lg = bindA (sleep h WATCHDOG_INTERVAL_S) (\<lambda>_. daemon_check h b st j lg)"

text \<open>\<^verbatim>\<open>while running\<close>: the result is missing when the iterations have run out.\<close>

fun daemon_while ::
    "'s host \<Rightarrow> baseline \<Rightarrow> nat \<Rightarrow> shield_state \<Rightarrow> journal \<Rightarrow> logger \<Rightarrow> ('s, logger option) sh" where
  "daemon_while h b 0 st j lg = ret None"
| "daemon_while h b (Suc n) st j lg =
     bindA (gets (\<lambda>p. sv_signalled (h_services h) (pg_host p))) (\<lambda>stop.
       if stop then ret (Some lg)
       else bindA (daemon_step h b st j lg) (\<lambda>r.
              case r of Inl lg \<Rightarrow> ret (Some lg) | Inr (st, j, lg) \<Rightarrow> daemon_while h b n st j lg))"

text \<open>
  The daemon also starts \<^verbatim>\<open>route -n monitor\<close>, whose output it never reads, and stops it at the end; this has no effect
  on the host and is left out. The result says whether the daemon has ended within \<open>n\<close> iterations.
\<close>

definition daemon_loop :: "'s host \<Rightarrow> nat \<Rightarrow> logger \<Rightarrow> ('s, bool) sh" where
  "daemon_loop h n lg =
     bindA (load_state h) (\<lambda>state.
       case state of
         None \<Rightarrow> bindA (log_event h lg ''daemon_exit'' [(''reason'', JStr ''not_armed'')]) (\<lambda>_. ret True)
       | Some st \<Rightarrow>
           if \<not> st_armed st then bindA (log_event h lg ''daemon_exit'' [(''reason'', JStr ''not_armed'')]) (\<lambda>_. ret True)
           else bindA (time_now h) (\<lambda>t.
             if is_expired st t
             then bindA (log_event h lg ''daemon_ttl_expired_on_start'' [(''expires_at'', JFloat (st_expires_at st))]) (\<lambda>_.
                  bindA (close_session h st True) (\<lambda>_. ret True))
             else
           bindA (lift_result (stored_baseline (st_baseline st))) (\<lambda>b.
           bindA (journal_open h (st_session_id st)) (\<lambda>j.
           bindA (time_now h) (\<lambda>t.
           bindA (log_event h lg ''daemon_start'' [(''session'', JStr (st_session_id st)),
                    (''ttl_remaining'', JFloat (ttl_remaining st t))]) (\<lambda>lg.
           bindA (daemon_while h b n st j lg) (\<lambda>res.
             case res of
               None \<Rightarrow> ret False
             | Some lg \<Rightarrow> bindA (log_event h lg ''daemon_stop'' []) (\<lambda>_. ret True))))))))"

section \<open>Post-mortem\<close>

definition generate_postmortem :: "'s host \<Rightarrow> ('s, string) sh" where
  "generate_postmortem h =
     bindA (gets (\<lambda>p. h_path_exists h (pstr SESSION_DIR) (pg_host p))) (\<lambda>there.
     bindA (gets (\<lambda>p. h_list_dir h (pstr SESSION_DIR) (pg_host p))) (\<lambda>sessions.
       if \<not> there \<or> sessions = [] then ret ''NO_SESSIONS''
       else
     bindA (read_file h (pstr SESSION_DIR @ ''/'' @ last sessions @ ''/shield.jsonl'')) (\<lambda>txt.
       if text_or_empty txt = [] then ret ''NO_LOG_DATA''
       else
         (let events = parse_lines (text_or_empty txt) in
          ret (dumps_indent (JObj [(''session'', JStr (last sessions)), (''total_events'', JInt (int (length events))),
                 (''events'', JList (drop (length events - 10) events))]))))))"

section \<open>Commands\<close>

definition py_bool :: "bool \<Rightarrow> string" where "py_bool b = (if b then ''True'' else ''False'')"

definition print_all :: "string list \<Rightarrow> ('s, unit) sh" where "print_all ls = for_each print ls"

definition cmd_audit :: "'s host \<Rightarrow> ('s, int) sh" where
  "cmd_audit h =
     bindA (capture_baseline h) (\<lambda>b.
     bindA (print_all [''wifi_device='' @ b_wifi_device b, ''wifi_service='' @ b_wifi_service b,
              ''wifi_power='' @ py_bool (b_wifi_power b), ''ssid_digest='' @ b_ssid_digest b, ''gateway='' @ REDACTED,
              ''service_order='' @ repr_list (b_service_order b),
              ''service_enabled='' @ py_repr (jbool_dict (b_service_enabled b)),
              ''pf_enabled='' @ py_bool (b_pf_enabled b)]) (\<lambda>_.
     bindA (location_supported h) (\<lambda>sup.
     bindA (print (''location_supported='' @ py_bool sup)) (\<lambda>_.
     bindA (identify_bootmux_services h b) (\<lambda>bootmux.
     bindA (print (''bootmux_services_found='' @ repr_list bootmux)) (\<lambda>_.
     bindA (load_state h) (\<lambda>state.
     bindA (print (''shield_armed='' @ py_bool (case state of None \<Rightarrow> False | Some st \<Rightarrow> st_armed st))) (\<lambda>_.
       ret 0))))))))"

definition clamp_ttl :: "int \<Rightarrow> int" where "clamp_ttl ttl = max MIN_TTL_S (min ttl MAX_TTL_S)"

text \<open>Network location isolation: the shield location (empty without one) and whether it is in use.\<close>

definition arm_location :: "'s host \<Rightarrow> string \<Rightarrow> string \<Rightarrow> journal \<Rightarrow> logger \<Rightarrow> ('s, string \<times> bool \<times> journal \<times> logger) sh" where
  "arm_location h sid original_loc j lg =
     bindA (location_supported h) (\<lambda>sup.
       if sup
       then
         bindA (create_shield_location h sid j) (\<lambda>(loc, j).
           case loc of
             Some l \<Rightarrow>
               if l \<noteq> []
               then bindA (log_event h lg ''location_isolation'' [(''shield'', JStr l), (''original'', JStr original_loc)]) (\<lambda>lg.
                      ret (l, True, j, lg))
               else bindA (log_event h lg ''location_fallback'' [(''reason'', JStr ''create_failed'')]) (\<lambda>lg. ret ([], False, j, lg))
           | None \<Rightarrow> bindA (log_event h lg ''location_fallback'' [(''reason'', JStr ''create_failed'')]) (\<lambda>lg. ret ([], False, j, lg)))
       else bindA (log_event h lg ''location_fallback'' [(''reason'', JStr ''not_supported'')]) (\<lambda>lg. ret ([], False, j, lg)))"

definition armed_state :: "string \<Rightarrow> baseline \<Rightarrow> pin_result \<Rightarrow> quarantine_result \<Rightarrow> rat \<Rightarrow> int \<Rightarrow> string \<Rightarrow> bool \<Rightarrow> shield_state" where
  "armed_state sid b rp qr t ttl shield_loc loc_mode =
     state_default\<lparr>st_armed := True, st_session_id := sid, st_baseline := Some (baseline_to_dict b),
       st_pinned_routes := rp_pinned_routes rp, st_quarantined_services := qr_services_disabled qr,
       st_pf_was_enabled := b_pf_enabled b, st_armed_at := t, st_expires_at := t + of_int ttl, st_ttl_seconds := ttl,
       st_classification := (if rp_classification rp = ''GREEN'' then ''GREEN'' else YELLOW_PIN),
       st_shield_location := shield_loc, st_original_location := b_network_location b, st_location_mode := loc_mode\<rparr>"

definition location_mode_text :: "bool \<Rightarrow> string" where
  "location_mode_text b = ''LOCATION_MODE='' @ (if b then ''ISOLATED'' else ''BASELINE_RESTORE'')"

text \<open>Arming when no session is armed; with the new session identifier and the clamped time to live.\<close>

definition arm_session :: "'s host \<Rightarrow> string \<Rightarrow> int \<Rightarrow> ('s, int) sh" where
  "arm_session h sid ttl =
     bindA (logger_open h sid) (\<lambda>lg.
     bindA (journal_open h sid) (\<lambda>j.
     bindA (log_event h lg ''arm_start'' [(''version'', JStr ''2.0.0''), (''ttl'', JInt ttl)]) (\<lambda>lg.
     bindA (capture_baseline h) (\<lambda>b.
       if b_wifi_device b = [] then bindA (print ''CLASSIFICATION=RED_NO_WIFI_DEVICE'') (\<lambda>_. ret 1)
       else
     bindA (capture_fingerprint h) (\<lambda>fp_pre.
     bindA (mkdir_p h (session_dir sid) MODE_700) (\<lambda>_.
     bindA (write_file h (session_file sid ''fingerprint-pre.json'') (dumps_indent (JObj fp_pre)) MODE_600) (\<lambda>_.
     bindA (arm_location h sid (b_network_location b) j lg) (\<lambda>(shield_loc, loc_mode, j, lg).
     bindA (quarantine_bootmux h b j) (\<lambda>(qr, j).
     bindA (log_event h lg ''quarantine'' [(''result'', JStr (qr_classification qr)), (''disabled'', jstrs (qr_services_disabled qr))]) (\<lambda>lg.
     bindA (pin_split_routes h (b_gateway b) (b_wifi_device b) j) (\<lambda>(rp, j).
     bindA (log_event h lg ''route_pin'' [(''classification'', JStr (rp_classification rp)),
              (''pinned'', JInt (int (length (rp_pinned_routes rp))))]) (\<lambda>lg.
     bindA (time_now h) (\<lambda>t.
       let st = armed_state sid b rp qr t ttl shield_loc loc_mode in
     bindA (save_state h st) (\<lambda>_.
     bindA (log_event h lg ''arm_complete'' [(''classification'', JStr (st_classification st)), (''expires_at'', JFloat (st_expires_at st))]) (\<lambda>lg.
     bindA (print_all [''CLASSIFICATION='' @ st_classification st, ''SESSION_ID='' @ sid, ''TTL_SECONDS='' @ int_str ttl,
              ''EXPIRES_AT='' @ float_str (st_expires_at st), ''ROUTE_PIN='' @ rp_classification rp,
              ''QUARANTINE='' @ qr_classification qr, location_mode_text loc_mode]) (\<lambda>_.
       ret 0))))))))))))))))"

definition cmd_arm :: "'s host \<Rightarrow> int \<Rightarrow> ('s, int) sh" where
  "cmd_arm h ttl =
     bindA (load_state h) (\<lambda>state.
       if (case state of None \<Rightarrow> False | Some st \<Rightarrow> st_armed st) then bindA (print ''ALREADY_ARMED'') (\<lambda>_. ret 0)
       else bindA (gets (\<lambda>p. take 8 (sv_uuid (h_services h) (pg_host p)))) (\<lambda>sid. arm_session h sid (clamp_ttl ttl)))"

definition cmd_renew :: "'s host \<Rightarrow> string \<Rightarrow> int \<Rightarrow> ('s, int) sh" where
  "cmd_renew h sid ttl0 =
     bindA (load_state h) (\<lambda>state.
       case state of
         None \<Rightarrow> bindA (print ''NOT_ARMED'') (\<lambda>_. ret 1)
       | Some st \<Rightarrow>
           if \<not> st_armed st then bindA (print ''NOT_ARMED'') (\<lambda>_. ret 1)
           else if st_session_id st \<noteq> sid
             then bindA (print (''SESSION_MISMATCH expected='' @ st_session_id st)) (\<lambda>_. ret 1)
           else
             bindA (time_now h) (\<lambda>t.
               let ttl = clamp_ttl ttl0; st' = st\<lparr>st_expires_at := t + of_int ttl, st_ttl_seconds := ttl\<rparr> in
             bindA (save_state h st') (\<lambda>_.
             bindA (print (''RENEWED ttl='' @ int_str ttl @ '' expires_at='' @ float_str (st_expires_at st'))) (\<lambda>_. ret 0))))"

definition cmd_close_session :: "'s host \<Rightarrow> bool \<Rightarrow> ('s, int) sh" where
  "cmd_close_session h force =
     bindA (load_state h) (\<lambda>state.
       case state of
         None \<Rightarrow> bindA (print ''NOT_INSTALLED'') (\<lambda>_. ret 0)
       | Some st \<Rightarrow>
           if \<not> st_armed st
           then bindA (print (if st_session_closed st then ''ALREADY_CLOSED'' else ''NOT_ARMED'')) (\<lambda>_. ret 0)
           else
             bindA (close_session h st force) (\<lambda>(ok, classification).
             bindA (print (''CLOSE_RESULT='' @ classification)) (\<lambda>_. ret (if ok then 0 else 1))))"

text \<open>\<^verbatim>\<open>f"{x:.0f}"\<close>: the nearest integer, the even one of two.\<close>

definition round_even :: "rat \<Rightarrow> int" where
  "round_even x =
     (let f = floor x; d = x - of_int f in
      if d < 1 / 2 then f else if d > 1 / 2 then f + 1 else if even f then f else f + 1)"

definition cmd_status :: "'s host \<Rightarrow> ('s, int) sh" where
  "cmd_status h =
     bindA (load_state h) (\<lambda>state.
       case state of
         None \<Rightarrow> bindA (print ''STATUS=NOT_INSTALLED'') (\<lambda>_. ret 0)
       | Some st \<Rightarrow>
           bindA (time_now h) (\<lambda>t.
           bindA (print_all
             [if st_session_closed st then ''STATUS=RESTORED'' else if st_armed st then ''STATUS=ARMED_TEMPORARY''
                else ''STATUS=INSTALLED_DISARMED'',
              ''SESSION_ID='' @ st_session_id st, ''CLASSIFICATION='' @ st_classification st,
              ''PINNED_ROUTES='' @ nat_str (length (st_pinned_routes st)),
              ''QUARANTINED='' @ repr_list (st_quarantined_services st),
              ''UNTRUSTED='' @ repr_list (st_untrusted_interfaces st),
              ''PF_ANCHOR='' @ py_bool (st_pf_anchor_active st), ''TTL_SECONDS='' @ int_str (st_ttl_seconds st),
              ''TTL_REMAINING='' @ int_str (round_even (ttl_remaining st t)), location_mode_text (st_location_mode st)]) (\<lambda>_.
             ret 0)))"

definition cmd_recover_now :: "'s host \<Rightarrow> ('s, int) sh" where
  "cmd_recover_now h =
     bindA (load_state h) (\<lambda>state.
       case state of
         None \<Rightarrow> bindA (print ''NO_BASELINE'') (\<lambda>_. ret 1)
       | Some st \<Rightarrow>
           if st_baseline st = None \<or> st_baseline st = Some [] then bindA (print ''NO_BASELINE'') (\<lambda>_. ret 1)
           else
             bindA (lift_result (stored_baseline (st_baseline st))) (\<lambda>b.
             bindA (if st_session_id st = [] then ret None
                    else bindA (journal_open h (st_session_id st)) (\<lambda>j. ret (Some j))) (\<lambda>j.
             bindA (if st_untrusted_interfaces st \<noteq> [] then ret (st_untrusted_interfaces st)
                    else detect_new_external_ethernet h b) (\<lambda>untrusted.
             bindA (run_recovery h b untrusted j) (\<lambda>(rr, j).
             bindA (print_all ((''RECOVERY_CLASSIFICATION='' @ rr_classification rr)
                      # map (\<lambda>(k, v). ''  '' @ k @ '': '' @ v) (sort_key fst (rr_steps rr)))) (\<lambda>_.
               ret (if rr_classification rr = ''GREEN'' then 0 else 1)))))))"

definition cmd_fingerprint :: "'s host \<Rightarrow> ('s, int) sh" where
  "cmd_fingerprint h =
     bindA (capture_fingerprint h) (\<lambda>fp. bindA (print (dumps_indent (JObj fp))) (\<lambda>_. ret 0))"

definition cmd_postmortem :: "'s host \<Rightarrow> ('s, int) sh" where
  "cmd_postmortem h = bindA (generate_postmortem h) (\<lambda>txt. bindA (print txt) (\<lambda>_. ret 0))"

definition cmd_daemon :: "'s host \<Rightarrow> nat \<Rightarrow> ('s, int) sh" where
  "cmd_daemon h n =
     bindA (load_state h) (\<lambda>state.
       if (case state of None \<Rightarrow> True | Some st \<Rightarrow> st_session_id st = []) then bindA (print ''NO_SESSION'') (\<lambda>_. ret 1)
       else
         bindA (logger_open h (case state of None \<Rightarrow> [] | Some st \<Rightarrow> st_session_id st)) (\<lambda>lg.
         bindA (daemon_loop h n lg) (\<lambda>_. ret 0)))"

section \<open>Self test\<close>

definition line_break :: string where "line_break = [char_of (10 :: nat)]"

text \<open>A host of the self test: no time passes.\<close>

definition self_test_host :: "rat \<Rightarrow> fake host" where
  "self_test_host t =
     fake_host \<lparr>sv_time = (\<lambda>_. t), sv_sleep = (\<lambda>_ s. s), sv_uuid = (\<lambda>_. []), sv_rmdir = (\<lambda>_ s. s), sv_signalled = (\<lambda>_. False)\<rparr>"

definition self_test_prog :: "(fake \<Rightarrow> fake) \<Rightarrow> rat \<Rightarrow> fake prog" where
  "self_test_prog f t = \<lparr>pg_host = f (fake_new t), pg_out = [], pg_cmds = []\<rparr>"

definition self_test_journal :: "rat \<Rightarrow> json list result" where
  "self_test_journal t =
     (let h = self_test_host t in
      fst (bindA (journal_open h ''jtest'') (\<lambda>j.
           bindA (journal_record h j ''service_disable'' ''TestSvc'' (JObj [(''enabled'', JBool True)])
                    [''networksetup'', ''-setnetworkserviceenabled'', ''TestSvc'', ''off''] 0) (\<lambda>j.
             journal_entries h j)) (self_test_prog (\<lambda>s. s) t)))"

definition self_test_parsers :: "(string \<times> bool) list" where
  "self_test_parsers =
     (let (order, enabled) = parse_service_order (''(1) Wi-Fi'' @ line_break @ ''(*) Ethernet'' @ line_break @ ''(2) Tailscale'');
          (gw, iface) = parse_default_route (''   route to: default'' @ line_break @ ''   gateway: 192.168.1.1'' @ line_break @ ''   interface: en0'');
          (mode1, manual1) = parse_ipv4_info (''Manual Configuration:'' @ line_break @ ''   IP address: 10.0.0.5'' @ line_break
             @ ''   Subnet mask: 255.255.255.0'' @ line_break @ ''   Router: 10.0.0.1'');
          (mode2, manual2) = parse_ipv4_info (''DHCP Configuration:'' @ line_break @ ''   IP address: 192.168.1.100'');
          (servers1, auto1) = parse_dns_servers (''There aren'' @ [CHR 0x27] @ ''t any DNS Servers set on Wi-Fi.'');
          (servers2, auto2) = parse_dns_servers (''192.168.1.1'' @ line_break @ ''8.8.8.8'')
      in [(''parse_order'', order = [''Wi-Fi'', ''Ethernet'', ''Tailscale'']),
          (''parse_disabled'', map_of enabled ''Ethernet'' = Some False),
          (''parse_enabled'', map_of enabled ''Wi-Fi'' = Some True),
          (''parse_route'', gw = ''192.168.1.1'' \<and> iface = ''en0''),
          (''parse_ipv4_manual'', mode1 = ''Manual'' \<and> (case manual1 of None \<Rightarrow> False | Some m \<Rightarrow> map_of m ''ip'' = Some ''10.0.0.5'')),
          (''parse_ipv4_dhcp'', mode2 = ''DHCP'' \<and> manual2 = None),
          (''parse_dns_auto'', auto1 \<and> servers1 = []),
          (''parse_dns_manual'', \<not> auto2 \<and> length servers2 = 2),
          (''pf_rules'', contains ''block drop quick on en5 all'' (pf_anchor_rules ''en5'')),
          (''virtual_tailscale'', is_virtual_service ''Tailscale''),
          (''not_virtual_wifi'', \<not> is_virtual_service ''Wi-Fi'')])"

definition self_test_state :: "rat \<Rightarrow> (string \<times> bool) list" where
  "self_test_state t =
     (let s = state_default\<lparr>st_armed := True, st_session_id := ''test123'', st_classification := ''GREEN'',
                st_ttl_seconds := 1800, st_expires_at := t + 1800\<rparr>
      in [(''state_roundtrip'', case state_from_json (state_to_json s) of
             Inr s2 \<Rightarrow> st_armed s2 \<and> st_session_id s2 = ''test123'' \<and> st_ttl_seconds s2 = 1800 | Inl _ \<Rightarrow> False),
          (''ttl_expired'', is_expired (state_default\<lparr>st_armed := True, st_expires_at := t - 1\<rparr>) t),
          (''ttl_not_expired'', \<not> is_expired (state_default\<lparr>st_armed := True, st_expires_at := t + 100\<rparr>) t),
          (''journal_record'', case self_test_journal t of
             Inr [JObj e] \<Rightarrow> json_get e ''category'' JNull = JStr ''service_disable'' | _ \<Rightarrow> False),
          (''journal_pre_value'', case self_test_journal t of
             Inr (JObj e # _) \<Rightarrow> json_get e ''pre_value'' JNull = JObj [(''enabled'', JBool True)] | _ \<Rightarrow> False)])"

definition self_test_fingerprints :: "(string \<times> bool) list" where
  "self_test_fingerprints =
     (let a = [(''network_location'', JStr ''Automatic''), (''service_order'', jstrs [''Wi-Fi''])];
          c = [(''network_location'', JStr ''Custom''), (''service_order'', jstrs [''Wi-Fi''])]
      in [(''fingerprint_equal'', fst (compare_fingerprints a a)),
          (''fingerprint_diff'', \<not> fst (compare_fingerprints a c) \<and> length (snd (compare_fingerprints a c)) = 1)])"

definition self_test_location :: "string \<Rightarrow> rat \<Rightarrow> bool result" where
  "self_test_location help t =
     fst (location_supported (self_test_host t) (self_test_prog (set_response ''networksetup -help'' help 0) t))"

definition self_test_checks :: "rat \<Rightarrow> (string \<times> bool) list" where
  "self_test_checks t =
     [(''redact_mac'', contains REDACTED (redact ''aa:bb:cc:dd:ee:ff'')),
      (''redact_ip'', contains REDACTED (redact ''192.168.1.1'')),
      (''redact_path'', contains REDACTED (redact ''/Users/secret/file'')),
      (''ssid_digest_len'', length (ssid_digest ''test'') = 16)]
     @ self_test_parsers @ self_test_state t @ self_test_fingerprints
     @ [(''corrupt_state'', fst (load_state (self_test_host t) (self_test_prog (\<lambda>s. s) t)) = Inr None),
        (''location_supported'',
           self_test_location (''-createlocation'' @ line_break @ ''-switchtolocation'' @ line_break @ ''-deletelocation'') t = Inr True),
        (''location_not_supported'', self_test_location ''no location commands'' t = Inr False)]"

definition cmd_self_test :: "'s host \<Rightarrow> ('s, int) sh" where
  "cmd_self_test h =
     bindA (time_now h) (\<lambda>t.
       let checks = self_test_checks t; failed = filter (\<lambda>c. \<not> snd c) checks in
     bindA (print_all (map (\<lambda>c. ''  FAIL '' @ fst c) failed
              @ [''SELF_TEST: '' @ nat_str (length checks) @ '' checks, '' @ nat_str (length failed) @ '' failures'',
                 ''SELF_TEST='' @ (if failed = [] then ''PASS'' else ''FAIL'')])) (\<lambda>_.
       ret (if failed = [] then 0 else 1)))"

section \<open>Command line\<close>

datatype mode =
    Audit | Arm | Renew | CloseSession | EmergencyRestore | Disarm | Status | RecoverNow | Postmortem | Daemon
  | SelfTest | Fingerprint | Uninstall

record shield_args =
  arg_mode :: mode
  arg_ttl :: int
  arg_session :: string
  arg_purge :: bool
  arg_keep_evidence :: string

text \<open>The exit status; \<open>n\<close> is the number of iterations granted to the daemon.\<close>

definition shield_main :: "'s host \<Rightarrow> nat \<Rightarrow> shield_args \<Rightarrow> ('s, int) sh" where
  "shield_main h n args =
     (case arg_mode args of
        SelfTest \<Rightarrow> cmd_self_test h
      | Audit \<Rightarrow> cmd_audit h
      | Arm \<Rightarrow> cmd_arm h (arg_ttl args)
      | Renew \<Rightarrow> cmd_renew h (arg_session args) (arg_ttl args)
      | CloseSession \<Rightarrow> cmd_close_session h False
      | EmergencyRestore \<Rightarrow> cmd_close_session h True
      | Disarm \<Rightarrow> cmd_close_session h False
      | Status \<Rightarrow> cmd_status h
      | RecoverNow \<Rightarrow> cmd_recover_now h
      | Postmortem \<Rightarrow> cmd_postmortem h
      | Daemon \<Rightarrow> cmd_daemon h n
      | Fingerprint \<Rightarrow> cmd_fingerprint h
      | Uninstall \<Rightarrow> cmd_uninstall h (arg_purge args) (arg_keep_evidence args))"

end
