(* ===== verification/Shield_Frame.thy ===== *)
theory Shield_Frame
  imports Shield_Commands
begin

text \<open>
  How the operations of the attach shield act on the host. The locale \<open>shield_rel\<close> states what a relation between the
  state before and after has to tolerate: commands of the shield's scope, writes to files in \<open>W\<close>, new directories and
  printed lines; every operation of the shield then keeps the relation. It is used for the list of commands (on every
  host) and, through the contract \<open>file_host\<close>, for the content of a file.
\<close>

section \<open>The scope of the shield's commands\<close>

definition NETWORKSETUP_VERBS :: "string list" where
  "NETWORKSETUP_VERBS =
     [''-getcurrentlocation'', ''-listallhardwareports'', ''-listnetworkserviceorder'', ''-getairportpower'',
      ''-getairportnetwork'', ''-getinfo'', ''-getdnsservers'', ''-getsearchdomains'', ''-help'', ''-listlocations'',
      ''-createlocation'', ''-switchtolocation'', ''-deletelocation'', ''-setnetworkserviceenabled'',
      ''-ordernetworkservices'', ''-setdnsservers'', ''-setsearchdomains'', ''-setdhcp'', ''-setmanual'',
      ''-setv6automatic'', ''-setairportpower'']"

definition shield_scope :: "string list \<Rightarrow> bool" where
  "shield_scope cmd =
     (case cmd of
        [] \<Rightarrow> False
      | p # args \<Rightarrow>
          if p = ''networksetup'' then args \<noteq> [] \<and> hd args \<in> set NETWORKSETUP_VERBS
          else if p = ''route'' then 3 \<le> length args \<and> args ! 0 = ''-n'' \<and> args ! 1 \<in> {''get'', ''add'', ''delete''}
          else if p = ''pfctl'' then
            args \<in> {[''-s'', ''info''], [''-s'', ''Anchors''], [''-E''], [''-d'']} \<or> (3 \<le> length args \<and> hd args = ''-a'')
          else if p = ''launchctl'' then args \<in> {[''list'', LAUNCHD_LABEL], [''unload'', LAUNCHD_PLIST]}
          else cmd \<in> {[''netstat'', ''-rn''], [''scutil'', ''--nwi''], [''ifconfig'']})"

lemma scope_networksetup: "verb \<in> set NETWORKSETUP_VERBS \<Longrightarrow> shield_scope (''networksetup'' # verb # args)"
  by (simp add: shield_scope_def)

lemma scope_route: "verb \<in> {''get'', ''add'', ''delete''} \<Longrightarrow> shield_scope (''route'' # ''-n'' # verb # x # args)"
  by (simp add: shield_scope_def)

lemma scope_other:
  "shield_scope [''pfctl'', ''-s'', ''info'']" "shield_scope [''pfctl'', ''-s'', ''Anchors'']" "shield_scope [''pfctl'', ''-E'']"
  "shield_scope [''pfctl'', ''-d'']" "shield_scope (''pfctl'' # ''-a'' # x # y # args)"
  "shield_scope [''launchctl'', ''list'', LAUNCHD_LABEL]" "shield_scope [''launchctl'', ''unload'', LAUNCHD_PLIST]"
  "shield_scope [''netstat'', ''-rn'']" "shield_scope [''scutil'', ''--nwi'']" "shield_scope [''ifconfig'']"
  by (simp_all add: shield_scope_def)

lemma verbs: "v \<in> {''-getcurrentlocation'', ''-listallhardwareports'', ''-listnetworkserviceorder'', ''-getairportpower'',
      ''-getairportnetwork'', ''-getinfo'', ''-getdnsservers'', ''-getsearchdomains'', ''-help'', ''-listlocations'',
      ''-createlocation'', ''-switchtolocation'', ''-deletelocation'', ''-setnetworkserviceenabled'',
      ''-ordernetworkservices'', ''-setdnsservers'', ''-setsearchdomains'', ''-setdhcp'', ''-setmanual'',
      ''-setv6automatic'', ''-setairportpower''} \<Longrightarrow> v \<in> set NETWORKSETUP_VERBS"
  by (simp add: NETWORKSETUP_VERBS_def)

section \<open>Relations kept by the shield\<close>

locale shield_rel = action_rel R for R :: "'s prog \<Rightarrow> 's prog \<Rightarrow> bool" +
  fixes h :: "'s host" and W :: "string \<Rightarrow> bool"
  assumes run: "shield_scope cmd \<Longrightarrow> keeps R (run_cmd h cmd)"
    and writes: "W path \<Longrightarrow> keeps R (write_file h path content mode)"
    and mkdir: "keeps R (mkdir_p h path mode)"
    and unlinks: "W path \<Longrightarrow> keeps R (host_do (h_remove_file h path))"
    and prints: "keeps R (print line)"
begin

lemma execs: "shield_scope cmd \<Longrightarrow> keeps R (exec h cmd)"
  unfolding exec_def by (intro keeps_rules run)

lemma reads: "keeps R (read_file h path)" "keeps R (time_now h)"
  unfolding read_file_def time_now_def by (intro keeps_rules)+

lemma network:
  "v \<in> set NETWORKSETUP_VERBS \<Longrightarrow> keeps R (run_cmd h (''networksetup'' # v # args))"
  "v \<in> set NETWORKSETUP_VERBS \<Longrightarrow> keeps R (exec h (''networksetup'' # v # args))"
  by (intro run execs scope_networksetup, assumption)+

lemma routing:
  "v \<in> {''get'', ''add'', ''delete''} \<Longrightarrow> keeps R (run_cmd h (''route'' # ''-n'' # v # x # args))"
  "v \<in> {''get'', ''add'', ''delete''} \<Longrightarrow> keeps R (exec h (''route'' # ''-n'' # v # x # args))"
  by (intro run execs scope_route, assumption)+

lemmas others = scope_other [THEN run] scope_other [THEN execs]

lemma guarded: "(b \<Longrightarrow> keeps R m) \<Longrightarrow> keeps R (whenA b m)"
  unfolding whenA_def by (intro keeps_rules)

lemmas rules = keeps_rules reads network routing others guarded mkdir prints

lemma lifted: "keeps R (lift_result x)"
  unfolding lift_result_def by (intro rules)

lemma printed: "keeps R (print_all ls)"
  unfolding print_all_def by (intro rules)

lemma baseline: "keeps R (capture_baseline h)"
  unfolding capture_baseline_def capture_wifi_radio_def capture_wifi_ip_def capture_wifi_dns_def pf_is_enabled_def
  by (intro rules verbs; simp)

lemma fingerprint: "keeps R (capture_fingerprint h)"
  unfolding capture_fingerprint_def fingerprint_dns_def pf_is_enabled_def
  by (intro rules verbs; simp)

lemma supported: "keeps R (location_supported h)"
  unfolding location_supported_def by (intro rules verbs; simp)

lemma located: "keeps R (get_current_location h)"
  unfolding get_current_location_def by (intro rules verbs; simp)

lemma interfaces: "keeps R (get_current_interfaces h)"
  unfolding get_current_interfaces_def by (intro rules verbs; simp)

lemma identify: "keeps R (identify_bootmux_services h b)"
  unfolding identify_bootmux_services_def by (intro rules; simp)

subsection \<open>Operations that write the journal\<close>

text \<open>The result carries a journal that may be written.\<close>

abbreviation jok :: "journal \<Rightarrow> bool" where "jok j \<equiv> W (j_path j)"

lemmas does_prims =
  network [THEN keeps_does] routing [THEN keeps_does] others [THEN keeps_does] reads [THEN keeps_does]
  mkdir [THEN keeps_does] prints [THEN keeps_does] guarded [THEN keeps_does] lifted [THEN keeps_does] printed [THEN keeps_does]
  writes [THEN keeps_does] unlinks [THEN keeps_does] baseline [THEN keeps_does] fingerprint [THEN keeps_does]
  supported [THEN keeps_does] located [THEN keeps_does] interfaces [THEN keeps_does] identify [THEN keeps_does] gets [THEN keeps_does]

lemma opened: "W (session_file sid ''journal.jsonl'') \<Longrightarrow> does R jok (journal_open h sid)"
  unfolding journal_open_def by (rule does_rules does_prims | (simp; fail))+

lemma recorded: "jok j \<Longrightarrow> does R jok (journal_record h j c t v cmd rc)"
  unfolding journal_record_def by (rule does_rules does_prims | (simp; fail))+

lemma recorded_opt: "pred_option jok j \<Longrightarrow> does R (pred_option jok) (record_opt h j c t v cmd rc)"
  unfolding record_opt_def by (rule does_rules recorded | (simp; fail))+

lemmas does_journal = does_rules does_prims recorded recorded_opt

lemma create_location: "jok j \<Longrightarrow> does R (\<lambda>(_, j). jok j) (create_shield_location h sid j)"
  unfolding create_shield_location_def
  by (rule does_journal verbs | (simp; fail))+

lemma restores_location: "jok j \<Longrightarrow> does R (\<lambda>(_, j). jok j) (restore_location h o1 l j)"
  unfolding restore_location_def by (rule does_journal verbs | (simp; fail))+

lemma disables: "pred_option jok j \<Longrightarrow> does R (\<lambda>(_, j). pred_option jok j) (disable_service h b svc j)"
  unfolding disable_service_def by (rule does_journal verbs | (simp; fail))+

lemma quarantined_services:
  "pred_option jok (snd acc) \<Longrightarrow> does R (\<lambda>(_, j). pred_option jok j) (quarantine_services h b svcs acc)"
  unfolding quarantine_services_def
  by (rule does_fold disables does_journal | (simp add: case_prod_beta; fail))+

lemma quarantined_route: "jok (snd acc) \<Longrightarrow> does R (\<lambda>(_, j). jok j) (quarantine_route h line acc)"
  unfolding quarantine_route_def by (rule does_journal | (simp; fail))+

lemma quarantined_order: "jok j \<Longrightarrow> does R (\<lambda>(_, j). jok j) (quarantine_order h b j)"
  unfolding quarantine_order_def append_Cons by (rule does_journal verbs | (simp; fail))+

lemma quarantines: "jok j \<Longrightarrow> does R (\<lambda>(_, j). jok j) (quarantine_bootmux h b j)"
  unfolding quarantine_bootmux_def
  by (rule quarantined_services quarantined_order does_journal does_fold quarantined_route | (auto split: option.split; fail))+

lemma installs_anchor: "jok j \<Longrightarrow> W (rules_path i) \<Longrightarrow> does R (\<lambda>(_, j). jok j) (pf_install_anchor h i j e)"
  unfolding pf_install_anchor_def by (rule does_journal | (simp; fail))+

lemma removes_anchor: "jok j \<Longrightarrow> does R (\<lambda>(_, j). jok j) (pf_remove_anchor h j e)"
  unfolding pf_remove_anchor_def by (rule does_journal others | (simp; fail))+

lemma pinned_v4: "jok j \<Longrightarrow> does R (\<lambda>(_, _, j). jok j) (pin_v4 h gw ds ps j)"
proof (induction ds arbitrary: ps j)
  case (Cons d ds)
  have "keeps R (for_each (\<lambda>e. exec h [''route'', ''-n'', ''delete'', ''-net'', split_ws e ! 1, gw]) ps)"
    by (intro rules; simp)
  note undo = this [THEN keeps_does]
  from Cons show ?case by (simp only: pin_v4.simps) (rule does_journal undo Cons.IH | (simp; fail))+
qed (simp, rule does_ret, simp)

lemma pinned_v6: "jok (snd acc) \<Longrightarrow> does R (\<lambda>(_, j). jok j) (pin_v6 h gw acc)"
  unfolding pin_v6_def by (rule does_fold does_journal | (simp add: case_prod_beta; fail))+

lemma pins: "jok j \<Longrightarrow> does R (\<lambda>(_, j). jok j) (pin_split_routes h gw i j)"
  unfolding pin_split_routes_def by (rule does_journal pinned_v4 pinned_v6 | (simp; fail))+

lemma unpins: "keeps R (unpin_split_routes h ps)"
  unfolding unpin_split_routes_def unpin_route_def by (intro rules; simp)

subsection \<open>Rollback and log\<close>

lemma args_network: "v \<in> set NETWORKSETUP_VERBS \<Longrightarrow> keeps R (exec_args h (JStr ''networksetup'' # JStr v # args))"
  unfolding exec_args_def by (cases "all_results as_str args") (simp_all add: as_str_def rules)

lemma args_route:
  "v \<in> {''get'', ''add'', ''delete''} \<Longrightarrow> keeps R (exec_args h (JStr ''route'' # JStr ''-n'' # JStr v # JStr k # args))"
  unfolding exec_args_def by (cases "all_results as_str args") (simp_all add: as_str_def rules)

lemma args_anchor: "keeps R (exec_args h [JStr ''pfctl'', JStr ''-a'', t, JStr ''-F'', JStr ''all''])"
  unfolding exec_args_def by (cases "as_str t") (simp_all add: as_str_def rules)

lemma args_list: "(\<And>xs. keeps R (exec_args h (args @ xs))) \<Longrightarrow> keeps R (exec_list h args l)"
  unfolding exec_list_def by (auto split: json.split intro!: rules)

lemma with_values: "(\<And>v. keeps R (f v)) \<Longrightarrow> keeps R (with_value d k v0 f)"
  unfolding with_value_def by (intro rules)

lemmas undo_rules = rules with_values args_network args_route args_anchor args_list

lemma undoes_list: "v \<in> set NETWORKSETUP_VERBS \<Longrightarrow> keeps R (undo_list h v k t d)"
  unfolding undo_list_def by (intro undo_rules) (simp_all add: undo_rules)

lemma undoes_route_add:
  "keeps R (case target of
     JStr t \<Rightarrow> (let parts = split_ws t in
       whenA (4 \<le> length parts)
         (exec_args h (route_cmd ''delete'' (if parts ! 0 = ''inet6'' then ''-inet6'' else ''-net'') [JStr (parts ! 1), JStr (parts ! 3)])))
   | _ \<Rightarrow> raiseA AttributeError)"
  by (cases target) (simp_all add: Let_def undo_rules)

lemma undoes: "keeps R (rollback_one h cat target pre)"
  unfolding rollback_one_def
  by (intro undo_rules undoes_list undoes_route_add verbs; (simp add: undo_rules verbs; fail)?)

lemma undone: "keeps R (rollback_entry h e is)"
  unfolding rollback_entry_def
  by (cases e) (auto simp: Let_def intro!: rules undoes)

lemma rolled_back: "keeps R (journal_rollback h j)"
  unfolding journal_rollback_def journal_entries_def by (intro rules undone)

abbreviation lok :: "logger \<Rightarrow> bool" where "lok lg \<equiv> W (lg_file lg)"

lemma log_opened: "W (session_dir sid @ ''/shield.jsonl'') \<Longrightarrow> does R lok (logger_open h sid)"
  unfolding logger_open_def by (rule does_journal | (simp; fail))+

lemma logged: "lok lg \<Longrightarrow> does R lok (log_event h lg ev d)"
  unfolding log_event_def by (rule does_journal | (simp; fail))+

lemmas does_log = does_journal opened log_opened logged rolled_back [THEN keeps_does] unpins [THEN keeps_does]

subsection \<open>Commands\<close>

lemma presence: "keeps R (still_present h st force)"
  unfolding still_present_def by (intro rules interfaces)

lemma json_object: "(\<And>kvs. does R Q (f kvs)) \<Longrightarrow> does R Q (case j of JObj kvs \<Rightarrow> f kvs | _ \<Rightarrow> raiseA e)"
  by (cases j) (simp_all add: does_raise)

lemma verifies: "lok lg \<Longrightarrow> does R (\<lambda>(_, lg). lok lg) (verify_fingerprint h sid lg)"
  unfolding verify_fingerprint_def compare_stored_def by (rule does_log json_object | (simp; fail))+

lemma closes_location: "jok j \<Longrightarrow> lok lg \<Longrightarrow> does R lok (close_location h st j lg)"
  unfolding close_location_def by (rule does_log restores_location | (simp; fail))+

lemma saves: "W STATE_FILE \<Longrightarrow> keeps R (save_state h st)"
  unfolding save_state_def by (intro rules writes)

lemma closes:
  assumes "W STATE_FILE" "W (session_file (st_session_id st) ''journal.jsonl'')" "W (session_dir (st_session_id st) @ ''/shield.jsonl'')"
  shows "keeps R (close_session h st force)"
proof -
  note saved = saves [OF assms(1), THEN keeps_does] and present = presence [THEN keeps_does]
  have "does R (\<lambda>_. True) (close_session h st force)"
    unfolding close_session_def
    by (rule does_log verifies closes_location saved present assms others | (simp; fail))+
  then show ?thesis by (rule does_keeps)
qed

lemma loads_state: "keeps R (load_state h)"
  unfolding load_state_def by (intro rules) (auto split: exn.split intro!: rules)

lemma arms_location: "jok j \<Longrightarrow> lok lg \<Longrightarrow> does R (\<lambda>(_, _, j, lg). jok j \<and> lok lg) (arm_location h sid l j lg)"
  unfolding arm_location_def by (rule does_log create_location | (simp; fail))+

text \<open>The files of a session.\<close>

abbreviation session_ok :: "string \<Rightarrow> bool" where
  "session_ok sid \<equiv> W (session_file sid ''journal.jsonl'') \<and> W (session_dir sid @ ''/shield.jsonl'')
     \<and> W (session_file sid ''fingerprint-pre.json'')"

lemma arms:
  assumes "W STATE_FILE" "\<And>sid. session_ok sid"
  shows "keeps R (cmd_arm h ttl)"
proof -
  note saved = saves [OF assms(1), THEN keeps_does] and loaded = loads_state [THEN keeps_does]
    and files = assms(2) [THEN conjunct1] assms(2) [THEN conjunct2, THEN conjunct1] assms(2) [THEN conjunct2, THEN conjunct2]
  have "does R (\<lambda>_. True) (cmd_arm h ttl)"
    unfolding cmd_arm_def arm_session_def
    by (rule does_log arms_location quarantines pins saved loaded files | (simp; fail))+
  then show ?thesis by (rule does_keeps)
qed

lemma renews: "W STATE_FILE \<Longrightarrow> keeps R (cmd_renew h sid ttl)"
  unfolding cmd_renew_def by (intro rules loads_state saves)

lemma close_command:
  assumes "W STATE_FILE" "\<And>sid. session_ok sid"
  shows "keeps R (cmd_close_session h force)"
  unfolding cmd_close_session_def by (intro rules loads_state closes) (simp_all add: assms)

lemma reports: "keeps R (cmd_status h)" "keeps R (cmd_fingerprint h)" "keeps R (cmd_audit h)" "keeps R (cmd_postmortem h)"
  unfolding cmd_status_def cmd_fingerprint_def cmd_audit_def cmd_postmortem_def generate_postmortem_def
  by (intro rules loads_state printed fingerprint baseline supported identify)+

end

text \<open>Recovery and the daemon also let time pass.\<close>

locale shield_rel_sleep = shield_rel +
  assumes slept: "keeps R (sleep h t)"
begin

lemma cycles_power: "keeps R (power_cycle h dev)"
  unfolding power_cycle_def by (intro rules slept verbs; simp)

lemma q1: "pred_option jok (snd acc) \<Longrightarrow> W (rules_path i) \<Longrightarrow> does R (\<lambda>(_, j). pred_option jok j) (recover_q1 h b i acc)"
  unfolding recover_q1_def by (rule does_log installs_anchor | (simp; fail))+

lemma q2: "pred_option jok (snd acc) \<Longrightarrow> does R (\<lambda>(_, j). pred_option jok j) (recover_q2 h b c i acc)"
  unfolding recover_q2_def
  by (rule does_log does_fold disables | (simp add: case_prod_beta; fail))+

lemma q3: "keeps R (recover_q3 h us line steps)"
  unfolding recover_q3_def by (intro rules; simp)

lemma q4to8: "keeps R (recover_q456 h b steps)" "keeps R (recover_q7 h b steps)" "keeps R (recover_q8 h b steps)"
  unfolding recover_q456_def recover_q7_def recover_q8_def append_Cons
  by (intro rules cycles_power verbs; simp)+

lemma recovers:
  assumes "pred_option jok j" "\<And>i. W (rules_path i)"
  shows "does R (\<lambda>(_, j). pred_option jok j) (run_recovery h b us j)"
proof -
  have s1: "does R (\<lambda>(_, j). pred_option jok j) (fold_act (recover_q1 h b) us acc)"
    and s2: "does R (\<lambda>(_, j). pred_option jok j) (fold_act (recover_q2 h b c) us acc)"
    if "pred_option jok (snd acc)" for acc c
    using that assms(2) by (intro does_fold q1 q2; simp add: case_prod_beta)+
  have s3: "does R (\<lambda>_. True) (fold_act (recover_q3 h us) ls steps)" for ls steps
    by (intro keeps_does rules q3)
  show ?thesis
    unfolding run_recovery_def
    by (rule does_log s1 s2 s3 q4to8 [THEN keeps_does] | (simp add: assms case_prod_beta; fail))+
qed

lemma detects: "keeps R (detect_new_external_ethernet h b)"
  unfolding detect_new_external_ethernet_def by (intro rules interfaces)

lemma recover_command:
  assumes "\<And>sid. session_ok sid" "\<And>i. W (rules_path i)"
  shows "keeps R (cmd_recover_now h)"
proof -
  have j: "does R (pred_option jok) (if sid = [] then ret None else bindA (journal_open h sid) (\<lambda>j. ret (Some j)))" for sid
    by (rule does_log | (simp add: assms; fail))+
  have u: "does R (\<lambda>_. True) (if us \<noteq> [] then ret us else detect_new_external_ethernet h b)" for us b
    by (intro keeps_does rules detects)
  have "does R (\<lambda>_. True) (cmd_recover_now h)"
    unfolding cmd_recover_now_def
    by (rule j u recovers loads_state [THEN keeps_does] does_log | (simp add: assms; fail))+
  then show ?thesis by (rule does_keeps)
qed

lemma checks_daemon:
  assumes "W STATE_FILE" "\<And>sid. session_ok sid" "\<And>i. W (rules_path i)" "jok j" "lok lg"
  shows "does R (\<lambda>x. case x of Inl lg \<Rightarrow> lok lg | Inr (_, j, lg) \<Rightarrow> jok j \<and> lok lg) (daemon_check h b st j lg)"
proof -
  note prims = detects [THEN keeps_does] saves [OF assms(1), THEN keeps_does] closes [THEN keeps_does]
  show ?thesis
    unfolding daemon_check_def log_recovery_def
    by (rule prims recovers does_log | (auto simp: assms split: option.splits; fail))+
qed

lemma steps_daemon:
  assumes "W STATE_FILE" "\<And>sid. session_ok sid" "\<And>i. W (rules_path i)" "jok j" "lok lg"
  shows "does R (\<lambda>x. case x of Inl lg \<Rightarrow> lok lg | Inr (_, j, lg) \<Rightarrow> jok j \<and> lok lg) (daemon_step h b st j lg)"
  unfolding daemon_step_def by (rule does_bind [OF slept [THEN keeps_does] checks_daemon [OF assms]])

lemma loops_daemon:
  assumes "W STATE_FILE" "\<And>sid. session_ok sid" "\<And>i. W (rules_path i)"
  shows "jok j \<Longrightarrow> lok lg \<Longrightarrow> does R (pred_option lok) (daemon_while h b n st j lg)"
proof (induction n arbitrary: st j lg)
  case (Suc n)
  note step = steps_daemon [OF assms]
  from Suc.prems show ?case
    by (simp only: daemon_while.simps) (rule step does_log Suc.IH | (simp; fail))+
qed (simp, rule does_ret, simp)

lemma daemon_command:
  assumes "W STATE_FILE" "\<And>sid. session_ok sid" "\<And>i. W (rules_path i)"
  shows "keeps R (cmd_daemon h n)"
proof -
  note prims = closes [THEN keeps_does] loads_state [THEN keeps_does]
  have "does R (\<lambda>_. True) (daemon_loop h n lg)" if "lok lg" for lg
    unfolding daemon_loop_def
    by (rule prims loops_daemon [OF assms] does_log | (simp add: assms that; fail))+
  note loop = this
  have "does R (\<lambda>_. True) (cmd_daemon h n)"
    unfolding cmd_daemon_def
    by (rule prims loop does_log | (simp add: assms; fail))+
  then show ?thesis by (rule does_keeps)
qed

end

end
