(* ===== verification/Shield_Safety.thy ===== *)
theory Shield_Safety
  imports Shield_Frame
begin

text \<open>
  Properties of the attach shield on every host: which commands it may run, how the state file survives a round trip,
  and what closing and arming a session leave on disk. Statements about the disk are proved in the contract
  \<open>file_host\<close>; they are used on live systems below.
\<close>

section \<open>Commands\<close>

definition issues :: "(string list \<Rightarrow> bool) \<Rightarrow> 's prog \<Rightarrow> 's prog \<Rightarrow> bool" where
  "issues P p p' \<longleftrightarrow> (\<exists>new. pg_cmds p' = pg_cmds p @ new \<and> list_all P new)"

lemma issues_trans: "issues P p q \<Longrightarrow> issues P q r \<Longrightarrow> issues P p r"
  by (auto simp: issues_def)

lemma issues_same: "(\<And>p. pg_cmds (snd (m p)) = pg_cmds p) \<Longrightarrow> keeps (issues P) m"
  by (simp add: keeps_def issues_def)

interpretation issued: shield_rel_sleep "issues shield_scope" h "\<lambda>_. True"
proof
  show "shield_scope cmd \<Longrightarrow> keeps (issues shield_scope) (run_cmd h cmd)" for cmd
    by (auto simp: keeps_def issues_def run_cmd_def split: prod.split)
  show "issues shield_scope p p" for p :: "'a prog" by (simp add: issues_def)
  show "issues shield_scope p q \<Longrightarrow> issues shield_scope q r \<Longrightarrow> issues shield_scope p r" for p q r :: "'a prog"
    by (rule issues_trans)
qed (rule issues_same, simp add: write_file_def mkdir_p_def on_host_def host_do_def modify_def print_def sleep_def split: prod.split)+

lemma uninstall_issues: "keeps (issues shield_scope) (cmd_uninstall h purge path)"
proof -
  have host: "keeps (issues shield_scope) (host_do f)" for f :: "'a \<Rightarrow> 'a"
    by (rule issues_same) (simp add: host_do_def modify_def)
  show ?thesis
    unfolding cmd_uninstall_def archive_evidence_def remove_if_empty_def
    by (intro issued.rules issued.loads_state issued.closes issued.fingerprint issued.writes host TrueI)
qed

lemma self_test_issues: "keeps (issues shield_scope) (cmd_self_test h)"
  unfolding cmd_self_test_def by (intro issued.rules issued.printed)


section \<open>The state file\<close>

definition state_ok :: "shield_state \<Rightarrow> bool" where
  "state_ok s \<longleftrightarrow> micros (st_armed_at s) \<and> micros (st_expires_at s)
     \<and> (case st_baseline s of None \<Rightarrow> True | Some b \<Rightarrow> wf_json (JObj b))"

lemma as_optional_obj [simp]: "as_optional as_obj (case m of None \<Rightarrow> JNull | Some d \<Rightarrow> JObj d) = Inr m"
  by (cases m) (simp_all add: as_optional_def as_obj_def)

lemma state_dict_roundtrip: "set_fields state_fields (state_dict s) state_default = Inr s"
  unfolding state_dict_def by (simp add: state_fields_def set_field_def state_default_def)

lemma wf_state: "state_ok s \<Longrightarrow> wf_json (JObj (state_dict s))"
  unfolding state_ok_def state_dict_def by (auto split: option.splits)

lemma state_json_roundtrip: "state_ok s \<Longrightarrow> state_from_json (state_to_json s) = Inr s"
  using loads_dumps(2) [OF wf_state] state_dict_roundtrip
  by (simp add: state_from_json_def state_to_json_def del: wf_json.simps)

lemma state_text: "state_to_json s \<noteq> []"
  using dump_start [of "Some 2" 0 "JObj (state_dict s)"] by (auto simp: state_to_json_def dumps_indent_def)

text \<open>\<open>on_disk h s p\<close>: the state file holds \<open>s\<close>.\<close>

definition on_disk :: "'s host \<Rightarrow> shield_state \<Rightarrow> 's prog \<Rightarrow> bool" where
  "on_disk h s p \<longleftrightarrow> h_read_file h STATE_FILE (pg_host p) = Some (state_to_json s)"

lemma load_on_disk: "on_disk h s p \<Longrightarrow> state_ok s \<Longrightarrow> load_state h p = (Inr (Some s), p)"
  by (simp add: on_disk_def load_state_def read_file_def bindA_def gets_def text_or_empty_def state_text state_json_roundtrip ret_def)

section \<open>Files that an operation leaves alone\<close>

definition same_file :: "'s host \<Rightarrow> string \<Rightarrow> 's prog \<Rightarrow> 's prog \<Rightarrow> bool" where
  "same_file h q p p' \<longleftrightarrow> h_read_file h q (pg_host p') = h_read_file h q (pg_host p)"

context file_host
begin

lemma frame: "own q \<Longrightarrow> shield_rel (same_file h q) h (\<lambda>p. p \<noteq> q)"
  by unfold_locales
     (auto simp: same_file_def keeps_def run_cmd_def write_file_def mkdir_p_def on_host_def host_do_def modify_def print_def
        dest: read_run read_other read_mkdir read_removed split: prod.split)

lemma save_on_disk: "own STATE_FILE \<Longrightarrow> save_state h s p = (Inr u, p') \<Longrightarrow> on_disk h s p'"
proof -
  assume own: "own STATE_FILE" and "save_state h s p = (Inr u, p')"
  then obtain q where "write_file h STATE_FILE (state_to_json s) MODE_600 q = (Inr (), p')"
    by (auto simp: save_state_def bindA_Inr_iff)
  then show ?thesis
    by (cases "h_write_file h STATE_FILE (state_to_json s) MODE_600 (pg_host q)")
       (auto simp: write_file_def on_host_def on_disk_def dest: read_written [OF own])
qed

end

lemma suffix_pstr: "suffix (CHR ''/'' # n) (pstr (p @ [n]))"
proof -
  have "\<exists>u. CHR ''/'' # join ''/'' (p @ [n]) = u @ CHR ''/'' # n"
  proof (induction p)
    case (Cons x p)
    then obtain u where "CHR ''/'' # join ''/'' (p @ [n]) = u @ CHR ''/'' # n" by blast
    moreover have "join ''/'' ((x # p) @ [n]) = x @ CHR ''/'' # join ''/'' (p @ [n])" by (cases p) simp_all
    ultimately show ?case by (intro exI [of _ "CHR ''/'' # x @ u"]) simp
  qed (auto intro: exI [of _ "[]"])
  then show ?thesis by (simp add: pstr_def suffix_def)
qed

lemma session_file_suffix: "components n = [n] \<Longrightarrow> \<not> prefix ''/'' n \<Longrightarrow> suffix (CHR ''/'' # n) (session_file sid n)"
  using suffix_pstr [of n] by (simp add: session_file_def path_join_def)

lemma session_names: "suffix ''/journal.jsonl'' (session_file sid ''journal.jsonl'')"
  "suffix ''/fingerprint-pre.json'' (session_file sid ''fingerprint-pre.json'')"
  "suffix ''/shield.jsonl'' (session_dir sid @ ''/shield.jsonl'')"
proof -
  have "components ''journal.jsonl'' = [''journal.jsonl'']" "components ''fingerprint-pre.json'' = [''fingerprint-pre.json'']"
    by code_simp+
  then show "suffix ''/journal.jsonl'' (session_file sid ''journal.jsonl'')"
    "suffix ''/fingerprint-pre.json'' (session_file sid ''fingerprint-pre.json'')"
    using session_file_suffix by auto
qed (simp add: suffix_def)

lemma files_differ:
  "suffix a p \<Longrightarrow> suffix b q \<Longrightarrow> \<not> suffix a b \<Longrightarrow> \<not> suffix b a \<Longrightarrow> p \<noteq> q"
  using suffix_same_cases by metis

lemma state_file_name: "suffix ''/shield-state.json'' STATE_FILE"
  using suffix_pstr [of "''shield-state.json''" STATE_DIR] by (simp add: STATE_FILE_def)

lemma session_files_differ:
  "session_file sid ''journal.jsonl'' \<noteq> STATE_FILE" "session_file sid ''fingerprint-pre.json'' \<noteq> STATE_FILE"
  "session_dir sid @ ''/shield.jsonl'' \<noteq> STATE_FILE"
  "session_file sid ''journal.jsonl'' \<noteq> session_file sid' ''fingerprint-pre.json''"
  "session_dir sid @ ''/shield.jsonl'' \<noteq> session_file sid' ''fingerprint-pre.json''"
  "session_dir sid @ ''/shield.jsonl'' \<noteq> session_file sid' ''journal.jsonl''"
  by (rule files_differ; (rule session_names state_file_name)?; code_simp)+

lemma rules_path_differs: "suffix (''/'' @ n @ ''.json'' @ l) q \<Longrightarrow> l \<in> {[], ''l''} \<Longrightarrow> rules_path i \<noteq> q"
proof -
  have "suffix ''.rules'' (rules_path i)" by (simp add: rules_path_def suffix_def)
  moreover assume "suffix (''/'' @ n @ ''.json'' @ l) q" "l \<in> {[], ''l''}"
  then have "suffix ''on'' q \<or> suffix ''nl'' q" by (auto simp: suffix_def)
  ultimately show ?thesis using files_differ [of "''.rules''" "rules_path i" _ q] by (auto simp: suffix_def)
qed

text \<open>How a close ends: the closed state is on disk, or the close was refused.\<close>

definition closing :: "'s host \<Rightarrow> shield_state \<Rightarrow> bool \<Rightarrow> bool \<times> string \<Rightarrow> 's prog \<Rightarrow> bool" where
  "closing h st force = (\<lambda>(ok, cls) p. on_disk h (closed_state st) p
     \<or> (\<not> force \<and> \<not> ok \<and> (\<exists>ds. ds \<noteq> [] \<and> set ds \<subseteq> set (st_untrusted_interfaces st) \<and> cls = ''REFUSED_DEVICE_PRESENT='' @ repr_list ds)))"

context file_host
begin

text \<open>After the state was saved, writing the log leaves it there.\<close>

lemma saved_then:
  assumes "own STATE_FILE" "\<And>v. keeps (same_file h STATE_FILE) (f v)"
  shows "ends (\<lambda>_. on_disk h s) (bindA (save_state h s) f)"
  unfolding ends_def bindA_Inr_iff
proof clarify
  fix p v p' u q
  assume "save_state h s p = (Inr u, q)" "f u q = (Inr v, p')"
  with save_on_disk [OF assms(1)] keepsD [OF assms(2)] show "on_disk h s p'"
    by (fastforce simp: on_disk_def same_file_def)
qed

lemma still_present_force:
  "ends (\<lambda>ds _. (force \<longrightarrow> ds = []) \<and> set ds \<subseteq> set (st_untrusted_interfaces st)) (still_present h st force)"
  unfolding still_present_def by (intro ends_rules) auto

lemma close_on_disk:
  assumes own: "own STATE_FILE"
  shows "ends (closing h st force) (close_session h st force)"
proof -
  note f = frame [OF own]
  let ?R = "same_file h STATE_FILE"
  have tail: "ends (closing h st force) (bindA (save_state h (closed_state st)) (\<lambda>_. bindA (log_event h lg e d) (\<lambda>lg. ret v)))"
    if "lg_file lg \<noteq> STATE_FILE" for lg e d v
  proof -
    have "keeps ?R (bindA (log_event h lg e d) (\<lambda>lg. ret v))"
      using that by (intro shield_rel.rules [OF f] does_keeps [OF shield_rel.logged [OF f]])
    from saved_then [OF own this] show ?thesis by (auto simp: closing_def ends_def)
  qed
  note steps = ends_bind_does [where R = ?R] shield_rel.does_log [OF f] shield_rel.verifies [OF f]
    shield_rel.closes_location [OF f] shield_rel.others [OF f] session_files_differ
  have rest: "ends (closing h st force) (ret (False, ''REFUSED_DEVICE_PRESENT='' @ repr_list ds))"
    if "(force \<longrightarrow> ds = []) \<and> set ds \<subseteq> set (st_untrusted_interfaces st)" "ds \<noteq> []" for ds
    using that by (auto simp: ends_def ret_def closing_def)
  show ?thesis
    unfolding close_session_def
    by (rule tail ends_cond rest steps ends_pair ends_bind_value [OF still_present_force] | (simp; fail))+
qed

end

section \<open>Times\<close>

lemma micros_add: "micros t \<Longrightarrow> micros (t + of_int i)"
  by (simp add: micros_def algebra_simps)

lemma clamp_bounds: "60 \<le> clamp_ttl t" "clamp_ttl t \<le> 7200" "60 \<le> t \<Longrightarrow> t \<le> 7200 \<Longrightarrow> clamp_ttl t = t"
  by (auto simp: clamp_ttl_def MIN_TTL_S_def MAX_TTL_S_def)

section \<open>Arming\<close>

lemma distinct_foldl: "(\<And>a x. distinct (map fst (g a)) \<Longrightarrow> distinct (map fst (g (f a x)))) \<Longrightarrow>
    distinct (map fst (g a)) \<Longrightarrow> distinct (map fst (g (foldl f a xs)))"
  by (induction xs arbitrary: a) auto

lemma distinct_service_order: "distinct (map fst (snd (parse_service_order t)))"
  unfolding parse_service_order_def
  by (rule distinct_foldl [where g = snd]) (auto simp: distinct_update split: option.split prod.split)

lemma distinct_interfaces: "distinct (map fst (parse_interfaces t))"
  unfolding parse_interfaces_def
  by (rule distinct_foldl [where g = fst]) (auto simp: distinct_update Let_def split: prod.split)

lemma distinct_ipv4: "case snd (parse_ipv4_info t) of None \<Rightarrow> True | Some m \<Rightarrow> distinct (map fst m)"
proof -
  have "distinct (map fst (case snd (parse_ipv4_info t) of None \<Rightarrow> [] | Some m \<Rightarrow> m))"
    unfolding parse_ipv4_info_def
    by (rule distinct_foldl [where g = "\<lambda>a. case snd a of None \<Rightarrow> [] | Some m \<Rightarrow> m"])
       (auto simp: distinct_update Let_def split: prod.split option.split)
  then show ?thesis by (simp split: option.splits)
qed

lemma captured_ok:
  assumes "\<And>s. micros (sv_time (h_services h) s)"
  shows "ends (\<lambda>b _. baseline_ok b) (capture_baseline h)"
proof -
  have t: "ends (\<lambda>t _. micros t) (time_now h)" using assms by (simp add: time_now_def ends_def gets_def)
  have same: "ends (\<lambda>b' _. baseline_ok b') (capture_wifi_radio h d b)" "ends (\<lambda>b' _. baseline_ok b') (capture_wifi_dns h d b)"
    if "baseline_ok b" for b d
    using that unfolding capture_wifi_radio_def capture_wifi_dns_def
    by (auto intro!: ends_rules simp: baseline_ok_def Let_def split: option.split)
  have ip: "ends (\<lambda>b' _. baseline_ok b') (capture_wifi_ip h d b)" if "baseline_ok b" for b d
    using that distinct_ipv4 unfolding capture_wifi_ip_def
    by (auto intro!: ends_rules simp: baseline_ok_def) (metis snd_conv)
  have b0: "baseline_ok (baseline_default\<lparr>b_captured_at := t, b_network_location := l, b_interfaces := parse_interfaces i,
      b_wifi_device := d, b_service_order := ord, b_service_enabled := e, b_wifi_service := s\<rparr>)"
    if "micros t" "parse_service_order x = (ord, e)" for t l i d ord e s x
    using that distinct_service_order [of x] distinct_interfaces by (simp add: baseline_ok_def baseline_default_def)
  note steps = ends_bind_value [OF t] ends_bind_value [OF same(1)] ends_bind_value [OF ip] ends_bind_value [OF same(2)]
    ends_let ends_pair ends_bind ends_ret
  show ?thesis
    unfolding capture_baseline_def
    by (rule steps | (rule b0, assumption, assumption) | (simp add: baseline_ok_def; fail))+
qed

definition armed_for :: "int \<Rightarrow> string \<Rightarrow> shield_state \<Rightarrow> bool" where
  "armed_for ttl sid st \<longleftrightarrow> st_armed st \<and> \<not> st_session_closed st \<and> st_session_id st = sid
     \<and> (\<exists>b. baseline_ok b \<and> st_baseline st = Some (baseline_to_dict b))
     \<and> st_ttl_seconds st = clamp_ttl ttl \<and> st_expires_at st = st_armed_at st + of_int (st_ttl_seconds st)"

text \<open>How arming ends: an armed session on disk, or the report that there is no Wi-Fi device.\<close>

definition arming :: "'s host \<Rightarrow> int \<Rightarrow> string \<Rightarrow> int \<Rightarrow> 's prog \<Rightarrow> bool" where
  "arming h ttl sid rc q \<longleftrightarrow> (rc = 0 \<and> (\<exists>st. on_disk h st q \<and> state_ok st \<and> armed_for ttl sid st))
     \<or> (rc = 1 \<and> pg_out q \<noteq> [] \<and> last (pg_out q) = ''CLASSIFICATION=RED_NO_WIFI_DEVICE'')"

context file_host
begin

lemma arm_on_disk:
  assumes own: "own STATE_FILE" and time: "\<And>s. micros (sv_time (h_services h) s)"
  shows "ends (arming h ttl sid) (arm_session h sid (clamp_ttl ttl))"
proof -
  note f = frame [OF own]
  let ?R = "same_file h STATE_FILE"
  let ?Q = "arming h ttl sid"
  have t: "ends (\<lambda>t _. micros t) (time_now h)" using time by (simp add: time_now_def ends_def gets_def)
  have tail: "ends ?Q (bindA (save_state h st) (\<lambda>_. bindA (log_event h lg e d) (\<lambda>lg. bindA (print_all ls) (\<lambda>_. ret (0 :: int)))))"
    if "lg_file lg \<noteq> STATE_FILE" "state_ok st" "armed_for ttl sid st" for st lg e d ls
  proof -
    have "keeps ?R (bindA (log_event h lg e d) (\<lambda>lg. bindA (print_all ls) (\<lambda>_. ret (0 :: int))))"
      using that by (intro shield_rel.rules [OF f] shield_rel.printed [OF f] does_keeps [OF shield_rel.logged [OF f]])
    note saved = saved_then [OF own this, of st]
    show ?thesis
      unfolding ends_def
    proof (intro allI impI)
      fix r v q assume run: "bindA (save_state h st) (\<lambda>_. bindA (log_event h lg e d) (\<lambda>lg. bindA (print_all ls) (\<lambda>_. ret (0 :: int)))) r = (Inr v, q)"
      then have "v = 0" by (auto simp: bindA_Inr_iff ret_def)
      with endsD [OF saved run] that show "?Q v q" by (auto simp: arming_def)
    qed
  qed
  have red: "ends ?Q (bindA (print ''CLASSIFICATION=RED_NO_WIFI_DEVICE'') (\<lambda>_. ret 1))"
    by (auto simp: ends_def bindA_def print_def modify_def ret_def arming_def)
  have st: "state_ok (armed_state sid b rp qr t (clamp_ttl ttl) l m)" "armed_for ttl sid (armed_state sid b rp qr t (clamp_ttl ttl) l m)"
    if "baseline_ok b" "micros t" for b rp qr t l m
    using that wf_baseline [of b] micros_add [of t "clamp_ttl ttl"]
    by (auto simp: state_ok_def armed_for_def armed_state_def state_default_def simp del: wf_json.simps)
  note steps = ends_cond ends_let ends_pair ends_bind_value [OF t] ends_bind_value [OF captured_ok [OF time]]
    ends_bind_does [where R = ?R] shield_rel.does_log [OF f] shield_rel.arms_location [OF f] shield_rel.quarantines [OF f]
    shield_rel.pins [OF f] session_files_differ
  show ?thesis
    unfolding arm_session_def by (rule tail red st steps | assumption | (simp; fail))+
qed

end

section \<open>The first close of a session\<close>

text \<open>A fingerprint that was taken before there was a state file, and one that is taken while there is one.\<close>

definition lists_state_file :: "bool \<Rightarrow> (string \<times> json) list \<Rightarrow> bool" where
  "lists_state_file b fp \<longleftrightarrow> (\<exists>files. map_of fp ''shield_files'' = Some (jstrs files) \<and> (STATE_FILE \<in> set files \<longleftrightarrow> b))"

lemma py_eq_strs: "py_eq (jstrs xs) (jstrs ys) \<longleftrightarrow> xs = ys"
  by (auto simp: jstrs_def list_all_length list_eq_iff_nth_eq)

lemma fingerprints_differ:
  assumes "lists_state_file False a" "lists_state_file True b"
  shows "\<not> fst (compare_fingerprints a b)"
proof -
  obtain xs ys where "map_of a ''shield_files'' = Some (jstrs xs)" "map_of b ''shield_files'' = Some (jstrs ys)" "xs \<noteq> ys"
    using assms by (auto simp: lists_state_file_def)
  then have "\<not> py_eq (json_get a ''shield_files'' JNull) (json_get b ''shield_files'' JNull)"
    and "''shield_files'' \<in> set (map fst a @ map fst b)"
    by (auto simp: json_get_def py_eq_strs dest: map_of_SomeD) (force dest: map_of_SomeD)
  then show ?thesis by (auto simp: compare_fingerprints_def Let_def filter_empty_conv)
qed

definition exists_file :: "'s host \<Rightarrow> string \<Rightarrow> 's prog \<Rightarrow> bool" where
  "exists_file h f p \<longleftrightarrow> h_path_exists h f (pg_host p)"

lemma fingerprint_lists:
  assumes "capture_fingerprint h p = (Inr fp, p')"
  shows "lists_state_file (exists_file h STATE_FILE p') fp"
proof -
  have "ends (\<lambda>fp q. lists_state_file (exists_file h STATE_FILE q) fp) (capture_fingerprint h)"
  proof -
    have dns: "ends (\<lambda>d _. ''shield_files'' \<notin> set (map fst d)) (fingerprint_dns h s)" for s
      unfolding fingerprint_dns_def by (intro ends_rules) (auto simp: ends_def ret_def)
    have last: "ends (\<lambda>fp q. lists_state_file (exists_file h STATE_FILE q) fp)
        (bindA (gets (\<lambda>p. filter (\<lambda>f. h_path_exists h f (pg_host p)) [LAUNCHD_PLIST, INSTALLED_SHIELD, STATE_FILE])) (\<lambda>files.
           ret ([(''network_location'', a), (''service_order'', b), (''service_enabled'', c), (''routes'', r)] @ d
             @ [(''pf_enabled'', e), (''pf_anchors'', f), (''launchd_loaded'', g), (''shield_files'', jstrs (sort files))])))"
      if "''shield_files'' \<notin> set (map fst d)" for a b c r d e f g
    proof -
      have "LAUNCHD_PLIST \<noteq> STATE_FILE" "INSTALLED_SHIELD \<noteq> STATE_FILE" by code_simp+
      moreover have "map_of d ''shield_files'' = None" using that by (simp add: map_of_eq_None_iff)
      ultimately show ?thesis
        by (auto simp: ends_def bindA_def gets_def ret_def lists_state_file_def exists_file_def map_add_def)
    qed
    show ?thesis
      unfolding capture_fingerprint_def
      by (rule last ends_bind_value [OF dns] ends_pair ends_bind | assumption)+
  qed
  with assms show ?thesis by (auto dest: endsD)
qed

text \<open>What the close finds: the state file, and a stored fingerprint that does not list it.\<close>

definition first_close :: "'s host \<Rightarrow> string \<Rightarrow> 's prog \<Rightarrow> bool" where
  "first_close h sid p \<longleftrightarrow> h_read_file h STATE_FILE (pg_host p) \<noteq> None
     \<and> (\<exists>fp. h_read_file h (session_file sid ''fingerprint-pre.json'') (pg_host p) = Some (dumps_indent (JObj fp))
          \<and> wf_json (JObj fp) \<and> lists_state_file False fp)"

context file_host
begin

lemma first_close_frame:
  assumes "own STATE_FILE" "own (session_file sid ''fingerprint-pre.json'')"
  shows "shield_rel (stays (first_close h sid)) h (\<lambda>p. p \<noteq> STATE_FILE \<and> p \<noteq> session_file sid ''fingerprint-pre.json'')"
proof -
  have stay: "keeps (stays (first_close h sid)) m"
    if "keeps (same_file h STATE_FILE) m" "keeps (same_file h (session_file sid ''fingerprint-pre.json'')) m" for m :: "('s, 'a) sh"
    using that by (simp add: keeps_def stays_def same_file_def first_close_def)
  note f = frame [OF assms(1)] frame [OF assms(2)]
  show ?thesis
    by unfold_locales
       (auto simp: stays_def intro!: stay shield_rel.run [OF f(1)] shield_rel.run [OF f(2)] shield_rel.writes [OF f(1)]
          shield_rel.writes [OF f(2)] shield_rel.mkdir [OF f(1)] shield_rel.mkdir [OF f(2)] shield_rel.unlinks [OF f(1)]
          shield_rel.unlinks [OF f(2)] shield_rel.prints [OF f(1)] shield_rel.prints [OF f(2)])
qed

lemma first_verify:
  assumes "own STATE_FILE" "own (session_file sid ''fingerprint-pre.json'')"
  shows "hoare (first_close h sid) (verify_fingerprint h sid lg) (\<lambda>v p. \<not> fst v)"
proof -
  note f = first_close_frame [OF assms]
  let ?I = "first_close h sid"
  have cap: "hoare ?I (capture_fingerprint h) (\<lambda>fp p. lists_state_file True fp \<and> ?I p)"
    unfolding hoare_def
  proof (intro allI impI)
    fix p fp p'
    assume "?I p" and fp: "capture_fingerprint h p = (Inr fp, p')"
    with keepsD [OF shield_rel.fingerprint [OF f]] have I: "?I p'" by (auto simp: stays_def)
    then have "exists_file h STATE_FILE p'" using exists_read [OF assms(1)] by (simp add: first_close_def exists_file_def)
    with fingerprint_lists [OF fp] I show "lists_state_file True fp \<and> ?I p'" by simp
  qed
  have rest: "hoare (\<lambda>p. lists_state_file True fp \<and> ?I p) (compare_stored h sid lg fp) (\<lambda>v p. \<not> fst v)" for fp
    unfolding hoare_def
  proof (intro allI impI, elim conjE)
    fix p v p'
    assume new: "lists_state_file True fp" and "?I p" and run: "compare_stored h sid lg fp p = (Inr v, p')"
    then obtain pre where pre: "h_read_file h (session_file sid ''fingerprint-pre.json'') (pg_host p) = Some (dumps_indent (JObj pre))"
      "wf_json (JObj pre)" "lists_state_file False pre" by (auto simp: first_close_def)
    have "\<not> fst (compare_fingerprints pre fp)" by (rule fingerprints_differ [OF pre(3) new])
    moreover have "dumps_indent (JObj pre) \<noteq> []" "loads (dumps_indent (JObj pre)) = Inr (JObj pre)"
      using dump_start [of "Some 2" 0 "JObj pre"] loads_dumps(2) [OF pre(2)] by (auto simp: dumps_indent_def)
    ultimately show "\<not> fst v"
      using run pre(1)
      by (auto simp: compare_stored_def read_file_def bindA_Inr_iff gets_def text_or_empty_def lift_result_def ret_def split: prod.splits)
  qed
  show ?thesis unfolding verify_fingerprint_def by (rule hoare_bind [OF cap rest])
qed

lemma first_close_not_green:
  assumes "own STATE_FILE" "own (session_file (st_session_id st) ''fingerprint-pre.json'')"
  shows "hoare (first_close h (st_session_id st)) (close_session h st force)
    (\<lambda>(ok, cls) p. \<not> ok \<and> cls \<noteq> ''GREEN_CLOSE_COMPLETE'')"
proof -
  note f = first_close_frame [OF assms]
  let ?I = "first_close h (st_session_id st)"
  let ?Q = "\<lambda>(ok, cls) (p :: 's prog). \<not> ok \<and> cls \<noteq> ''GREEN_CLOSE_COMPLETE''"
  have tail: "hoare J (bindA (save_state h s) (\<lambda>_. bindA (log_event h lg e d)
      (\<lambda>lg. ret (ok \<and> equal, close_classification ok equal issues)))) ?Q" if "\<not> equal" for J s lg e d ok equal issues
    using that by (intro ends_hoare ends_rules) (simp add: close_classification_def)
  have verified: "hoare ?I (bindA (verify_fingerprint h (st_session_id st) lg) k) ?Q"
    if "\<And>equal lg J. \<not> equal \<Longrightarrow> hoare J (k (equal, lg)) ?Q" for lg k
  proof (rule hoare_bind [OF first_verify [OF assms]])
    fix v :: "bool \<times> logger"
    show "hoare (\<lambda>p. \<not> fst v) (k v) ?Q"
    proof (cases "fst v")
      case False
      then show ?thesis using that [of "fst v" _ "snd v"] by (cases v) simp
    qed (simp add: hoare_def)
  qed
  note steps = hoare_cond hoare_pair hoare_let hoare_bind_does [where I = ?I] shield_rel.does_log [OF f]
    shield_rel.closes_location [OF f] shield_rel.presence [OF f, THEN keeps_does] shield_rel.others [OF f]
  have refused: "hoare ?I (ret (False, ''REFUSED_DEVICE_PRESENT='' @ x)) ?Q" for x
    by (auto simp: hoare_def ret_def)
  show ?thesis
    unfolding close_session_def
    by (rule tail verified refused steps | (simp add: session_files_differ session_files_differ [symmetric]; fail))+
qed

end

end
