(* ===== verification/Shield_Ledger.thy ===== *)
theory Shield_Ledger
  imports Shield_Safety
begin

text \<open>
  The mutation journal as an abstract ledger. The journal file is the concatenation of one line per record; reading it
  back gives the records, numbered from 1. The records that the shield writes are typed changes (\<open>mutation\<close>), and the
  rollback of the file runs the inverse commands of the successful ones from the last to the first.
\<close>

lemma ret_iff: "ret x p = (Inr v, p') \<longleftrightarrow> v = x \<and> p' = p"
  by (auto simp: ret_def)

section \<open>The text of a journal\<close>

lemma parse_journal: "list_all wf_json es \<Longrightarrow> parse_lines (journal_text es) = es"
  unfolding parse_lines_def splitlines_journal by (induction es) (simp_all add: map_filter_simps loads_dumps)

text \<open>The records of a journal, numbered from 1.\<close>

definition seq_of :: "json \<Rightarrow> int option" where
  "seq_of e = (case e of JObj kvs \<Rightarrow> (case json_get kvs ''seq'' (JInt 0) of JInt n \<Rightarrow> Some n | _ \<Rightarrow> None) | _ \<Rightarrow> None)"

definition numbered :: "json list \<Rightarrow> bool" where
  "numbered es \<longleftrightarrow> map seq_of es = map (\<lambda>i. Some (int i)) [1..<Suc (length es)]"

lemma numbered_snoc: "numbered es \<Longrightarrow> seq_of e = Some (int (length es) + 1) \<Longrightarrow> numbered (es @ [e])"
  by (simp add: numbered_def)

lemma max_seq_records:
  "list_all wf_json es \<Longrightarrow> map seq_of es = map Some ns \<Longrightarrow> max_seq n (map dumps es) = Inr (fold max ns n)"
proof (induction es arbitrary: n ns)
  case (Cons e es)
  then obtain m ns' where ns: "ns = m # ns'" "seq_of e = Some m" by (cases ns) auto
  then obtain kvs where "e = JObj kvs" "json_get kvs ''seq'' (JInt 0) = JInt m"
    by (auto simp: seq_of_def split: json.splits)
  moreover from this Cons.prems have "loads (dumps e) = Inr (JObj kvs)" by (simp add: loads_dumps)
  ultimately show ?case using Cons.IH [of ns' "max m n"] Cons.prems ns by (simp add: as_int_def max.commute)
qed simp

lemma fold_max_upto: "fold max (map int [1..<Suc n]) 0 = int n"
  by (induction n) auto

lemma max_seq_numbered: "list_all wf_json es \<Longrightarrow> numbered es \<Longrightarrow> max_seq 0 (map dumps es) = Inr (int (length es))"
  using max_seq_records [of es "map int [1..<Suc (length es)]" 0] fold_max_upto [of "length es"] by (simp add: numbered_def o_def del: upt_Suc)

section \<open>A journal on disk\<close>

definition holds_records :: "'s host \<Rightarrow> string \<Rightarrow> json list \<Rightarrow> 's prog \<Rightarrow> bool" where
  "holds_records h path es p \<longleftrightarrow> text_or_empty (h_read_file h path (pg_host p)) = journal_text es \<and> list_all wf_json es \<and> numbered es"

lemma holds_entries: "holds_records h (j_path j) es p \<Longrightarrow> journal_entries h j p = (Inr es, p)"
  by (simp add: holds_records_def journal_entries_def read_file_def bindA_def gets_def ret_def parse_journal)

lemma holds_open: "holds_records h (session_file sid ''journal.jsonl'') es p \<Longrightarrow>
    journal_open h sid p = (Inr \<lparr>j_path = session_file sid ''journal.jsonl'', j_seq = int (length es)\<rparr>, p)"
  by (simp add: holds_records_def journal_open_def read_file_def bindA_def gets_def ret_def Let_def splitlines_journal max_seq_numbered)

lemma seq_of_entry: "seq_of (journal_entry_json n ts c t v cmd rc) = Some n"
  by (simp add: seq_of_def journal_entry_json_def json_get_def)

lemma wf_strs [simp]: "wf_json (jstrs xs)"
  by (simp add: jstrs_def list_all_iff)

lemma wf_entry: "micros ts \<Longrightarrow> wf_json v \<Longrightarrow> wf_json (journal_entry_json n ts c t v cmd rc)"
  using wf_strs [of "map redact cmd"] by (simp add: journal_entry_json_def)

context file_host
begin

lemma record_appends:
  assumes "own (j_path j)" "micros (sv_time (h_services h) (pg_host p))" "wf_json v"
    and "holds_records h (j_path j) es p" "j_seq j = int (length es)" "journal_record h j c t v cmd rc p = (Inr j', p')"
  shows "j' = j\<lparr>j_seq := int (length es) + 1\<rparr>
    \<and> holds_records h (j_path j) (es @ [journal_entry_json (int (length es) + 1) (sv_time (h_services h) (pg_host p)) c t v cmd rc]) p'
    \<and> pg_cmds p' = pg_cmds p \<and> pg_out p' = pg_out p"
proof -
  let ?e = "journal_entry_json (int (length es) + 1) (sv_time (h_services h) (pg_host p)) c t v cmd rc"
  obtain s where s: "h_write_file h (j_path j) (journal_text es @ dumps ?e @ [char_of (10 :: nat)]) MODE_600 (pg_host p) = (Inr (), s)"
    "p' = p\<lparr>pg_host := s\<rparr>" "j' = j\<lparr>j_seq := int (length es) + 1\<rparr>"
    using assms(4-6)
    by (auto simp: journal_record_def holds_records_def time_now_def read_file_def write_file_def on_host_def bindA_def gets_def
        Let_def ret_def split: prod.splits sum.splits)
  have "numbered (es @ [?e])" using assms(4) by (simp add: numbered_snoc holds_records_def seq_of_entry)
  with s assms(2-4) read_written [OF assms(1) s(1)] wf_entry show ?thesis
    by (simp add: holds_records_def text_or_empty_def)
qed

end

section \<open>Typed changes\<close>

text \<open>The changes that the shield records, and the command that undoes each of them.\<close>

datatype mutation =
    ServiceDisabled string bool
  | RouteAdded string string string
  | RouteDeleted string string
  | OrderSet "string list"
  | PfEnabled
  | AnchorLoaded string
  | LocationSwitched string
  | LocationCreated string bool

fun category_of :: "mutation \<Rightarrow> string" where
  "category_of (ServiceDisabled s b) = ''service_disable''"
| "category_of (RouteAdded f d g) = ''route_add''"
| "category_of (RouteDeleted d g) = ''route_delete''"
| "category_of (OrderSet xs) = ''order_set''"
| "category_of PfEnabled = ''pf_enable''"
| "category_of (AnchorLoaded r) = ''pf_anchor_load''"
| "category_of (LocationSwitched l) = ''location_switch''"
| "category_of (LocationCreated l b) = ''location_create''"

fun target_of :: "mutation \<Rightarrow> string" where
  "target_of (ServiceDisabled s b) = s"
| "target_of (RouteAdded f d g) = pin_entry f d g"
| "target_of (RouteDeleted d g) = d"
| "target_of (OrderSet xs) = ''network_services''"
| "target_of PfEnabled = ''pf''"
| "target_of (AnchorLoaded r) = PF_ANCHOR"
| "target_of (LocationSwitched l) = ''network_location''"
| "target_of (LocationCreated l b) = l"

fun pre_of :: "mutation \<Rightarrow> json" where
  "pre_of (ServiceDisabled s b) = JObj [(''enabled'', JBool b)]"
| "pre_of (RouteAdded f d g) = JObj [(''existed'', JBool False)]"
| "pre_of (RouteDeleted d g) = JObj [(''existed'', JBool True), (''gateway'', JStr g), (''family'', JStr ''inet'')]"
| "pre_of (OrderSet xs) = JObj [(''order'', jstrs xs)]"
| "pre_of PfEnabled = JObj [(''enabled'', JBool False)]"
| "pre_of (AnchorLoaded r) = JObj [(''rules'', JStr r)]"
| "pre_of (LocationSwitched l) = JObj [(''location'', JStr l)]"
| "pre_of (LocationCreated l b) = JObj [(''existed'', JBool b)]"

fun undo :: "mutation \<Rightarrow> string list option" where
  "undo (ServiceDisabled s b) = (if b then Some [''networksetup'', ''-setnetworkserviceenabled'', s, ''on''] else None)"
| "undo (RouteAdded f d g) = Some [''route'', ''-n'', ''delete'', if f = ''inet6'' then ''-inet6'' else ''-net'', d, g]"
| "undo (RouteDeleted d g) = Some [''route'', ''-n'', ''add'', ''-net'', d, g]"
| "undo (OrderSet xs) = (if xs = [] then None else Some (''networksetup'' # ''-ordernetworkservices'' # xs))"
| "undo PfEnabled = Some [''pfctl'', ''-d'']"
| "undo (AnchorLoaded r) = Some [''pfctl'', ''-a'', PF_ANCHOR, ''-F'', ''all'']"
| "undo (LocationSwitched l) = (if l = [] then None else Some [''networksetup'', ''-switchtolocation'', l])"
| "undo (LocationCreated l b) = (if b then None else Some [''networksetup'', ''-deletelocation'', l])"

fun wf_mutation :: "mutation \<Rightarrow> bool" where
  "wf_mutation (RouteAdded f d g) = (word f \<and> word d \<and> word g)"
| "wf_mutation _ = True"

lemma wf_pre: "wf_json (pre_of m)"
  by (cases m) (simp_all add: jstrs_def list_all_iff)

lemma split_pin_entry: "word f \<Longrightarrow> word d \<Longrightarrow> word g \<Longrightarrow> split_ws (pin_entry f d g) = [f, d, ''via'', g]"
proof -
  assume w: "word f" "word d" "word g"
  have via: "word ''via''" by code_simp
  have "pin_entry f d g = f @ CHR '' '' # d @ CHR '' '' # ''via'' @ CHR '' '' # g" by (simp add: pin_entry_def)
  with w via show ?thesis by (simp only: split_ws_def split_words)
qed

lemma all_str [simp]: "all_results as_str (map JStr xs) = Inr xs"
  by (induction xs) (simp_all add: as_str_def)

lemma rollback_undo:
  assumes "wf_mutation m"
  shows "rollback_one h (JStr (category_of m)) (JStr (target_of m)) (pre_of m) = (case undo m of None \<Rightarrow> ret () | Some c \<Rightarrow> exec h c)"
proof (cases m)
  case (OrderSet xs)
  have "json_true (jstrs xs) \<longleftrightarrow> xs \<noteq> []" by (cases xs) (simp_all add: jstrs_def json_true_def)
  then show ?thesis
    by (simp add: OrderSet rollback_one_def with_value_def dict_value_def json_get_def whenA_def exec_list_def exec_args_def jstrs_def as_str_def)
next
  case (RouteAdded f d g)
  then show ?thesis using assms by (simp add: rollback_one_def split_pin_entry whenA_def exec_args_def as_str_def Let_def)
qed (simp_all add: rollback_one_def with_value_def dict_value_def json_get_def whenA_def exec_args_def as_str_def json_true_def)

section \<open>The ledger\<close>

record change =
  ch_mutation :: mutation
  ch_ts :: rat
  ch_cmd :: "string list"
  ch_exit :: int

definition change_json :: "nat \<Rightarrow> change \<Rightarrow> json" where
  "change_json n c =
     journal_entry_json (int n) (ch_ts c) (category_of (ch_mutation c)) (target_of (ch_mutation c)) (pre_of (ch_mutation c)) (ch_cmd c) (ch_exit c)"

fun ledger_from :: "nat \<Rightarrow> change list \<Rightarrow> json list" where
  "ledger_from n [] = []"
| "ledger_from n (c # cs) = change_json n c # ledger_from (Suc n) cs"

abbreviation ledger :: "change list \<Rightarrow> json list" where "ledger \<equiv> ledger_from 1"

lemma ledger_snoc: "ledger_from n (cs @ [c]) = ledger_from n cs @ [change_json (n + length cs) c]"
  by (induction cs arbitrary: n) simp_all

lemma length_ledger [simp]: "length (ledger_from n cs) = length cs"
  by (induction cs arbitrary: n) simp_all

text \<open>The abstract rollback: the inverse commands of the changes that succeeded, from the last to the first.\<close>

definition undo_change :: "change \<Rightarrow> string list option" where
  "undo_change c = (if ch_exit c = 0 then undo (ch_mutation c) else None)"

definition undo_all :: "change list \<Rightarrow> string list list" where "undo_all cs = List.map_filter undo_change (rev cs)"

definition commands_return :: "'s host \<Rightarrow> bool" where
  "commands_return h \<longleftrightarrow> (\<forall>cmd s. \<exists>r s'. h_run h cmd s = (Inr r, s'))"

definition holds_ledger :: "'s host \<Rightarrow> journal \<Rightarrow> change list \<Rightarrow> 's prog \<Rightarrow> bool" where
  "holds_ledger h j cs p \<longleftrightarrow> holds_records h (j_path j) (ledger cs) p \<and> j_seq j = int (length cs)
     \<and> list_all (\<lambda>c. wf_mutation (ch_mutation c)) cs"

lemma exec_returns:
  assumes "commands_return h"
  obtains p' where "exec h c p = (Inr (), p')" "pg_cmds p' = pg_cmds p @ [c]" "pg_out p' = pg_out p"
proof -
  obtain r s where "h_run h c (pg_host p) = (Inr r, s)" using assms unfolding commands_return_def by blast
  then show ?thesis by (intro that [of "p\<lparr>pg_host := s, pg_cmds := pg_cmds p @ [c]\<rparr>"])
    (simp_all add: exec_def run_cmd_def bindA_def ret_def)
qed

lemma rollback_entry_change:
  assumes "wf_mutation (ch_mutation c)"
  shows "rollback_entry h (change_json n c) is =
    (if ch_exit c \<noteq> 0 then ret is
     else bindA (tryA (case undo (ch_mutation c) of None \<Rightarrow> ret () | Some cmd \<Rightarrow> exec h cmd)) (\<lambda>res.
       case res of Inr _ \<Rightarrow> ret is
       | Inl e \<Rightarrow> ret (is @ [''ROLLBACK_ERROR:'' @ category_of (ch_mutation c) @ '':'' @ target_of (ch_mutation c) @ '':'' @ exn_text e])))"
proof -
  have "pre_of (ch_mutation c) \<noteq> JNull" by (cases "ch_mutation c") simp_all
  moreover have "py_eq (JInt (ch_exit c)) (JInt 0) \<longleftrightarrow> ch_exit c = 0" by (auto simp: num_of_def)
  ultimately show ?thesis
    by (intro ext)
       (simp add: rollback_entry_def change_json_def journal_entry_json_def json_get_def rollback_undo [OF assms] Let_def py_str_def
          bindA_def split: prod.split sum.split)
qed

lemma rollback_change:
  assumes "commands_return h" "wf_mutation (ch_mutation c)"
  shows "\<exists>p'. rollback_entry h (change_json n c) is p = (Inr is, p') \<and> pg_out p' = pg_out p
    \<and> pg_cmds p' = pg_cmds p @ (case undo_change c of None \<Rightarrow> [] | Some cmd \<Rightarrow> [cmd])"
proof (cases "undo_change c")
  case None
  then show ?thesis
    by (auto simp: rollback_entry_change [OF assms(2)] undo_change_def bindA_def tryA_def ret_def split: if_splits)
next
  case (Some cmd)
  obtain p' where "exec h cmd p = (Inr (), p')" "pg_cmds p' = pg_cmds p @ [cmd]" "pg_out p' = pg_out p"
    by (rule exec_returns [OF assms(1)])
  with Some show ?thesis
    by (auto simp: rollback_entry_change [OF assms(2)] undo_change_def bindA_def tryA_def ret_def split: if_splits)
qed

lemma rollback_changes:
  assumes "commands_return h" "list_all (\<lambda>c. wf_mutation (ch_mutation c)) cs"
  shows "\<exists>p'. fold_act (rollback_entry h) (rev (ledger_from n cs)) is p = (Inr is, p')
    \<and> pg_cmds p' = pg_cmds p @ undo_all cs \<and> pg_out p' = pg_out p"
  using assms(2)
proof (induction cs arbitrary: p rule: rev_induct)
  case Nil
  then show ?case by (simp add: ret_def undo_all_def map_filter_simps)
next
  case (snoc c cs)
  obtain q where q: "rollback_entry h (change_json (n + length cs) c) is p = (Inr is, q)" "pg_out q = pg_out p"
    "pg_cmds q = pg_cmds p @ (case undo_change c of None \<Rightarrow> [] | Some cmd \<Rightarrow> [cmd])"
    using rollback_change [OF assms(1), of c "n + length cs" "is" p] snoc.prems by auto
  obtain p' where "fold_act (rollback_entry h) (rev (ledger_from n cs)) is q = (Inr is, p')"
    "pg_cmds p' = pg_cmds q @ undo_all cs" "pg_out p' = pg_out q" using snoc by auto
  with q show ?case by (auto simp: ledger_snoc bindA_def undo_all_def map_filter_simps split: option.split)
qed

text \<open>
  C10. The rollback of a journal file implements the abstract rollback of its changes: it returns without issues and runs
  exactly the inverse commands of the changes that succeeded, from the last to the first.
\<close>

theorem rollback_refines_undo:
  assumes "commands_return h" "holds_ledger h j cs p"
  shows "\<exists>p'. journal_rollback h j p = (Inr (True, []), p') \<and> pg_cmds p' = pg_cmds p @ undo_all cs \<and> pg_out p' = pg_out p"
proof -
  have "list_all (\<lambda>c. wf_mutation (ch_mutation c)) cs" "holds_records h (j_path j) (ledger cs) p"
    using assms(2) by (simp_all add: holds_ledger_def)
  from rollback_changes [OF assms(1) this(1), of 1 "[]" p] holds_entries [OF this(2)] show ?thesis
    by (auto simp: journal_rollback_def bindA_def ret_def)
qed

section \<open>Pinned routes and their rollback\<close>

lemma same_file_ledger: "same_file h (j_path j) p p' \<Longrightarrow> holds_ledger h j cs p \<Longrightarrow> holds_ledger h j cs p'"
  by (simp add: holds_ledger_def holds_records_def same_file_def)

text \<open>The changes that succeeded.\<close>

definition succeeded :: "change list \<Rightarrow> mutation list" where
  "succeeded cs = map ch_mutation (filter (\<lambda>c. ch_exit c = 0) cs)"

lemma succeeded_simps [simp]:
  "succeeded [] = []" "succeeded (cs @ cs') = succeeded cs @ succeeded cs'"
  "succeeded (c # cs) = (if ch_exit c = 0 then [ch_mutation c] else []) @ succeeded cs"
  by (simp_all add: succeeded_def)

lemma map_filter_append [simp]: "List.map_filter f (xs @ ys) = List.map_filter f xs @ List.map_filter f ys"
  by (simp add: map_filter_def)

lemma undo_all_succeeded: "undo_all cs = List.map_filter undo (rev (succeeded cs))"
proof -
  have "List.map_filter undo_change xs = List.map_filter undo (succeeded xs)" for xs
    by (induction xs) (auto simp: undo_change_def map_filter_simps split: option.split)
  then show ?thesis by (simp add: undo_all_def succeeded_def rev_map rev_filter)
qed

context file_host
begin

lemma record_change:
  assumes "own (j_path j)" "\<And>s. micros (sv_time (h_services h) s)" "wf_mutation m" "holds_ledger h j cs p"
    and "journal_record h j (category_of m) (target_of m) (pre_of m) cmd rc p = (Inr j', p')"
  shows "\<exists>c. ch_mutation c = m \<and> ch_exit c = rc \<and> j_path j' = j_path j \<and> holds_ledger h j' (cs @ [c]) p' \<and> pg_cmds p' = pg_cmds p"
proof (intro exI conjI)
  let ?c = "\<lparr>ch_mutation = m, ch_ts = sv_time (h_services h) (pg_host p), ch_cmd = cmd, ch_exit = rc\<rparr>"
  have "holds_records h (j_path j) (ledger cs) p" "j_seq j = int (length (ledger cs))"
    using assms(4) by (simp_all add: holds_ledger_def)
  note r = record_appends [OF assms(1,2) wf_pre this assms(5)]
  then show "j_path j' = j_path j" "pg_cmds p' = pg_cmds p" by simp_all
  from r assms(3,4) show "holds_ledger h j' (cs @ [?c]) p'"
    by (simp add: holds_ledger_def ledger_snoc change_json_def add.commute)
qed simp_all

lemma run_ledger: "own (j_path j) \<Longrightarrow> holds_ledger h j cs p \<Longrightarrow> run_cmd h cmd p = (x, p') \<Longrightarrow> holds_ledger h j cs p'"
  by (rule same_file_ledger [of h j p])
     (auto simp: same_file_def run_cmd_def dest: read_run split: prod.splits)

lemma each_ledger:
  "own (j_path j) \<Longrightarrow> holds_ledger h j cs p \<Longrightarrow> for_each (\<lambda>x. exec h (f x)) xs p = (r, p') \<Longrightarrow> holds_ledger h j cs p'"
proof (induction xs arbitrary: p)
  case (Cons x xs)
  then show ?case
    by (auto simp: bindA_def exec_def ret_def split: prod.splits sum.splits dest: run_ledger)
qed (simp add: ret_def)

text \<open>Adding a route is a command and a record of it.\<close>

lemma add_route:
  assumes "own (j_path j)" "\<And>s. micros (sv_time (h_services h) s)" "word f" "word d" "word gw" "holds_ledger h j cs p"
    and "run_cmd h cmd p = (Inr r, q)"
    and "journal_record h j ''route_add'' (pin_entry f d gw) (JObj [(''existed'', JBool False)]) (cr_cmd r) (cr_exit_code r) q = (Inr j', p')"
  shows "\<exists>c. ch_mutation c = RouteAdded f d gw \<and> ch_exit c = cr_exit_code r \<and> j_path j' = j_path j \<and> holds_ledger h j' (cs @ [c]) p'"
  using record_change [OF assms(1,2), of "RouteAdded f d gw" cs q "cr_cmd r" "cr_exit_code r" j' p'] run_ledger [OF assms(1,6,7)] assms(3-5,8)
  by auto

lemma pin_v4_ledger:
  assumes "own (j_path j)" "\<And>s. micros (sv_time (h_services h) s)" "word gw" "list_all word ds" "holds_ledger h j cs p"
    and "pin_v4 h gw ds ps j p = (Inr (pinned, err, j'), p')"
  shows "\<exists>new k. j_path j' = j_path j \<and> holds_ledger h j' (cs @ new) p' \<and> k \<le> length ds
    \<and> succeeded new = map (\<lambda>d. RouteAdded ''inet'' d gw) (take k ds)
    \<and> (if err = None then k = length ds \<and> pinned = ps @ map (\<lambda>d. pin_entry ''inet'' d gw) ds else k < length ds \<and> pinned = [])"
  using assms
proof (induction ds arbitrary: ps j cs p)
  case Nil
  then show ?case by (intro exI [of _ "[]"]) (simp add: ret_def)
next
  case (Cons d ds)
  have inet: "word ''inet''" by code_simp
  from Cons.prems(6) obtain r q j1 q1 where run: "run_cmd h [''route'', ''-n'', ''add'', ''-net'', d, gw] p = (Inr r, q)"
    and rcd: "journal_record h j ''route_add'' (pin_entry ''inet'' d gw) (JObj [(''existed'', JBool False)]) (cr_cmd r) (cr_exit_code r) q = (Inr j1, q1)"
    and rest: "(if cr_exit_code r = 0 then pin_v4 h gw ds (ps @ [pin_entry ''inet'' d gw]) j1
       else bindA (for_each (\<lambda>e. exec h [''route'', ''-n'', ''delete'', ''-net'', split_ws e ! 1, gw]) ps) (\<lambda>_.
         ret ([], Some (''failed to pin '' @ d @ '': '' @ strip (cr_stderr r)), j1))) q1 = (Inr (pinned, err, j'), p')"
    by (auto simp: bindA_Inr_iff)
  from add_route [OF Cons.prems(1,2) inet _ Cons.prems(3,5) run rcd] Cons.prems(4)
  obtain c where c: "ch_mutation c = RouteAdded ''inet'' d gw" "ch_exit c = cr_exit_code r" "j_path j1 = j_path j"
    "holds_ledger h j1 (cs @ [c]) q1" by auto
  show ?case
  proof (cases "cr_exit_code r = 0")
    case True
    with Cons.IH [of j1 "cs @ [c]" q1 "ps @ [pin_entry ''inet'' d gw]"] Cons.prems(1-4) c rest
    obtain new k where new: "j_path j' = j_path j" "holds_ledger h j' (cs @ c # new) p'" "k \<le> length ds"
      "succeeded new = map (\<lambda>d. RouteAdded ''inet'' d gw) (take k ds)"
      "if err = None then k = length ds \<and> pinned = ps @ pin_entry ''inet'' d gw # map (\<lambda>d. pin_entry ''inet'' d gw) ds else k < length ds \<and> pinned = []"
      by (auto split: if_splits)
    with c True show ?thesis by (intro exI [of _ "c # new"] exI [of _ "Suc k"]) (simp split: if_splits)
  next
    case False
    then obtain u where "for_each (\<lambda>e. exec h [''route'', ''-n'', ''delete'', ''-net'', split_ws e ! 1, gw]) ps q1 = (Inr u, p')"
      and "pinned = []" "err \<noteq> None" "j' = j1" using rest by (auto simp: bindA_Inr_iff ret_def)
    moreover from this each_ledger [OF _ c(4)] c(3) Cons.prems(1) have "holds_ledger h j1 (cs @ [c]) p'" by auto
    ultimately show ?thesis using c False by (intro exI [of _ "[c]"] exI [of _ 0]) simp
  qed
qed

lemma pin_v6_ledger:
  assumes "own (j_path j)" "\<And>s. micros (sv_time (h_services h) s)" "word gw" "holds_ledger h j cs p"
    and "pin_v6 h gw (ps, j) p = (Inr (pinned, j'), p')"
  shows "\<exists>new sel. holds_ledger h j' (cs @ new) p' \<and> subseq sel SPLIT_ROUTES_V6
    \<and> succeeded new = map (\<lambda>d. RouteAdded ''inet6'' d gw) sel \<and> pinned = ps @ map (\<lambda>d. pin_entry ''inet6'' d gw) sel"
proof -
  have inet6: "word ''inet6''" by code_simp
  have "list_all word SPLIT_ROUTES_V6" by code_simp
  moreover have "\<exists>new sel. holds_ledger h j' (cs @ new) p' \<and> subseq sel ds
      \<and> succeeded new = map (\<lambda>d. RouteAdded ''inet6'' d gw) sel \<and> pinned = ps @ map (\<lambda>d. pin_entry ''inet6'' d gw) sel"
    if "fold_act (\<lambda>dest (pinned, j).
       bindA (run_cmd h [''route'', ''-n'', ''add'', ''-inet6'', dest, gw]) (\<lambda>r.
       bindA (journal_record h j ''route_add'' (pin_entry ''inet6'' dest gw) (JObj [(''existed'', JBool False)]) (cr_cmd r) (cr_exit_code r)) (\<lambda>j.
         ret (if cr_exit_code r = 0 then pinned @ [pin_entry ''inet6'' dest gw] else pinned, j)))) ds (ps, j) p = (Inr (pinned, j'), p')"
      "list_all word ds" for ds
    using that assms(1,4)
  proof (induction ds arbitrary: ps j cs p)
    case Nil
    then show ?case by (intro exI [of _ "[]"]) (simp add: ret_def)
  next
    case (Cons d ds)
    from Cons.prems(1) obtain r q j1 q1 where run: "run_cmd h [''route'', ''-n'', ''add'', ''-inet6'', d, gw] p = (Inr r, q)"
      and rcd: "journal_record h j ''route_add'' (pin_entry ''inet6'' d gw) (JObj [(''existed'', JBool False)]) (cr_cmd r) (cr_exit_code r) q = (Inr j1, q1)"
      and rest: "fold_act (\<lambda>dest (pinned, j).
         bindA (run_cmd h [''route'', ''-n'', ''add'', ''-inet6'', dest, gw]) (\<lambda>r.
         bindA (journal_record h j ''route_add'' (pin_entry ''inet6'' dest gw) (JObj [(''existed'', JBool False)]) (cr_cmd r) (cr_exit_code r)) (\<lambda>j.
           ret (if cr_exit_code r = 0 then pinned @ [pin_entry ''inet6'' dest gw] else pinned, j)))) ds
           (if cr_exit_code r = 0 then ps @ [pin_entry ''inet6'' d gw] else ps, j1) q1 = (Inr (pinned, j'), p')"
      by (auto simp: bindA_Inr_iff ret_iff)
    from add_route [OF Cons.prems(3) assms(2) inet6 _ assms(3) Cons.prems(4) run rcd] Cons.prems(2)
    obtain c where c: "ch_mutation c = RouteAdded ''inet6'' d gw" "ch_exit c = cr_exit_code r" "j_path j1 = j_path j"
      "holds_ledger h j1 (cs @ [c]) q1" by auto
    from Cons.IH [OF rest _ _ c(4)] Cons.prems(2,3) c(3)
    obtain new sel where new: "holds_ledger h j' (cs @ c # new) p'" "subseq sel ds"
      "succeeded new = map (\<lambda>d. RouteAdded ''inet6'' d gw) sel"
      "pinned = (if cr_exit_code r = 0 then ps @ [pin_entry ''inet6'' d gw] else ps) @ map (\<lambda>d. pin_entry ''inet6'' d gw) sel"
      by auto
    with c show ?case
      by (intro exI [of _ "c # new"] exI [of _ "if cr_exit_code r = 0 then d # sel else sel"]) auto
  qed
  ultimately show ?thesis using assms(5) unfolding pin_v6_def by blast
qed

end

text \<open>The command that deletes a pinned route.\<close>

definition unpin_cmd :: "string \<Rightarrow> string \<times> string \<Rightarrow> string list" where
  "unpin_cmd gw = (\<lambda>(f, d). [''route'', ''-n'', ''delete'', if f = ''inet6'' then ''-inet6'' else ''-net'', d, gw])"

definition V4_PINS :: "(string \<times> string) list" where "V4_PINS = map (Pair ''inet'') SPLIT_ROUTES_V4"
definition V6_PINS :: "(string \<times> string) list" where "V6_PINS = map (Pair ''inet6'') SPLIT_ROUTES_V6"

lemma undo_pins: "List.map_filter undo (rev (map (\<lambda>(f, d). RouteAdded f d gw) added)) = map (unpin_cmd gw) (rev added)"
  by (induction added rule: rev_induct) (auto simp: map_filter_simps unpin_cmd_def)

lemma pins_rolled_back:
  assumes "commands_return (system_host os sv)" "\<And>s. micros (sv_time sv s)" "word gw" "\<not> suffix ''.tmp'' (j_path j)"
    and "holds_ledger (system_host os sv) j cs p" "pin_split_routes (system_host os sv) gw i j p = (Inr (rp, j'), p')"
  shows "\<exists>added p''. subseq added (V4_PINS @ V6_PINS)
    \<and> (if rp_classification rp = ''GREEN'' then prefix V4_PINS added \<and> rp_pinned_routes rp = map (\<lambda>(f, d). pin_entry f d gw) added
       else length added < length V4_PINS \<and> prefix added V4_PINS \<and> rp_pinned_routes rp = [])
    \<and> journal_rollback (system_host os sv) j' p' = (Inr (True, []), p'')
    \<and> pg_cmds p'' = pg_cmds p' @ map (unpin_cmd gw) (rev added) @ undo_all cs"
proof -
  let ?h = "system_host os sv"
  have services: "\<And>s. micros (sv_time (h_services ?h) s)" using assms(2) by (simp add: system_host_def)
  have words: "list_all word SPLIT_ROUTES_V4" by code_simp
  have yellow: "YELLOW_PIN \<noteq> ''GREEN''" by code_simp
  have undone: ?thesis if "holds_ledger ?h j' (cs @ new) p'" "succeeded new = map (\<lambda>(f, d). RouteAdded f d gw) added"
    "subseq added (V4_PINS @ V6_PINS)"
    "if rp_classification rp = ''GREEN'' then prefix V4_PINS added \<and> rp_pinned_routes rp = map (\<lambda>(f, d). pin_entry f d gw) added
       else length added < length V4_PINS \<and> prefix added V4_PINS \<and> rp_pinned_routes rp = []" for new added
    using that rollback_changes [OF assms(1), of "cs @ new" 1 "[]" p'] holds_entries [of ?h j' "ledger (cs @ new)" p'] undo_pins [of gw added]
    by (intro exI [of _ added])
       (auto simp: holds_ledger_def journal_rollback_def bindA_def ret_def undo_all_succeeded)
  show ?thesis
  proof (cases "gw = [] \<or> i = []")
    case True
    with assms(5,6) yellow show ?thesis
      by (intro undone [of "[]" "[]"]) (auto simp: pin_split_routes_def ret_def V4_PINS_def SPLIT_ROUTES_V4_def)
  next
    case False
    then obtain pinned err j1 q where v4: "pin_v4 ?h gw SPLIT_ROUTES_V4 [] j p = (Inr (pinned, err, j1), q)"
      and rest: "(case err of
            Some e \<Rightarrow> ret (\<lparr>rp_pinned_routes = pinned, rp_classification = YELLOW_PIN, rp_error = e\<rparr>, j1)
          | None \<Rightarrow> bindA (pin_v6 ?h gw (pinned, j1)) (\<lambda>(pinned, j).
                ret (\<lparr>rp_pinned_routes = pinned, rp_classification = ''GREEN'', rp_error = []\<rparr>, j))) q = (Inr (rp, j'), p')"
      using assms(6) by (auto simp: pin_split_routes_def bindA_Inr_iff)
    from system_files.pin_v4_ledger [OF assms(4) services assms(3) words assms(5) v4]
    obtain new k where new: "j_path j1 = j_path j" "holds_ledger ?h j1 (cs @ new) q" "k \<le> length SPLIT_ROUTES_V4"
      "succeeded new = map (\<lambda>(f, d). RouteAdded f d gw) (take k V4_PINS)"
      "if err = None then k = length SPLIT_ROUTES_V4 \<and> pinned = map (\<lambda>d. pin_entry ''inet'' d gw) SPLIT_ROUTES_V4
       else k < length SPLIT_ROUTES_V4 \<and> pinned = []"
      by (auto simp: V4_PINS_def take_map)
    show ?thesis
    proof (cases err)
      case (Some e)
      with rest new yellow show ?thesis
        by (intro undone [OF _ new(4)]) (auto simp: ret_def V4_PINS_def take_is_prefix)
    next
      case None
      then obtain pinned' where v6: "pin_v6 ?h gw (pinned, j1) q = (Inr (pinned', j'), p')"
        and rp: "rp = \<lparr>rp_pinned_routes = pinned', rp_classification = ''GREEN'', rp_error = []\<rparr>"
        using rest by (auto simp: bindA_Inr_iff ret_def)
      from system_files.pin_v6_ledger [OF _ services assms(3) new(2) v6] assms(4) new(1)
      obtain new' sel where v6: "holds_ledger ?h j' (cs @ new @ new') p'" "subseq sel SPLIT_ROUTES_V6"
        "succeeded new' = map (\<lambda>d. RouteAdded ''inet6'' d gw) sel" "pinned' = pinned @ map (\<lambda>d. pin_entry ''inet6'' d gw) sel"
        by auto
      have "subseq (V4_PINS @ map (Pair ''inet6'') sel) (V4_PINS @ V6_PINS)"
        unfolding V6_PINS_def by (intro list_emb_append_mono subseq_map v6(2)) simp
      with v6 new None rp show ?thesis
        by (intro undone [OF v6(1), of "V4_PINS @ map (Pair ''inet6'') sel"]) (auto simp: V4_PINS_def)
    qed
  qed
qed

end
