(* ===== verification/Action_Returns.thy ===== *)
theory Action_Returns
  imports Action
begin

text \<open>
  Actions that always return: \<open>returns I m Q\<close> says that from a state with the invariant \<open>I\<close> the action \<open>m\<close> returns a value
  that satisfies \<open>Q\<close> and keeps \<open>I\<close>; in particular it ends without an exception.
\<close>

definition returns :: "('s \<Rightarrow> bool) \<Rightarrow> ('s, 'a) act \<Rightarrow> ('a \<Rightarrow> bool) \<Rightarrow> bool" where
  "returns I m Q \<longleftrightarrow> (\<forall>p. I p \<longrightarrow> (\<exists>v p'. m p = (Inr v, p') \<and> Q v \<and> I p'))"

named_theorems returns_rules \<open>composition rules for actions that return\<close>

lemma returnsE:
  assumes "returns I m Q" "I p"
  obtains v p' where "m p = (Inr v, p')" "Q v" "I p'"
  using assms unfolding returns_def by blast

lemma returns_weaken: "returns I m Q \<Longrightarrow> (\<And>v. Q v \<Longrightarrow> Q' v) \<Longrightarrow> returns I m Q'"
  unfolding returns_def by blast

lemma returns_ret [returns_rules]: "Q v \<Longrightarrow> returns I (ret v) Q"
  by (simp add: returns_def ret_def)

lemma returns_gets: "(\<And>p. I p \<Longrightarrow> Q (f p)) \<Longrightarrow> returns I (gets f) Q"
  by (simp add: returns_def gets_def)

lemma returns_gets_any [returns_rules]: "returns I (gets f) (\<lambda>_. True)"
  by (simp add: returns_gets)

lemma returns_bind [returns_rules]: "returns I m Q' \<Longrightarrow> (\<And>v. Q' v \<Longrightarrow> returns I (f v) Q) \<Longrightarrow> returns I (bindA m f) Q"
  unfolding returns_def bindA_def by (fastforce split: prod.split sum.split)

lemma returns_cond [returns_rules]:
  "(b \<Longrightarrow> returns I m Q) \<Longrightarrow> (\<not> b \<Longrightarrow> returns I n Q) \<Longrightarrow> returns I (if b then m else n) Q"
  by simp

lemma returns_opt [returns_rules]:
  "(v = None \<Longrightarrow> returns I m Q) \<Longrightarrow> (\<And>x. v = Some x \<Longrightarrow> returns I (f x) Q) \<Longrightarrow>
   returns I (case v of None \<Rightarrow> m | Some x \<Rightarrow> f x) Q"
  by (simp split: option.split)

lemma returns_pair [returns_rules]:
  "(\<And>x y. p = (x, y) \<Longrightarrow> returns I (f x y) Q) \<Longrightarrow> returns I (case p of (x, y) \<Rightarrow> f x y) Q"
  by (simp split: prod.split)

lemma returns_let [returns_rules]: "returns I (f v) Q \<Longrightarrow> returns I (let x = v in f x) Q"
  by simp

text \<open>A caught action need not return, but it has to keep the invariant.\<close>

lemma returns_try: "keeps (stays I) m \<Longrightarrow> returns I (tryA m) (\<lambda>_. True)"
  unfolding returns_def keeps_def stays_def tryA_def by (auto split: prod.split)

lemma returns_stays: "returns I m Q \<Longrightarrow> keeps (stays I) m"
  unfolding returns_def keeps_def stays_def by (metis snd_conv)

lemma returns_each: "(\<And>x. x \<in> set xs \<Longrightarrow> returns I (f x) (\<lambda>_. True)) \<Longrightarrow> returns I (for_each f xs) (\<lambda>_. True)"
proof (induction xs)
  case (Cons x xs)
  then show ?case by (simp, intro returns_bind [where Q' = "\<lambda>_. True"]) auto
qed (simp add: returns_ret)

lemma returns_fold:
  "(\<And>x a. x \<in> set xs \<Longrightarrow> Q a \<Longrightarrow> returns I (f x a) Q) \<Longrightarrow> Q a \<Longrightarrow> returns I (fold_act f xs a) Q"
proof (induction xs arbitrary: a)
  case (Cons x xs)
  then show ?case by (simp, intro returns_bind [where Q' = Q]) auto
qed (simp add: returns_ret)

lemma stays_rel: "action_rel (stays I)"
  by unfold_locales (simp_all add: stays_def)

end
