(* ===== verification/Shield_Steady.thy ===== *)
theory Shield_Steady
  imports Shield_Ledger Action_Returns
begin

text \<open>
  The shield on a machine that works: programs exit, files can be written, directories made, and the session's journal and
  stored fingerprint are readable. The locale \<open>steady_host\<close> is this contract; under it every operation of the
  shield returns. It is interpreted on \<open>FakeHost\<close> and on every system whose programs exit and that denies no access.
\<close>

section \<open>The contract\<close>

text \<open>A journal that the shield can read: lines that are records with a number.\<close>

definition journal_fine :: "'s host \<Rightarrow> string \<Rightarrow> 's prog \<Rightarrow> bool" where
  "journal_fine h path p \<longleftrightarrow>
     (\<exists>es. text_or_empty (h_read_file h path (pg_host p)) = journal_text es \<and> list_all wf_json es \<and> list_all (\<lambda>e. seq_of e \<noteq> None) es)"

text \<open>A stored fingerprint that the shield can read, or none.\<close>

definition pre_fine :: "'s host \<Rightarrow> string \<Rightarrow> 's prog \<Rightarrow> bool" where
  "pre_fine h path p \<longleftrightarrow>
     (let t = text_or_empty (h_read_file h path (pg_host p)) in t = [] \<or> (\<exists>kvs. loads t = Inr (JObj kvs)))"

definition steady_inv :: "'s host \<Rightarrow> ('s \<Rightarrow> bool) \<Rightarrow> string \<Rightarrow> 's prog \<Rightarrow> bool" where
  "steady_inv h good sid p \<longleftrightarrow> good (pg_host p) \<and> journal_fine h (session_file sid ''journal.jsonl'') p
     \<and> pre_fine h (session_file sid ''fingerprint-pre.json'') p"

locale steady_host = file_host h own for h :: "'s host" and own :: "string \<Rightarrow> bool" +
  fixes good :: "'s \<Rightarrow> bool" and Wr Mk :: "string \<Rightarrow> bool" and sid :: string
  assumes own_session: "own (session_file sid ''journal.jsonl'')" "own (session_file sid ''fingerprint-pre.json'')"
    and own_state: "own STATE_FILE"
    and run_good: "good s \<Longrightarrow> \<exists>r s'. h_run h cmd s = (Inr r, s') \<and> good s'"
    and write_good: "good s \<Longrightarrow> Wr path \<Longrightarrow> \<exists>s'. h_write_file h path c m s = (Inr (), s') \<and> good s'"
    and mkdir_good: "good s \<Longrightarrow> Mk path \<Longrightarrow> \<exists>s'. h_mkdir_p h path m s = (Inr (), s') \<and> good s'"
    and mkdir_keeps: "good s \<Longrightarrow> h_mkdir_p h path m s = (r, s') \<Longrightarrow> good s'"
    and remove_good: "good s \<Longrightarrow> good (h_remove_file h path s)"
    and sleep_good: "good s \<Longrightarrow> good (sv_sleep (h_services h) t s)"
    and sleep_read: "own path \<Longrightarrow> h_read_file h path (sv_sleep (h_services h) t s) = h_read_file h path s"
    and time_micros: "micros (sv_time (h_services h) s)"
    and dirs: "Mk (session_dir sid)" "Mk (pstr STATE_DIR)"
    and files: "Wr STATE_FILE" "Wr (session_file sid ''journal.jsonl'')" "Wr (session_dir sid @ ''/shield.jsonl'')"
      "Wr (rules_path i)" "Wr (session_file sid ''fingerprint-pre.json'')"
begin

abbreviation I :: "'s prog \<Rightarrow> bool" where "I \<equiv> steady_inv h good sid"
abbreviation J :: string where "J \<equiv> session_file sid ''journal.jsonl''"
abbreviation F :: string where "F \<equiv> session_file sid ''fingerprint-pre.json''"

text \<open>An operation on the host that leaves the two session files alone keeps the invariant.\<close>

lemma inv_same:
  "I p \<Longrightarrow> good (pg_host p') \<Longrightarrow> h_read_file h J (pg_host p') = h_read_file h J (pg_host p) \<Longrightarrow>
   h_read_file h F (pg_host p') = h_read_file h F (pg_host p) \<Longrightarrow> I p'"
  by (simp add: steady_inv_def journal_fine_def pre_fine_def)

lemma runs [returns_rules]: "returns I (run_cmd h cmd) (\<lambda>_. True)"
  unfolding returns_def
proof (intro allI impI)
  fix p assume p: "I p"
  then obtain r s where "h_run h cmd (pg_host p) = (Inr r, s)" "good s"
    using run_good [of "pg_host p" cmd] by (auto simp: steady_inv_def)
  with p show "\<exists>v p'. run_cmd h cmd p = (Inr v, p') \<and> True \<and> I p'"
    by (auto simp: run_cmd_def intro!: inv_same [of p] dest: read_run own_session [THEN read_run])
qed

lemma execs [returns_rules]: "returns I (exec h cmd) (\<lambda>_. True)"
  unfolding exec_def by (rule returns_rules TrueI)+

lemma reads [returns_rules]: "returns I (read_file h path) (\<lambda>_. True)" "returns I (time_now h) micros"
  unfolding read_file_def time_now_def by (rule returns_rules returns_gets time_micros)+

lemma prints [returns_rules]: "returns I (print l) (\<lambda>_. True)"
  by (simp add: returns_def print_def modify_def steady_inv_def journal_fine_def pre_fine_def)

lemma sleeps [returns_rules]: "returns I (sleep h t) (\<lambda>_. True)"
  by (simp add: returns_def sleep_def host_do_def modify_def steady_inv_def journal_fine_def pre_fine_def sleep_read own_session sleep_good)

lemma writes: "Wr path \<Longrightarrow> path \<noteq> J \<Longrightarrow> path \<noteq> F \<Longrightarrow> returns I (write_file h path c m) (\<lambda>_. True)"
  unfolding returns_def
proof (intro allI impI)
  fix p assume w: "Wr path" "path \<noteq> J" "path \<noteq> F" and p: "I p"
  then obtain s where s: "h_write_file h path c m (pg_host p) = (Inr (), s)" "good s"
    using write_good [of "pg_host p" path c m] by (auto simp: steady_inv_def)
  from read_other [OF own_session(1) _ s(1)] read_other [OF own_session(2) _ s(1)] w p s
  show "\<exists>v p'. write_file h path c m p = (Inr v, p') \<and> True \<and> I p'"
    by (auto simp: write_file_def on_host_def intro!: inv_same [of p])
qed

lemma mkdirs: "Mk path \<Longrightarrow> returns I (mkdir_p h path m) (\<lambda>_. True)"
  unfolding returns_def
proof (intro allI impI)
  fix p assume w: "Mk path" and p: "I p"
  then obtain s where s: "h_mkdir_p h path m (pg_host p) = (Inr (), s)" "good s"
    using mkdir_good [of "pg_host p" path m] by (auto simp: steady_inv_def)
  from read_mkdir [OF own_session(1) s(1)] read_mkdir [OF own_session(2) s(1)] p s
  show "\<exists>v p'. mkdir_p h path m p = (Inr v, p') \<and> True \<and> I p'"
    by (auto simp: mkdir_p_def on_host_def intro!: inv_same [of p])
qed

lemma unlinks: "path \<noteq> J \<Longrightarrow> path \<noteq> F \<Longrightarrow> returns I (host_do (h_remove_file h path)) (\<lambda>_. True)"
  by (simp add: returns_def host_do_def modify_def steady_inv_def journal_fine_def pre_fine_def read_removed own_session remove_good)

lemma records:
  assumes "j_path j = J" "wf_json v"
  shows "returns I (journal_record h j c t v cmd rc) (\<lambda>j. j_path j = J)"
  unfolding returns_def
proof (intro allI impI)
  fix p assume p: "I p"
  then obtain es where es: "text_or_empty (h_read_file h J (pg_host p)) = journal_text es" "list_all wf_json es"
    "list_all (\<lambda>e. seq_of e \<noteq> None) es" by (auto simp: steady_inv_def journal_fine_def)
  let ?e = "journal_entry_json (j_seq j + 1) (sv_time (h_services h) (pg_host p)) c t v cmd rc"
  obtain s where s: "h_write_file h J (journal_text es @ dumps ?e @ [char_of (10 :: nat)]) MODE_600 (pg_host p) = (Inr (), s)" "good s"
    using write_good [OF _ files(2), of "pg_host p"] p unfolding steady_inv_def by blast
  have "J \<noteq> F" by (rule session_files_differ)
  then have "h_read_file h F s = h_read_file h F (pg_host p)" using read_other [OF own_session(2) _ s(1)] by simp
  moreover have "journal_fine h J (p\<lparr>pg_host := s\<rparr>)"
    using read_written [OF own_session(1) s(1)] es wf_entry [OF time_micros assms(2)]
    by (auto simp: journal_fine_def text_or_empty_def seq_of_entry intro!: exI [of _ "es @ [?e]"])
  ultimately have "I (p\<lparr>pg_host := s\<rparr>)" using p s(2) by (simp add: steady_inv_def pre_fine_def)
  then show "\<exists>v' p'. journal_record h j c t v cmd rc p = (Inr v', p') \<and> j_path v' = J \<and> I p'"
    using es(1) s(1) assms(1)
    by (auto simp: journal_record_def time_now_def read_file_def write_file_def on_host_def bindA_def gets_def Let_def ret_def)
qed

end

text \<open>The invariant is a relation of the frame: commands, writes to other files and directories keep it.\<close>

sublocale steady_host \<subseteq> kept: shield_rel "stays I" h "\<lambda>path. Wr path \<and> path \<noteq> J \<and> path \<noteq> F"
proof
  fix path m
  have "good s' \<and> h_read_file h J s' = h_read_file h J s \<and> h_read_file h F s' = h_read_file h F s"
    if "h_mkdir_p h path m s = (r, s')" "good s" for s r s'
    using mkdir_keeps [OF that(2,1)] read_mkdir [OF _ that(1)] own_session by auto
  then show "keeps (stays I) (mkdir_p h path m)"
    by (auto simp: keeps_def stays_def mkdir_p_def on_host_def steady_inv_def journal_fine_def pre_fine_def split: prod.split)
qed (auto simp: stays_def intro: runs prints unlinks writes [THEN returns_stays] returns_stays)

context steady_host
begin

subsection \<open>Journal\<close>

abbreviation jok :: "journal \<Rightarrow> bool" where "jok j \<equiv> j_path j = J"
abbreviation lok :: "logger \<Rightarrow> bool" where "lok lg \<equiv> lg_file lg = session_dir sid @ ''/shield.jsonl''"

lemma opens: "returns I (journal_open h sid) jok"
  unfolding returns_def
proof (intro allI impI)
  fix p assume p: "I p"
  then obtain es where es: "text_or_empty (h_read_file h J (pg_host p)) = journal_text es" "list_all wf_json es"
    "list_all (\<lambda>e. seq_of e \<noteq> None) es" by (auto simp: steady_inv_def journal_fine_def)
  from es(3) have "map seq_of es = map Some (map (the \<circ> seq_of) es)" by (induction es) auto
  from max_seq_records [OF es(2) this, of 0] p es(1)
  show "\<exists>v p'. journal_open h sid p = (Inr v, p') \<and> j_path v = J \<and> I p'"
    by (simp add: journal_open_def read_file_def bindA_def gets_def ret_def Let_def splitlines_journal)
qed

lemma lists: "jok j \<Longrightarrow> returns I (journal_entries h j) (list_all (\<lambda>e. seq_of e \<noteq> None))"
  unfolding returns_def
proof (intro allI impI)
  fix p assume "jok j" and p: "I p"
  then show "\<exists>v p'. journal_entries h j p = (Inr v, p') \<and> list_all (\<lambda>e. seq_of e \<noteq> None) v \<and> I p'"
    by (auto simp: steady_inv_def journal_fine_def journal_entries_def read_file_def bindA_def gets_def ret_def parse_journal)
qed

lemma undoes: "seq_of e \<noteq> None \<Longrightarrow> returns I (rollback_entry h e is) (\<lambda>_. True)"
proof -
  assume "seq_of e \<noteq> None"
  then obtain kvs where e: "e = JObj kvs" by (auto simp: seq_of_def split: json.splits)
  have sum: "returns I (case r of Inl x \<Rightarrow> ret (f x) | Inr y \<Rightarrow> ret (g y)) (\<lambda>_. True)" for r f g
    by (cases r) (simp_all add: returns_ret)
  show ?thesis
    unfolding e rollback_entry_def
    by (simp add: Let_def) (intro impI conjI returns_ret returns_bind [OF returns_try [OF kept.undoes]] sum TrueI)
qed

lemma rolls_back: "jok j \<Longrightarrow> returns I (journal_rollback h j) (\<lambda>_. True)"
  unfolding journal_rollback_def
  by (rule returns_bind lists returns_fold undoes returns_ret TrueI | (simp add: list_all_iff; fail))+

lemma records_opt: "pred_option jok j \<Longrightarrow> wf_json v \<Longrightarrow> returns I (record_opt h j c t v cmd rc) (pred_option jok)"
  unfolding record_opt_def by (rule returns_rules records | (simp; fail))+

subsection \<open>Log and state\<close>

lemma log_opens: "returns I (logger_open h sid) lok"
  unfolding logger_open_def by (rule returns_rules mkdirs dirs | (simp; fail))+

lemma logs: "lok lg \<Longrightarrow> returns I (log_event h lg e d) lok"
  unfolding log_event_def
  by (rule returns_rules writes files | (simp add: session_files_differ files; fail))+

lemma saves: "returns I (save_state h st) (\<lambda>_. True)"
  unfolding save_state_def by (rule returns_rules writes mkdirs dirs files session_files_differ [symmetric])+

lemma stored: "returns I (read_file h F) (\<lambda>t. text_or_empty t = [] \<or> (\<exists>kvs. loads (text_or_empty t) = Inr (JObj kvs)))"
  unfolding read_file_def by (rule returns_gets) (auto simp: steady_inv_def pre_fine_def Let_def)

lemma whens: "(b \<Longrightarrow> returns I m (\<lambda>_. True)) \<Longrightarrow> returns I (whenA b m) (\<lambda>_. True)"
  unfolding whenA_def by (rule returns_rules TrueI | assumption)+

lemmas steps = returns_rules records records_opt logs saves whens opens log_opens rolls_back

subsection \<open>Network operations\<close>

lemma pf_state: "returns I (pf_is_enabled h) (\<lambda>_. True)"
  unfolding pf_is_enabled_def by (rule steps TrueI)+

lemma fingerprints: "returns I (capture_fingerprint h) (\<lambda>_. True)"
  unfolding capture_fingerprint_def fingerprint_dns_def by (rule pf_state steps TrueI)+

lemma interfaces: "returns I (get_current_interfaces h) (\<lambda>_. True)"
  unfolding get_current_interfaces_def by (rule steps TrueI)+

lemma detects: "returns I (detect_new_external_ethernet h b) (\<lambda>_. True)"
  unfolding detect_new_external_ethernet_def by (rule interfaces steps TrueI)+

lemma unpins: "returns I (unpin_split_routes h ps) (\<lambda>_. True)"
  unfolding unpin_split_routes_def unpin_route_def by (rule returns_each steps TrueI)+

lemma restores: "jok j \<Longrightarrow> returns I (restore_location h l1 l2 j) (\<lambda>(_, j). jok j)"
  unfolding restore_location_def by (rule steps | (simp; fail))+

lemma disables: "pred_option jok j \<Longrightarrow> returns I (disable_service h b svc j) (\<lambda>(_, j). pred_option jok j)"
  unfolding disable_service_def by (rule steps | (simp; fail))+

lemma installs: "jok j \<Longrightarrow> returns I (pf_install_anchor h i j e) (\<lambda>(_, j). jok j)"
proof -
  assume j: "jok j"
  have i: "rules_path i \<noteq> J" "rules_path i \<noteq> F"
    using rules_path_differs [of "''journal''" "''l''" J i] rules_path_differs [of "''fingerprint-pre''" "[]" F i] session_names by auto
  show ?thesis
    unfolding pf_install_anchor_def by (rule steps writes unlinks files i j | (simp; fail))+
qed

subsection \<open>Recovery\<close>

lemma blocks: "pred_option jok (snd acc) \<Longrightarrow> returns I (recover_q1 h b i acc) (\<lambda>(_, j). pred_option jok j)"
  unfolding recover_q1_def by (rule installs steps | (simp; fail))+

lemma isolates: "pred_option jok (snd acc) \<Longrightarrow> returns I (recover_q2 h b cur i acc) (\<lambda>(_, j). pred_option jok j)"
  unfolding recover_q2_def by (rule returns_fold disables steps | (simp add: case_prod_beta; fail))+

lemma unroutes: "returns I (recover_q3 h us line st) (\<lambda>_. True)"
  unfolding recover_q3_def by (rule returns_fold [where Q = "\<lambda>_. True"] steps TrueI)+

lemma cycles: "returns I (power_cycle h d) (\<lambda>_. True)"
  unfolding power_cycle_def by (rule steps sleeps TrueI)+

lemma settings: "returns I (recover_q456 h b st) (\<lambda>_. True)" "returns I (recover_q7 h b st) (\<lambda>_. True)"
  "returns I (recover_q8 h b st) (\<lambda>_. True)"
  unfolding recover_q456_def recover_q7_def recover_q8_def by (rule cycles steps TrueI)+

lemma recovers: "pred_option jok j \<Longrightarrow> returns I (run_recovery h b us j) (\<lambda>(_, j). pred_option jok j)"
proof -
  assume j: "pred_option jok j"
  have q1: "returns I (fold_act (recover_q1 h b) us ([], j)) (\<lambda>(_, j). pred_option jok j)"
    using j by (intro returns_fold blocks) (auto simp: case_prod_beta)
  have q2: "returns I (fold_act (recover_q2 h b cur) us acc) (\<lambda>(_, j). pred_option jok j)" if "pred_option jok (snd acc)" for cur acc
    using that by (intro returns_fold isolates) (auto simp: case_prod_beta)
  have q3: "returns I (fold_act (recover_q3 h us) ls st) (\<lambda>_. True)" for ls st
    by (intro returns_fold unroutes TrueI)
  show ?thesis
    unfolding run_recovery_def by (rule q1 q2 q3 interfaces settings steps | (simp add: case_prod_beta; fail))+
qed

subsection \<open>Closing\<close>

lemma presence: "returns I (still_present h st force) (\<lambda>_. True)"
  unfolding still_present_def by (rule interfaces steps TrueI)+

lemma verifies: "lok lg \<Longrightarrow> returns I (verify_fingerprint h sid lg) (\<lambda>(_, lg). lok lg)"
proof -
  assume lg: "lok lg"
  have obj: "returns I (bindA (lift_result (loads t)) (\<lambda>fp. case fp of JObj kvs \<Rightarrow> f kvs | _ \<Rightarrow> raiseA AttributeError)) Q"
    if "loads t = Inr (JObj kvs)" "\<And>kvs. returns I (f kvs) Q" for t kvs f and Q :: "'b \<Rightarrow> bool"
  proof -
    have "bindA (lift_result (loads t)) (\<lambda>fp. case fp of JObj kvs \<Rightarrow> f kvs | _ \<Rightarrow> raiseA AttributeError) = f kvs"
      using that(1) by (intro ext) (simp add: lift_result_def bindA_def ret_def)
    with that(2) show ?thesis by simp
  qed
  have "returns I (compare_stored h sid lg fp) (\<lambda>(_, lg). lok lg)" for fp
    unfolding compare_stored_def
  proof (rule returns_bind [OF stored])
    fix t assume t: "text_or_empty t = [] \<or> (\<exists>kvs. loads (text_or_empty t) = Inr (JObj kvs))"
    show "returns I (if text_or_empty t = []
        then bindA (log_event h lg ''C11_fingerprint_verify'' [(''equal'', JBool False), (''reason'', JStr ''no_pre_fingerprint'')]) (\<lambda>lg. ret (False, lg))
        else bindA (lift_result (loads (text_or_empty t))) (\<lambda>fp_pre. case fp_pre of
             JObj pre \<Rightarrow> (case compare_fingerprints pre fp of (equal, ds) \<Rightarrow>
                  bindA (log_event h lg ''C11_fingerprint_verify'' [(''equal'', JBool equal), (''diffs'', jstrs (take 5 ds))]) (\<lambda>lg. ret (equal, lg)))
           | _ \<Rightarrow> raiseA AttributeError)) (\<lambda>(_, lg). lok lg)"
      using t lg by (cases "text_or_empty t = []") (auto intro!: obj returns_pair returns_bind [OF logs] returns_ret)
  qed
  then show ?thesis unfolding verify_fingerprint_def by (rule returns_bind [OF fingerprints])
qed

lemma closes_location: "jok j \<Longrightarrow> lok lg \<Longrightarrow> returns I (close_location h st j lg) lok"
  unfolding close_location_def by (rule restores steps | (simp; fail))+

lemma lifted: "x = Inr v \<Longrightarrow> returns I (lift_result x) (\<lambda>y. y = v)"
  by (simp add: lift_result_def returns_ret)

lemma closes:
  assumes "st_session_id st = sid" "stored_baseline (st_baseline st) = Inr b"
  shows "returns I (close_session h st force) (\<lambda>_. True)"
  unfolding close_session_def assms(1)
  by (rule lifted [OF assms(2)] verifies closes_location presence unpins steps TrueI | (simp; fail))+

end

end
