(* ===== verification/Shield_Live.thy ===== *)
theory Shield_Live
  imports Shield_Steady
begin

text \<open>
  Systems that work, and what the shield guarantees on them: on a machine whose programs exit and that denies no access
  (\<open>live_host\<close>, with any behaviour of the programs and any clock that does not go back) closing a session and the
  watchdog daemon always end, and what they leave in the state file is stated exactly.
\<close>

section \<open>Live systems\<close>

record 'w timed =
  tw_clock :: int \<comment> \<open>microseconds\<close>
  tw_world :: 'w

text \<open>
  A program answers with exit status and output and takes some time; \<^verbatim>\<open>time.sleep\<close> may oversleep. The arbitrary
  functions \<open>f\<close>, \<open>over\<close>, \<open>uid\<close> and \<open>sig\<close> say how.
\<close>

definition live_os :: "(string list \<Rightarrow> 'w timed \<Rightarrow> (int \<times> string \<times> string) \<times> nat \<times> 'w) \<Rightarrow> 'w timed mac_os" where
  "live_os f =
     \<lparr>mo_exec = (\<lambda>cmd w. case f cmd w of ((rc, out, err), d, w') \<Rightarrow>
        (ProcExit rc out err, \<lparr>tw_clock = tw_clock w + int d, tw_world = w'\<rparr>)),
      mo_denied = (\<lambda>_. False)\<rparr>"

definition live_services ::
    "(rat \<Rightarrow> 'w timed \<Rightarrow> nat) \<Rightarrow> ('w timed \<Rightarrow> string) \<Rightarrow> ('w timed \<Rightarrow> bool) \<Rightarrow> 'w timed sysd services" where
  "live_services over uid sig =
     \<lparr>sv_time = (\<lambda>s. of_int (tw_clock (sd_world s)) / 1000000),
      sv_sleep = (\<lambda>t s. s\<lparr>sd_world := (sd_world s)\<lparr>tw_clock := tw_clock (sd_world s) + max 0 \<lceil>t * 1000000\<rceil> + int (over t (sd_world s))\<rparr>\<rparr>),
      sv_uuid = (\<lambda>s. uid (sd_world s)),
      sv_rmdir = (\<lambda>d s. s\<lparr>sd_dirs := AList.delete d (sd_dirs s)\<rparr>),
      sv_signalled = (\<lambda>s. sig (sd_world s))\<rparr>"

definition live_host where
  "live_host f over uid sig = system_host (live_os f) (live_services over uid sig)"

text \<open>No file stands where the shield needs a directory.\<close>

definition shield_dirs :: "string \<Rightarrow> string set" where "shield_dirs sid = {session_dir sid, pstr STATE_DIR}"

definition dirs_free :: "string \<Rightarrow> 'w sysd \<Rightarrow> bool" where
  "dirs_free sid s \<longleftrightarrow> (\<forall>d\<in>shield_dirs sid. map_of (sd_files s) d = None)"

section \<open>Paths of a session\<close>

lemma proper_component: "proper c \<Longrightarrow> components c = [c] \<and> \<not> prefix ''/'' c"
  using components_join [of "[c]"] by (auto simp: proper_def prefix_def)

lemma session_paths:
  assumes "proper sid"
  shows "session_dir sid = ''/var/db/bootmux-shield/sessions/'' @ sid"
    "proper n \<Longrightarrow> session_file sid n = session_dir sid @ ''/'' @ n"
proof -
  have d: "path_join SESSION_DIR sid = SESSION_DIR @ [sid]" using proper_component [OF assms] by (simp add: path_join_def)
  then show s: "session_dir sid = ''/var/db/bootmux-shield/sessions/'' @ sid"
    by (simp add: session_dir_def SESSION_DIR_def STATE_DIR_def pstr_def)
  assume "proper n"
  from proper_component [OF this] d have "path_join (path_join SESSION_DIR sid) n = SESSION_DIR @ [sid, n]"
    by (simp add: path_join_def)
  with s show "session_file sid n = session_dir sid @ ''/'' @ n"
    by (simp add: session_file_def SESSION_DIR_def STATE_DIR_def pstr_def)
qed

lemma files_not_dirs:
  assumes "proper sid"
  shows "STATE_FILE \<notin> shield_dirs sid" "session_file sid ''journal.jsonl'' \<notin> shield_dirs sid"
    "session_dir sid @ ''/shield.jsonl'' \<notin> shield_dirs sid" "rules_path i \<notin> shield_dirs sid"
    "session_file sid ''fingerprint-pre.json'' \<notin> shield_dirs sid"
proof -
  have names: "proper ''journal.jsonl''" "proper ''fingerprint-pre.json''" by code_simp+
  have texts: "STATE_FILE = ''/var/db/bootmux-shield/shield-state.json''" "pstr STATE_DIR = ''/var/db/bootmux-shield''" by code_simp+
  note p = session_paths(1) [OF assms] session_paths(2) [OF assms names(1)] session_paths(2) [OF assms names(2)]
  show "STATE_FILE \<notin> shield_dirs sid" "session_file sid ''journal.jsonl'' \<notin> shield_dirs sid"
    "session_dir sid @ ''/shield.jsonl'' \<notin> shield_dirs sid" "rules_path i \<notin> shield_dirs sid"
    "session_file sid ''fingerprint-pre.json'' \<notin> shield_dirs sid"
    by (simp_all add: shield_dirs_def rules_path_def PF_ANCHOR_def p texts)
qed

section \<open>The contract holds\<close>

text \<open>The identifier, or a fixed one where it is no path component.\<close>

definition proper_id :: "string \<Rightarrow> string" where "proper_id sid = (if proper sid then sid else ''session'')"

lemma proper_id: "proper (proper_id sid)"
  unfolding proper_id_def by (cases "proper sid") (simp_all, code_simp)

lemma micros_int: "micros (of_int i / 1000000)"
  by (simp add: micros_def)

lemma own_suffix: "suffix ''/journal.jsonl'' p \<or> suffix ''/fingerprint-pre.json'' p \<or> suffix ''/shield-state.json'' p \<Longrightarrow> \<not> suffix ''.tmp'' p"
  by (auto simp: suffix_def)

interpretation live: steady_host "live_host f over uid sig" "\<lambda>p. \<not> suffix ''.tmp'' p" "dirs_free (proper_id sid)"
    "\<lambda>p. p \<notin> shield_dirs (proper_id sid)" "\<lambda>p. p \<in> shield_dirs (proper_id sid)" "proper_id sid"
proof -
  have dirs: "dirs_free i (s\<lparr>sd_world := w\<rparr>) = dirs_free i s" for i and s :: "'a timed sysd" and w by (simp add: dirs_free_def)
  have own: "\<not> suffix ''.tmp'' (session_file (proper_id sid) ''journal.jsonl'')"
    "\<not> suffix ''.tmp'' (session_file (proper_id sid) ''fingerprint-pre.json'')" "\<not> suffix ''.tmp'' STATE_FILE"
    using session_names state_file_name own_suffix by blast+
  note files = files_not_dirs [OF proper_id]
  show "steady_host (live_host f over uid sig) (\<lambda>p. \<not> suffix ''.tmp'' p) (dirs_free (proper_id sid))
    (\<lambda>p. p \<notin> shield_dirs (proper_id sid)) (\<lambda>p. p \<in> shield_dirs (proper_id sid)) (proper_id sid)"
    unfolding live_host_def
  proof (unfold_locales, goal_cases)
    case (4 s cmd)
    then show ?case by (auto simp: system_host_def sys_run_def live_os_def dirs split: prod.split)
  next
    case (5 s path c m)
    then show ?case
      by (auto simp: system_host_def sys_write_file_def live_os_def Let_def dirs_free_def update_conv' delete_conv')
  next
    case (6 s path m)
    then show ?case by (auto simp: system_host_def sys_mkdir_p_def live_os_def dirs_free_def)
  next
    case (7 s path m r s')
    then show ?case by (auto simp: system_host_def sys_mkdir_p_def live_os_def dirs_free_def split: if_splits)
  next
    case (8 s path)
    then show ?case by (auto simp: system_host_def sys_remove_file_def live_os_def dirs_free_def delete_conv')
  qed (use own files in \<open>auto simp: system_host_def live_services_def dirs_free_def sys_read_file_def micros_int shield_dirs_def\<close>)
qed

section \<open>Closing always ends\<close>

text \<open>A session that the shield can close: its files are readable and its baseline has the right types.\<close>

definition closable :: "'w sysd host \<Rightarrow> shield_state \<Rightarrow> 'w sysd prog \<Rightarrow> bool" where
  "closable h st p \<longleftrightarrow> proper (st_session_id st) \<and> state_ok st \<and> (\<exists>b. stored_baseline (st_baseline st) = Inr b)
     \<and> steady_inv h (dirs_free (st_session_id st)) (st_session_id st) p"

lemma closable_steady: "closable (live_host f over uid sig) st p \<Longrightarrow>
    proper_id (st_session_id st) = st_session_id st
    \<and> steady_inv (live_host f over uid sig) (dirs_free (proper_id (st_session_id st))) (proper_id (st_session_id st)) p"
  by (simp add: closable_def proper_id_def)

lemma close_returns:
  assumes "closable (live_host f over uid sig) st p"
  shows "\<exists>ok cls p'. close_session (live_host f over uid sig) st force p = (Inr (ok, cls), p')
    \<and> (load_state (live_host f over uid sig) p' = (Inr (Some (closed_state st)), p')
       \<or> (\<not> force \<and> \<not> ok \<and> (\<exists>ds. ds \<noteq> [] \<and> set ds \<subseteq> set (st_untrusted_interfaces st) \<and> cls = ''REFUSED_DEVICE_PRESENT='' @ repr_list ds)))"
proof -
  let ?h = "live_host f over uid sig"
  have ok: "state_ok st" using assms by (simp add: closable_def)
  obtain b where b: "stored_baseline (st_baseline st) = Inr b" using assms by (auto simp: closable_def)
  note inv = closable_steady [OF assms]
  then have sid: "st_session_id st = proper_id (st_session_id st)" by simp
  obtain v p' where run: "close_session ?h st force p = (Inr v, p')"
    using returnsE [OF live.closes [OF sid b] conjunct2 [OF inv]] by metis
  obtain ok' cls where v: "v = (ok', cls)" by (cases v)
  have "closing ?h st force (ok', cls) p'"
    using endsD [OF live.close_on_disk run] live.own_state v by simp
  moreover have "state_ok (closed_state st)" using ok by (simp add: state_ok_def closed_state_def)
  ultimately show ?thesis
    using run v load_on_disk [of ?h "closed_state st" p'] by (auto simp: closing_def)
qed

text \<open>
  C8. On a live system, closing a session always returns; afterwards the state file holds the disarmed, closed
  state, unless the close was not forced and refused because an untrusted device is still attached.
\<close>

theorem close_session_completes:
  assumes "closable (live_host f over uid sig) st p"
  shows "\<exists>ok cls p'. close_session (live_host f over uid sig) st force p = (Inr (ok, cls), p')
    \<and> (load_state (live_host f over uid sig) p' = (Inr (Some (closed_state st)), p')
       \<or> (\<not> force \<and> \<not> ok \<and> (\<exists>ds. ds \<noteq> [] \<and> set ds \<subseteq> set (st_untrusted_interfaces st) \<and> cls = ''REFUSED_DEVICE_PRESENT='' @ repr_list ds)))"
  using close_returns [OF assms] .

section \<open>Renewing\<close>

text \<open>
  Renewing succeeds exactly for the armed session that was named, and then sets its end to the clamped time from
  now on and nothing else; otherwise neither files nor network change.
\<close>

lemma renew_effect:
  assumes "load_state (live_host f over uid sig) p = (Inr (Some st), p)" "closable (live_host f over uid sig) st p"
  shows "\<exists>rc p'. cmd_renew (live_host f over uid sig) sid ttl p = (Inr rc, p')
    \<and> (if st_armed st \<and> st_session_id st = sid
       then rc = 0 \<and> 60 \<le> clamp_ttl ttl \<and> clamp_ttl ttl \<le> 7200
         \<and> load_state (live_host f over uid sig) p' =
             (Inr (Some (st\<lparr>st_expires_at := of_int (tw_clock (sd_world (pg_host p))) / 1000000 + of_int (clamp_ttl ttl),
                            st_ttl_seconds := clamp_ttl ttl\<rparr>)), p')
       else rc = 1 \<and> pg_host p' = pg_host p \<and> pg_cmds p' = pg_cmds p)"
proof -
  let ?h = "live_host f over uid sig"
  let ?t = "of_int (tw_clock (sd_world (pg_host p))) / 1000000 :: rat"
  let ?st = "st\<lparr>st_expires_at := ?t + of_int (clamp_ttl ttl), st_ttl_seconds := clamp_ttl ttl\<rparr>"
  have now: "sv_time (h_services ?h) (pg_host p) = ?t" by (simp add: live_host_def system_host_def live_services_def)
  have "state_ok st" using assms(2) by (simp add: closable_def)
  then have ok: "state_ok ?st" using micros_add [OF micros_int, of "tw_clock (sd_world (pg_host p))" "clamp_ttl ttl"] by (simp add: state_ok_def)
  show ?thesis
  proof (cases "st_armed st \<and> st_session_id st = sid")
    case True
    obtain q where q: "save_state ?h ?st p = (Inr (), q)"
      using returnsE [OF live.saves conjunct2 [OF closable_steady [OF assms(2)]]] by (metis old.unit.exhaust)
    have run: "cmd_renew ?h sid ttl p = (Inr 0, q\<lparr>pg_out := pg_out q @ [''RENEWED ttl='' @ int_str (clamp_ttl ttl) @ '' expires_at='' @ float_str (st_expires_at ?st)]\<rparr>)"
      using True assms(1) q by (simp add: cmd_renew_def bindA_def time_now_def gets_def now print_def modify_def ret_def Let_def)
    have "on_disk ?h ?st (q\<lparr>pg_out := x\<rparr>)" for x
      using live.save_on_disk [OF live.own_state q] by (simp add: on_disk_def)
    from load_on_disk [OF this ok] True run clamp_bounds show ?thesis by auto
  next
    case False
    then show ?thesis using assms(1) by (auto simp: cmd_renew_def bindA_def print_def modify_def ret_def)
  qed
qed

section \<open>The first close\<close>

lemma first_close_returns:
  assumes "load_state (live_host f over uid sig) p = (Inr (Some st), p)" "st_armed st"
    and "closable (live_host f over uid sig) st p" "first_close (live_host f over uid sig) (st_session_id st) p"
  shows "\<exists>p'. cmd_close_session (live_host f over uid sig) force p = (Inr 1, p')
    \<and> last (pg_out p') \<noteq> ''CLOSE_RESULT=GREEN_CLOSE_COMPLETE''"
proof -
  let ?h = "live_host f over uid sig"
  have id: "proper_id (st_session_id st) = st_session_id st" using closable_steady [OF assms(3)] by simp
  obtain ok cls q where run: "close_session ?h st force p = (Inr (ok, cls), q)"
    using close_returns [OF assms(3), of force] by blast
  have "\<not> ok \<and> cls \<noteq> ''GREEN_CLOSE_COMPLETE''"
    using hoareD [OF live.first_close_not_green [OF live.own_state] assms(4) run] live.own_session(2) [of "st_session_id st"]
    by (simp add: id)
  then show ?thesis
    using assms(1,2) run by (auto simp: cmd_close_session_def bindA_def print_def modify_def ret_def)
qed


end
