(* ===== verification/Shield_Arm.thy ===== *)
theory Shield_Arm
  imports Shield_Live
begin

text \<open>
  Arming on a machine that works: every operation of the arming returns, the fingerprint it stores can be read back, and
  the session it leaves can be closed.
\<close>

section \<open>The stored fingerprint\<close>

lemma fingerprint_wf: "ends (\<lambda>fp _. wf_json (JObj fp)) (capture_fingerprint h)"
proof -
  let ?dns = "\<lambda>d _. map fst d = [''dns'', ''search'', ''wifi_ipv4_mode'', ''wifi_ipv6_mode''] \<and> list_all (\<lambda>(_, v). wf_json v) d"
  have dns: "ends ?dns (fingerprint_dns h s)" for s
    unfolding fingerprint_dns_def by (intro ends_rules) (simp_all add: wf_strs [simplified])
  have obj: "wf_json (JObj ([(''network_location'', JStr a), (''service_order'', jstrs b), (''service_enabled'', jbool_dict c), (''routes'', jstrs r)] @ d
      @ [(''pf_enabled'', JBool e), (''pf_anchors'', jstrs f), (''launchd_loaded'', JBool g), (''shield_files'', jstrs i)]))"
    if "parse_service_order x = (ord, c)" "?dns d ()" for a b c r d e f g i x ord
    using that wf_containers distinct_service_order [of x] by (simp add: list_all_iff)
  show ?thesis
    unfolding capture_fingerprint_def
    by (rule ends_bind_value [OF dns] ends_pair ends_bind ends_ret obj | assumption)+
qed

context steady_host
begin

lemma stores: "wf_json (JObj fp) \<Longrightarrow> returns I (write_file h F (dumps_indent (JObj fp)) m) (\<lambda>_. True)"
  unfolding returns_def
proof (intro allI impI)
  fix p assume fp: "wf_json (JObj fp)" and p: "I p"
  then obtain s where s: "h_write_file h F (dumps_indent (JObj fp)) m (pg_host p) = (Inr (), s)" "good s"
    using write_good [OF _ files(5), of "pg_host p"] unfolding steady_inv_def by blast
  have "J \<noteq> F" by (rule session_files_differ)
  then have "h_read_file h J s = h_read_file h J (pg_host p)" using read_other [OF own_session(1) _ s(1)] by simp
  moreover have "pre_fine h F (p\<lparr>pg_host := s\<rparr>)"
    using read_written [OF own_session(2) s(1)] loads_dumps(2) [OF fp] by (simp add: pre_fine_def text_or_empty_def)
  ultimately have "I (p\<lparr>pg_host := s\<rparr>)" using p s(2) by (simp add: steady_inv_def journal_fine_def)
  then show "\<exists>v p'. write_file h F (dumps_indent (JObj fp)) m p = (Inr v, p') \<and> True \<and> I p'"
    using s(1) by (simp add: write_file_def on_host_def)
qed

lemma fingerprints_wf: "returns I (capture_fingerprint h) (\<lambda>fp. wf_json (JObj fp))"
  using fingerprints fingerprint_wf unfolding returns_def ends_def by metis

subsection \<open>Operations of arming\<close>

lemma baselines: "returns I (capture_baseline h) baseline_ok"
proof -
  have "returns I (capture_baseline h) (\<lambda>_. True)"
    unfolding capture_baseline_def capture_wifi_radio_def capture_wifi_ip_def capture_wifi_dns_def
    by (rule pf_state steps TrueI)+
  then show ?thesis using captured_ok [OF time_micros] unfolding returns_def ends_def by metis
qed

lemma locations: "returns I (location_supported h) (\<lambda>_. True)" "returns I (get_current_location h) (\<lambda>_. True)"
  unfolding location_supported_def get_current_location_def by (rule steps TrueI)+

lemma creates: "jok j \<Longrightarrow> returns I (create_shield_location h i j) (\<lambda>(_, j). jok j)"
  unfolding create_shield_location_def by (rule locations steps | (simp; fail))+

lemma arms_location: "jok j \<Longrightarrow> lok lg \<Longrightarrow> returns I (arm_location h i l j lg) (\<lambda>(_, _, j, lg). jok j \<and> lok lg)"
  unfolding arm_location_def by (rule locations creates steps | (simp; fail))+

lemma identifies: "returns I (identify_bootmux_services h b) (\<lambda>_. True)"
  unfolding identify_bootmux_services_def by (rule steps TrueI)+

lemma quarantines_services:
  "pred_option jok (snd acc) \<Longrightarrow> returns I (quarantine_services h b svcs acc) (\<lambda>(_, j). pred_option jok j)"
  unfolding quarantine_services_def by (rule returns_fold disables steps | (simp add: case_prod_beta; fail))+

lemma quarantines_route: "jok (snd acc) \<Longrightarrow> returns I (quarantine_route h line acc) (\<lambda>(_, j). jok j)"
  unfolding quarantine_route_def by (rule steps | (simp; fail))+

lemma quarantines_order: "jok j \<Longrightarrow> returns I (quarantine_order h b j) (\<lambda>(_, j). jok j)"
  unfolding quarantine_order_def by (rule steps | (simp add: wf_strs [simplified]; fail))+

lemma quarantines: "jok j \<Longrightarrow> returns I (quarantine_bootmux h b j) (\<lambda>(_, j). jok j)"
proof -
  assume j: "jok j"
  have routes: "returns I (fold_act (quarantine_route h) ls acc) (\<lambda>(_, j). jok j)" if "jok (snd acc)" for ls acc
    using that by (intro returns_fold quarantines_route) (auto simp: case_prod_beta)
  show ?thesis
    unfolding quarantine_bootmux_def
    by (rule identifies quarantines_services quarantines_order routes steps | (auto simp: j split: option.splits; fail))+
qed

lemma pins_v4: "jok j \<Longrightarrow> returns I (pin_v4 h gw ds ps j) (\<lambda>(_, _, j). jok j)"
proof (induction ds arbitrary: ps j)
  case (Cons d ds)
  have undo: "returns I (for_each (\<lambda>e. exec h [''route'', ''-n'', ''delete'', ''-net'', split_ws e ! 1, gw]) ps) (\<lambda>_. True)"
    by (intro returns_each execs)
  from Cons.prems show ?case
    by (simp only: pin_v4.simps) (rule steps undo Cons.IH | (simp; fail))+
qed (simp add: returns_ret)

lemma pins_v6: "jok (snd acc) \<Longrightarrow> returns I (pin_v6 h gw acc) (\<lambda>(_, j). jok j)"
  unfolding pin_v6_def by (rule returns_fold steps | (simp add: case_prod_beta; fail))+

lemma pins: "jok j \<Longrightarrow> returns I (pin_split_routes h gw i j) (\<lambda>(_, j). jok j)"
  unfolding pin_split_routes_def by (rule pins_v4 pins_v6 steps | (simp; fail))+

lemma arms: "returns I (arm_session h sid ttl) (\<lambda>_. True)"
proof -
  have lines: "returns I (print_all ls) (\<lambda>_. True)" for ls
    unfolding print_all_def by (intro returns_each prints)
  show ?thesis
    unfolding arm_session_def
    by (rule baselines fingerprints_wf stores arms_location quarantines pins lines mkdirs dirs steps TrueI | (simp; fail))+
qed

end

section \<open>Arming and closing\<close>

lemma live_time: "micros (sv_time (h_services (live_host f over uid sig)) s)"
  by (simp add: live_host_def system_host_def live_services_def micros_int)

lemma live_uuid: "sv_uuid (h_services (live_host f over uid sig)) s = uid (sd_world s)"
  by (simp add: live_host_def system_host_def live_services_def)

lemma armed_closable:
  assumes "proper sid" "armed_for ttl sid st" "state_ok st" "steady_inv h (dirs_free sid) sid p"
  shows "closable h st p"
proof -
  obtain b where "st_baseline st = Some (baseline_to_dict b)" using assms(2) by (auto simp: armed_for_def)
  then have "stored_baseline (st_baseline st) = Inr b"
    by (simp add: stored_baseline_def baseline_dict_roundtrip) (simp add: baseline_to_dict_def)
  with assms show ?thesis by (auto simp: closable_def armed_for_def)
qed

lemma arm_returns:
  assumes "load_state (live_host f over uid sig) p = (Inr s0, p)" "s0 = None \<or> \<not> st_armed (the s0)"
    and "sid = take 8 (uid (sd_world (pg_host p)))" "proper sid"
    and "steady_inv (live_host f over uid sig) (dirs_free sid) sid p"
  shows "\<exists>rc p'. cmd_arm (live_host f over uid sig) ttl p = (Inr rc, p')
    \<and> (rc = 1 \<and> last (pg_out p') = ''CLASSIFICATION=RED_NO_WIFI_DEVICE''
       \<or> (rc = 0 \<and> (\<exists>st. load_state (live_host f over uid sig) p' = (Inr (Some st), p') \<and> closable (live_host f over uid sig) st p'
            \<and> st_armed st \<and> \<not> st_session_closed st \<and> st_session_id st = sid \<and> st_expires_at st = st_armed_at st + of_int (st_ttl_seconds st)
            \<and> 60 \<le> st_ttl_seconds st \<and> st_ttl_seconds st \<le> 7200 \<and> (60 \<le> ttl \<and> ttl \<le> 7200 \<longrightarrow> st_ttl_seconds st = ttl))))"
proof -
  let ?h = "live_host f over uid sig"
  have id: "proper_id sid = sid" using assms(4) by (simp add: proper_id_def)
  have arm: "cmd_arm ?h ttl p = arm_session ?h sid (clamp_ttl ttl) p"
    using assms(1-3) by (auto simp: cmd_arm_def bindA_def gets_def live_uuid split: option.split)
  obtain rc p' where run: "arm_session ?h sid (clamp_ttl ttl) p = (Inr rc, p')"
    and inv: "steady_inv ?h (dirs_free sid) sid p'"
    using returnsE [OF live.arms [of f over uid sig sid "clamp_ttl ttl"], of p] assms(5) by (auto simp: id)
  have "arming ?h ttl sid rc p'" using endsD [OF live.arm_on_disk run] live_time live.own_state by blast
  then show ?thesis
  proof (cases "rc = 0")
    case True
    with \<open>arming ?h ttl sid rc p'\<close> obtain st where st: "on_disk ?h st p'" "state_ok st" "armed_for ttl sid st"
      by (auto simp: arming_def)
    with load_on_disk [OF st(1,2)] armed_closable [OF assms(4) st(3,2) inv] clamp_bounds [of ttl] run arm True show ?thesis
      by (auto simp: armed_for_def)
  qed (use arm run in \<open>auto simp: arming_def\<close>)
qed


section \<open>Journal and routes\<close>

lemma live_commands: "commands_return (live_host f over uid sig)"
  by (simp add: commands_return_def live_host_def system_host_def sys_run_def live_os_def split: prod.split)

text \<open>
  C22. A record is there when the journal is opened again: on a live system, recording a change in a numbered journal
  appends it with the next number, and the journal that a later process opens continues after it.
\<close>

theorem journal_survives:
  assumes "proper sid" "steady_inv (live_host f over uid sig) (dirs_free sid) sid p" "wf_json v"
    and "holds_records (live_host f over uid sig) (session_file sid ''journal.jsonl'') es p"
  shows "\<exists>j j' p'. journal_open (live_host f over uid sig) sid p = (Inr j, p)
    \<and> journal_record (live_host f over uid sig) j c t v cmd rc p = (Inr j', p')
    \<and> journal_open (live_host f over uid sig) sid p' = (Inr j', p') \<and> j_seq j' = int (length es) + 1
    \<and> journal_entries (live_host f over uid sig) j' p' =
        (Inr (es @ [journal_entry_json (int (length es) + 1) (of_int (tw_clock (sd_world (pg_host p))) / 1000000) c t v cmd rc]), p')"
proof -
  let ?h = "live_host f over uid sig"
  let ?j = "\<lparr>j_path = session_file sid ''journal.jsonl'', j_seq = int (length es)\<rparr>"
  have id: "proper_id sid = sid" using assms(1) by (simp add: proper_id_def)
  have now: "sv_time (h_services ?h) (pg_host p) = of_int (tw_clock (sd_world (pg_host p))) / 1000000"
    by (simp add: live_host_def system_host_def live_services_def)
  have path: "j_path ?j = session_file sid ''journal.jsonl''" by simp
  obtain j' p' where r: "journal_record ?h ?j c t v cmd rc p = (Inr j', p')"
    using returnsE [OF live.records [where sid = sid, unfolded id, OF path assms(3)] assms(2)] by metis
  have "\<not> suffix ''.tmp'' (session_file sid ''journal.jsonl'')" using live.own_session(1) [of sid] by (simp add: id)
  from live.record_appends [OF _ live_time assms(3) _ _ r, of es] this assms(4) now
  have j': "j' = \<lparr>j_path = session_file sid ''journal.jsonl'', j_seq = int (length es) + 1\<rparr>"
    and h': "holds_records ?h (session_file sid ''journal.jsonl'')
      (es @ [journal_entry_json (int (length es) + 1) (of_int (tw_clock (sd_world (pg_host p))) / 1000000) c t v cmd rc]) p'"
    by simp_all
  from holds_open [OF assms(4)] r holds_open [OF h'] holds_entries [of ?h j'] h' j' show ?thesis
    by (intro exI [of _ ?j] exI [of _ j'] exI [of _ p']) (simp add: add.commute)
qed


end
