(* ===== verification/Shield_Watchdog.thy ===== *)
theory Shield_Watchdog
  imports Shield_Arm
begin

text \<open>
  The watchdog daemon on a live system: it never raises, and unless a signal stops it, it closes the session soon
  after its time to live has passed. The number of iterations that suffices is stated with the remaining time and the
  pause of a quarter of a second between two iterations.
\<close>

section \<open>The clock\<close>

definition clock :: "'s host \<Rightarrow> 's prog \<Rightarrow> rat" where "clock h p = sv_time (h_services h) (pg_host p)"

definition ticks :: "'s host \<Rightarrow> 's prog \<Rightarrow> 's prog \<Rightarrow> bool" where "ticks h p p' \<longleftrightarrow> clock h p \<le> clock h p'"

lemma live_simps:
  "h_services (live_host f over uid sig) = live_services over uid sig"
  "h_run (live_host f over uid sig) = sys_run (live_os f)"
  "h_write_file (live_host f over uid sig) = sys_write_file (live_os f)"
  "h_mkdir_p (live_host f over uid sig) = sys_mkdir_p (live_os f)"
  "h_remove_file (live_host f over uid sig) = sys_remove_file (live_os f)"
  by (simp_all add: live_host_def system_host_def)

lemma live_clock: "clock (live_host f over uid sig) p = of_int (tw_clock (sd_world (pg_host p))) / 1000000"
  by (simp add: clock_def live_simps live_services_def)

lemma live_sleep: "clock (live_host f over uid sig) p + t \<le> clock (live_host f over uid sig) (snd (sleep (live_host f over uid sig) t p))"
proof -
  have "t * 1000000 \<le> of_int \<lceil>t * 1000000\<rceil>" by (rule le_of_int_ceiling)
  also have "\<dots> \<le> of_int (max 0 \<lceil>t * 1000000\<rceil> + int (over t (sd_world (pg_host p))))" by simp
  finally show ?thesis
    by (simp add: live_clock sleep_def host_do_def modify_def live_simps live_services_def divide_simps)
qed

interpretation live_ticks: shield_rel_sleep "ticks (live_host f over uid sig)" "live_host f over uid sig" "\<lambda>_. True"
  by unfold_locales
     (auto simp: ticks_def keeps_def live_clock run_cmd_def live_simps sys_run_def live_os_def write_file_def on_host_def sys_write_file_def
    mkdir_p_def sys_mkdir_p_def host_do_def modify_def sys_remove_file_def print_def Let_def sleep_def live_services_def divide_simps
        split: prod.split)

section \<open>One iteration\<close>

text \<open>The daemon only adds interfaces to the state it was started with.\<close>

definition same_session :: "shield_state \<Rightarrow> shield_state \<Rightarrow> bool" where
  "same_session st st' \<longleftrightarrow> (\<exists>us. st' = st\<lparr>st_untrusted_interfaces := us\<rparr>)"

lemma same_sessionD:
  assumes "same_session st st'"
  shows "st_session_id st' = st_session_id st" "st_armed st' = st_armed st" "st_expires_at st' = st_expires_at st"
    "st_baseline st' = st_baseline st" "state_ok st' = state_ok st"
  using assms by (auto simp: same_session_def state_ok_def)

lemma same_session_trans: "same_session a b \<Longrightarrow> same_session b c \<Longrightarrow> same_session a c"
  by (auto simp: same_session_def)

lemma same_session_refl: "same_session a a" "same_session a (a\<lparr>st_untrusted_interfaces := us\<rparr>)"
  unfolding same_session_def by (rule exI [of _ "st_untrusted_interfaces a"], simp) (rule exI, rule refl)

context steady_host
begin

lemma watches:
  assumes "st_session_id st = sid" "stored_baseline (st_baseline st) = Inr b0" "jok j" "lok lg"
  shows "returns I (daemon_check h b st j lg)
    (\<lambda>r. case r of Inl lg \<Rightarrow> lok lg | Inr (st', j, lg) \<Rightarrow> jok j \<and> lok lg \<and> same_session st st')"
  unfolding daemon_check_def log_recovery_def
  by (rule closes [OF assms(1,2)] detects recovers steps | (auto simp: assms same_session_refl split: option.splits; fail))+

end

context file_host
begin

lemma check_closes:
  assumes "own STATE_FILE"
  shows "ends (\<lambda>r q. case r of Inl _ \<Rightarrow> on_disk h (closed_state st) q | Inr _ \<Rightarrow> True) (daemon_check h b st j lg)"
proof -
  have closed: "ends (\<lambda>r q. case r of Inl _ \<Rightarrow> on_disk h (closed_state st) q | Inr _ \<Rightarrow> True) (bindA (close_session h st True) (\<lambda>_. ret (Inl lg)))" for lg
    using close_on_disk [OF assms, of st True] by (auto simp: ends_def bindA_Inr_iff ret_def closing_def)
  show ?thesis
    unfolding daemon_check_def
    by (rule closed ends_bind ends_cond ends_let ends_pair ends_ret | (simp; fail))+
qed

end

lemma check_live:
  assumes "daemon_check h b st j lg p = (Inr (Inr x), p')" "st_armed st"
  shows "clock h p \<le> st_expires_at st"
proof (rule ccontr)
  assume "\<not> clock h p \<le> st_expires_at st"
  then have "is_expired st (sv_time (h_services h) (pg_host p))" using assms(2) by (simp add: is_expired_def clock_def)
  with assms(1) show False
    by (auto simp: daemon_check_def time_now_def bindA_Inr_iff gets_def ret_def)
qed

section \<open>The loop\<close>

lemma closable_same: "same_session st st' \<Longrightarrow> closable h st p \<Longrightarrow>
    steady_inv h (dirs_free (st_session_id st)) (st_session_id st) p' \<Longrightarrow> closable h st' p'"
  using same_sessionD [of st st'] by (simp add: closable_def)

lemma watch_step:
  fixes f over uid sig
  defines "h \<equiv> live_host f over uid sig"
  assumes "closable h st p" "st_armed st" "j_path j = session_file (st_session_id st) ''journal.jsonl''"
    "lg_file lg = session_dir (st_session_id st) @ ''/shield.jsonl''"
  shows "\<exists>r p'. daemon_step h b st j lg p = (Inr r, p') \<and> steady_inv h (dirs_free (st_session_id st)) (st_session_id st) p'
    \<and> (case r of
         Inl lg' \<Rightarrow> lg_file lg' = session_dir (st_session_id st) @ ''/shield.jsonl'' \<and> on_disk h (closed_state st) p'
       | Inr (st', j', lg') \<Rightarrow> same_session st st' \<and> j_path j' = session_file (st_session_id st) ''journal.jsonl''
           \<and> lg_file lg' = session_dir (st_session_id st) @ ''/shield.jsonl''
           \<and> clock h p + 1 / 4 \<le> clock h p' \<and> clock h p + 1 / 4 \<le> st_expires_at st)"
proof -
  let ?sid = "st_session_id st"
  have id: "proper_id ?sid = ?sid" and inv: "steady_inv h (dirs_free (proper_id ?sid)) (proper_id ?sid) p"
    using closable_steady [OF assms(2) [unfolded h_def]] by (auto simp: h_def)
  obtain b0 where b0: "stored_baseline (st_baseline st) = Inr b0" using assms(2) by (auto simp: closable_def)
  obtain q where q: "sleep h WATCHDOG_INTERVAL_S p = (Inr (), q)" and invq: "steady_inv h (dirs_free ?sid) ?sid q"
    using returnsE [OF live.sleeps inv [unfolded h_def]] by (auto simp: id h_def)
  have late: "clock h p + 1 / 4 \<le> clock h q"
    using live_sleep [of f over uid sig p WATCHDOG_INTERVAL_S] q by (simp add: h_def WATCHDOG_INTERVAL_S_def)
  note watch = live.watches [where sid = ?sid, unfolded id, OF refl b0 assms(4,5)]
  obtain r p' where r: "daemon_check h b st j lg q = (Inr r, p')" and invp: "steady_inv h (dirs_free ?sid) ?sid p'"
    and Q: "case r of Inl lg \<Rightarrow> lg_file lg = session_dir ?sid @ ''/shield.jsonl''
      | Inr (st', j, lg) \<Rightarrow> j_path j = session_file ?sid ''journal.jsonl'' \<and> lg_file lg = session_dir ?sid @ ''/shield.jsonl'' \<and> same_session st st'"
    using returnsE [OF watch invq [unfolded h_def]] unfolding h_def by metis
  have step: "daemon_step h b st j lg p = (Inr r, p')" using q r by (simp add: daemon_step_def bindA_def)
  have "on_disk h (closed_state st) p'" if "r = Inl lg'" for lg'
    using endsD [OF live.check_closes [OF live.own_state] r [unfolded h_def]] that by (simp add: h_def)
  moreover have "clock h q \<le> clock h p'"
    using keepsD [OF live_ticks.checks_daemon [THEN does_keeps] r [unfolded h_def]] by (simp add: ticks_def h_def)
  moreover have "clock h q \<le> st_expires_at st" if "r = Inr x" for x
    using check_live [OF _ assms(3)] r that by blast
  ultimately show ?thesis using step invp Q late by (fastforce split: sum.split)
qed

lemma watch_until:
  fixes f over uid
  defines "h \<equiv> live_host f over uid (\<lambda>_. False)"
  assumes "closable h st p" "st_armed st" "j_path j = session_file (st_session_id st) ''journal.jsonl''"
    "lg_file lg = session_dir (st_session_id st) @ ''/shield.jsonl''" "st_expires_at st < clock h p + of_nat (Suc n) / 4"
  shows "\<exists>lg' p' st'. daemon_while h b (Suc n) st j lg p = (Inr (Some lg'), p') \<and> same_session st st'
    \<and> lg_file lg' = session_dir (st_session_id st) @ ''/shield.jsonl'' \<and> on_disk h (closed_state st') p'
    \<and> steady_inv h (dirs_free (st_session_id st)) (st_session_id st) p'"
  using assms(2-)
proof (induction n arbitrary: st j lg p)
  case 0
  have quiet: "sv_signalled (h_services h) s = False" for s by (simp add: h_def live_simps live_services_def)
  obtain r q where r: "daemon_step h b st j lg p = (Inr r, q)" "steady_inv h (dirs_free (st_session_id st)) (st_session_id st) q"
    and Q: "case r of
         Inl lg' \<Rightarrow> lg_file lg' = session_dir (st_session_id st) @ ''/shield.jsonl'' \<and> on_disk h (closed_state st) q
       | Inr (st', j', lg') \<Rightarrow> clock h p + 1 / 4 \<le> st_expires_at st"
    using watch_step [OF "0.prems"(1-4) [unfolded h_def], of b] unfolding h_def by (fastforce split: sum.splits)
  with "0.prems"(5) show ?case
    by (cases r) (auto simp: bindA_def gets_def quiet ret_def intro: same_session_refl)
next
  case (Suc n)
  have quiet: "sv_signalled (h_services h) s = False" for s by (simp add: h_def live_simps live_services_def)
  obtain r q where r: "daemon_step h b st j lg p = (Inr r, q)" "steady_inv h (dirs_free (st_session_id st)) (st_session_id st) q"
    and Q: "case r of
         Inl lg' \<Rightarrow> lg_file lg' = session_dir (st_session_id st) @ ''/shield.jsonl'' \<and> on_disk h (closed_state st) q
       | Inr (st', j', lg') \<Rightarrow> same_session st st' \<and> j_path j' = session_file (st_session_id st) ''journal.jsonl''
           \<and> lg_file lg' = session_dir (st_session_id st) @ ''/shield.jsonl''
           \<and> clock h p + 1 / 4 \<le> clock h q \<and> clock h p + 1 / 4 \<le> st_expires_at st"
    using watch_step [OF Suc.prems(1-4) [unfolded h_def], of b] unfolding h_def by blast
  show ?case
  proof (cases r)
    case (Inl lg')
    with r Q show ?thesis by (auto simp: bindA_def gets_def quiet ret_def intro: same_session_refl)
  next
    case (Inr x)
    obtain st' j' lg' where x: "x = (st', j', lg')" by (cases x)
    note same = same_sessionD [of st st'] and Q' = Q [unfolded Inr x, simplified]
    have "closable h st' q" using closable_same [OF _ Suc.prems(1) r(2)] Q' by simp
    moreover have "st_expires_at st' < clock h q + of_nat (Suc n) / 4" using Suc.prems(5) Q' same by (simp add: field_simps)
    ultimately obtain lg'' p' st'' where "daemon_while h b (Suc n) st' j' lg' q = (Inr (Some lg''), p')" "same_session st' st''"
      "lg_file lg'' = session_dir (st_session_id st) @ ''/shield.jsonl''" "on_disk h (closed_state st'') p'"
      "steady_inv h (dirs_free (st_session_id st)) (st_session_id st) p'"
      using Suc.IH [of st' q j' lg'] Suc.prems(2) Q' same by auto
    with r Q' Inr x show ?thesis
      by (auto simp: bindA_def gets_def quiet ret_def intro: same_session_trans simp del: daemon_while.simps(2) simp add: daemon_while.simps(2) [of h b "Suc n"])
  qed
qed

lemma load_same:
  "load_state h p = (Inr s, p) \<Longrightarrow> same_file h STATE_FILE p p' \<Longrightarrow> load_state h p' = (Inr s, p')"
  by (auto simp: load_state_def read_file_def bindA_def gets_def same_file_def ret_def raiseA_def Let_def
      split: if_splits sum.splits exn.splits)

lemma on_disk_same: "on_disk h s p \<Longrightarrow> same_file h f p p' \<Longrightarrow> f = STATE_FILE \<Longrightarrow> on_disk h s p'"
  by (simp add: on_disk_def same_file_def)

text \<open>What holds of a live host while it works on a session.\<close>

lemma live_rules:
  fixes f over uid sig st
  defines "h \<equiv> live_host f over uid sig" and "sid \<equiv> st_session_id st"
  assumes "proper sid" "stored_baseline (st_baseline st) = Inr b0"
  shows "returns (steady_inv h (dirs_free sid) sid) (journal_open h sid) (\<lambda>j. j_path j = session_file sid ''journal.jsonl'')"
    and "returns (steady_inv h (dirs_free sid) sid) (logger_open h sid) (\<lambda>lg. lg_file lg = session_dir sid @ ''/shield.jsonl'')"
    and "lg_file lg = session_dir sid @ ''/shield.jsonl'' \<Longrightarrow>
      returns (steady_inv h (dirs_free sid) sid) (log_event h lg e d) (\<lambda>lg. lg_file lg = session_dir sid @ ''/shield.jsonl'')"
    and "returns (steady_inv h (dirs_free sid) sid) (close_session h st force) (\<lambda>_. True)"
    and "lg_file lg = session_dir sid @ ''/shield.jsonl'' \<Longrightarrow> keeps (same_file h STATE_FILE) (log_event h lg e d)"
    and "keeps (same_file h STATE_FILE) (logger_open h sid)" "keeps (ticks h) (log_event h lg e d)" "keeps (ticks h) (journal_open h sid)"
    and "keeps (ticks h) (logger_open h sid)"
proof -
  have id: "proper_id sid = sid" using assms(3) by (simp add: proper_id_def)
  note f = live.frame [OF live.own_state, of f over uid sig, folded h_def]
  show "returns (steady_inv h (dirs_free sid) sid) (journal_open h sid) (\<lambda>j. j_path j = session_file sid ''journal.jsonl'')"
    "returns (steady_inv h (dirs_free sid) sid) (logger_open h sid) (\<lambda>lg. lg_file lg = session_dir sid @ ''/shield.jsonl'')"
    "lg_file lg = session_dir sid @ ''/shield.jsonl'' \<Longrightarrow>
      returns (steady_inv h (dirs_free sid) sid) (log_event h lg e d) (\<lambda>lg. lg_file lg = session_dir sid @ ''/shield.jsonl'')"
    "returns (steady_inv h (dirs_free sid) sid) (close_session h st force) (\<lambda>_. True)"
    using live.opens [of f over uid sig sid] live.log_opens [of f over uid sig sid] live.logs [of lg sid f over uid sig e d]
      live.closes [of st sid b0 f over uid sig force] assms(4)
    by (simp_all add: id [unfolded sid_def] h_def sid_def)
  show "lg_file lg = session_dir sid @ ''/shield.jsonl'' \<Longrightarrow> keeps (same_file h STATE_FILE) (log_event h lg e d)"
    using does_keeps [OF shield_rel.logged [OF f]] by (simp add: session_files_differ)
  show "keeps (same_file h STATE_FILE) (logger_open h sid)"
    using does_keeps [OF shield_rel.log_opened [OF f]] by (simp add: session_files_differ)
  show "keeps (ticks h) (log_event h lg e d)" "keeps (ticks h) (journal_open h sid)" "keeps (ticks h) (logger_open h sid)"
    unfolding h_def by (rule does_keeps [OF live_ticks.logged] does_keeps [OF live_ticks.opened] does_keeps [OF live_ticks.log_opened], simp)+
qed

lemma loop_closes:
  fixes f over uid
  defines "h \<equiv> live_host f over uid (\<lambda>_. False)"
  assumes "load_state h p = (Inr (Some st), p)" "st_armed st" "closable h st p"
    and lg: "lg_file lg = session_dir (st_session_id st) @ ''/shield.jsonl''" and "st_expires_at st < clock h p + of_nat n / 4"
  shows "\<exists>st' p'. daemon_loop h n lg p = (Inr True, p') \<and> same_session st st' \<and> on_disk h (closed_state st') p'"
proof -
  let ?sid = "st_session_id st"
  have proper: "proper ?sid" and inv: "steady_inv h (dirs_free ?sid) ?sid p" using assms(4) by (simp_all add: closable_def)
  obtain b0 where b0: "stored_baseline (st_baseline st) = Inr b0" using assms(4) by (auto simp: closable_def)
  note L = live_rules [where f = f and over = over and uid = uid and sig = "\<lambda>_. False", folded h_def, OF proper b0]
  show ?thesis
  proof (cases "is_expired st (clock h p)")
    case True
    obtain lg1 q where q: "log_event h lg ''daemon_ttl_expired_on_start'' [(''expires_at'', JFloat (st_expires_at st))] p = (Inr lg1, q)"
      "steady_inv h (dirs_free ?sid) ?sid q" using returnsE [OF L(3) inv] lg by metis
    obtain v p' where v: "close_session h st True q = (Inr v, p')" using returnsE [OF L(4) q(2)] by metis
    then have "on_disk h (closed_state st) p'"
      using endsD [OF live.close_on_disk [OF live.own_state] v [unfolded h_def]] by (cases v) (simp add: closing_def h_def)
    with True assms(2,3) q v show ?thesis
      by (auto simp: daemon_loop_def bindA_def time_now_def gets_def clock_def ret_def intro: same_session_refl)
  next
    case False
    then have live: "clock h p \<le> st_expires_at st" using assms(3) by (simp add: is_expired_def)
    with assms(6) obtain m where n: "n = Suc m" by (cases n) auto
    obtain j q where q: "journal_open h ?sid p = (Inr j, q)" "j_path j = session_file ?sid ''journal.jsonl''"
      "steady_inv h (dirs_free ?sid) ?sid q" using returnsE [OF L(1) inv] by metis
    let ?d = "[(''session'', JStr ?sid), (''ttl_remaining'', JFloat (ttl_remaining st (clock h q)))]"
    obtain lg1 q1 where q1: "log_event h lg ''daemon_start'' ?d q = (Inr lg1, q1)"
      "lg_file lg1 = session_dir ?sid @ ''/shield.jsonl''" "steady_inv h (dirs_free ?sid) ?sid q1" using returnsE [OF L(3) q(3)] lg by metis
    have "clock h p \<le> clock h q1" using keepsD [OF L(8) q(1)] keepsD [OF L(7) q1(1)] by (simp add: ticks_def)
    with assms(6) n have end1: "st_expires_at st < clock h q1 + of_nat (Suc m) / 4" by simp
    have c: "closable h st q1" using closable_same [OF same_session_refl(1) assms(4) q1(3)] .
    obtain lg2 q2 st' where w: "daemon_while h b0 n st j lg1 q1 = (Inr (Some lg2), q2)" "same_session st st'"
      "lg_file lg2 = session_dir ?sid @ ''/shield.jsonl''" "on_disk h (closed_state st') q2" "steady_inv h (dirs_free ?sid) ?sid q2"
      using watch_until [OF c [unfolded h_def] assms(3) q(2) q1(2) end1 [unfolded h_def], of b0] n unfolding h_def by blast
    obtain lg3 p' where e: "log_event h lg2 ''daemon_stop'' [] q2 = (Inr lg3, p')" using returnsE [OF L(3) w(5)] w(3) by metis
    have "on_disk h (closed_state st') p'" using on_disk_same [OF w(4) keepsD [OF L(5) e]] w(3) by simp
    with False assms(2,3) q q1 w e b0 show ?thesis
      by (auto simp: daemon_loop_def bindA_def time_now_def gets_def clock_def lift_result_def ret_def)
  qed
qed

text \<open>
  C9. The session always ends: on a live system where no signal stops the daemon, the daemon that is started for an armed
  session returns and leaves the closed, disarmed session in the state file. As many iterations suffice as quarters of a second
  remain until the end of the session, and one more.
\<close>

theorem daemon_closes_session:
  assumes "load_state (live_host f over uid (\<lambda>_. False)) p = (Inr (Some st), p)" "st_armed st"
    and "closable (live_host f over uid (\<lambda>_. False)) st p"
    and "st_expires_at st < clock (live_host f over uid (\<lambda>_. False)) p + of_nat n / 4"
  shows "\<exists>st' p'. cmd_daemon (live_host f over uid (\<lambda>_. False)) n p = (Inr 0, p') \<and> same_session st st'
    \<and> load_state (live_host f over uid (\<lambda>_. False)) p' = (Inr (Some (closed_state st')), p')"
proof -
  define h where "h = live_host f over uid (\<lambda>_. False)"
  let ?sid = "st_session_id st"
  note a = assms [folded h_def]
  have proper: "proper ?sid" and ok: "state_ok st" and inv: "steady_inv h (dirs_free ?sid) ?sid p" using a(3) by (simp_all add: closable_def)
  obtain b0 where b0: "stored_baseline (st_baseline st) = Inr b0" using a(3) by (auto simp: closable_def)
  note L = live_rules [where f = f and over = over and uid = uid and sig = "\<lambda>_. False", folded h_def, OF proper b0]
  obtain lg q where q: "logger_open h ?sid p = (Inr lg, q)" "lg_file lg = session_dir ?sid @ ''/shield.jsonl''"
    "steady_inv h (dirs_free ?sid) ?sid q" using returnsE [OF L(2) inv] by metis
  have load: "load_state h q = (Inr (Some st), q)" by (rule load_same [OF a(1) keepsD [OF L(6) q(1)]])
  have "st_expires_at st < clock h q + of_nat n / 4" using a(4) keepsD [OF L(9) q(1)] by (simp add: ticks_def)
  then obtain st' p' where w: "daemon_loop h n lg q = (Inr True, p')" "same_session st st'" "on_disk h (closed_state st') p'"
    using loop_closes [OF load [unfolded h_def] a(2) closable_same [OF same_session_refl(1) a(3) q(3), unfolded h_def] q(2)]
    unfolding h_def by blast
  have "state_ok (closed_state st')" using ok same_sessionD [OF w(2)] by (simp add: state_ok_def closed_state_def)
  with load_on_disk [OF w(3)] w(1,2) a(1) q(1) proper show ?thesis
    unfolding h_def [symmetric] by (intro exI [of _ st'] exI [of _ p']) (auto simp: cmd_daemon_def bindA_def ret_def proper_def)
qed

end
