(* ===== verification/Shield_Runner.thy ===== *)
theory Shield_Runner
  imports Flash_Safety Shield_Watchdog
begin

text \<open>
  The flash runner and the attach shield together: the runner starts the shield as a program and reads its exit status
  and its output. The environment of the runner is a parameter; \<open>runs_shield\<close> says that it runs the shield's
  \<^verbatim>\<open>main\<close> on a host that is part of the environment's world.
\<close>

section \<open>The shield as a program\<close>

text \<open>The argument lists that the runner passes, as the shield parses them.\<close>

definition default_args :: "mode \<Rightarrow> shield_args" where
  "default_args m = \<lparr>arg_mode = m, arg_ttl = DEFAULT_TTL_S, arg_session = [], arg_purge = False, arg_keep_evidence = []\<rparr>"

definition args_of :: "string list \<Rightarrow> shield_args option" where
  "args_of av =
     (if av = [''--fingerprint''] then Some (default_args Fingerprint)
      else if av = [''--status''] then Some (default_args Status)
      else if av = [''--close-session''] then Some (default_args CloseSession)
      else if av = [''--arm'', ''--ttl'', nat_str TTL_SECONDS] then Some ((default_args Arm)\<lparr>arg_ttl := int TTL_SECONDS\<rparr>)
      else if av = [''--uninstall'', ''--purge''] then Some ((default_args Uninstall)\<lparr>arg_purge := True\<rparr>)
      else None)"

definition fresh :: "'s \<Rightarrow> 's prog" where "fresh s = \<lparr>pg_host = s, pg_out = [], pg_cmds = []\<rparr>"

definition stdout_text :: "'s prog \<Rightarrow> string" where
  "stdout_text p = concat (map (\<lambda>l. l @ [char_of (10 :: nat)]) (pg_out p))"

definition runs_shield :: "'w env \<Rightarrow> 's host \<Rightarrow> nat \<Rightarrow> ('w \<Rightarrow> 's) \<Rightarrow> ('s \<Rightarrow> 'w \<Rightarrow> 'w) \<Rightarrow> bool" where
  "runs_shield e h n get put \<longleftrightarrow> (\<forall>s w. get (put s w) = s)
     \<and> (\<forall>args a sudo w rc p'. args_of args = Some a \<longrightarrow> shield_main h n a (fresh (get w)) = (Inr rc, p') \<longrightarrow>
          env_exec e (shield_argv e args sudo) None w = (Inr (rc, stdout_text p', []), put (pg_host p') w))"

lemma shield_answers:
  assumes "runs_shield e h n get put" "args_of args = Some a" "shield_main h n a (fresh (get (r_world r))) = (Inr rc, p')"
  shows "run_shield e args sudo r =
    (Inr (rc, stdout_text p'), r\<lparr>r_world := put (pg_host p') (r_world r), r_started := r_started r @ [shield_argv e args sudo]\<rparr>)"
proof -
  have "env_exec e (shield_argv e args sudo) None (r_world r) = (Inr (rc, stdout_text p', []), put (pg_host p') (r_world r))"
    using assms unfolding runs_shield_def by blast
  then show ?thesis by (simp add: run_shield_def run_prog_ok_def run_prog_def bindA_def ret_def)
qed

lemma runner_args:
  "args_of [''--fingerprint''] = Some (default_args Fingerprint)" "args_of [''--status''] = Some (default_args Status)"
  "args_of [''--close-session''] = Some (default_args CloseSession)"
  "args_of [''--arm'', ''--ttl'', nat_str TTL_SECONDS] = Some ((default_args Arm)\<lparr>arg_ttl := int TTL_SECONDS\<rparr>)"
  "args_of [''--uninstall'', ''--purge''] = Some ((default_args Uninstall)\<lparr>arg_purge := True\<rparr>)"
  by (simp_all add: args_of_def)

section \<open>Status\<close>

lemma printed_all: "print_all ls p = (Inr (), p\<lparr>pg_out := pg_out p @ ls\<rparr>)"
  unfolding print_all_def by (induction ls arbitrary: p) (simp_all add: ret_def bindA_def print_def modify_def)

lemma contains_line: "l \<in> set (pg_out p) \<Longrightarrow> contains s l \<Longrightarrow> contains s (stdout_text p)"
proof -
  assume "l \<in> set (pg_out p)" and s: "contains s l"
  then obtain xs ys where "pg_out p = xs @ l # ys" by (auto simp: in_set_conv_decomp)
  then have "sublist l (stdout_text p)" by (auto simp: stdout_text_def sublist_def)
  with s show ?thesis unfolding contains_iff_sublist by (rule sublist_order.order_trans)
qed

lemma status_armed:
  assumes "load_state h (fresh s) = (Inr (Some st), fresh s)" "st_armed st" "\<not> st_session_closed st"
  shows "\<exists>p'. cmd_status h (fresh s) = (Inr 0, p') \<and> contains ''STATUS=ARMED'' (stdout_text p') \<and> pg_host p' = s"
proof -
  have "contains ''STATUS=ARMED'' ''STATUS=ARMED_TEMPORARY''" by code_simp
  then show ?thesis
    using assms
    by (auto simp: cmd_status_def bindA_def time_now_def gets_def printed_all ret_def fresh_def
        intro: contains_line [where l = "''STATUS=ARMED_TEMPORARY''"])
qed

lemma armed_seen:
  assumes "runs_shield e h n get put" "load_state h (fresh (get (r_world r))) = (Inr (Some st), fresh (get (r_world r)))"
    and "st_armed st" "\<not> st_session_closed st"
  shows "\<exists>r'. shield_is_armed e r = (Inr True, r')"
proof -
  obtain p' where p': "cmd_status h (fresh (get (r_world r))) = (Inr 0, p')" "contains ''STATUS=ARMED'' (stdout_text p')"
    using status_armed [OF assms(2-4)] by blast
  have "shield_main h n (default_args Status) (fresh (get (r_world r))) = (Inr 0, p')"
    using p'(1) by (simp add: shield_main_def default_args_def)
  from shield_answers [OF assms(1) runner_args(2) this] p'(2) show ?thesis
    by (simp add: shield_is_armed_def bindA_def ret_def)
qed

lemma load_fresh: "load_state h p = (Inr s, p) \<Longrightarrow> load_state h (fresh (pg_host p)) = (Inr s, fresh (pg_host p))"
  by (rule load_same) (simp_all add: same_file_def fresh_def)

section \<open>What the runner concludes\<close>


text \<open>
  The runner's step SHIELD_CLOSE after the session it armed is never GREEN: the first close of a session ends with exit
  status 1, which the runner records as YELLOW.
\<close>

lemma close_step_yellow:
  assumes "runs_shield e (live_host f over uid sig) n get put" "\<not> r_dry_run r"
    and "load_state (live_host f over uid sig) (fresh (get (r_world r))) = (Inr (Some st), fresh (get (r_world r)))" "st_armed st"
    and "closable (live_host f over uid sig) st (fresh (get (r_world r)))"
    and "first_close (live_host f over uid sig) (st_session_id st) (fresh (get (r_world r)))"
  shows "\<exists>r'. step_shield_close e r = (Inr ''YELLOW'', r')"
proof -
  let ?h = "live_host f over uid sig"
  obtain p' where "cmd_close_session ?h False (fresh (get (r_world r))) = (Inr 1, p')"
    using first_close_returns [OF assms(3-6), of False] by blast
  then have "shield_main ?h n (default_args CloseSession) (fresh (get (r_world r))) = (Inr 1, p')"
    by (simp add: shield_main_def default_args_def)
  from shield_answers [OF assms(1) runner_args(3) this, of True] assms(2) show ?thesis
    by (simp add: step_shield_close_def bindA_def gets_def ret_def Flash_Runner.journal_append_def modify_def)
qed

section \<open>Fingerprints\<close>

lemma loads_line: "wf_json j \<Longrightarrow> loads (dumps_indent j @ [char_of (10 :: nat)]) = Inr j"
proof -
  assume "wf_json j"
  have nl: "num_end [char_of (10 :: nat)]" "skip_ws [char_of (10 :: nat)] = []" by code_simp+
  with p_value_dump [OF \<open>wf_json j\<close> nl(1), of "Some 2" 0 "Suc (2 * length (dumps_indent j @ [char_of (10 :: nat)]))"]
    skip_dump [of "Some 2" 0 j "[char_of (10 :: nat)]"]
  show ?thesis by (simp add: loads_def dumps_indent_def)
qed

lemma fingerprint_returns:
  assumes "commands_return h"
  shows "\<exists>fp p'. capture_fingerprint h (fresh s) = (Inr fp, p') \<and> wf_json (JObj fp) \<and> pg_out p' = []"
proof -
  let ?I = "\<lambda>p. pg_out p = []"
  have run: "returns ?I (run_cmd h cmd) (\<lambda>_. True)" for cmd
    unfolding returns_def
  proof (intro allI impI)
    fix p :: "'a prog" assume "pg_out p = []"
    moreover obtain r s where "h_run h cmd (pg_host p) = (Inr r, s)" using assms unfolding commands_return_def by blast
    ultimately show "\<exists>v p'. run_cmd h cmd p = (Inr v, p') \<and> True \<and> pg_out p' = []" by (simp add: run_cmd_def)
  qed
  have "returns ?I (capture_fingerprint h) (\<lambda>_. True)"
    unfolding capture_fingerprint_def fingerprint_dns_def pf_is_enabled_def by (rule run returns_rules TrueI)+
  then obtain fp p' where "capture_fingerprint h (fresh s) = (Inr fp, p')" "pg_out p' = []"
    unfolding returns_def by (metis fresh_def prog.select_convs(2))
  with endsD [OF fingerprint_wf] show ?thesis by blast
qed

text \<open>The types of the values of a fingerprint.\<close>

definition is_text :: "json \<Rightarrow> bool" where "is_text v = (case v of JStr _ \<Rightarrow> True | _ \<Rightarrow> False)"
definition is_flag :: "json \<Rightarrow> bool" where "is_flag v = (case v of JBool _ \<Rightarrow> True | _ \<Rightarrow> False)"
definition is_texts :: "json \<Rightarrow> bool" where "is_texts v = (case v of JList xs \<Rightarrow> list_all is_text xs | _ \<Rightarrow> False)"
definition is_flags :: "json \<Rightarrow> bool" where
  "is_flags v = (case v of JObj kvs \<Rightarrow> distinct (map fst kvs) \<and> list_all (\<lambda>(_, x). is_flag x) kvs | _ \<Rightarrow> False)"
definition is_servers :: "string \<Rightarrow> json \<Rightarrow> bool" where
  "is_servers key v = (case v of JObj [(k, xs), (a, b)] \<Rightarrow> k = key \<and> is_texts xs \<and> a = ''automatic'' \<and> is_flag b | _ \<Rightarrow> False)"

definition fingerprint_schema :: "(string \<times> (json \<Rightarrow> bool)) list" where
  "fingerprint_schema =
     [(''network_location'', is_text), (''service_order'', is_texts), (''service_enabled'', is_flags), (''routes'', is_texts),
      (''dns'', is_servers ''servers''), (''search'', is_servers ''domains''), (''wifi_ipv4_mode'', is_text), (''wifi_ipv6_mode'', is_text),
      (''pf_enabled'', is_flag), (''pf_anchors'', is_texts), (''launchd_loaded'', is_flag), (''shield_files'', is_texts)]"

definition typed_fingerprint :: "(string \<times> json) list \<Rightarrow> bool" where
  "typed_fingerprint fp \<longleftrightarrow> list_all2 (\<lambda>(k, ty) (k', v). k = k' \<and> ty v) fingerprint_schema fp"

lemma fingerprint_types: "ends (\<lambda>fp _. typed_fingerprint fp) (capture_fingerprint h)"
proof -
  let ?typed = "\<lambda>(k, ty) (k', v). k = k' \<and> ty v"
  let ?dns = "\<lambda>d _. list_all2 ?typed (take 4 (drop 4 fingerprint_schema)) d"
  have texts: "is_texts (jstrs xs)" "is_texts (JList [])" for xs by (auto simp: is_texts_def jstrs_def list_all_iff is_text_def)
  have dns: "ends ?dns (fingerprint_dns h s)" for s
    unfolding fingerprint_dns_def
    by (intro ends_rules) (simp_all add: fingerprint_schema_def is_servers_def texts is_text_def is_flag_def)
  have flags: "is_flags (jbool_dict c)" if "parse_service_order x = (ord, c)" for x ord c
    using that distinct_service_order [of x] by (auto simp: is_flags_def jbool_dict_def list_all_iff is_flag_def o_def case_prod_beta')
  have obj: "typed_fingerprint ([(''network_location'', JStr a), (''service_order'', jstrs b), (''service_enabled'', jbool_dict c), (''routes'', jstrs r)] @ d
      @ [(''pf_enabled'', JBool e), (''pf_anchors'', jstrs f), (''launchd_loaded'', JBool g), (''shield_files'', jstrs i)])"
    if "parse_service_order x = (ord, c)" "?dns d ()" for a b c r d e f g i x ord
  proof -
    have "fingerprint_schema = take 4 fingerprint_schema @ take 4 (drop 4 fingerprint_schema) @ drop 8 fingerprint_schema"
      by (simp add: fingerprint_schema_def)
    then show ?thesis
      unfolding typed_fingerprint_def using that flags [OF that(1)]
      by (auto simp: fingerprint_schema_def texts is_text_def is_flag_def list_all2_Cons1)
  qed
  show ?thesis
    unfolding capture_fingerprint_def
    by (rule ends_bind_value [OF dns] ends_pair ends_bind ends_ret obj | assumption)+
qed

text \<open>
  C23. A fingerprint can always be taken on a host whose programs return, prints nothing, and has always the same twelve keys in the same
  order with values of fixed types, whatever the programs print.
\<close>

theorem fingerprint_typed:
  assumes "commands_return h"
  shows "\<exists>fp p'. capture_fingerprint h (fresh s) = (Inr fp, p') \<and> typed_fingerprint fp \<and> pg_out p' = []"
  using fingerprint_returns [OF assms, of s] endsD [OF fingerprint_types] by blast

text \<open>
  The runner reads the fingerprint that the shield took: on a host whose programs return, the step PRE_FINGERPRINT is GREEN and keeps
  exactly the dictionary that the shield captured, although it travels as text.
\<close>

lemma runner_reads_fingerprint:
  assumes "runs_shield e h n get put" "commands_return h"
  shows "\<exists>fp p' r'. capture_fingerprint h (fresh (get (r_world r))) = (Inr fp, p')
    \<and> step_pre_fingerprint e r = (Inr ''GREEN'', r') \<and> r_pre_fingerprint r' = Some (JObj fp)"
proof -
  obtain fp p' where fp: "capture_fingerprint h (fresh (get (r_world r))) = (Inr fp, p')" "wf_json (JObj fp)" and out: "pg_out p' = []"
    using fingerprint_returns [OF assms(2)] by blast
  have "shield_main h n (default_args Fingerprint) (fresh (get (r_world r))) = (Inr 0, p'\<lparr>pg_out := [dumps_indent (JObj fp)]\<rparr>)"
    using fp out by (simp add: shield_main_def default_args_def cmd_fingerprint_def bindA_def print_def modify_def ret_def)
  from shield_answers [OF assms(1) runner_args(1) this, of False] loads_line [OF fp(2)] fp(1) show ?thesis
    by (simp add: step_pre_fingerprint_def bindA_def ret_def fingerprint_step_def stdout_text_def modify_def json_len_def Flash_Runner.journal_append_def)
qed

end
