(* ===== verification/Shield_Witnesses.thy ===== *)
theory Shield_Witnesses
  imports Shield_Runner
begin

text \<open>
  Concrete runs of the attach shield: a machine whose programs succeed without output, a session on its disk, and the runner
  in an environment that runs the shield on this machine. The properties with hypotheses are applied to them.
\<close>

section \<open>A machine and a session\<close>

definition quiet_host :: "unit timed sysd host" where
  "quiet_host = live_host (\<lambda>_ _. ((0, [], []), 0, ())) (\<lambda>_ _. 0) (\<lambda>_. ''s1'') (\<lambda>_. False)"

definition sample_state :: shield_state where
  "sample_state = state_default\<lparr>st_armed := True, st_session_id := ''s1'', st_expires_at := 10\<rparr>"

definition sample_pre :: "(string \<times> json) list" where "sample_pre = [(''shield_files'', jstrs [])]"

definition machine :: "(string \<times> string \<times> nat) list \<Rightarrow> unit timed sysd" where
  "machine files = \<lparr>sd_files = files, sd_dirs = [], sd_world = \<lparr>tw_clock = 0, tw_world = ()\<rparr>\<rparr>"

definition sample_machine :: "unit timed sysd" where
  "sample_machine = machine
     [(STATE_FILE, state_to_json sample_state, 384), (session_file ''s1'' ''fingerprint-pre.json'', dumps_indent (JObj sample_pre), 384)]"

lemma proper_s1: "proper ''s1''" by code_simp

lemma read_machine: "h_read_file quiet_host path (machine files) = map_option fst (map_of files path)"
  by (simp add: quiet_host_def live_host_def system_host_def sys_read_file_def live_os_def machine_def)

lemma sample_ok: "state_ok sample_state"
  by (simp add: state_ok_def sample_state_def state_default_def micros_def)

lemma sample_on_disk: "on_disk quiet_host sample_state (fresh sample_machine)"
  by (simp add: on_disk_def fresh_def sample_machine_def read_machine)

lemma sample_loaded: "load_state quiet_host (fresh sample_machine) = (Inr (Some sample_state), fresh sample_machine)"
  by (rule load_on_disk [OF sample_on_disk sample_ok])

lemma wf_pre_sample: "wf_json (JObj sample_pre)"
  by (simp add: sample_pre_def jstrs_def)

lemma sample_pre_file:
  "h_read_file quiet_host (session_file ''s1'' ''fingerprint-pre.json'') sample_machine = Some (dumps_indent (JObj sample_pre))"
  using session_files_differ(2) [of "''s1''"] by (simp add: sample_machine_def read_machine)

lemma sample_steady: "steady_inv quiet_host (dirs_free ''s1'') ''s1'' (fresh sample_machine)"
proof -
  have "dirs_free ''s1'' sample_machine"
    using files_not_dirs [OF proper_s1] by (auto simp: dirs_free_def sample_machine_def machine_def)
  moreover have "journal_fine quiet_host (session_file ''s1'' ''journal.jsonl'') (fresh sample_machine)"
    using session_files_differ [of "''s1''"]
    by (auto simp: journal_fine_def fresh_def sample_machine_def read_machine text_or_empty_def intro!: exI [of _ "[]"])
  moreover have "pre_fine quiet_host (session_file ''s1'' ''fingerprint-pre.json'') (fresh sample_machine)"
    using loads_dumps(2) [OF wf_pre_sample] by (simp add: pre_fine_def fresh_def sample_pre_file text_or_empty_def)
  ultimately show ?thesis by (simp add: steady_inv_def fresh_def)
qed

lemma sample_closable: "closable quiet_host sample_state (fresh sample_machine)"
  using sample_steady sample_ok proper_s1
  by (simp add: closable_def sample_state_def state_default_def stored_baseline_def)

lemma sample_first: "first_close quiet_host ''s1'' (fresh sample_machine)"
  using sample_on_disk wf_pre_sample sample_pre_file
  by (auto simp: first_close_def on_disk_def lists_state_file_def fresh_def intro!: exI [of _ sample_pre])
     (auto simp: sample_pre_def)

section \<open>Closing, renewing and the daemon\<close>

theorem close_session_completes_witness:
  "\<exists>ok cls p'. close_session quiet_host sample_state True (fresh sample_machine) = (Inr (ok, cls), p')
    \<and> load_state quiet_host p' = (Inr (Some (closed_state sample_state)), p')"
  using close_session_completes [OF sample_closable [unfolded quiet_host_def], of True] unfolding quiet_host_def by auto

lemma renew_effect_witness:
  "\<exists>p'. cmd_renew quiet_host ''s1'' 90 (fresh sample_machine) = (Inr 0, p')
    \<and> load_state quiet_host p' = (Inr (Some (sample_state\<lparr>st_expires_at := 90, st_ttl_seconds := 90\<rparr>)), p')"
  using renew_effect [OF sample_loaded [unfolded quiet_host_def] sample_closable [unfolded quiet_host_def], of "''s1''" 90]
  unfolding quiet_host_def
  by (auto simp: sample_state_def fresh_def sample_machine_def machine_def clamp_ttl_def MIN_TTL_S_def MAX_TTL_S_def)


theorem daemon_closes_session_witness:
  "\<exists>st' p'. cmd_daemon quiet_host 41 (fresh sample_machine) = (Inr 0, p') \<and> same_session sample_state st'
    \<and> load_state quiet_host p' = (Inr (Some (closed_state st')), p')"
  using daemon_closes_session [OF sample_loaded [unfolded quiet_host_def] _ sample_closable [unfolded quiet_host_def], of 41]
  unfolding quiet_host_def
  by (simp add: sample_state_def live_clock fresh_def sample_machine_def machine_def)

section \<open>Journal and routes\<close>

definition sample_journal :: journal where "sample_journal = \<lparr>j_path = session_file ''s1'' ''journal.jsonl'', j_seq = 2\<rparr>"

definition sample_changes :: "change list" where
  "sample_changes =
     [\<lparr>ch_mutation = ServiceDisabled ''USB LAN'' True, ch_ts = 1, ch_cmd = [''networksetup''], ch_exit = 0\<rparr>,
      \<lparr>ch_mutation = RouteAdded ''inet'' ''0.0.0.0/1'' ''10.0.0.1'', ch_ts = 2, ch_cmd = [''route''], ch_exit = 0\<rparr>]"

definition changed_machine :: "unit timed sysd" where
  "changed_machine = machine [(session_file ''s1'' ''journal.jsonl'', journal_text (ledger sample_changes), 384)]"

lemma quiet_commands: "commands_return quiet_host"
  unfolding quiet_host_def by (rule live_commands)

lemma changed_ledger: "holds_ledger quiet_host sample_journal sample_changes (fresh changed_machine)"
proof -
  have "word ''inet''" "word ''0.0.0.0/1''" "word ''10.0.0.1''" by code_simp+
  moreover have "micros (1 :: rat)" "micros (2 :: rat)" using micros_int [of 1000000] micros_int [of 2000000] by simp_all
  ultimately show ?thesis
    by (simp add: holds_ledger_def holds_records_def sample_journal_def fresh_def changed_machine_def read_machine text_or_empty_def
        numbered_def sample_changes_def change_json_def journal_entry_json_def jstrs_def seq_of_def json_get_def)
qed

theorem rollback_refines_undo_witness:
  "\<exists>p'. journal_rollback quiet_host sample_journal (fresh changed_machine) = (Inr (True, []), p')
    \<and> pg_cmds p' = [[''route'', ''-n'', ''delete'', ''-net'', ''0.0.0.0/1'', ''10.0.0.1''],
                    [''networksetup'', ''-setnetworkserviceenabled'', ''USB LAN'', ''on'']]"
  using rollback_refines_undo [OF quiet_commands changed_ledger]
  by (auto simp: fresh_def undo_all_def sample_changes_def undo_change_def map_filter_simps)

lemma machine_steady:
  "h_read_file quiet_host (session_file ''s1'' ''journal.jsonl'') (machine []) = None"
  "steady_inv quiet_host (dirs_free ''s1'') ''s1'' (fresh (machine []))"
proof -
  have "dirs_free ''s1'' (machine [])" by (simp add: dirs_free_def machine_def)
  then show "steady_inv quiet_host (dirs_free ''s1'') ''s1'' (fresh (machine []))"
    by (auto simp: read_machine steady_inv_def fresh_def journal_fine_def pre_fine_def text_or_empty_def intro!: exI [of _ "[]"])
qed (simp add: read_machine)

lemma machine_records: "holds_records quiet_host (session_file ''s1'' ''journal.jsonl'') [] (fresh (machine []))"
  by (simp add: holds_records_def fresh_def machine_steady(1) text_or_empty_def numbered_def)

theorem journal_survives_witness:
  "\<exists>j j' p'. journal_open quiet_host ''s1'' (fresh (machine [])) = (Inr j, fresh (machine []))
    \<and> journal_record quiet_host j ''pf_enabled'' ''pf'' (JBool True) [] 0 (fresh (machine [])) = (Inr j', p')
    \<and> journal_open quiet_host ''s1'' p' = (Inr j', p') \<and> j_seq j' = 1"
proof -
  have "wf_json (JBool True)" by simp
  from journal_survives [OF proper_s1 machine_steady(2) [unfolded quiet_host_def] this machine_records [unfolded quiet_host_def],
      of "''pf_enabled''" "''pf''" "[]" 0]
  show ?thesis unfolding quiet_host_def by auto
qed


section \<open>Arming\<close>

lemma machine_unarmed: "load_state quiet_host (fresh (machine [])) = (Inr None, fresh (machine []))"
  by (simp add: load_state_def bindA_def read_file_def gets_def ret_def fresh_def read_machine text_or_empty_def)


section \<open>The runner with the shield\<close>

definition shield_env :: "unit timed sysd env" where
  "shield_env =
     \<lparr>env_script_dir = [''r'', ''scripts'', ''macos''], env_python = ''py'', env_home = [''h''], env_idf_path = [],
      env_pythonpath = [], env_pid = 1, env_files = (\<lambda>_ _. None), env_dirs = (\<lambda>_ _. False), env_glob = (\<lambda>_ _. []),
      env_exec = (\<lambda>av _ w.
        case args_of (drop (if hd av = ''sudo'' then 3 else 2) av) of
          None \<Rightarrow> (Inr (1, [], []), w)
        | Some a \<Rightarrow>
            (case shield_main quiet_host 41 a (fresh w) of
               (Inr rc, p') \<Rightarrow> (Inr (rc, stdout_text p', []), pg_host p')
             | (Inl _, p') \<Rightarrow> (Inr (1, [], []), pg_host p'))),
      env_serial = (\<lambda>_ w. (SerialRead [], w)), env_unlink = (\<lambda>_ w. w), env_time = (\<lambda>_. 0), env_tick = id,
      env_manifest = (\<lambda>_. Inr \<lparr>m_build_dir = ''build'', m_sdkconfig_marker = [], m_usb_identity = [], m_flash_params = [], m_artifacts = []\<rparr>)\<rparr>"

lemma env_runs_shield: "runs_shield shield_env quiet_host 41 id (\<lambda>s _. s)"
  by (simp add: runs_shield_def shield_env_def shield_argv_def)

definition sample_runner :: "unit timed sysd \<Rightarrow> unit timed sysd runner" where "sample_runner w = runner_init ''s'' False False w"

lemma sample_runner: "\<not> r_dry_run (sample_runner w)" "r_world (sample_runner w) = w"
  by (simp_all add: sample_runner_def runner_init_def)


lemma close_step_yellow_witness: "\<exists>r'. step_shield_close shield_env (sample_runner sample_machine) = (Inr ''YELLOW'', r')"
  using close_step_yellow [OF env_runs_shield [unfolded quiet_host_def] sample_runner(1), of sample_machine sample_state]
    sample_loaded sample_closable sample_first
  by (simp add: sample_runner quiet_host_def sample_state_def)

theorem fingerprint_typed_witness:
  "\<exists>fp p'. capture_fingerprint quiet_host (fresh sample_machine) = (Inr fp, p') \<and> typed_fingerprint fp"
  using fingerprint_typed [OF quiet_commands, of sample_machine] by blast

lemma runner_reads_fingerprint_witness:
  "\<exists>fp p' r'. capture_fingerprint quiet_host (fresh sample_machine) = (Inr fp, p')
    \<and> step_pre_fingerprint shield_env (sample_runner sample_machine) = (Inr ''GREEN'', r') \<and> r_pre_fingerprint r' = Some (JObj fp)"
  using runner_reads_fingerprint [OF env_runs_shield quiet_commands, of "sample_runner sample_machine"] by (simp add: sample_runner)

end
