(* ===== verification/Contract_Text.thy ===== *)
theory Contract_Text
  imports Regex Json
begin

text \<open>
  The text functions of the contract check (\<^verbatim>\<open>scripts/check-contract-sync.py\<close>): search without regard to case,
  the normal form of prose and the body of a C function. The normal form is shown to be the words of the text, and the body to
  be the balanced block that follows the signature.
\<close>

section \<open>Search\<close>

text \<open>\<^verbatim>\<open>str.casefold()\<close> on the first 256 code points; the micro sign, which becomes a Greek letter, stays.\<close>

definition casefold :: "string \<Rightarrow> string" where
  "casefold s = concat (map (\<lambda>c. if code c = 223 then ''ss'' else [lower_char c]) s)"

definition contains_casefold :: "string \<Rightarrow> string \<Rightarrow> bool" where
  "contains_casefold txt val = contains (casefold val) (casefold txt)"

text \<open>\<^verbatim>\<open>text.find(name)\<close>\<close>

fun find_from :: "int \<Rightarrow> string \<Rightarrow> string \<Rightarrow> int" where
  "find_from i p [] = (if p = [] then i else -1)"
| "find_from i p (c # s) = (if prefix p (c # s) then i else find_from (i + 1) p s)"

definition find :: "string \<Rightarrow> string \<Rightarrow> int" where "find p s = find_from 0 p s"

text \<open>\<^verbatim>\<open>text.split(sep, 1)[1]\<close>, where the separator is present.\<close>

fun after_text :: "string \<Rightarrow> string \<Rightarrow> string" where
  "after_text p [] = []"
| "after_text p (c # s) = (if prefix p (c # s) then drop (length p) (c # s) else after_text p s)"

section \<open>Prose\<close>

text \<open>The three substitutions of \<^verbatim>\<open>normalize_prose\<close> that remove bold, italic and code markup.\<close>

definition markup :: "string \<Rightarrow> char \<Rightarrow> item list" where
  "markup mark c = [Lit mark, Group [Rep 1 (\<lambda>x. x \<noteq> c)], Lit mark]"

definition strip_markup :: "string \<Rightarrow> string" where
  "strip_markup s =
     re_sub (markup ''`'' (CHR ''`'')) hd (re_sub (markup ''*'' (CHR ''*'')) hd (re_sub (markup ''**'' (CHR ''*'')) hd s))"

definition collapse :: "string \<Rightarrow> string" where "collapse s = re_sub [Rep 1 is_space] (\<lambda>_. '' '') s"

definition normalize_prose :: "string \<Rightarrow> string" where "normalize_prose s = strip (collapse (strip_markup s))"

definition prose_contains :: "string \<Rightarrow> string \<Rightarrow> bool" where
  "prose_contains txt phrase = contains (normalize_prose phrase) (normalize_prose txt)"

section \<open>Function bodies\<close>

fun body_from :: "int \<Rightarrow> string \<Rightarrow> string \<Rightarrow> string" where
  "body_from depth seen [] = []"
| "body_from depth seen (c # s) =
     (if c = CHR ''{'' then body_from (depth + 1) (c # seen) s
      else if c = CHR ''}'' then (if depth - 1 = 0 then rev (c # seen) else body_from (depth - 1) (c # seen) s)
      else body_from depth (c # seen) s)"

definition function_body :: "string \<Rightarrow> item list \<Rightarrow> string" where
  "function_body source signature =
     (case re_search_rest signature source of
        None \<Rightarrow> []
      | Some r \<Rightarrow> body_from 0 [] (dropWhile (\<lambda>c. c \<noteq> CHR ''{'') r))"

section \<open>The normal form is the list of words\<close>

lemma spaces_match:
  "is_space x \<Longrightarrow> \<exists>gs ms. matches [Rep 1 is_space] (x # s) = (gs, dropWhile is_space s) # ms"
  "\<not> is_space x \<Longrightarrow> matches [Rep 1 is_space] (x # s) = []"
proof -
  assume "is_space x"
  then have "rev [1..<Suc (length (takeWhile is_space (x # s)))] = length (takeWhile is_space (x # s)) # rev [1..<length (takeWhile is_space (x # s))]"
    by simp
  then show "\<exists>gs ms. matches [Rep 1 is_space] (x # s) = (gs, dropWhile is_space s) # ms"
    using \<open>is_space x\<close> by (simp add: run_lengths_def dropWhile_eq_drop del: upt_Suc)
qed (simp add: run_lengths_def)

lemma collapse_Cons:
  "collapse (x # s) = (if is_space x then CHR '' '' # collapse (dropWhile is_space s) else x # collapse s)"
proof (cases "is_space x")
  case True
  then obtain gs ms where "matches [Rep 1 is_space] (x # s) = (gs, dropWhile is_space s) # ms" using spaces_match(1) by blast
  with True length_dropWhile_le [of is_space s] show ?thesis by (simp only: collapse_def re_sub.simps) simp
next
  case False
  from spaces_match(2) [OF this, of s] False show ?thesis by (simp only: collapse_def re_sub.simps list.case if_False)
qed

lemma collapse_Nil [simp]: "collapse [] = []"
  by (simp add: collapse_def)

lemma after_spaces: "dropWhile is_space t = [] \<or> \<not> is_space (hd (dropWhile is_space t))"
  by (induction t) simp_all

lemma collapse_word: "list_all (\<lambda>c. \<not> is_space c) w \<Longrightarrow> collapse (w @ s) = w @ collapse s"
  by (induction w) (simp_all add: collapse_Cons)

lemma collapse_lstrip: "lstrip (collapse s) = collapse (lstrip s)"
proof -
  have sp: "is_space (CHR '' '')" by code_simp
  have d: "dropWhile is_space (collapse (dropWhile is_space t)) = collapse (dropWhile is_space t)" for t
    using after_spaces [of t] by (cases "dropWhile is_space t") (simp_all only: collapse_Cons list.sel collapse_Nil dropWhile.simps, auto)
  show ?thesis by (cases s) (auto simp: lstrip_def collapse_Cons sp d)
qed

lemma rstrip_word: "word w \<Longrightarrow> rstrip w = w"
  by (cases w rule: rev_cases) (auto simp: word_def rstrip_def)

lemma rstrip_keeps: "\<exists>c\<in>set t. \<not> is_space c \<Longrightarrow> rstrip (u @ t) = u @ rstrip t"
  by (auto simp: rstrip_def dropWhile_append)

lemma split_ws_lstrip: "split_ws_from [] (dropWhile is_space s) = split_ws_from [] s"
  by (induction s) auto

lemma collapse_words: "s = [] \<or> \<not> is_space (hd s) \<Longrightarrow> rstrip (collapse s) = join '' '' (split_ws s)"
proof (induction s rule: length_induct)
  case (1 s)
  show ?case
  proof (cases "s = []")
    case False
    define w where "w = takeWhile (\<lambda>c. \<not> is_space c) s"
    define t where "t = dropWhile (\<lambda>c. \<not> is_space c) s"
    define u where "u = dropWhile is_space t"
    have s: "s = w @ t" by (simp add: w_def t_def)
    have w: "word w" using False "1.prems" by (cases s) (auto simp: word_def w_def list_all_iff dest: set_takeWhileD)
    then have c: "collapse s = w @ collapse t" by (simp add: s collapse_word word_def)
    show ?thesis
    proof (cases t)
      case Nil
      with w c s show ?thesis by (simp add: rstrip_word split_ws_def split_words)
    next
      case (Cons x t')
      have x: "is_space x" using Cons by (simp add: t_def dropWhile_eq_Cons_conv)
      then have u: "u = dropWhile is_space t'" by (simp add: u_def Cons)
      have "split_ws s = w # split_ws u"
        using split_word [of w "[]" "x # t'"] w x by (simp add: s Cons split_ws_def word_def u split_ws_lstrip)
      moreover have "collapse s = w @ CHR '' '' # collapse u" by (simp add: c Cons collapse_Cons x u)
      moreover have "rstrip (collapse u) = join '' '' (split_ws u)"
      proof -
        have "length u < length s" using length_dropWhile_le [of is_space t'] by (simp add: s Cons u)
        with "1.IH" after_spaces [of t', folded u] show ?thesis by blast
      qed
      moreover have "rstrip (w @ CHR '' '' # collapse u) = (if u = [] then w else w @ CHR '' '' # rstrip (collapse u))"
      proof (cases u)
        case Nil
        have "rstrip (w @ '' '') = rstrip w" using arg_cong [of "is_space (CHR '' '')" True] by (simp add: rstrip_def is_space_def code_def)
        with Nil w show ?thesis by (simp add: rstrip_word)
      next
        case (Cons y u')
        then have "\<not> is_space y" using u by (simp add: dropWhile_eq_Cons_conv)
        then show ?thesis using rstrip_keeps [of "collapse u" "w @ '' ''"] by (simp add: Cons collapse_Cons)
      qed
      moreover have "split_ws u = [] \<longleftrightarrow> u = []"
      proof (cases u)
        case (Cons y u')
        then have "\<not> is_space y" using u by (simp add: dropWhile_eq_Cons_conv)
        moreover have "cur \<noteq> [] \<Longrightarrow> split_ws_from cur v \<noteq> []" for cur v by (induction v arbitrary: cur) auto
        ultimately show ?thesis by (simp add: Cons split_ws_def)
      qed (simp add: split_ws_def)
      ultimately show ?thesis by (cases "split_ws u") auto
    qed
  qed (simp add: rstrip_def split_ws_def)
qed

lemma normalize_words: "normalize_prose s = join '' '' (split_ws (strip_markup s))"
  using collapse_words [OF after_spaces, of "strip_markup s"]
  by (simp only: normalize_prose_def strip_def collapse_lstrip) (simp only: lstrip_def split_ws_def split_ws_lstrip)


section \<open>The body is the balanced block after the signature\<close>

definition brace_depth :: "string \<Rightarrow> int" where
  "brace_depth s = int (count_list s (CHR ''{'')) - int (count_list s (CHR ''}''))"

lemma brace_depth_simps [simp]: "brace_depth [] = 0" "brace_depth (s @ t) = brace_depth s + brace_depth t"
  "brace_depth (c # s) = (if c = CHR ''{'' then 1 else if c = CHR ''}'' then -1 else 0) + brace_depth s"
  by (auto simp: brace_depth_def)

text \<open>A block opens with a brace, ends with the brace that closes it, and is open in between.\<close>

definition block :: "string \<Rightarrow> bool" where
  "block b \<longleftrightarrow> b \<noteq> [] \<and> hd b = CHR ''{'' \<and> brace_depth b = 0 \<and> (\<forall>n. 0 < n \<and> n < length b \<longrightarrow> 0 < brace_depth (take n b))"

text \<open>The text that brings a positive depth down to zero and no earlier.\<close>

fun closes :: "int \<Rightarrow> string \<Rightarrow> bool" where
  "closes d [] = (d = 0)"
| "closes d (c # t) = (0 < d \<and> closes (d + brace_depth [c]) t)"

lemma closes_iff: "closes d t \<longleftrightarrow> d + brace_depth t = 0 \<and> (\<forall>n<length t. 0 < d + brace_depth (take n t))"
proof (induction t arbitrary: d)
  case (Cons c t)
  have "(\<forall>n<length (c # t). 0 < d + brace_depth (take n (c # t))) \<longleftrightarrow>
    0 < d \<and> (\<forall>n<length t. 0 < d + brace_depth [c] + brace_depth (take n t))"
    by (auto simp: less_Suc_eq_0_disj add.assoc)
  then show ?case using Cons.IH [of "d + brace_depth [c]"] by (auto simp: add.assoc)
qed simp

lemma block_closes: "block (c # t) \<longleftrightarrow> c = CHR ''{'' \<and> closes 1 t"
proof -
  have "(\<forall>n. 0 < n \<and> n < length (c # t) \<longrightarrow> P (take n (c # t))) \<longleftrightarrow> (\<forall>n<length t. P (c # take n t))" for P
  proof
    assume all: "\<forall>n. 0 < n \<and> n < length (c # t) \<longrightarrow> P (take n (c # t))"
    show "\<forall>n<length t. P (c # take n t)" using all [rule_format, of "Suc n" for n] by simp
  next
    assume all: "\<forall>n<length t. P (c # take n t)"
    then show "\<forall>n. 0 < n \<and> n < length (c # t) \<longrightarrow> P (take n (c # t))"
      by (metis Suc_less_eq gr0_conv_Suc length_Cons take_Suc_Cons)
  qed
  from this [of "\<lambda>b. 0 < brace_depth b"] show ?thesis
    unfolding block_def closes_iff by (cases "c = CHR ''{''") simp_all
qed

lemma body_from_iff: "0 < d \<Longrightarrow> b \<noteq> [] \<Longrightarrow>
  body_from d seen s = b \<longleftrightarrow> (\<exists>t post. s = t @ post \<and> b = rev seen @ t \<and> closes d t)"
proof (induction s arbitrary: d seen)
  case (Cons c s)
  let ?d = "d + brace_depth [c]"
  have "(\<exists>t post. c # s = t @ post \<and> b = rev seen @ t \<and> closes d t) \<longleftrightarrow>
    (\<exists>t post. s = t @ post \<and> b = rev (c # seen) @ t \<and> closes ?d t)" (is "?L \<longleftrightarrow> ?R")
  proof
    assume ?L
    then obtain t post where t: "c # s = t @ post" "b = rev seen @ t" "closes d t" by blast
    with Cons.prems obtain t' where "t = c # t'" by (cases t) auto
    with t show ?R by auto
  next
    assume ?R
    then obtain t post where "s = t @ post" "b = rev (c # seen) @ t" "closes ?d t" by blast
    with Cons.prems show ?L by (intro exI [of _ "c # t"] exI [of _ post]) simp
  qed
  moreover have "?d = 0 \<Longrightarrow> closes ?d t \<longleftrightarrow> t = []" for t by (cases t) auto
  moreover have "body_from d seen (c # s) = (if ?d = 0 then rev (c # seen) else body_from ?d (c # seen) s)"
    using Cons.prems by auto
  moreover have "?d \<noteq> 0 \<Longrightarrow> 0 < ?d" using Cons.prems by (auto split: if_splits)
  ultimately show ?case using Cons.IH [of ?d "c # seen"] Cons.prems by (cases "?d = 0") auto
qed auto

lemma body_at_brace:
  assumes "b \<noteq> []"
  shows "body_from 0 [] (CHR ''{'' # s) = b \<longleftrightarrow> block b \<and> prefix b (CHR ''{'' # s)"
  using body_from_iff [of 1 b "''{''" s] assms by (cases b) (auto simp: block_closes prefix_def)

text \<open>
  The body that the check looks at is the block that starts at the first opening brace after the first match of the
  signature, and it is found whenever that block is closed.
\<close>

lemma function_body_iff:
  assumes "b \<noteq> []"
  shows "function_body source signature = b \<longleftrightarrow>
    (\<exists>mid post. re_search_rest signature source = Some (mid @ b @ post) \<and> CHR ''{'' \<notin> set mid \<and> block b)"
proof -
  let ?brace = "\<lambda>c. c \<noteq> CHR ''{''"
  have "body_from 0 [] (dropWhile ?brace r) = b \<longleftrightarrow> (\<exists>mid post. r = mid @ b @ post \<and> CHR ''{'' \<notin> set mid \<and> block b)" (is "?L \<longleftrightarrow> ?R") for r
  proof
    assume ?L
    with assms obtain s where s: "dropWhile ?brace r = CHR ''{'' # s" by (cases "dropWhile ?brace r") (auto simp: dropWhile_eq_Cons_conv)
    with body_at_brace [OF assms, of s] \<open>?L\<close> obtain post where "CHR ''{'' # s = b @ post" "block b" by (auto simp: prefix_def)
    then show ?R using takeWhile_dropWhile_id [of ?brace r] s
      by (intro exI [of _ "takeWhile ?brace r"] exI [of _ post]) (auto dest: set_takeWhileD)
  next
    assume ?R
    then obtain mid post where r: "r = mid @ b @ post" "CHR ''{'' \<notin> set mid" "block b" by blast
    then obtain t where b: "b = CHR ''{'' # t" by (cases b) (auto simp: block_def)
    with r have "dropWhile ?brace r = CHR ''{'' # t @ post" by (auto simp: dropWhile_append)
    with body_at_brace [OF assms, of "t @ post"] r b show ?L by simp
  qed
  with assms show ?thesis by (auto simp: function_body_def split: option.split)
qed

end
