(* ===== verification/Contract_Check.thy ===== *)
theory Contract_Check
  imports Contract_Text
begin

text \<open>
  The contract check (\<^verbatim>\<open>scripts/check-contract-sync.py\<close>): it reads the sources and documents of the repository and
  fails when one of them has lost a phrase of the public contracts. The dedicated checks are functions of file contents
  that return the list of errors; the main program reads the tree, collects the errors and reports them. Reading a file is a parameter.
  Characters outside ASCII stand as the bytes of their UTF-8 form.
\<close>

section \<open>Constants and helpers\<close>

definition CORE_SERVICE :: string where "CORE_SERVICE = ''7c1b0001-4b4f-4d55-9a01-42584d583101''"
definition CORE_RX :: string where "CORE_RX = ''7c1b0002-4b4f-4d55-9a01-42584d583101''"
definition CORE_TX :: string where "CORE_TX = ''7c1b0003-4b4f-4d55-9a01-42584d583101''"
definition ROUTER_RX :: string where "ROUTER_RX = ''7c1b0002-4b4f-4d55-9a01-42584d583102''"
definition ROUTER_TX :: string where "ROUTER_TX = ''7c1b0003-4b4f-4d55-9a01-42584d583103''"

text \<open>The errors that \<^verbatim>\<open>require\<close> appends; \<^verbatim>\<open>if not condition: errors.append(message)\<close> is the same.\<close>

definition require :: "bool \<Rightarrow> string \<Rightarrow> string list" where
  "require condition message = (if condition then [] else [message])"

text \<open>\<^verbatim>\<open>re.search(a|b|c, text)\<close> as a condition, and with \<^verbatim>\<open>re.I\<close> for patterns in small letters.\<close>

definition found :: "item list list \<Rightarrow> string \<Rightarrow> bool" where
  "found pats txt = list_ex (\<lambda>ps. re_search ps txt \<noteq> None) pats"

definition found_nocase :: "item list list \<Rightarrow> string \<Rightarrow> bool" where
  "found_nocase pats txt = found pats (lower txt)"

definition quoted :: "string \<Rightarrow> string" where "quoted s = QUOTE # s @ [QUOTE]"

abbreviation dots :: item where "dots \<equiv> Rep 0 not_newline"
abbreviation spaces :: item where "spaces \<equiv> Rep 0 is_space"
abbreviation spaces1 :: item where "spaces1 \<equiv> Rep 1 is_space"

section \<open>README and the safe default\<close>

definition README_PHRASES :: "string list" where
  "README_PHRASES =
     [''USB HID-only'', ''must not enumerate a USB Ethernet interface'', ''does not run a DHCP server'', ''no configured gateway'',
      ''does not provide DNS'']"

definition r7c_readme_errors :: "string \<Rightarrow> string list" where
  "r7c_readme_errors readme =
     concat (map (\<lambda>phrase. require (prose_contains readme phrase)
       (''router-spike README lost host-network-safe contract phrase: '' @ repr_str phrase)) README_PHRASES)"

definition SAFE_FORBIDDEN :: "string list" where
  "SAFE_FORBIDDEN =
     [''CONFIG_TINYUSB_NET_MODE_NCM=y'', ''CONFIG_TINYUSB_NET_MODE_ECM_RNDIS=y'', ''CONFIG_LWIP_IP_FORWARD=y'', ''CONFIG_LWIP_IPV4_NAPT=y'']"

text \<open>\<^verbatim>\<open>config BOOTMUX_USB_NETWORK_EXPERIMENTAL.*?default y\<close> with \<^verbatim>\<open>re.S\<close>, and with n.\<close>

definition option_default :: "string \<Rightarrow> item list" where
  "option_default answer = [Lit ''config BOOTMUX_USB_NETWORK_EXPERIMENTAL'', Lazy 0 (\<lambda>_. True), Lit (''default '' @ answer)]"

definition r7c_safe_default_errors :: "string \<Rightarrow> string \<Rightarrow> string \<Rightarrow> string list" where
  "r7c_safe_default_errors sdkconfig descriptors usb_router =
     require (contains ''CONFIG_TINYUSB_NET_MODE_NONE=y'' sdkconfig) ''safe sdkconfig no longer selects TinyUSB network mode None''
     @ concat (map (\<lambda>forbidden. require (\<not> contains forbidden sdkconfig) (''safe sdkconfig unexpectedly enables '' @ forbidden)) SAFE_FORBIDDEN)
     @ require (contains ''# CONFIG_BOOTMUX_USB_NETWORK_EXPERIMENTAL is not set'' sdkconfig)
         ''safe sdkconfig no longer keeps USB networking default-off''
     @ require (\<not> found [option_default ''y''] sdkconfig) ''CONFIG_BOOTMUX_USB_NETWORK_EXPERIMENTAL became default-on''
     @ require (contains ''BOOTMUX Keyboard Safe'' descriptors \<and> contains ''BOOTMUX-HID-SAFE'' descriptors)
         ''safe USB descriptor lost the distinct HID-only identity''
     @ require (contains ''BOOTMUX_USB_NETWORK_SAFE_OFF'' usb_router) ''safe marker BOOTMUX_USB_NETWORK_SAFE_OFF disappeared''"

section \<open>The experimental profile\<close>

definition r7c_experimental_errors :: "string \<Rightarrow> string \<Rightarrow> string \<Rightarrow> string list" where
  "r7c_experimental_errors usb_router exp_sdkconfig runtime_c =
     require (\<not> contains ''ESP_NETIF_DHCP_SERVER'' usb_router) ''USB experiment reintroduced a DHCP server''
     @ require (contains ''.gw = { .addr = 0 }'' usb_router \<and> contains ''BOOTMUX_USB_NETWORK_NO_DHCP_NO_DEFAULT_ROUTE'' usb_router)
         ''USB experiment can again advertise a gateway/default route''
     @ require (contains ''BOOTMUX_USB_NETIF_DOWN_AT_BOOT_EXPERIMENTAL'' usb_router) ''USB netif is no longer documented DOWN at boot''
     @ require (contains ''CONFIG_BOOTMUX_USB_NETWORK_EXPERIMENTAL=y'' exp_sdkconfig)
         ''explicit USB-network experiment profile lost its opt-in flag''
     @ (let got_ip = function_body runtime_c [Lit ''static void wifi_task'', Boundary] in
        if got_ip \<noteq> [] \<and> contains ''IP_EVENT_STA_GOT_IP'' got_ip
        then (let branch = after_text ''IP_EVENT_STA_GOT_IP'' got_ip in
              require (contains ''reconcile_management_path'' branch) ''IP_EVENT_STA_GOT_IP no longer reaches the reconciler''
              @ require (\<not> contains ''bootmux_usb_router_start'' branch)
                  ''network activation happens directly from IP_EVENT_STA_GOT_IP outside the reconciler'')
        else [])"

section \<open>The gate\<close>

definition GATE_CONDITIONS :: "string list" where
  "GATE_CONDITIONS = [''wifi_has_ip'', ''target_reachable'', ''allowlist_loaded'', ''mg_lease_active'']"

definition gate_conditions_errors :: "string \<Rightarrow> string list" where
  "gate_conditions_errors mgmt_c =
     (let should_open = function_body mgmt_c [Lit ''bool mg_should_open'', Boundary] in
      concat (map (\<lambda>condition. require (contains condition should_open)
        (''P1 gate condition removed from mg_should_open: '' @ condition)) GATE_CONDITIONS))"

definition ttl_define :: "string \<Rightarrow> string \<Rightarrow> item list" where
  "ttl_define name val = [Lit ''#define'', spaces1, Lit name, spaces1, Lit val, Boundary]"

definition lease_errors :: "string \<Rightarrow> string \<Rightarrow> string list" where
  "lease_errors mgmt_c mgmt_h =
     require (found [ttl_define ''MG_LEASE_TTL_MAX'' ''60''] mgmt_h) ''management lease max TTL is no longer the bounded 60 seconds''
     @ require (found [ttl_define ''MG_LEASE_TTL_MIN'' ''10''] mgmt_h) ''management lease min TTL drifted from 10 seconds''
     @ (let grant = function_body mgmt_c [Lit ''bool mg_lease_grant'', Boundary] in
        require (grant = [] \<or> contains ''MG_LEASE_TTL_MAX'' grant) ''management lease grant no longer enforces the bounded TTL'')"

definition tp_ipv4 :: "item list" where
  "tp_ipv4 =
     [Lit ''TP_IPV4('', spaces, Group [Rep 1 is_digit], spaces, Lit '','', spaces, Group [Rep 1 is_digit], spaces, Lit '','',
      spaces, Group [Rep 1 is_digit], spaces, Lit '','', spaces, Group [Rep 1 is_digit], spaces, Lit '')'']"

definition allowlist :: "string \<Rightarrow> nat list list" where
  "allowlist probe_c = sort (remdups (map (map dec_val) (re_findall tp_ipv4 probe_c)))"

definition ALLOWED_TARGETS :: "nat list list" where "ALLOWED_TARGETS = [[192, 168, 11, 1], [192, 168, 77, 1]]"

definition dns_patterns :: "item list list" where
  "dns_patterns = [[Lit ''getaddrinfo''], [Lit ''gethostbyname''], [Lit ''esp_netif'', dots, Lit ''dns'']]"

definition allowlist_errors :: "string \<Rightarrow> string list" where
  "allowlist_errors probe_c =
     require (set (allowlist probe_c) = set ALLOWED_TARGETS)
       (''target allowlist widened or drifted: ['' @ join '', '' (map (\<lambda>t. ''('' @ join '', '' (map nat_str t) @ '')'') (allowlist probe_c)) @ '']'')
     @ require (\<not> found_nocase dns_patterns probe_c) ''target allowlist accepts DNS resolution instead of fixed literals''"

definition TEARDOWN_STEPS :: "string list" where "TEARDOWN_STEPS = [''proxy_stop'', ''napt_disable'', ''netif_stop'']"

definition teardown_errors :: "string \<Rightarrow> string list" where
  "teardown_errors mgmt_c =
     (let deactivate = function_body mgmt_c [Lit ''static void deactivate'', Boundary];
          pos = (\<lambda>name. find name deactivate);
          positions = py_repr (JObj (map (\<lambda>name. (name, JInt (pos name))) TEARDOWN_STEPS)) in
      if deactivate = [] then []
      else if list_ex (\<lambda>name. pos name = -1) TEARDOWN_STEPS then [''teardown missing a step: '' @ positions]
      else if \<not> (pos ''proxy_stop'' < pos ''napt_disable'' \<and> pos ''napt_disable'' < pos ''netif_stop'')
      then [''teardown order is no longer proxy -> NAPT -> netif: '' @ positions]
      else [])"

definition boot_errors :: "string \<Rightarrow> string list" where
  "boot_errors mgmt_c =
     (let init = function_body mgmt_c [Lit ''void mg_init'', Boundary] in
      if init \<noteq> [] \<and> \<not> contains ''path_open = false'' init \<and> \<not> contains ''path_open=false'' init
      then require (contains ''MG_REASON_BOOT'' init) ''gate boot state is not fail-closed''
      else [])"

definition WITHDRAWAL_TRIGGERS :: "string list" where
  "WITHDRAWAL_TRIGGERS = [''WIFI_EVENT_STA_DISCONNECTED'', ''IP_EVENT_STA_GOT_IP'', ''NET_RELEASE'', ''WIFI_CLEAR'']"

definition trigger_errors :: "string \<Rightarrow> string list" where
  "trigger_errors runtime_c =
     concat (map (\<lambda>trigger. require (contains trigger runtime_c) (''withdrawal trigger no longer wired: '' @ trigger)) WITHDRAWAL_TRIGGERS)
     @ require (contains ''mg_lease_release'' runtime_c) ''NET_RELEASE/WIFI_CLEAR/BLE disconnect no longer drop the lease''
     @ require (contains ''reconcile_management_path'' runtime_c) ''lifecycle events no longer reach reconciliation''"

definition r7c_p1_gate_errors :: "string \<Rightarrow> string \<Rightarrow> string \<Rightarrow> string \<Rightarrow> string list" where
  "r7c_p1_gate_errors mgmt_c mgmt_h probe_c runtime_c =
     gate_conditions_errors mgmt_c @ lease_errors mgmt_c mgmt_h @ allowlist_errors probe_c @ teardown_errors mgmt_c
     @ boot_errors mgmt_c @ trigger_errors runtime_c"

section \<open>The guardian\<close>

text \<open>\<^verbatim>\<open>route["'\s,]+-f\b|flush.*routing|routeflush\<close> and the two other lists of forbidden operations.\<close>

definition route_flush :: "item list list" where
  "route_flush =
     [[Lit ''route'', Rep 1 (\<lambda>c. is_space c \<or> code c \<in> {34, 39, 44}), Lit ''-f'', Boundary],
      [Lit ''flush'', dots, Lit ''routing''], [Lit ''routeflush'']]"

definition service_deletion :: "item list list" where
  "service_deletion = [[Lit ''-removenetworkservice''], [Lit ''removeservice''], [Lit ''delete_network_service'']]"

definition wifi_deletion :: "item list list" where
  "wifi_deletion =
     [[Lit ''removepreferredwirelessnetwork''], [Lit ''forget'', dots, Lit ''saved''],
      [Lit ''delete'', dots, Lit ''saved'', dots, Lit ''wi'', AltLit [''-'', []], Lit ''fi'']]"

definition STORE_TOKENS :: "(string \<times> string) list" where
  "STORE_TOKENS = [(''os.path.islink'', ''symlink''), (''0o700'', ''mode''), (''st_uid'', ''owner''), (''schema_version'', ''schema'')]"

definition r7c_p2_guardian_errors :: "string \<Rightarrow> string list" where
  "r7c_p2_guardian_errors guardian_py =
     require (contains ''def prove_identity'' guardian_py) ''Guardian identity proof removed''
     @ require (contains ''ambiguous'' guardian_py \<and> contains ''audit-only'' guardian_py)
         ''ambiguous identity no longer fails closed to audit-only''
     @ require (\<not> found_nocase route_flush guardian_py) ''Guardian gained a global routing-table flush''
     @ require (\<not> found_nocase service_deletion guardian_py) ''Guardian can delete a network service''
     @ require (\<not> contains ''/Library/Preferences/SystemConfiguration'' guardian_py)
         ''Guardian edits /Library/Preferences/SystemConfiguration directly''
     @ require (\<not> found_nocase wifi_deletion guardian_py) ''Guardian can delete saved Wi-Fi networks''
     @ concat (map (\<lambda>(token, what). require (contains token guardian_py)
         (''state store lost '' @ what @ '' validation ('' @ token @ '')'')) STORE_TOKENS)
     @ require (contains ''redact_baseline'' guardian_py \<and> contains ''<redacted>'' guardian_py)
         ''SSID redaction removed from status/log output''
     @ require (contains ''cooldown'' guardian_py) ''Wi-Fi toggle lost its last-resort/cooldown bound''"

section \<open>The main program\<close>

text \<open>The texts that \<^verbatim>\<open>main\<close> reads, named as its variables, in the order in which it reads them.\<close>

record tree =
  swift :: string
  content_view :: string
  iphone_readme :: string
  bridge :: string
  bridge_readme :: string
  router_kconfig :: string
  router_sdkconfig :: string
  router_experimental_sdkconfig :: string
  router_descriptors :: string
  router_usb :: string
  router_readme :: string
  mac_recovery :: string
  bmx1 :: string
  server :: string
  companion_protocol :: string
  root_readme :: string
  judge_readme :: string
  mgmt_c :: string
  mgmt_h :: string
  probe_c :: string
  runtime_c :: string
  guardian_py :: string

definition read_tree :: "(string \<Rightarrow> string result) \<Rightarrow> tree result" where
  "read_tree read =
     bindE (read ''iphone/BOOTMUX/BLEProtocol.swift'') (\<lambda>v_swift.
     bindE (read ''iphone/BOOTMUX/ContentView.swift'') (\<lambda>v_content_view.
     bindE (read ''iphone/README.md'') (\<lambda>v_iphone_readme.
     bindE (read ''firmware/esp32s3-bridge/src/main.cpp'') (\<lambda>v_bridge.
     bindE (read ''firmware/esp32s3-bridge/README.md'') (\<lambda>v_bridge_readme.
     bindE (read ''firmware/esp32s3-router-spike/main/Kconfig.projbuild'') (\<lambda>v_router_kconfig.
     bindE (read ''firmware/esp32s3-router-spike/sdkconfig.defaults'') (\<lambda>v_router_sdkconfig.
     bindE (read ''firmware/esp32s3-router-spike/sdkconfig.usb-network.defaults'') (\<lambda>v_router_experimental_sdkconfig.
     bindE (read ''firmware/esp32s3-router-spike/main/usb_descriptors.c'') (\<lambda>v_router_descriptors.
     bindE (read ''firmware/esp32s3-router-spike/main/usb_router.c'') (\<lambda>v_router_usb.
     bindE (read ''firmware/esp32s3-router-spike/README.md'') (\<lambda>v_router_readme.
     bindE (read ''scripts/macos/recover-bootmux-usb-network.sh'') (\<lambda>v_mac_recovery.
     bindE (read ''docs/protocol/BMX1.md'') (\<lambda>v_bmx1.
     bindE (read ''companion/server.go'') (\<lambda>v_server.
     bindE (read ''docs/COMPANION_PROTOCOL_V1.md'') (\<lambda>v_companion_protocol.
     bindE (read ''README.md'') (\<lambda>v_root_readme.
     bindE (read ''judge/README.md'') (\<lambda>v_judge_readme.
     bindE (read ''firmware/esp32s3-router-spike/main/management_gate.c'') (\<lambda>v_mgmt_c.
     bindE (read ''firmware/esp32s3-router-spike/main/management_gate.h'') (\<lambda>v_mgmt_h.
     bindE (read ''firmware/esp32s3-router-spike/main/target_probe.c'') (\<lambda>v_probe_c.
     bindE (read ''firmware/esp32s3-router-spike/main/ble_wifi_runtime.c'') (\<lambda>v_runtime_c.
     bindE (read ''scripts/macos/bootmux-network-guardian.py'') (\<lambda>v_guardian_py.
     Inr \<lparr>swift = v_swift, content_view = v_content_view, iphone_readme = v_iphone_readme,
       bridge = v_bridge, bridge_readme = v_bridge_readme, router_kconfig = v_router_kconfig,
       router_sdkconfig = v_router_sdkconfig, router_experimental_sdkconfig = v_router_experimental_sdkconfig, router_descriptors = v_router_descriptors,
       router_usb = v_router_usb, router_readme = v_router_readme, mac_recovery = v_mac_recovery,
       bmx1 = v_bmx1, server = v_server, companion_protocol = v_companion_protocol,
       root_readme = v_root_readme, judge_readme = v_judge_readme, mgmt_c = v_mgmt_c,
       mgmt_h = v_mgmt_h, probe_c = v_probe_c, runtime_c = v_runtime_c,
       guardian_py = v_guardian_py\<rparr>))))))))))))))))))))))"

definition uuid_errors :: "tree \<Rightarrow> string list" where
  "uuid_errors t =
     concat (map (\<lambda>(label, val).
         require (contains_casefold (swift t) val) (''Swift missing '' @ label @ '': '' @ val)
         @ require (contains_casefold (bridge t) val) (''core firmware missing '' @ label @ '': '' @ val)
         @ require (contains_casefold (bridge_readme t) val) (''bridge README missing '' @ label @ '': '' @ val)
         @ require (contains_casefold (bmx1 t) val) (''BMX1 doc missing '' @ label @ '': '' @ val))
       [(''core service UUID'', CORE_SERVICE), (''core RX UUID'', CORE_RX), (''core TX UUID'', CORE_TX)])
     @ concat (map (\<lambda>(label, val). require (contains_casefold (bmx1 t) val) (''BMX1 doc missing '' @ label @ '': '' @ val))
       [(''router RX UUID'', ROUTER_RX), (''router TX UUID'', ROUTER_TX)])
     @ require (contains (''static let rxUUID = '' @ quoted ''7C1B0002-4B4F-4D55-9A01-42584D583101'') (swift t))
         ''Swift active RX UUID is not the demonstrated core keyboard profile''
     @ require (contains (''static let txUUID = '' @ quoted ''7C1B0003-4B4F-4D55-9A01-42584D583101'') (swift t))
         ''Swift active TX UUID is not the demonstrated core keyboard profile''"

definition wifi_closed :: "item list" where
  "wifi_closed =
     [Lit ''var'', spaces1, Lit ''isOpenForWiFi:'', spaces, Lit ''Bool'', spaces, Lit ''{'', spaces, Lit ''false'', spaces, Lit ''}'']"

definition on_appear :: string where
  "on_appear = join [char_of (10 :: nat)]
     [''.onAppear {'', ''            if endpoint.isEmpty { endpoint = lastSuccessfulEndpoint }'', ''            ble.forgetSavedWiFi()'', ''        }'']"

definition iphone_errors :: "tree \<Rightarrow> string list" where
  "iphone_errors t =
     require (contains (''Section('' @ quoted (''Network Bridge '' @ [CHR 0xE2, CHR 0x80, CHR 0x94] @ '' Experimental'') @ '')'') (content_view t))
       ''iPhone Settings no longer labels router controls experimental''
     @ require (contains ''Router-spike profile required. Disabled in this Build Week core keyboard build.'' (content_view t))
         ''iPhone Settings missing the router-profile boundary warning''
     @ require (found [wifi_closed] (content_view t)) ''router mutation controls are not fail-closed in the core iPhone build''
     @ require (contains on_appear (content_view t)) ''core iPhone build no longer clears inactive router credentials at launch''
     @ require (contains ''## Experimental router controls'' (iphone_readme t)) ''iPhone README missing the experimental router boundary''"

definition router_errors :: "tree \<Rightarrow> string list" where
  "router_errors t =
     require (contains ''config BOOTMUX_USB_NETWORK_EXPERIMENTAL'' (router_kconfig t) \<and> found [option_default ''n''] (router_kconfig t))
       ''router-spike USB networking is no longer opt-in/default-off''
     @ require (contains ''CONFIG_TINYUSB_NET_MODE_NONE=y'' (router_sdkconfig t))
         ''normal router-spike build no longer selects TinyUSB network mode None''
     @ require (\<not> contains ''CONFIG_TINYUSB_NET_MODE_NCM=y'' (router_sdkconfig t)) ''normal router-spike build unexpectedly enables NCM''
     @ require (contains ''# CONFIG_BOOTMUX_USB_NETWORK_EXPERIMENTAL is not set'' (router_sdkconfig t))
         ''normal router-spike build unexpectedly enables USB networking''
     @ require (contains ''CONFIG_BOOTMUX_USB_NETWORK_EXPERIMENTAL=y'' (router_experimental_sdkconfig t)
           \<and> contains ''CONFIG_TINYUSB_NET_MODE_NCM=y'' (router_experimental_sdkconfig t))
         ''explicit USB-network experiment profile is incomplete''
     @ require (contains ''#if CONFIG_BOOTMUX_USB_NETWORK_EXPERIMENTAL'' (router_descriptors t)
           \<and> contains ''.iSerialNumber = BOOTMUX_STR_SERIAL'' (router_descriptors t) \<and> contains ''BOOTMUX Keyboard Safe'' (router_descriptors t))
         ''USB descriptors no longer enforce a distinct HID-only safe profile''
     @ require (\<not> contains ''ESP_NETIF_DHCP_SERVER'' (router_usb t))
         ''USB experiment reintroduced a DHCP server that can hijack host routing''
     @ require (contains ''.gw = { .addr = 0 }'' (router_usb t) \<and> contains ''BOOTMUX_USB_NETWORK_NO_DHCP_NO_DEFAULT_ROUTE'' (router_usb t))
         ''USB experiment can again advertise itself as a host default route''
     @ require (contains ''BOOTMUX_USB_NETWORK_SAFE_OFF'' (router_usb t)) ''normal firmware is missing the USB-network-safe marker''"

definition companion_errors :: "tree \<Rightarrow> string list" where
  "companion_errors t =
     require (contains ''10.77.0.1'' (mac_recovery t) \<and> contains ''-setairportpower'' (mac_recovery t)
         \<and> contains ''-setnetworkserviceenabled'' (mac_recovery t))
       ''macOS no-reboot recovery script lost required controls''
     @ concat (map (\<lambda>frame. require (contains frame (bmx1 t)) (''BMX1 doc missing core frame '' @ frame))
         [''BMX1|OPEN'', ''BMX1|TEXT'', ''BMX1|CTRL'', ''BMX1|ACK'', ''BMX1|ERR''])
     @ concat (map (\<lambda>endpoint. require (contains endpoint (server t)) (''Companion server missing endpoint '' @ endpoint))
         [quoted ''/v1/terminal'', quoted ''/v1/mirror'', quoted ''/judge''])
     @ concat (map (\<lambda>expected. require (contains expected (server t)) (''Companion bound drifted: '' @ expected))
         [''defaultCodexOutput      = 128 * 1024'', ''defaultCodexPrompt      = 8 * 1024'', ''defaultCodexTimeout     = 180 * time.Second'',
          ''maxWebSocketMessage     = 16 * 1024'', ''maxJSONMessage          = 12 * 1024'', ''maxInputTextBytes       = 8 * 1024''])
     @ concat (map (\<lambda>documented. require (contains documented (companion_protocol t))
           (''Companion protocol doc missing bound: '' @ documented))
         [''16 KiB'', ''12 KiB'', ''8 KiB'', ''128 KiB'', ''180 seconds''])
     @ require (contains ''127.0.0.1:8765'' (root_readme t)) ''root README live Judge port drifted''
     @ require (contains ''127.0.0.1:8765'' (judge_readme t)) ''Judge README live port drifted''
     @ require (contains ''/v1/terminal'' (companion_protocol t)) ''Companion protocol endpoint missing''"

definition tree_errors :: "tree \<Rightarrow> string list" where
  "tree_errors t =
     uuid_errors t @ iphone_errors t @ router_errors t
     @ r7c_readme_errors (router_readme t)
     @ r7c_safe_default_errors (router_sdkconfig t) (router_descriptors t) (router_usb t)
     @ r7c_experimental_errors (router_usb t) (router_experimental_sdkconfig t) (runtime_c t)
     @ r7c_p1_gate_errors (mgmt_c t) (mgmt_h t) (probe_c t) (runtime_c t)
     @ r7c_p2_guardian_errors (guardian_py t)
     @ companion_errors t"

text \<open>The patterns of outdated text per document: as written, and as patterns.\<close>

definition stale_current_state_patterns :: "(string \<times> (string \<times> item list) list) list" where
  "stale_current_state_patterns =
     [(''docs/NEXT_IMPLEMENTATION_TASK.md'',
        [(''Keep PR #1 Draft, open, and unmerged'', [Lit ''Keep PR #1 Draft, open, and unmerged'']),
         (''branch:'' @ [BACKSLASH] @ ''s*agent/bootstrap-design-roadmap'', [Lit ''branch:'', spaces, Lit ''agent/bootstrap-design-roadmap''])]),
      (''docs/ROADMAP.md'',
        [(''AWAITING_HUMAN_AUTH'', [Lit ''AWAITING_HUMAN_AUTH'']),
         (''AWAITING_PHYSICAL_IPHONE_RETURN'', [Lit ''AWAITING_PHYSICAL_IPHONE_RETURN''])])]"

fun stale_errors :: "(string \<Rightarrow> string result) \<Rightarrow> (string \<times> (string \<times> item list) list) list \<Rightarrow> string list result" where
  "stale_errors read [] = Inr []"
| "stale_errors read ((relative, patterns) # rest) =
     bindE (read relative) (\<lambda>txt. bindE (stale_errors read rest) (\<lambda>errors.
       Inr (concat (map (\<lambda>(shown, pattern). require (\<not> found [pattern] txt)
              (''stale current-state text in '' @ relative @ '': '' @ shown)) patterns) @ errors)))"

text \<open>The exit status with the lines on standard output and on standard error.\<close>

definition contract_main :: "(string \<Rightarrow> string result) \<Rightarrow> (int \<times> string list \<times> string list) result" where
  "contract_main read =
     bindE (read_tree read) (\<lambda>t. bindE (stale_errors read stale_current_state_patterns) (\<lambda>stale.
       let errors = tree_errors t @ stale in
       Inr (if errors \<noteq> [] then (1, [], ''BOOTMUX_CONTRACT_SYNC=FAIL'' # map (\<lambda>e. ''- '' @ e) errors)
            else (0, [''BOOTMUX_CONTRACT_SYNC=PASS''], []))))"

end
