(* ===== verification/Contract_Safety.thy ===== *)
theory Contract_Safety
  imports Contract_Check
begin

text \<open>
  What a passing contract check guarantees of the tree it has read, and where it passes without looking.
\<close>

section \<open>Reading the checks\<close>

lemma require_Nil [simp]: "require c m = [] \<longleftrightarrow> c"
  by (simp add: require_def)

lemma found_after: "re_search_rest ps s = Some r \<Longrightarrow> \<exists>pre t gs. s = pre @ t \<and> (gs, r) \<in> set (matches ps t)"
proof (induction s)
  case (Cons x s)
  show ?case
  proof (cases "matches ps (x # s)")
    case Nil
    with Cons obtain pre t gs where "s = pre @ t" "(gs, r) \<in> set (matches ps t)" by auto
    then show ?thesis by (intro exI [of _ "x # pre"] exI [of _ t] exI [of _ gs]) simp
  next
    case (Cons m ms)
    with \<open>re_search_rest ps (x # s) = Some r\<close> show ?thesis
      by (intro exI [of _ "[]"] exI [of _ "x # s"] exI [of _ "fst m"]) (auto split: prod.splits)
  qed
qed (auto split: list.splits)

lemma found_signature:
  assumes "re_search_rest [Lit l, Boundary] s = Some r"
  shows "\<exists>pre. s = pre @ l @ r"
proof -
  obtain pre t gs where "s = pre @ t" "(gs, r) \<in> set (matches [Lit l, Boundary] t)" using found_after [OF assms] by blast
  then show ?thesis by (auto simp: prefix_def split: if_splits)
qed

text \<open>Text inside the body of a function with the given head.\<close>

definition inside :: "string \<Rightarrow> string \<Rightarrow> string \<Rightarrow> bool" where
  "inside source head b \<longleftrightarrow> (\<exists>pre mid post. source = pre @ head @ mid @ b @ post \<and> CHR ''{'' \<notin> set mid \<and> block b)"

lemma function_body_inside:
  assumes "function_body source [Lit head, Boundary] \<noteq> []"
  shows "inside source head (function_body source [Lit head, Boundary])"
proof -
  obtain mid post where "re_search_rest [Lit head, Boundary] source = Some (mid @ function_body source [Lit head, Boundary] @ post)"
    "CHR ''{'' \<notin> set mid" "block (function_body source [Lit head, Boundary])"
    using function_body_iff [OF assms, of source "[Lit head, Boundary]"] by blast
  with found_signature show ?thesis unfolding inside_def by blast
qed

lemma search_literal: "re_search [Lit p] s = None \<longleftrightarrow> \<not> contains p s"
  by (induction s) (auto simp: re_match_def split: if_splits)

lemma search_gap: "list_all c mid \<Longrightarrow> matches [Lit p, Lazy 0 c, Lit q] (p @ mid @ q @ post) \<noteq> []"
proof -
  assume "list_all c mid"
  then have "length mid \<le> length (takeWhile c (mid @ q @ post))" by (simp add: takeWhile_append2 list_all_iff)
  then have "length mid \<in> set (run_lengths 0 c (mid @ q @ post))" by (simp add: run_lengths_iff)
  moreover have "matches [Lit q] (drop (length mid) (mid @ q @ post)) \<noteq> []" by simp
  ultimately have "\<exists>k\<in>set (rev (run_lengths 0 c (mid @ q @ post))). matches [Lit q] (drop k (mid @ q @ post)) \<noteq> []"
    unfolding set_rev by blast
  then have "matches [Lazy 0 c, Lit q] (mid @ q @ post) \<noteq> []"
    unfolding matches.simps(4) concat_eq_Nil_conv set_map by blast
  then show ?thesis by simp
qed

lemma search_at: "matches ps t \<noteq> [] \<Longrightarrow> re_search ps (pre @ t) \<noteq> None"
proof (induction pre)
  case Nil
  then show ?case by (cases t) (auto simp: re_match_def split: list.splits option.splits)
qed (auto split: option.splits)

section \<open>Positions\<close>

lemma find_from_iff: "find_from i p s = k \<Longrightarrow> k \<noteq> -1 \<Longrightarrow> 0 \<le> i \<Longrightarrow>
  \<exists>u v. s = u @ p @ v \<and> k = i + int (length u)"
proof (induction s arbitrary: i)
  case (Cons c s)
  show ?case
  proof (cases "prefix p (c # s)")
    case True
    then obtain v where "c # s = [] @ p @ v" by (auto simp: prefix_def)
    moreover have "k = i + int (length [])" using True Cons.prems by simp
    ultimately show ?thesis by blast
  next
    case False
    with Cons.prems Cons.IH [of "i + 1"] obtain u v where "s = u @ p @ v" "k = i + 1 + int (length u)" by auto
    then show ?thesis by (intro exI [of _ "c # u"] exI [of _ v]) simp
  qed
qed (auto split: if_splits)

text \<open>Three texts that begin one after the other.\<close>

definition in_order :: "string list \<Rightarrow> string \<Rightarrow> bool" where
  "in_order ps s \<longleftrightarrow> (\<exists>is. length is = length ps \<and> sorted_wrt (<) is \<and> (\<forall>k<length ps. is ! k \<le> length s \<and> prefix (ps ! k) (drop (is ! k) s)))"

lemma find_at: "find p s \<noteq> -1 \<Longrightarrow> 0 \<le> find p s \<and> nat (find p s) \<le> length s \<and> prefix p (drop (nat (find p s)) s)"
  using find_from_iff [of 0 p s "find p s"] unfolding find_def by auto

lemma teardown_ordered:
  assumes "teardown_errors src = []" "function_body src [Lit ''static void deactivate'', Boundary] \<noteq> []"
  shows "in_order TEARDOWN_STEPS (function_body src [Lit ''static void deactivate'', Boundary])"
proof -
  let ?b = "function_body src [Lit ''static void deactivate'', Boundary]"
  have all: "find p ?b \<noteq> -1" if "p \<in> set TEARDOWN_STEPS" for p
    using assms that by (auto simp: teardown_errors_def Let_def list_ex_iff split: if_splits)
  have "find ''proxy_stop'' ?b < find ''napt_disable'' ?b" "find ''napt_disable'' ?b < find ''netif_stop'' ?b"
    using assms by (simp_all add: teardown_errors_def Let_def split: if_splits)
  then show ?thesis
    using find_at [OF all [of "''proxy_stop''"]] find_at [OF all [of "''napt_disable''"]] find_at [OF all [of "''netif_stop''"]]
    unfolding in_order_def
    by (intro exI [of _ "map (\<lambda>p. nat (find p ?b)) TEARDOWN_STEPS"]) (auto simp: TEARDOWN_STEPS_def less_Suc_eq numeral_2_eq_2)
qed

section \<open>What a pass means\<close>

lemma tree_passed:
  assumes "contract_main read = Inr (0, out, err)"
  obtains t where "read_tree read = Inr t" "tree_errors t = []" "out = [''BOOTMUX_CONTRACT_SYNC=PASS'']" "err = []"
  using assms unfolding contract_main_def by (auto simp: bindE_Inr_iff Let_def split: if_splits)

lemma gate_body:
  assumes "gate_conditions_errors src = []"
  shows "\<exists>b. inside src ''bool mg_should_open'' b \<and> list_all (\<lambda>c. contains c b) GATE_CONDITIONS"
proof -
  let ?b = "function_body src [Lit ''bool mg_should_open'', Boundary]"
  have all: "list_all (\<lambda>c. contains c ?b) GATE_CONDITIONS" using assms by (simp add: gate_conditions_errors_def list_all_iff)
  then have "?b \<noteq> []" by (auto simp: GATE_CONDITIONS_def)
  from function_body_inside [OF this] all show ?thesis by blast
qed

lemma guardian_clean:
  assumes "r7c_p2_guardian_errors py = []"
  shows "\<not> contains ''-removenetworkservice'' (lower py)" "\<not> contains ''removepreferredwirelessnetwork'' (lower py)"
proof -
  have "\<not> found_nocase service_deletion py" "\<not> found_nocase wifi_deletion py"
    using assms unfolding r7c_p2_guardian_errors_def append_is_Nil_conv require_Nil by blast+
  then show "\<not> contains ''-removenetworkservice'' (lower py)" "\<not> contains ''removepreferredwirelessnetwork'' (lower py)"
    by (simp_all add: found_nocase_def found_def service_deletion_def wifi_deletion_def search_literal)
qed


section \<open>Where the check does not look\<close>

lemma no_signature: "\<not> contains l s \<Longrightarrow> re_search_rest [Lit l, Boundary] s = None"
  using found_signature [of l s] by (cases "re_search_rest [Lit l, Boundary] s") (auto simp: contains_iff)

text \<open>
  The checks of the teardown order, of the bounded lease and of the closed boot state pass without an error for a
  source in which the function has another name or is missing.
\<close>

lemma renamed_function_unchecked:
  "(\<not> contains ''static void deactivate'' src \<longrightarrow> teardown_errors src = [])
   \<and> (\<not> contains ''void mg_init'' src \<longrightarrow> boot_errors src = [])
   \<and> (\<not> contains ''bool mg_lease_grant'' src \<longrightarrow> lease_errors src hdr = lease_errors [] hdr)"
  by (auto simp: teardown_errors_def boot_errors_def lease_errors_def function_body_def no_signature)

text \<open>
  The check of the option's default is satisfied by any later default n, of this or of another option, even if the option itself
  is on by default.
\<close>

lemma default_of_other_option: "found [option_default ''n''] (pre @ ''config BOOTMUX_USB_NETWORK_EXPERIMENTAL'' @ mid @ ''default n'' @ post)"
  using search_at [OF search_gap [of "\<lambda>_. True" mid "''config BOOTMUX_USB_NETWORK_EXPERIMENTAL''" "''default n''" post], of pre]
  by (simp add: found_def option_default_def list_all_iff)

end
