(* ===== verification/Contract_Witnesses.thy ===== *)
theory Contract_Witnesses
  imports Contract_Safety
begin

text \<open>
  A small tree that passes the contract check, variants of it that the check must reject, and the properties of the check applied to them.
\<close>

section \<open>A tree that passes\<close>

definition good_gate :: string where
  "good_gate =
     ''bool mg_should_open(int64_t now_ms) { return wifi_has_ip && target_reachable && allowlist_loaded && mg_lease_active(now_ms); } ''
     @ ''bool mg_lease_grant(int ttl) { if (ttl > MG_LEASE_TTL_MAX) { return false; } return true; } ''
     @ ''static void deactivate(void) { proxy_stop(); napt_disable(); netif_stop(); } void mg_init(void) { path_open = false; }''"

definition good_router :: string where
  "good_router =
     ''.gw = { .addr = 0 } BOOTMUX_USB_NETWORK_NO_DHCP_NO_DEFAULT_ROUTE BOOTMUX_USB_NETIF_DOWN_AT_BOOT_EXPERIMENTAL BOOTMUX_USB_NETWORK_SAFE_OFF''"

definition good_sdkconfig :: string where
  "good_sdkconfig = ''CONFIG_TINYUSB_NET_MODE_NONE=y # CONFIG_BOOTMUX_USB_NETWORK_EXPERIMENTAL is not set''"

definition good_probe :: string where "good_probe = ''{ TP_IPV4(192, 168, 11, 1), TP_IPV4(192, 168, 77, 1) }''"

definition good_runtime :: string where
  "good_runtime =
     ''static void wifi_task(void) { WIFI_EVENT_STA_DISCONNECTED IP_EVENT_STA_GOT_IP { reconcile_management_path(); } } ''
     @ ''NET_RELEASE WIFI_CLEAR mg_lease_release''"

definition good_guardian :: string where
  "good_guardian =
     ''def prove_identity ambiguous audit-only os.path.islink 0o700 st_uid schema_version redact_baseline <redacted> cooldown''"

definition good_readme :: string where
  "good_readme = join [char_of (10 :: nat)]
     [''**USB'', ''HID-only** must'', ''  not enumerate a USB Ethernet interface, does *not* run a DHCP server, no'', ''configured gateway, does not provide DNS'']"

definition core_uuids :: string where "core_uuids = CORE_SERVICE @ CORE_RX @ CORE_TX"

definition good_swift :: string where
  "good_swift = '' static let rxUUID = '' @ quoted ''7C1B0002-4B4F-4D55-9A01-42584D583101''
     @ '' static let txUUID = '' @ quoted ''7C1B0003-4B4F-4D55-9A01-42584D583101''"

definition good_tree :: tree where
  "good_tree =
     \<lparr>swift = core_uuids @ good_swift,
      content_view = ''Section('' @ quoted (''Network Bridge '' @ [CHR 0xE2, CHR 0x80, CHR 0x94] @ '' Experimental'')
         @ '') Router-spike profile required. Disabled in this Build Week core keyboard build. var isOpenForWiFi: Bool { false } '' @ on_appear,
      iphone_readme = ''## Experimental router controls'',
      bridge = core_uuids,
      bridge_readme = core_uuids,
      router_kconfig = ''config BOOTMUX_USB_NETWORK_EXPERIMENTAL bool default n'',
      router_sdkconfig = good_sdkconfig,
      router_experimental_sdkconfig = ''CONFIG_BOOTMUX_USB_NETWORK_EXPERIMENTAL=y CONFIG_TINYUSB_NET_MODE_NCM=y'',
      router_descriptors = ''#if CONFIG_BOOTMUX_USB_NETWORK_EXPERIMENTAL .iSerialNumber = BOOTMUX_STR_SERIAL BOOTMUX Keyboard Safe BOOTMUX-HID-SAFE'',
      router_usb = good_router,
      router_readme = good_readme,
      mac_recovery = ''10.77.0.1 -setairportpower -setnetworkserviceenabled'',
      bmx1 = core_uuids @ ROUTER_RX @ ROUTER_TX @ ''BMX1|OPEN BMX1|TEXT BMX1|CTRL BMX1|ACK BMX1|ERR'',
      server = quoted ''/v1/terminal'' @ quoted ''/v1/mirror'' @ quoted ''/judge''
         @ ''defaultCodexOutput      = 128 * 1024 defaultCodexPrompt      = 8 * 1024 defaultCodexTimeout     = 180 * time.Second ''
         @ ''maxWebSocketMessage     = 16 * 1024 maxJSONMessage          = 12 * 1024 maxInputTextBytes       = 8 * 1024'',
      companion_protocol = ''/v1/terminal 16 KiB 12 KiB 8 KiB 128 KiB 180 seconds'',
      root_readme = ''127.0.0.1:8765'',
      judge_readme = ''127.0.0.1:8765'',
      mgmt_c = good_gate,
      mgmt_h = ''#define MG_LEASE_TTL_MIN 10 #define MG_LEASE_TTL_MAX 60'',
      probe_c = good_probe,
      runtime_c = good_runtime,
      guardian_py = good_guardian\<rparr>"

definition good_read :: "string \<Rightarrow> string result" where
  "good_read path = Inr (case map_of
     [(''iphone/BOOTMUX/BLEProtocol.swift'', swift good_tree),
      (''iphone/BOOTMUX/ContentView.swift'', content_view good_tree),
      (''iphone/README.md'', iphone_readme good_tree),
      (''firmware/esp32s3-bridge/src/main.cpp'', bridge good_tree),
      (''firmware/esp32s3-bridge/README.md'', bridge_readme good_tree),
      (''firmware/esp32s3-router-spike/main/Kconfig.projbuild'', router_kconfig good_tree),
      (''firmware/esp32s3-router-spike/sdkconfig.defaults'', router_sdkconfig good_tree),
      (''firmware/esp32s3-router-spike/sdkconfig.usb-network.defaults'', router_experimental_sdkconfig good_tree),
      (''firmware/esp32s3-router-spike/main/usb_descriptors.c'', router_descriptors good_tree),
      (''firmware/esp32s3-router-spike/main/usb_router.c'', router_usb good_tree),
      (''firmware/esp32s3-router-spike/README.md'', router_readme good_tree),
      (''scripts/macos/recover-bootmux-usb-network.sh'', mac_recovery good_tree),
      (''docs/protocol/BMX1.md'', bmx1 good_tree),
      (''companion/server.go'', server good_tree),
      (''docs/COMPANION_PROTOCOL_V1.md'', companion_protocol good_tree),
      (''README.md'', root_readme good_tree),
      (''judge/README.md'', judge_readme good_tree),
      (''firmware/esp32s3-router-spike/main/management_gate.c'', mgmt_c good_tree),
      (''firmware/esp32s3-router-spike/main/management_gate.h'', mgmt_h good_tree),
      (''firmware/esp32s3-router-spike/main/target_probe.c'', probe_c good_tree),
      (''firmware/esp32s3-router-spike/main/ble_wifi_runtime.c'', runtime_c good_tree),
      (''scripts/macos/bootmux-network-guardian.py'', guardian_py good_tree)] path of Some s \<Rightarrow> s | None \<Rightarrow> [])"

lemma read_good: "read_tree good_read = Inr good_tree"
  unfolding read_tree_def good_read_def by simp

lemma good_fields:
  "swift good_tree = core_uuids @ good_swift" "bridge good_tree = core_uuids" "bridge_readme good_tree = core_uuids"
  "bmx1 good_tree = core_uuids @ ROUTER_RX @ ROUTER_TX @ ''BMX1|OPEN BMX1|TEXT BMX1|CTRL BMX1|ACK BMX1|ERR''"
  "router_readme good_tree = good_readme"
  by (simp_all only: good_tree_def tree.simps)

lemma folded_inside: "contains_casefold (u @ val @ v) val"
  unfolding contains_casefold_def casefold_def map_append concat_append contains_iff by metis

lemma good_uuids: "uuid_errors good_tree = []"
proof -
  have core: "contains_casefold (core_uuids @ v) CORE_SERVICE" "contains_casefold (core_uuids @ v) CORE_RX"
    "contains_casefold (core_uuids @ v) CORE_TX" for v
    using folded_inside [of "[]" CORE_SERVICE] folded_inside [of CORE_SERVICE CORE_RX] folded_inside [of "CORE_SERVICE @ CORE_RX" CORE_TX]
    by (simp_all add: core_uuids_def)
  have "contains (''static let rxUUID = '' @ quoted ''7C1B0002-4B4F-4D55-9A01-42584D583101'') good_swift"
    "contains (''static let txUUID = '' @ quoted ''7C1B0003-4B4F-4D55-9A01-42584D583101'') good_swift"
    by code_simp+
  from this [THEN contains_appendI, of core_uuids "[]"]
  have swift: "contains (''static let rxUUID = '' @ quoted ''7C1B0002-4B4F-4D55-9A01-42584D583101'') (core_uuids @ good_swift)"
    "contains (''static let txUUID = '' @ quoted ''7C1B0003-4B4F-4D55-9A01-42584D583101'') (core_uuids @ good_swift)"
    by simp_all
  have router: "contains_casefold (core_uuids @ ROUTER_RX @ v) ROUTER_RX" "contains_casefold (core_uuids @ ROUTER_RX @ ROUTER_TX @ v) ROUTER_TX" for v
    using folded_inside [of core_uuids] folded_inside [of "core_uuids @ ROUTER_RX"] by simp_all
  show ?thesis
    unfolding uuid_errors_def good_fields list.map concat.simps prod.case append_is_Nil_conv require_Nil
    using core core [of "[]", unfolded append_Nil2] swift router by blast
qed

lemma good_iphone: "iphone_errors good_tree = []" by code_simp
lemma good_config: "router_errors good_tree = []" by code_simp

definition good_words :: string where
  "good_words =
     ''USB HID-only must not enumerate a USB Ethernet interface, does not run a DHCP server, no configured gateway, does not provide DNS''"

lemma good_normal: "normalize_prose good_readme = good_words" by code_simp
lemma phrases_normal: "list_all (\<lambda>p. contains (normalize_prose p) good_words) README_PHRASES" by code_simp

lemma good_prose: "r7c_readme_errors (router_readme good_tree) = []"
  using phrases_normal by (simp add: good_fields r7c_readme_errors_def prose_contains_def good_normal list_all_iff)

lemma good_default: "r7c_safe_default_errors (router_sdkconfig good_tree) (router_descriptors good_tree) (router_usb good_tree) = []" by code_simp
lemma good_experimental:
  "r7c_experimental_errors (router_usb good_tree) (router_experimental_sdkconfig good_tree) (runtime_c good_tree) = []" by code_simp
lemma good_p2: "r7c_p2_guardian_errors (guardian_py good_tree) = []" by code_simp
lemma good_companion: "companion_errors good_tree = []" by code_simp

lemma good_gate_passes: "r7c_p1_gate_errors (mgmt_c good_tree) (mgmt_h good_tree) (probe_c good_tree) (runtime_c good_tree) = []"
  by code_simp

lemmas good_groups = good_uuids good_iphone good_config good_prose good_default good_experimental good_gate_passes good_p2 good_companion

lemma good_stale: "stale_errors good_read stale_current_state_patterns = Inr []"
proof -
  have "good_read ''docs/NEXT_IMPLEMENTATION_TASK.md'' = Inr []" "good_read ''docs/ROADMAP.md'' = Inr []" by (simp_all add: good_read_def)
  then show ?thesis by (simp add: stale_current_state_patterns_def found_def re_match_def run_lengths_def require_def)
qed

lemma good_passes: "contract_main good_read = Inr (0, [''BOOTMUX_CONTRACT_SYNC=PASS''], [])"
  by (simp add: contract_main_def read_good good_stale tree_errors_def good_groups)

section \<open>The properties on it\<close>


lemma good_deactivate: "function_body good_gate [Lit ''static void deactivate'', Boundary] = ''{ proxy_stop(); napt_disable(); netif_stop(); }''"
  by code_simp

lemma function_body_iff_witness:
  "\<exists>mid post. re_search_rest [Lit ''static void deactivate'', Boundary] good_gate = Some (mid @ ''{ proxy_stop(); napt_disable(); netif_stop(); }'' @ post)
     \<and> CHR ''{'' \<notin> set mid"
proof -
  have "''{ proxy_stop(); napt_disable(); netif_stop(); }'' \<noteq> []" by simp
  from function_body_iff [OF this, of good_gate "[Lit ''static void deactivate'', Boundary]"] good_deactivate show ?thesis by blast
qed

lemma renamed_function_unchecked_witness:
  "teardown_errors ''static void deactivate_all(void) { netif_stop(); }'' = [] \<and> boot_errors ''static void deactivate_all(void) { netif_stop(); }'' = []"
proof -
  have "\<not> contains ''void mg_init'' ''static void deactivate_all(void) { netif_stop(); }''" by code_simp
  moreover have "teardown_errors ''static void deactivate_all(void) { netif_stop(); }'' = []" by code_simp
  ultimately show ?thesis using renamed_function_unchecked [of "''static void deactivate_all(void) { netif_stop(); }''"] by blast
qed

end
