(* ===== verification/Relay.thy ===== *)
theory Relay
  imports Action IPv4
begin

text \<open>
  The two relays of the demonstration network: \<^verbatim>\<open>scripts/bootmux-vm-relay.py\<close> and \<^verbatim>\<open>scripts/bootmux-proxy-forwarder.py\<close>. Both
  accept one client at a time, connect to a fixed target and pass data in both directions until one side closes or nothing
  happens for a while; the forwarder admits only some clients. The sockets are a parameter; the state keeps, beside what
  the programs print, the data that went through the current connection. A run is followed for a number of rounds.
\<close>

section \<open>Sockets\<close>

datatype side = Client | Target

fun peer :: "side \<Rightarrow> side" where
  "peer Client = Target"
| "peer Target = Client"

text \<open>
  Each operation may raise: \<^verbatim>\<open>selector.select\<close> gives the sockets that can be read, none after the idle time; \<^verbatim>\<open>accept\<close> gives the
  address of a client, or nothing after a time-out.
\<close>

record 'w net =
  net_select :: "'w \<Rightarrow> side list result \<times> 'w"
  net_recv :: "side \<Rightarrow> nat \<Rightarrow> 'w \<Rightarrow> string result \<times> 'w"
  net_send :: "side \<Rightarrow> string \<Rightarrow> 'w \<Rightarrow> unit result \<times> 'w"
  net_accept :: "'w \<Rightarrow> string option result \<times> 'w"
  net_connect :: "'w \<Rightarrow> unit result \<times> 'w"

text \<open>The received and the sent data are those of the current connection; \<open>sv_served\<close> lists the clients for which the target was connected.\<close>

record 'w server =
  sv_world :: 'w
  sv_got :: "side \<Rightarrow> string"
  sv_put :: "side \<Rightarrow> string"
  sv_id :: nat
  sv_out :: "string list"
  sv_served :: "string list"

definition on_net :: "('w \<Rightarrow> 'a result \<times> 'w) \<Rightarrow> ('w server, 'a) act" where
  "on_net f r = (case f (sv_world r) of (x, w) \<Rightarrow> (x, r\<lparr>sv_world := w\<rparr>))"

definition BUFFER :: nat where "BUFFER = 4096"

definition recv :: "'w net \<Rightarrow> side \<Rightarrow> ('w server, string) act" where
  "recv e d = bindA (on_net (net_recv e d BUFFER)) (\<lambda>data.
     bindA (modify (\<lambda>r. r\<lparr>sv_got := (sv_got r)(d := sv_got r d @ data)\<rparr>)) (\<lambda>_. ret data))"

definition sendall :: "'w net \<Rightarrow> side \<Rightarrow> string \<Rightarrow> ('w server, unit) act" where
  "sendall e d data = bindA (on_net (net_send e d data)) (\<lambda>_.
     modify (\<lambda>r. r\<lparr>sv_put := (sv_put r)(d := sv_put r d @ data)\<rparr>))"

section \<open>The relay\<close>

text \<open>The events of one round; \<^const>\<open>True\<close> if a side has closed. The whole loop: \<^const>\<open>True\<close> if it has ended within \<open>n\<close> rounds.\<close>

fun relay_events :: "'w net \<Rightarrow> side list \<Rightarrow> ('w server, bool) act" where
  "relay_events e [] = ret False"
| "relay_events e (d # ds) =
     bindA (recv e d) (\<lambda>data. if data = [] then ret True else bindA (sendall e (peer d) data) (\<lambda>_. relay_events e ds))"

fun relay :: "'w net \<Rightarrow> nat \<Rightarrow> ('w server, bool) act" where
  "relay e 0 = ret False"
| "relay e (Suc n) =
     bindA (on_net (net_select e)) (\<lambda>events.
       if events = [] then ret True
       else bindA (relay_events e events) (\<lambda>closed. if closed then ret True else relay e n))"

section \<open>The servers\<close>

definition say :: "string \<Rightarrow> ('w server, unit) act" where "say line = modify (\<lambda>r. r\<lparr>sv_out := sv_out r @ [line]\<rparr>)"

definition id_line :: "string \<Rightarrow> nat \<Rightarrow> string" where "id_line what i = what @ '' id='' @ nat_str i"

definition close_line :: "string \<Rightarrow> nat \<Rightarrow> string \<Rightarrow> string" where "close_line what i reason = id_line what i @ '' reason='' @ reason"

definition next_id :: "('w server, nat) act" where
  "next_id r = (Inr (Suc (sv_id r)), r\<lparr>sv_id := Suc (sv_id r), sv_got := (\<lambda>_. []), sv_put := (\<lambda>_. [])\<rparr>)"

text \<open>Connecting to the target: \<^const>\<open>False\<close> after an \<^verbatim>\<open>OSError\<close>; any other exception escapes.\<close>

definition connect :: "'w net \<Rightarrow> string \<Rightarrow> ('w server, bool) act" where
  "connect e client = bindA (tryA (on_net (net_connect e))) (\<lambda>res.
     case res of
       Inr _ \<Rightarrow> bindA (modify (\<lambda>r. r\<lparr>sv_served := sv_served r @ [client]\<rparr>)) (\<lambda>_. ret True)
     | Inl x \<Rightarrow> (case x of OSError _ \<Rightarrow> ret False | _ \<Rightarrow> raiseA x))"

text \<open>\<^verbatim>\<open>try: relay(client, target) finally: print(...)\<close>; nothing is printed while the relay still runs.\<close>

definition relay_then_close :: "'w net \<Rightarrow> nat \<Rightarrow> string \<Rightarrow> ('w server, bool) act" where
  "relay_then_close e m line = bindA (tryA (relay e m)) (\<lambda>res.
     case res of
       Inr ended \<Rightarrow> if ended then bindA (say line) (\<lambda>_. ret True) else ret False
     | Inl x \<Rightarrow> bindA (say line) (\<lambda>_. raiseA x))"

text \<open>The body of the accept loop of the VM relay for one client; \<^const>\<open>False\<close> if its relay still runs after \<open>m\<close> rounds.\<close>

definition vm_connection :: "'w net \<Rightarrow> nat \<Rightarrow> string \<Rightarrow> ('w server, bool) act" where
  "vm_connection e m client = bindA next_id (\<lambda>i.
     bindA (say (id_line ''VM_RELAY_ACCEPT'' i)) (\<lambda>_.
     bindA (say (id_line ''VM_RELAY_UPSTREAM_CONNECT_START'' i)) (\<lambda>_.
     bindA (connect e client) (\<lambda>ok.
     if \<not> ok then bindA (say (close_line ''VM_RELAY_CLOSE'' i ''upstream_connect_failed'')) (\<lambda>_. ret True)
     else bindA (say (id_line ''VM_RELAY_UPSTREAM_CONNECTED'' i)) (\<lambda>_.
       relay_then_close e m (close_line ''VM_RELAY_CLOSE'' i ''relay_done''))))))"

text \<open>The accept loop for at most \<open>n\<close> rounds.\<close>

fun serve :: "(string \<Rightarrow> ('w server, bool) act) \<Rightarrow> 'w net \<Rightarrow> nat \<Rightarrow> ('w server, unit) act" where
  "serve connection e 0 = ret ()"
| "serve connection e (Suc n) =
     bindA (on_net (net_accept e)) (\<lambda>accepted.
       case accepted of
         None \<Rightarrow> serve connection e n
       | Some client \<Rightarrow> bindA (connection client) (\<lambda>ended. if ended then serve connection e n else ret ()))"

definition vm_main :: "'w net \<Rightarrow> nat \<Rightarrow> nat \<Rightarrow> ('w server, unit) act" where
  "vm_main e m n = bindA (say ''VM_RELAY_ACCEPT_READY'') (\<lambda>_. serve (vm_connection e m) e n)"

section \<open>The forwarder\<close>

record forward_args =
  allow_client :: "string list"
  allowed_networks :: "ip_network list"

definition in_any :: "string \<Rightarrow> ip_network list \<Rightarrow> bool" where
  "in_any address nets = list_ex (\<lambda>n. case ip_address4 address of Some a \<Rightarrow> in_network a n | None \<Rightarrow> False) nets"

definition source_allowed :: "forward_args \<Rightarrow> string \<Rightarrow> bool" where
  "source_allowed args address =
     (if allow_client args \<noteq> [] \<and> address \<notin> set (allow_client args)
      then \<not> \<not> in_any address (allowed_networks args)
      else \<not> (allowed_networks args \<noteq> [] \<and> \<not> in_any address (allowed_networks args)))"

definition forward_connection :: "forward_args \<Rightarrow> 'w net \<Rightarrow> nat \<Rightarrow> string \<Rightarrow> ('w server, bool) act" where
  "forward_connection args e m client = bindA next_id (\<lambda>i.
     bindA (say (id_line ''MAC_FORWARDER_ACCEPT'' i)) (\<lambda>_.
     if \<not> source_allowed args client
     then bindA (say (close_line ''MAC_FORWARDER_CLOSE'' i ''source_rejected'')) (\<lambda>_. ret True)
     else
       bindA (say (id_line ''MAC_FORWARDER_SOURCE_ALLOWED'' i)) (\<lambda>_.
       bindA (say (id_line ''MAC_FORWARDER_TARGET_CONNECT_START'' i)) (\<lambda>_.
       bindA (connect e client) (\<lambda>ok.
       if \<not> ok then bindA (say (close_line ''MAC_FORWARDER_CLOSE'' i ''target_connect_failed'')) (\<lambda>_. ret True)
       else bindA (say (id_line ''MAC_FORWARDER_TARGET_CONNECTED'' i)) (\<lambda>_.
         relay_then_close e m (close_line ''MAC_FORWARDER_CLOSE'' i ''relay_done'')))))))"

definition forward_main :: "forward_args \<Rightarrow> 'w net \<Rightarrow> nat \<Rightarrow> nat \<Rightarrow> ('w server, unit) act" where
  "forward_main args e m n = bindA (say ''MAC_FORWARDER_ACCEPT_READY'') (\<lambda>_. serve (forward_connection args e m) e n)"

section \<open>Transparency\<close>

text \<open>All data was passed on, or the part that was is a prefix.\<close>

definition balanced :: "'w server \<Rightarrow> bool" where "balanced r \<longleftrightarrow> (\<forall>d. sv_put r (peer d) = sv_got r d)"

definition transparent :: "'w server \<Rightarrow> bool" where "transparent r \<longleftrightarrow> (\<forall>d. prefix (sv_put r (peer d)) (sv_got r d))"

lemma peer_simps [simp]: "peer (peer d) = d" "peer d = peer d' \<longleftrightarrow> d = d'" "peer d \<noteq> d" "d \<noteq> peer d"
  by (cases d; cases d'; simp)+

lemma balanced_transparent: "balanced r \<Longrightarrow> transparent r"
  by (simp add: balanced_def transparent_def)

text \<open>An action that passes data on: balanced before, transparent after, and balanced again if it returns.\<close>

definition passes :: "('w server, 'a) act \<Rightarrow> bool" where
  "passes m \<longleftrightarrow> (\<forall>r x r'. balanced r \<longrightarrow> m r = (x, r') \<longrightarrow> transparent r' \<and> (\<forall>v. x = Inr v \<longrightarrow> balanced r'))"

lemma passes_ret: "passes (ret v)"
  by (auto simp: passes_def ret_def balanced_transparent)

lemma passes_bind: "passes m \<Longrightarrow> (\<And>v. passes (f v)) \<Longrightarrow> passes (bindA m f)"
proof -
  assume m: "passes m" and f: "\<And>v. passes (f v)"
  show "passes (bindA m f)"
    unfolding passes_def
  proof (intro allI impI)
    fix r x r' assume r: "balanced r" and run: "bindA m f r = (x, r')"
    obtain y q where q: "m r = (y, q)" by fastforce
    show "transparent r' \<and> (\<forall>v. x = Inr v \<longrightarrow> balanced r')"
    proof (cases y)
      case (Inl z)
      with q run m r show ?thesis unfolding passes_def bindA_def by auto
    next
      case (Inr v)
      with q m r have "balanced q" unfolding passes_def by blast
      with q run Inr f [of v] show ?thesis unfolding passes_def bindA_def by auto
    qed
  qed
qed

lemma passes_net: "passes (on_net f)"
  by (auto simp: passes_def on_net_def balanced_def transparent_def split: prod.splits)

lemma passes_say: "passes (say l)"
  by (auto simp: passes_def say_def modify_def balanced_def transparent_def)

lemma balanced_chunk: "balanced r \<Longrightarrow>
  balanced (r\<lparr>sv_got := (sv_got r)(d := sv_got r d @ data), sv_put := (sv_put r)(peer d := sv_put r (peer d) @ data)\<rparr>)"
  "balanced r \<Longrightarrow> transparent (r\<lparr>sv_got := (sv_got r)(d := sv_got r d @ data)\<rparr>)"
  by (auto simp: balanced_def transparent_def)

lemma passes_chunk:
  "passes (bindA (recv e d) (\<lambda>data. if data = [] then ret True else bindA (sendall e (peer d) data) (\<lambda>_. ret False)))"
  unfolding passes_def
proof (intro allI impI)
  fix r :: "'a server" and x r'
  assume r: "balanced r"
    and run: "bindA (recv e d) (\<lambda>data. if data = [] then ret True else bindA (sendall e (peer d) data) (\<lambda>_. ret False)) r = (x, r')"
  obtain y w where y: "net_recv e d BUFFER (sv_world r) = (y, w)" by fastforce
  show "transparent r' \<and> (\<forall>v. x = Inr v \<longrightarrow> balanced r')"
  proof (cases y)
    case (Inl z)
    with r run y show ?thesis
      by (auto simp: bindA_def recv_def on_net_def balanced_def transparent_def)
  next
    case (Inr data)
    obtain z w' where z: "net_send e (peer d) data w = (z, w')" by fastforce
    have w: "balanced q \<Longrightarrow> balanced (q\<lparr>sv_world := v\<rparr>)" "transparent q \<Longrightarrow> transparent (q\<lparr>sv_world := v\<rparr>)" for q :: "'a server" and v
      by (simp_all add: balanced_def transparent_def)
    from balanced_chunk [OF r, of d data] Inr r run y z show ?thesis
      by (cases "data = []"; cases z)
         (auto simp: bindA_def recv_def sendall_def on_net_def modify_def ret_def balanced_def transparent_def)
  qed
qed

lemma relay_events_chunk:
  "relay_events e (d # ds) =
     bindA (bindA (recv e d) (\<lambda>data. if data = [] then ret True else bindA (sendall e (peer d) data) (\<lambda>_. ret False)))
       (\<lambda>closed. if closed then ret True else relay_events e ds)"
  by (intro ext) (auto simp: bindA_def ret_def split: prod.splits sum.splits)

lemma passes_events: "passes (relay_events e ds)"
proof (induction ds)
  case (Cons d ds)
  then show ?case unfolding relay_events_chunk by (intro passes_bind passes_chunk) (auto intro: passes_ret)
qed (simp add: passes_ret)

lemma passes_relay: "passes (relay e n)"
  by (induction n) (auto intro!: passes_bind passes_ret passes_net passes_events)

text \<open>
  C30. The relay is transparent: what it has sent to one side is always an initial part of what it has received from the other, in the same
  order, and all of it unless a socket raised an exception.
\<close>

theorem relay_transparent:
  assumes "relay e n (r\<lparr>sv_got := (\<lambda>_. []), sv_put := (\<lambda>_. [])\<rparr>) = (x, r')"
  shows "prefix (sv_put r' Target) (sv_got r' Client) \<and> prefix (sv_put r' Client) (sv_got r' Target)
    \<and> (\<forall>ended. x = Inr ended \<longrightarrow> sv_put r' Target = sv_got r' Client \<and> sv_put r' Client = sv_got r' Target)"
proof -
  have "balanced (r\<lparr>sv_got := (\<lambda>_. []), sv_put := (\<lambda>_. [])\<rparr>)" by (simp add: balanced_def)
  with assms passes_relay have "transparent r' \<and> (\<forall>v. x = Inr v \<longrightarrow> balanced r')" unfolding passes_def by blast
  moreover have "peer Client = Target" "peer Target = Client" by simp_all
  ultimately show ?thesis unfolding transparent_def balanced_def by metis
qed

section \<open>Who is admitted\<close>

text \<open>
  C31. With networks given, only they decide; the list of single clients counts only without networks, and without either every
  client is admitted.
\<close>

theorem source_allowed_iff:
  "source_allowed args address \<longleftrightarrow>
     (if allowed_networks args = [] then allow_client args = [] \<or> address \<in> set (allow_client args)
      else in_any address (allowed_networks args))"
  by (auto simp: source_allowed_def in_any_def)

text \<open>The clients for which the target was connected between two states.\<close>

definition admits :: "(string \<Rightarrow> bool) \<Rightarrow> 'w server \<Rightarrow> 'w server \<Rightarrow> bool" where
  "admits ok r r' \<longleftrightarrow> (\<exists>cs. sv_served r' = sv_served r @ cs \<and> list_all ok cs)"

interpretation admitted: action_rel "admits ok" for ok
  by unfold_locales (auto simp: admits_def intro: exI [of _ "[]"])

lemma admits_same: "(\<And>r. sv_served (snd (m r)) = sv_served r) \<Longrightarrow> keeps (admits ok) m"
  unfolding keeps_def admits_def by (metis append_Nil2 list.pred_inject(1) snd_conv)

lemma admits_basic [keeps_rules]:
  "keeps (admits ok) (on_net f)" "keeps (admits ok) (say l)" "keeps (admits ok) next_id" "keeps (admits ok) (recv e d)" "keeps (admits ok) (sendall e d s)"
  by (auto intro!: admits_same simp: on_net_def say_def next_id_def recv_def sendall_def bindA_def modify_def ret_def split: prod.splits sum.splits)

lemma admits_relay [keeps_rules]: "keeps (admits ok) (relay e n)"
proof -
  have "keeps (admits ok) (relay_events e ds)" for ds by (induction ds) (auto intro!: keeps_rules)
  then show ?thesis by (induction n) (auto intro!: keeps_rules)
qed

lemma admits_connect: "ok client \<Longrightarrow> keeps (admits ok) (connect e client)"
  unfolding connect_def by (auto intro!: keeps_rules admitted.modify simp: admits_def split: sum.split exn.split)

lemma admits_close [keeps_rules]: "keeps (admits ok) (relay_then_close e m l)"
  unfolding relay_then_close_def by (auto intro!: keeps_rules split: sum.split)

lemma admits_forward: "keeps (admits (source_allowed args)) (forward_connection args e m client)"
  unfolding forward_connection_def by (intro keeps_rules) (auto intro: admits_connect)

lemma admits_serve: "(\<And>c. keeps (admits ok) (connection c)) \<Longrightarrow> keeps (admits ok) (serve connection e n)"
  by (induction n) (auto intro!: keeps_rules split: option.split)

text \<open>The forwarder connects to its target only for admitted clients.\<close>

lemma forwarder_admits:
  assumes "forward_main args e m n r = (x, r')" "sv_served r = []"
  shows "list_all (source_allowed args) (sv_served r')"
proof -
  have "keeps (admits (source_allowed args)) (forward_main args e m n)"
    unfolding forward_main_def by (intro keeps_rules admits_serve admits_forward)
  from keepsD [OF this assms(1)] assms(2) show ?thesis by (auto simp: admits_def)
qed

section \<open>One connection at a time\<close>

text \<open>What a connection prints: when it is over, and when the server has stopped in it.\<close>

definition vm_closed :: "nat \<Rightarrow> string list \<Rightarrow> bool" where
  "vm_closed i ls \<longleftrightarrow>
     ls = [id_line ''VM_RELAY_ACCEPT'' i, id_line ''VM_RELAY_UPSTREAM_CONNECT_START'' i, close_line ''VM_RELAY_CLOSE'' i ''upstream_connect_failed'']
     \<or> ls = [id_line ''VM_RELAY_ACCEPT'' i, id_line ''VM_RELAY_UPSTREAM_CONNECT_START'' i, id_line ''VM_RELAY_UPSTREAM_CONNECTED'' i,
             close_line ''VM_RELAY_CLOSE'' i ''relay_done'']"

definition vm_open :: "nat \<Rightarrow> string list \<Rightarrow> bool" where
  "vm_open i ls \<longleftrightarrow>
     ls = [id_line ''VM_RELAY_ACCEPT'' i, id_line ''VM_RELAY_UPSTREAM_CONNECT_START'' i]
     \<or> ls = [id_line ''VM_RELAY_ACCEPT'' i, id_line ''VM_RELAY_UPSTREAM_CONNECT_START'' i, id_line ''VM_RELAY_UPSTREAM_CONNECTED'' i]"

fun vm_log :: "nat \<Rightarrow> string list list \<Rightarrow> bool" where
  "vm_log i [] = True"
| "vm_log i (b # bs) = (vm_closed (Suc i) b \<and> vm_log (Suc i) bs)"

text \<open>The relay prints nothing.\<close>

definition quiet :: "'w server \<Rightarrow> 'w server \<Rightarrow> bool" where "quiet r r' \<longleftrightarrow> sv_out r' = sv_out r \<and> sv_id r' = sv_id r"

interpretation silent: action_rel quiet
  by unfold_locales (auto simp: quiet_def)

lemma quiet_basic [keeps_rules]: "keeps quiet (on_net f)" "keeps quiet (recv e d)" "keeps quiet (sendall e d s)"
  by (auto simp: keeps_def quiet_def on_net_def recv_def sendall_def bindA_def modify_def ret_def split: prod.splits sum.splits)

lemma quiet_relay: "keeps quiet (relay e n)"
proof -
  have "keeps quiet (relay_events e ds)" for ds by (induction ds) (auto intro!: keeps_rules)
  then show ?thesis by (induction n) (auto intro!: keeps_rules)
qed

lemma quiet_connect: "keeps quiet (connect e c)"
  unfolding connect_def by (auto intro!: keeps_rules silent.modify simp: quiet_def split: sum.split exn.split)

lemma close_out:
  assumes "relay_then_close e m line r = (x, r')"
  shows "sv_id r' = sv_id r \<and> (if x = Inr False then sv_out r' = sv_out r else sv_out r' = sv_out r @ [line])"
proof -
  obtain y q where y: "relay e m r = (y, q)" by fastforce
  with keepsD [OF quiet_relay] have "quiet r q" by blast
  with assms y show ?thesis
    by (cases y) (auto simp: relay_then_close_def bindA_def tryA_def say_def modify_def ret_def raiseA_def quiet_def split: if_splits)
qed

lemma vm_connection_out:
  assumes "vm_connection e m c r = (x, r')"
  shows "sv_id r' = Suc (sv_id r) \<and> (\<exists>ls. sv_out r' = sv_out r @ ls \<and> (x = Inr True \<longrightarrow> vm_closed (Suc (sv_id r)) ls)
    \<and> (vm_closed (Suc (sv_id r)) ls \<or> vm_open (Suc (sv_id r)) ls))"
proof -
  let ?i = "Suc (sv_id r)"
  let ?start = "[id_line ''VM_RELAY_ACCEPT'' ?i, id_line ''VM_RELAY_UPSTREAM_CONNECT_START'' ?i]"
  define q where "q = r\<lparr>sv_id := ?i, sv_got := (\<lambda>_. []), sv_put := (\<lambda>_. []), sv_out := sv_out r @ ?start\<rparr>"
  obtain y p where y: "connect e c q = (y, p)" by fastforce
  have p: "sv_out p = sv_out r @ ?start" "sv_id p = ?i" using keepsD [OF quiet_connect y] by (simp_all add: quiet_def q_def)
  have run: "vm_connection e m c r =
    (case y of Inl z \<Rightarrow> (Inl z, p)
     | Inr ok \<Rightarrow> if \<not> ok then (Inr True, p\<lparr>sv_out := sv_out p @ [close_line ''VM_RELAY_CLOSE'' ?i ''upstream_connect_failed'']\<rparr>)
        else relay_then_close e m (close_line ''VM_RELAY_CLOSE'' ?i ''relay_done'') (p\<lparr>sv_out := sv_out p @ [id_line ''VM_RELAY_UPSTREAM_CONNECTED'' ?i]\<rparr>))"
    using y by (simp add: vm_connection_def bindA_def next_id_def say_def modify_def ret_def q_def split: sum.split)
  show ?thesis
  proof (cases y)
    case (Inl z)
    with run assms p show ?thesis by (auto simp: vm_open_def)
  next
    case (Inr ok)
    show ?thesis
    proof (cases ok)
      case True
      with run Inr assms have "relay_then_close e m (close_line ''VM_RELAY_CLOSE'' ?i ''relay_done'')
        (p\<lparr>sv_out := sv_out p @ [id_line ''VM_RELAY_UPSTREAM_CONNECTED'' ?i]\<rparr>) = (x, r')" by simp
      from close_out [OF this] p show ?thesis by (cases "x = Inr False") (auto simp: vm_closed_def vm_open_def)
    next
      case False
      with run Inr assms p show ?thesis by (auto simp: vm_closed_def)
    qed
  qed
qed

lemma serve_log:
  "serve (vm_connection e m) e n r = (x, r') \<Longrightarrow>
   \<exists>bs rest. sv_out r' = sv_out r @ concat bs @ rest \<and> vm_log (sv_id r) bs \<and> (rest = [] \<or> vm_open (sv_id r + Suc (length bs)) rest)"
proof (induction n arbitrary: r)
  case 0
  then show ?case by (auto simp: ret_def intro!: exI [of _ "[]"])
next
  case (Suc n)
  obtain a w where a: "net_accept e (sv_world r) = (a, w)" by fastforce
  let ?r = "r\<lparr>sv_world := w\<rparr>"
  show ?case
  proof (cases a)
    case (Inl z)
    with Suc.prems a show ?thesis by (auto simp: bindA_def on_net_def intro!: exI [of _ "[]"])
  next
    case (Inr accepted)
    show ?thesis
    proof (cases accepted)
      case None
      with Inr Suc.prems a have "serve (vm_connection e m) e n ?r = (x, r')" by (simp add: bindA_def on_net_def)
      from Suc.IH [OF this] show ?thesis by simp
    next
      case (Some c)
      obtain y q where y: "vm_connection e m c ?r = (y, q)" by fastforce
      obtain ls where ls: "sv_id q = Suc (sv_id r)" "sv_out q = sv_out r @ ls" "y = Inr True \<longrightarrow> vm_closed (Suc (sv_id r)) ls"
        "vm_closed (Suc (sv_id r)) ls \<or> vm_open (Suc (sv_id r)) ls" using vm_connection_out [OF y] by auto
      have run: "serve (vm_connection e m) e (Suc n) r =
        (case y of Inl z \<Rightarrow> (Inl z, q) | Inr ended \<Rightarrow> if ended then serve (vm_connection e m) e n q else (Inr (), q))"
        using Inr Some a y by (simp add: bindA_def on_net_def ret_def split: sum.split)
      show ?thesis
      proof (cases "y = Inr True")
        case True
        with run Suc.prems have "serve (vm_connection e m) e n q = (x, r')" by simp
        from Suc.IH [OF this] obtain bs rest where "sv_out r' = sv_out q @ concat bs @ rest" "vm_log (sv_id q) bs"
          "rest = [] \<or> vm_open (sv_id q + Suc (length bs)) rest" by blast
        with ls True show ?thesis by (intro exI [of _ "ls # bs"] exI [of _ rest]) simp
      next
        case False
        with run Suc.prems have "r' = q" by (cases y) (auto split: if_splits)
        with ls show ?thesis
          by (cases "vm_closed (Suc (sv_id r)) ls") (auto intro: exI [of _ "[ls]"] exI [of _ "[]"])
      qed
    qed
  qed
qed

text \<open>
  The VM relay serves one connection at a time, numbered from one: its output consists of the complete lines of the
  connections in order, of which only the last may lack its end.
\<close>

lemma vm_relay_sequential:
  assumes "vm_main e m n r = (x, r')" "sv_out r = []" "sv_id r = 0"
  shows "\<exists>bs rest. sv_out r' = ''VM_RELAY_ACCEPT_READY'' # concat bs @ rest \<and> vm_log 0 bs
    \<and> (rest = [] \<or> vm_open (Suc (length bs)) rest)"
  using serve_log [of e m n "r\<lparr>sv_out := [''VM_RELAY_ACCEPT_READY'']\<rparr>" x r'] assms
  by (simp add: vm_main_def bindA_def say_def modify_def)

section \<open>A connection that breaks\<close>

text \<open>
  A client that resets its connection while the relay waits for it ends the server: the exception is not caught, neither by
  the VM relay nor by the forwarder.
\<close>

lemma reset_ends_server:
  assumes "net_accept e w = (Inr (Some c), w1)" "net_connect e w1 = (Inr (), w2)"
    and "net_select e w2 = (Inr [Client], w3)" "net_recv e Client BUFFER w3 = (Inl x, w4)" "sv_world r = w"
  shows "(\<exists>r'. serve (vm_connection e (Suc m)) e (Suc n) r = (Inl x, r'))
    \<and> (source_allowed args c \<longrightarrow> (\<exists>r'. serve (forward_connection args e (Suc m)) e (Suc n) r = (Inl x, r')))"
proof -
  have recv: "recv e Client q = (Inl x, q\<lparr>sv_world := w4\<rparr>)" if "sv_world q = w3" for q
    using assms that by (simp add: recv_def bindA_def on_net_def)
  have relay: "relay e (Suc m) q = (Inl x, q\<lparr>sv_world := w4\<rparr>)" if "sv_world q = w2" for q
    using assms recv that by (simp add: bindA_def on_net_def)
  have close: "fst (relay_then_close e (Suc m) l q) = Inl x" if "sv_world q = w2" for q l
    using relay that by (simp add: relay_then_close_def bindA_def tryA_def say_def modify_def raiseA_def del: relay.simps)
  have connect: "connect e c q = (Inr True, q\<lparr>sv_world := w2, sv_served := sv_served q @ [c]\<rparr>)" if "sv_world q = w1" for q
    using assms that by (simp add: connect_def bindA_def tryA_def on_net_def modify_def ret_def)
  have vm: "fst (vm_connection e (Suc m) c q) = Inl x" if "sv_world q = w1" for q
    by (simp add: vm_connection_def bindA_def next_id_def say_def modify_def connect that close)
  have forward: "fst (forward_connection args e (Suc m) c q) = Inl x" if "sv_world q = w1" "source_allowed args c" for q
    by (simp add: forward_connection_def bindA_def next_id_def say_def modify_def connect that close)
  have serve: "\<exists>r'. serve connection e (Suc n) r = (Inl x, r')" if "\<And>q. sv_world q = w1 \<Longrightarrow> fst (connection c q) = Inl x" for connection
    using that [of "r\<lparr>sv_world := w1\<rparr>"] assms by (cases "connection c (r\<lparr>sv_world := w1\<rparr>)") (simp add: bindA_def on_net_def)
  show ?thesis using serve [of "vm_connection e (Suc m)"] serve [of "forward_connection args e (Suc m)"] vm forward by blast
qed

end
