(* ===== verification/Tcp_Forward.thy ===== *)
theory Tcp_Forward
  imports Bootmux_Prelude
begin

text \<open>
  The forwarder for the companion in the virtual machine (\<^verbatim>\<open>tools/bootmux_tcp_forward.py\<close>): one coroutine per client, at most
  \<^verbatim>\<open>MAX_CONNECTIONS\<close> of them past the semaphore, and two coroutines per connection that pass data. Between two
  points where a coroutine waits it runs without interruption; such a stretch is one event here, and a run of the program is any sequence of
  events that its coroutines allow.
\<close>

section \<open>State\<close>

definition MAX_CONNECTIONS :: nat where "MAX_CONNECTIONS = 2"
definition BUFFER_BYTES :: nat where "BUFFER_BYTES = 64 * 1024"

text \<open>The two calls of \<^verbatim>\<open>pipe\<close>: from the client to the target, and back.\<close>

datatype direction = Up | Down

record pipe =
  p_running :: bool
  p_read :: string
  p_written :: string

text \<open>
  Where the coroutine \<^verbatim>\<open>relay\<close> of a connection is: at the semaphore, at \<^verbatim>\<open>open_connection\<close>, in the first \<^verbatim>\<open>gather\<close>, or done.
\<close>

datatype phase = Waiting | Connecting | Piping "direction \<Rightarrow> pipe" | Done

datatype line = Accepted nat | Connected nat | Closed nat

fun line_id :: "line \<Rightarrow> nat" where
  "line_id (Accepted i) = i"
| "line_id (Connected i) = i"
| "line_id (Closed i) = i"

fun line_text :: "line \<Rightarrow> string" where
  "line_text (Accepted i) = ''CONNECTION_ACCEPTED id='' @ nat_str i"
| "line_text (Connected i) = ''TARGET_CONNECTED id='' @ nat_str i"
| "line_text (Closed i) = ''CONNECTION_CLOSED id='' @ nat_str i"

record forwarder =
  fw_next :: nat \<comment> \<open>the next value of \<^verbatim>\<open>connection_counter\<close>\<close>
  fw_permits :: nat \<comment> \<open>the value of the semaphore\<close>
  fw_conns :: "nat \<Rightarrow> phase option"
  fw_log :: "line list"

definition fw_init :: forwarder where
  "fw_init = \<lparr>fw_next = 1, fw_permits = MAX_CONNECTIONS, fw_conns = (\<lambda>_. None), fw_log = []\<rparr>"

section \<open>Events\<close>

text \<open>
  A client arrives; a coroutine enters the semaphore; the target answers or not (in the second case closing the client's writer may raise,
  and then nothing is printed); a pipe reads data and writes it; a pipe ends because of end of file, idleness or an exception, and closes its
  destination; both pipes have ended.
\<close>

datatype event =
    Arrive
  | Enter nat
  | Open nat
  | Refuse nat bool
  | Pass nat direction string
  | EndPipe nat direction
  | Finish nat

definition set_phase :: "nat \<Rightarrow> phase \<Rightarrow> forwarder \<Rightarrow> forwarder" where
  "set_phase i ph s = s\<lparr>fw_conns := (fw_conns s)(i \<mapsto> ph)\<rparr>"

definition emit :: "line \<Rightarrow> forwarder \<Rightarrow> forwarder" where "emit l s = s\<lparr>fw_log := fw_log s @ [l]\<rparr>"

text \<open>Leaving \<^verbatim>\<open>async with semaphore\<close>.\<close>

definition leave :: "nat \<Rightarrow> forwarder \<Rightarrow> forwarder" where
  "leave i s = set_phase i Done (s\<lparr>fw_permits := Suc (fw_permits s)\<rparr>)"

definition fresh_pipe :: pipe where "fresh_pipe = \<lparr>p_running = True, p_read = [], p_written = []\<rparr>"

fun fire :: "event \<Rightarrow> forwarder \<Rightarrow> forwarder option" where
  "fire Arrive s = Some (emit (Accepted (fw_next s)) (set_phase (fw_next s) Waiting (s\<lparr>fw_next := Suc (fw_next s)\<rparr>)))"
| "fire (Enter i) s =
     (if fw_conns s i = Some Waiting \<and> fw_permits s > 0
      then Some (set_phase i Connecting (s\<lparr>fw_permits := fw_permits s - 1\<rparr>)) else None)"
| "fire (Open i) s =
     (if fw_conns s i = Some Connecting then Some (emit (Connected i) (set_phase i (Piping (\<lambda>_. fresh_pipe)) s)) else None)"
| "fire (Refuse i broken) s =
     (if fw_conns s i = Some Connecting then Some (leave i (if broken then s else emit (Closed i) s)) else None)"
| "fire (Pass i d data) s =
     (case fw_conns s i of
        Some (Piping p) \<Rightarrow>
          if p_running (p d) \<and> data \<noteq> [] \<and> length data \<le> BUFFER_BYTES
          then Some (set_phase i (Piping (p(d := (p d)\<lparr>p_read := p_read (p d) @ data, p_written := p_written (p d) @ data\<rparr>))) s) else None
      | _ \<Rightarrow> None)"
| "fire (EndPipe i d) s =
     (case fw_conns s i of
        Some (Piping p) \<Rightarrow> if p_running (p d) then Some (set_phase i (Piping (p(d := (p d)\<lparr>p_running := False\<rparr>))) s) else None
      | _ \<Rightarrow> None)"
| "fire (Finish i) s =
     (case fw_conns s i of
        Some (Piping p) \<Rightarrow> if \<not> p_running (p Up) \<and> \<not> p_running (p Down) then Some (leave i (emit (Closed i) s)) else None
      | _ \<Rightarrow> None)"

fun run_events :: "event list \<Rightarrow> forwarder \<Rightarrow> forwarder option" where
  "run_events [] s = Some s"
| "run_events (ev # evs) s = (case fire ev s of None \<Rightarrow> None | Some s' \<Rightarrow> run_events evs s')"

inductive reachable :: "forwarder \<Rightarrow> bool" where
  init: "reachable fw_init"
| step: "reachable s \<Longrightarrow> fire ev s = Some s' \<Longrightarrow> reachable s'"

lemma run_reachable: "reachable s \<Longrightarrow> run_events evs s = Some s' \<Longrightarrow> reachable s'"
  by (induction evs arbitrary: s) (auto split: option.splits intro: reachable.step)

section \<open>Invariant\<close>

definition inside :: "phase option \<Rightarrow> bool" where
  "inside c = (case c of Some Connecting \<Rightarrow> True | Some (Piping _) \<Rightarrow> True | _ \<Rightarrow> False)"

lemma inside_simps [simp]:
  "\<not> inside None" "\<not> inside (Some Waiting)" "inside (Some Connecting)" "inside (Some (Piping p))" "\<not> inside (Some Done)"
  by (simp_all add: inside_def)

definition active :: "forwarder \<Rightarrow> nat set" where "active s = {i. inside (fw_conns s i)}"

text \<open>The lines a connection has printed, by its phase.\<close>

fun printed :: "nat \<Rightarrow> phase option \<Rightarrow> line list \<Rightarrow> bool" where
  "printed i None ls = (ls = [])"
| "printed i (Some Waiting) ls = (ls = [Accepted i])"
| "printed i (Some Connecting) ls = (ls = [Accepted i])"
| "printed i (Some (Piping p)) ls = (ls = [Accepted i, Connected i])"
| "printed i (Some Done) ls = (ls \<in> {[Accepted i], [Accepted i, Closed i], [Accepted i, Connected i, Closed i]})"

definition fw_inv :: "forwarder \<Rightarrow> bool" where
  "fw_inv s \<longleftrightarrow> (\<forall>i. fw_conns s i \<noteq> None \<longrightarrow> i < fw_next s) \<and> fw_permits s + card (active s) = MAX_CONNECTIONS
     \<and> (\<forall>i. printed i (fw_conns s i) (filter (\<lambda>l. line_id l = i) (fw_log s)))
     \<and> (\<forall>i p d. fw_conns s i = Some (Piping p) \<longrightarrow> p_written (p d) = p_read (p d))"

lemma finite_active: "\<forall>i. fw_conns s i \<noteq> None \<longrightarrow> i < fw_next s \<Longrightarrow> finite (active s)"
  by (rule finite_subset [of _ "{..<fw_next s}"]) (auto simp: active_def inside_def split: option.splits)

lemma active_set_phase: "active (set_phase i ph s) = (if inside (Some ph) then insert i (active s) else active s - {i})"
  by (auto simp: active_def set_phase_def)

lemma fields [simp]:
  "fw_conns (emit l s) = fw_conns s" "fw_permits (emit l s) = fw_permits s" "fw_next (emit l s) = fw_next s" "fw_log (emit l s) = fw_log s @ [l]"
  "fw_conns (set_phase i ph s) = (fw_conns s)(i \<mapsto> ph)" "fw_permits (set_phase i ph s) = fw_permits s"
  "fw_next (set_phase i ph s) = fw_next s" "fw_log (set_phase i ph s) = fw_log s"
  "active (emit l s) = active s" "active (s\<lparr>fw_permits := n\<rparr>) = active s" "active (s\<lparr>fw_next := n\<rparr>) = active s"
  by (simp_all add: emit_def set_phase_def active_def)

lemma in_active [simp]: "i \<in> active s \<longleftrightarrow> inside (fw_conns s i)"
  by (simp add: active_def)

lemma fw_inv_step: "fw_inv s \<Longrightarrow> fire ev s = Some s' \<Longrightarrow> fw_inv s'"
proof -
  assume inv: "fw_inv s" and ev: "fire ev s = Some s'"
  have fin: "finite (active s)" using inv finite_active by (simp add: fw_inv_def)
  have new: "fw_conns s (fw_next s) = None" using inv by (auto simp: fw_inv_def)
  have ids: "fw_conns s i \<noteq> None \<Longrightarrow> i < fw_next s" for i using inv by (simp add: fw_inv_def)
  have log: "printed i (fw_conns s i) (filter (\<lambda>l. line_id l = i) (fw_log s))" for i using inv by (simp add: fw_inv_def)
  have logs: "fw_conns s i = None \<Longrightarrow> filter (\<lambda>l. line_id l = i) (fw_log s) = []"
    "fw_conns s i = Some Waiting \<Longrightarrow> filter (\<lambda>l. line_id l = i) (fw_log s) = [Accepted i]"
    "fw_conns s i = Some Connecting \<Longrightarrow> filter (\<lambda>l. line_id l = i) (fw_log s) = [Accepted i]"
    "fw_conns s i = Some (Piping p) \<Longrightarrow> filter (\<lambda>l. line_id l = i) (fw_log s) = [Accepted i, Connected i]" for i p
    using log [of i] by simp_all
  have one_less: "Suc (fw_permits s + (card (active s) - Suc 0)) = MAX_CONNECTIONS" if "inside (fw_conns s i)" for i
    using inv that card_Suc_Diff1 [OF fin, of i] by (simp add: fw_inv_def)
  show "fw_inv s'"
  proof (cases ev)
    case Arrive
    with ev inv new fin logs(1) [OF new] show ?thesis
      by (auto simp: fw_inv_def active_set_phase less_Suc_eq split: if_splits)
  next
    case (Enter i)
    with ev inv fin logs(2-4) [of i] show ?thesis
      by (auto simp: fw_inv_def active_set_phase split: if_splits)
  next
    case (Open i)
    with ev inv fin logs(2-4) [of i] show ?thesis
      by (auto simp: fw_inv_def active_set_phase insert_absorb fresh_pipe_def split: if_splits)
  next
    case (Refuse i broken)
    with ev inv fin logs(2-4) [of i] one_less [of i] show ?thesis
      by (auto simp: fw_inv_def leave_def active_set_phase split: if_splits)
  next
    case (Pass i d data)
    with ev inv fin logs(2-4) [of i] show ?thesis
      by (auto simp: fw_inv_def active_set_phase insert_absorb split: if_splits option.splits phase.splits)
  next
    case (EndPipe i d)
    with ev inv fin logs(2-4) [of i] show ?thesis
      by (auto simp: fw_inv_def active_set_phase insert_absorb split: if_splits option.splits phase.splits)
  next
    case (Finish i)
    with ev inv fin logs(2-4) [of i] one_less [of i] show ?thesis
      by (auto simp: fw_inv_def leave_def active_set_phase split: if_splits option.splits phase.splits)
  qed
qed

lemma forward_inv: "reachable s \<Longrightarrow> fw_inv s"
proof (induction rule: reachable.induct)
  case init
  then show ?case by (simp add: fw_inv_def fw_init_def active_def)
qed (rule fw_inv_step)

text \<open>
  C28. In every run, whatever the order in which clients, target and coroutines act, at most two connections are past the semaphore, and its value is
  the number of places left; each connection has written exactly what it has read, in each direction.
\<close>

theorem forwarder_bounded:
  assumes "reachable s"
  shows "card (active s) \<le> MAX_CONNECTIONS \<and> fw_permits s = MAX_CONNECTIONS - card (active s)
    \<and> (\<forall>i p d. fw_conns s i = Some (Piping p) \<longrightarrow> p_written (p d) = p_read (p d))"
  using forward_inv [OF assms] unfolding fw_inv_def by auto

text \<open>
  The log of every run tells for each connection its history: nothing before it was accepted, then one line when it was accepted, one
  when the target answered, and at most one when it was closed, in this order.
\<close>

lemma forwarder_log:
  assumes "reachable s"
  shows "printed i (fw_conns s i) (filter (\<lambda>l. line_id l = i) (fw_log s))"
  using forward_inv [OF assms] unfolding fw_inv_def by blast

section \<open>Progress\<close>

lemma run_append: "run_events (es @ fs) s = (case run_events es s of None \<Rightarrow> None | Some t \<Rightarrow> run_events fs t)"
  by (induction es arbitrary: s) (auto split: option.split)

lemma pipe_ends:
  assumes "fw_conns s j = Some (Piping p)"
  shows "\<exists>evs q. run_events evs s = Some (set_phase j (Piping q) s) \<and> \<not> p_running (q d) \<and> (\<forall>d'. d' \<noteq> d \<longrightarrow> q d' = p d')"
proof (cases "p_running (p d)")
  case True
  with assms show ?thesis
    by (intro exI [of _ "[EndPipe j d]"] exI [of _ "p(d := (p d)\<lparr>p_running := False\<rparr>)"]) simp
next
  case False
  have "set_phase j (Piping p) s = s" using assms by (simp add: set_phase_def fun_upd_idem)
  with False show ?thesis by (intro exI [of _ "[]"] exI [of _ p]) simp
qed

lemma set_phase_twice: "set_phase j a (set_phase j b s) = set_phase j a s"
  by (simp add: set_phase_def)

lemma active_leaves:
  assumes "inside (fw_conns s j)" "i \<noteq> j"
  shows "\<exists>evs t. run_events evs s = Some t \<and> fw_permits t = Suc (fw_permits s) \<and> fw_conns t i = fw_conns s i"
proof (cases "fw_conns s j = Some Connecting")
  case True
  with assms show ?thesis by (intro exI [of _ "[Refuse j False]"]) (simp add: leave_def)
next
  case False
  with assms(1) obtain p where p: "fw_conns s j = Some (Piping p)" by (auto simp: inside_def split: option.splits phase.splits)
  obtain es q where q: "run_events es s = Some (set_phase j (Piping q) s)" "\<not> p_running (q Up)" using pipe_ends [OF p] by blast
  have "fw_conns (set_phase j (Piping q) s) j = Some (Piping q)" by simp
  then obtain fs r where r: "run_events fs (set_phase j (Piping q) s) = Some (set_phase j (Piping r) s)"
    "\<not> p_running (r Down)" "r Up = q Up" using pipe_ends [of "set_phase j (Piping q) s" j q Down] by (auto simp: set_phase_twice)
  have "run_events (es @ fs @ [Finish j]) s = Some (leave j (emit (Closed j) (set_phase j (Piping r) s)))"
    using q r by (simp add: run_append)
  with assms(2) show ?thesis by (intro exI) (auto simp: leave_def)
qed

text \<open>
  C29. No deadlock: from every state that a run can reach, a client that waits at the semaphore can still be served, at the latest
  after one of the connections before it has ended.
\<close>

theorem forwarder_progress:
  assumes "reachable s" "fw_conns s i = Some Waiting"
  shows "\<exists>evs t. run_events evs s = Some t \<and> fw_conns t i = Some Connecting"
proof -
  have enter: "run_events [Enter i] t \<noteq> None \<and> fw_conns (the (run_events [Enter i] t)) i = Some Connecting"
    if "fw_permits t > 0" "fw_conns t i = Some Waiting" for t using that by simp
  show ?thesis
  proof (cases "fw_permits s > 0")
    case True
    from enter [OF this assms(2)] show ?thesis by (metis option.exhaust_sel)
  next
    case False
    then have "active s \<noteq> {}" using forward_inv [OF assms(1)] by (auto simp: fw_inv_def MAX_CONNECTIONS_def)
    then obtain j where j: "inside (fw_conns s j)" by auto
    with assms(2) have "i \<noteq> j" by auto
    from active_leaves [OF j this] obtain evs t where t: "run_events evs s = Some t" "fw_permits t > 0" "fw_conns t i = Some Waiting"
      using assms(2) by auto
    then have "run_events (evs @ [Enter i]) s = run_events [Enter i] t" by (simp add: run_append)
    with enter [OF t(2,3)] show ?thesis by (metis option.exhaust_sel)
  qed
qed

end
