(* ===== verification/Wifi_Secret.thy ===== *)
theory Wifi_Secret
  imports Bootmux_Prelude
begin

text \<open>
  The tool that copies one field of the local Wi-Fi secret to the clipboard (\<^verbatim>\<open>scripts/bootmux-copy-local-wifi-secret.py\<close>).
  The file's mode and text and the program \<^verbatim>\<open>pbcopy\<close> are parameters; the result is the exit status, what was printed and what was put
  on the clipboard.
\<close>

section \<open>Data\<close>

datatype field = Password | Ssid

fun field_key :: "field \<Rightarrow> string" where
  "field_key Ssid = ''BOOTMUX_WIFI_SSID''"
| "field_key Password = ''BOOTMUX_WIFI_PASSWORD''"

definition FIELD_KEYS :: "string list" where "FIELD_KEYS = map field_key [Ssid, Password]"

text \<open>The environment: the permission bits, if the file can be examined, its text, if it can be read and decoded, and whether
  \<^verbatim>\<open>pbcopy\<close> succeeds on an input.\<close>

record secret_env =
  se_mode :: "nat option"
  se_text :: "string option"
  se_pbcopy :: "string \<Rightarrow> bool"

record copy_result =
  cp_exit :: int
  cp_stdout :: "string list"
  cp_stderr :: "string list"
  cp_clipboard :: "string option"

section \<open>Operations\<close>

text \<open>\<^verbatim>\<open>line.partition("=")\<close>: key, whether the separator was found, and value.\<close>

definition partition_eq :: "string \<Rightarrow> string \<times> bool \<times> string" where
  "partition_eq line = (takeWhile (\<lambda>c. c \<noteq> CHR ''='') line, CHR ''='' \<in> set line, after_first (CHR ''='') line)"

text \<open>The loop over the lines; \<^verbatim>\<open>fail\<close> ends it with its message.\<close>

fun read_lines :: "string list \<Rightarrow> string dict \<Rightarrow> string + string dict" where
  "read_lines [] vals = Inr vals"
| "read_lines (line # rest) vals =
     (if line = [] \<or> prefix ''#'' line then read_lines rest vals
      else (case partition_eq line of (key, separator, val) \<Rightarrow>
        if \<not> separator \<or> key \<notin> set FIELD_KEYS \<or> val = [] then Inl ''LOCAL_SECRET_FORMAT: FAIL''
        else read_lines rest (AList.update key val vals)))"

definition read_field :: "secret_env \<Rightarrow> field \<Rightarrow> string + string" where
  "read_field e f =
     (case se_mode e of
        None \<Rightarrow> Inl ''LOCAL_SECRET_FILE: UNAVAILABLE''
      | Some m \<Rightarrow>
          if m \<noteq> 384 then Inl ''LOCAL_SECRET_FILE_PERMISSIONS: FAIL''
          else (case se_text e of
            None \<Rightarrow> Inl ''LOCAL_SECRET_FILE: UNREADABLE''
          | Some txt \<Rightarrow> bindE (read_lines (splitlines txt) []) (\<lambda>vals.
              if set (map fst vals) \<noteq> set FIELD_KEYS then Inl ''LOCAL_SECRET_KEYS: FAIL''
              else Inr (the (map_of vals (field_key f))))))"

fun field_upper :: "field \<Rightarrow> string" where
  "field_upper Ssid = ''SSID''"
| "field_upper Password = ''PASSWORD''"

definition copy_main :: "secret_env \<Rightarrow> field \<Rightarrow> copy_result" where
  "copy_main e f =
     (case read_field e f of
        Inl message \<Rightarrow> \<lparr>cp_exit = 1, cp_stdout = [], cp_stderr = [message], cp_clipboard = None\<rparr>
      | Inr val \<Rightarrow>
          if \<not> se_pbcopy e val then \<lparr>cp_exit = 1, cp_stdout = [], cp_stderr = [''CLIPBOARD_COPY: FAIL''], cp_clipboard = None\<rparr>
          else \<lparr>cp_exit = 0, cp_stdout = [''COPIED_'' @ field_upper f], cp_stderr = [], cp_clipboard = Some val\<rparr>)"

section \<open>The format\<close>

text \<open>The lines that count, a line of the format, and the line that gives a field its value: the last one with its key.\<close>

definition significant :: "string \<Rightarrow> string list" where
  "significant txt = filter (\<lambda>l. l \<noteq> [] \<and> \<not> prefix ''#'' l) (splitlines txt)"

definition assignment :: "field \<Rightarrow> string \<Rightarrow> string" where "assignment f v = field_key f @ ''='' @ v"

definition secret_line :: "string \<Rightarrow> bool" where "secret_line l \<longleftrightarrow> (\<exists>f v. l = assignment f v \<and> v \<noteq> [])"

definition assigns :: "string list \<Rightarrow> field \<Rightarrow> string \<Rightarrow> bool" where
  "assigns ls f v \<longleftrightarrow> (let own = filter (prefix (assignment f [])) ls in own \<noteq> [] \<and> last own = assignment f v)"

lemma key_plain: "CHR ''='' \<notin> set (field_key f)"
  by (cases f) simp_all

lemma keys_differ [simp]: "field_key f = field_key g \<longleftrightarrow> f = g"
  by (cases f; cases g) simp_all

lemma keys_range: "set FIELD_KEYS = range field_key"
proof -
  have "(UNIV :: field set) = {Ssid, Password}" using field.exhaust by auto
  then show ?thesis by (simp only: FIELD_KEYS_def set_map) simp
qed

lemma partition_assignment [simp]: "partition_eq (assignment f v) = (field_key f, True, v)"
proof -
  have "\<forall>c\<in>set (field_key f). c \<noteq> CHR ''=''" using key_plain by metis
  then show ?thesis by (simp add: partition_eq_def assignment_def after_first_def takeWhile_append2 dropWhile_append2)
qed

lemma partition_only:
  "partition_eq l = (field_key f, True, v) \<longleftrightarrow> l = assignment f v"
proof
  assume p: "partition_eq l = (field_key f, True, v)"
  then have "CHR ''='' \<in> set l" by (simp add: partition_eq_def)
  then have "dropWhile (\<lambda>c. c \<noteq> CHR ''='') l = CHR ''='' # drop 1 (dropWhile (\<lambda>c. c \<noteq> CHR ''='') l)"
    by (induction l) auto
  with p takeWhile_dropWhile_id [of "\<lambda>c. c \<noteq> CHR ''=''" l] show "l = assignment f v"
    by (auto simp: partition_eq_def assignment_def after_first_def)
qed simp

lemma prefix_assignment: "prefix (assignment f []) (assignment g v) \<longleftrightarrow> f = g"
proof
  assume "prefix (assignment f []) (assignment g v)"
  then obtain w where "assignment g v = assignment f w" by (auto simp: prefix_def assignment_def)
  then have "partition_eq (assignment g v) = partition_eq (assignment f w)" by simp
  then show "f = g" by simp
qed (simp add: assignment_def prefix_def)

lemma format_line:
  "(case partition_eq l of (key, separator, val) \<Rightarrow> separator \<and> key \<in> set FIELD_KEYS \<and> val \<noteq> []) \<longleftrightarrow> secret_line l"
proof (cases "partition_eq l")
  case (fields key separator val)
  have "secret_line l \<longleftrightarrow> (\<exists>f v. partition_eq l = (field_key f, True, v) \<and> v \<noteq> [])"
    by (simp add: secret_line_def partition_only)
  then show ?thesis by (auto simp: fields keys_range)
qed

text \<open>What the loop computes: the dictionary of the assignments, in order.\<close>

definition store :: "string \<Rightarrow> string dict \<Rightarrow> string dict" where
  "store l vals = AList.update (fst (partition_eq l)) (snd (snd (partition_eq l))) vals"

lemma read_lines_eq:
  "read_lines ls vals =
     (let sig = filter (\<lambda>l. l \<noteq> [] \<and> \<not> prefix ''#'' l) ls
      in if list_all secret_line sig then Inr (fold store sig vals) else Inl ''LOCAL_SECRET_FORMAT: FAIL'')"
proof (induction ls arbitrary: vals)
  case (Cons l ls)
  show ?case
  proof (cases "partition_eq l")
    case (fields key separator val)
    then have "secret_line l \<longleftrightarrow> separator \<and> key \<in> set FIELD_KEYS \<and> val \<noteq> []" using format_line [of l] by simp
    with Cons.IH show ?thesis by (auto simp: Let_def fields store_def)
  qed
qed simp

lemma assigns_snoc: "assigns (ls @ [assignment g w]) f v \<longleftrightarrow> (if f = g then v = w else assigns ls f v)"
  by (auto simp: assigns_def prefix_assignment Let_def) (auto simp: assignment_def)

lemma secret_stored: "list_all secret_line ls \<Longrightarrow> map_of (fold store ls []) (field_key f) = Some v \<longleftrightarrow> assigns ls f v"
proof (induction ls rule: rev_induct)
  case (snoc l ls)
  then obtain g w where l: "l = assignment g w" by (auto simp: secret_line_def)
  with snoc show ?case by (auto simp: assigns_snoc store_def update_conv')
qed (simp add: assigns_def)

lemma stored_keys: "list_all secret_line ls \<Longrightarrow> set (map fst (fold store ls [])) \<subseteq> set FIELD_KEYS"
proof (induction ls rule: rev_induct)
  case (snoc l ls)
  then obtain g w where l: "l = assignment g w" by (auto simp: secret_line_def)
  with snoc show ?case by (auto simp: store_def dom_update keys_range)
qed simp

lemma all_keys:
  assumes "list_all secret_line ls"
  shows "set (map fst (fold store ls [])) = set FIELD_KEYS \<longleftrightarrow> (\<forall>g. \<exists>v. assigns ls g v)"
proof -
  have "k \<in> set (map fst (fold store ls [])) \<longleftrightarrow> (\<exists>v. map_of (fold store ls []) k = Some v)" for k
    by (metis domIff dom_map_of_conv_image_fst list.set_map not_None_eq)
  then have "(\<forall>g. \<exists>v. assigns ls g v) \<longleftrightarrow> set FIELD_KEYS \<subseteq> set (map fst (fold store ls []))"
    unfolding secret_stored [OF assms, symmetric] keys_range by blast
  with stored_keys [OF assms] show ?thesis by blast
qed

section \<open>What the tool does\<close>

lemma read_field_iff:
  "read_field e f = Inr v \<longleftrightarrow> se_mode e = Some 384 \<and> (\<exists>t. se_text e = Some t \<and> list_all secret_line (significant t)
     \<and> (\<forall>g. \<exists>w. assigns (significant t) g w) \<and> assigns (significant t) f v)"
proof (cases "se_mode e = Some 384 \<and> se_text e \<noteq> None")
  case True
  then obtain t where t: "se_mode e = Some 384" "se_text e = Some t" by auto
  let ?ls = "significant t"
  have r: "read_lines (splitlines t) [] =
    (if list_all secret_line ?ls then Inr (fold store ?ls []) else Inl ''LOCAL_SECRET_FORMAT: FAIL'')"
    unfolding read_lines_eq significant_def Let_def ..
  show ?thesis
  proof (cases "list_all secret_line ?ls \<and> (\<forall>g. \<exists>w. assigns ?ls g w)")
    case True
    then obtain w where w: "assigns ?ls f w" by blast
    then have "map_of (fold store ?ls []) (field_key f) = Some w" using True secret_stored by blast
    moreover have "assigns ?ls f v \<longleftrightarrow> v = w" using w by (auto simp: assigns_def Let_def assignment_def)
    ultimately show ?thesis using True all_keys [of ?ls] by (auto simp: read_field_def t r)
  next
    case False
    with all_keys [of ?ls] show ?thesis by (auto simp: read_field_def t r)
  qed
qed (auto simp: read_field_def split: option.splits)

text \<open>
  C32. A field is put on the clipboard exactly if the file has mode 0600, each of its lines that is neither empty nor a comment assigns a
  non-empty value to one of the two keys, both keys occur and the clipboard accepts the value, which is the one of the last line with the
  key of the field.
\<close>

theorem secret_copied_iff:
  "cp_clipboard (copy_main e f) = Some v \<longleftrightarrow> se_mode e = Some 384 \<and> (\<exists>t. se_text e = Some t \<and> list_all secret_line (significant t)
     \<and> (\<forall>g. \<exists>w. assigns (significant t) g w) \<and> assigns (significant t) f v) \<and> se_pbcopy e v"
proof -
  have "cp_clipboard (copy_main e f) = Some v \<longleftrightarrow> read_field e f = Inr v \<and> se_pbcopy e v"
    by (auto simp: copy_main_def split: sum.splits)
  then show ?thesis unfolding read_field_iff by blast
qed

definition MESSAGES :: "string list" where
  "MESSAGES =
     [''LOCAL_SECRET_FILE: UNAVAILABLE'', ''LOCAL_SECRET_FILE_PERMISSIONS: FAIL'', ''LOCAL_SECRET_FILE: UNREADABLE'', ''LOCAL_SECRET_FORMAT: FAIL'',
      ''LOCAL_SECRET_KEYS: FAIL'', ''CLIPBOARD_COPY: FAIL'']"

lemma read_field_message: "read_field e f = Inl m \<Longrightarrow> m \<in> set MESSAGES"
  by (auto simp: read_field_def MESSAGES_def read_lines_eq Let_def bindE_Inl_iff split: option.splits if_splits)

text \<open>
  The secret is never printed: whatever the file holds, the tool prints one line, which is either the name of the copied
  field, with exit status 0 and the clipboard set, or one of six fixed messages, with exit status 1 and the clipboard untouched.
\<close>

lemma secret_never_printed:
  "(\<exists>v. copy_main e f = \<lparr>cp_exit = 0, cp_stdout = [''COPIED_'' @ field_upper f], cp_stderr = [], cp_clipboard = Some v\<rparr>)
   \<or> (\<exists>m. m \<in> set MESSAGES \<and> copy_main e f = \<lparr>cp_exit = 1, cp_stdout = [], cp_stderr = [m], cp_clipboard = None\<rparr>)"
proof (cases "read_field e f")
  case (Inl m)
  with read_field_message [OF this] show ?thesis by (auto simp: copy_main_def)
next
  case (Inr v)
  have "''CLIPBOARD_COPY: FAIL'' \<in> set MESSAGES" by (simp add: MESSAGES_def)
  with Inr show ?thesis by (cases "se_pbcopy e v") (auto simp: copy_main_def)
qed

end
