(* ===== verification/Network_Witnesses.thy ===== *)
theory Network_Witnesses
  imports Relay Tcp_Forward Wifi_Secret
begin

text \<open>
  Concrete sockets and runs on which the hypotheses of the properties of the relays and the forwarders hold, and those properties applied to them.
\<close>

section \<open>Relays\<close>

text \<open>One client arrives, sends twice and is then silent; the world counts the calls.\<close>

definition sample_net :: "nat net" where
  "sample_net =
     \<lparr>net_select = (\<lambda>w. (Inr (if w < 6 then [Client] else []), Suc w)), net_recv = (\<lambda>_ _ w. (Inr (if w < 4 then ''ab'' else ''c''), Suc w)),
      net_send = (\<lambda>_ _ w. (Inr (), Suc w)), net_accept = (\<lambda>w. (Inr (if w = 0 then Some ''127.0.0.1'' else None), Suc w)),
      net_connect = (\<lambda>w. (Inr (), Suc w))\<rparr>"

definition sample_server :: "nat server" where
  "sample_server = \<lparr>sv_world = 0, sv_got = (\<lambda>_. []), sv_put = (\<lambda>_. []), sv_id = 0, sv_out = [], sv_served = []\<rparr>"

lemma sample_start: "sample_server\<lparr>sv_got := (\<lambda>_. []), sv_put := (\<lambda>_. [])\<rparr> = sample_server"
  by (simp add: sample_server_def)

lemma sample_relay:
  "fst (relay sample_net 3 sample_server) = Inr True" "sv_got (snd (relay sample_net 3 sample_server)) Client = ''abc''"
  by code_simp+

theorem relay_transparent_witness:
  "\<exists>r'. relay sample_net 3 sample_server = (Inr True, r') \<and> sv_put r' Target = ''abc''"
proof -
  obtain r' where r': "relay sample_net 3 sample_server = (Inr True, r')" "sv_got r' Client = ''abc''"
    using sample_relay by (cases "relay sample_net 3 sample_server") simp
  from relay_transparent [of sample_net 3 sample_server, unfolded sample_start, OF r'(1)] r' show ?thesis by metis
qed

definition sample_args :: forward_args where
  "sample_args = \<lparr>allow_client = [''10.0.0.9''], allowed_networks = [\<lparr>network_address = quad 127 0 0 0, prefixlen = 8\<rparr>]\<rparr>"

lemma forwarder_admits_witness:
  "\<exists>x r'. forward_main sample_args sample_net 3 2 sample_server = (x, r') \<and> list_all (source_allowed sample_args) (sv_served r')"
proof -
  obtain x r' where r': "forward_main sample_args sample_net 3 2 sample_server = (x, r')" by fastforce
  have "sv_served sample_server = []" by (simp add: sample_server_def)
  from forwarder_admits [OF r' this] r' show ?thesis by blast
qed

lemma vm_relay_sequential_witness:
  "\<exists>x r' bs rest. vm_main sample_net 3 2 sample_server = (x, r') \<and> sv_out r' = ''VM_RELAY_ACCEPT_READY'' # concat bs @ rest \<and> vm_log 0 bs"
proof -
  obtain x r' where r': "vm_main sample_net 3 2 sample_server = (x, r')" by fastforce
  have "sv_out sample_server = []" "sv_id sample_server = 0" by (simp_all add: sample_server_def)
  from vm_relay_sequential [OF r' this] r' show ?thesis by blast
qed

lemma reset_ends_server_witness:
  "\<exists>r'. serve (vm_connection (sample_net\<lparr>net_recv := (\<lambda>_ _ w. (Inl (OSError ''reset''), w))\<rparr>) 4)
     (sample_net\<lparr>net_recv := (\<lambda>_ _ w. (Inl (OSError ''reset''), w))\<rparr>) 9 sample_server = (Inl (OSError ''reset''), r')"
  using reset_ends_server [of "sample_net\<lparr>net_recv := (\<lambda>_ _ w. (Inl (OSError ''reset''), w))\<rparr>" 0 "''127.0.0.1''" 1 2 3
      "OSError ''reset''" 3 sample_server 3 8 sample_args]
  by (simp add: sample_net_def sample_server_def numeral_eq_Suc)

section \<open>The forwarder\<close>

text \<open>Three clients arrive; two are inside and the third waits.\<close>

definition sample_events :: "event list" where
  "sample_events = [Arrive, Enter 1, Arrive, Open 1, Enter 2, Pass 1 Up ''hello'', Arrive]"

definition busy :: forwarder where "busy = the (run_events sample_events fw_init)"

lemma busy_reachable: "reachable busy"
proof -
  have "run_events sample_events fw_init = Some busy"
    by (simp add: busy_def sample_events_def fw_init_def set_phase_def emit_def MAX_CONNECTIONS_def fresh_pipe_def BUFFER_BYTES_def)
  from run_reachable [OF reachable.init this] show ?thesis .
qed

lemma busy_state: "fw_permits busy = 0" "fw_conns busy 3 = Some Waiting"
  by (simp_all add: busy_def sample_events_def fw_init_def set_phase_def emit_def MAX_CONNECTIONS_def fresh_pipe_def BUFFER_BYTES_def)

theorem forwarder_bounded_witness: "fw_permits busy = 0 \<and> card (active busy) = MAX_CONNECTIONS"
  using forwarder_bounded [OF busy_reachable] busy_state(1) by simp

lemma forwarder_log_witness: "filter (\<lambda>l. line_id l = 3) (fw_log busy) = [Accepted 3]"
  using forwarder_log [OF busy_reachable, of 3] busy_state(2) by simp

theorem forwarder_progress_witness: "\<exists>evs t. run_events evs busy = Some t \<and> fw_conns t 3 = Some Connecting"
  using forwarder_progress [OF busy_reachable busy_state(2)] .

end
