(* ===== verification/Spec2Isabelle.thy ===== *)
theory Spec2Isabelle
  imports Guardian_Witnesses Flash_Witnesses Serial_Oracle Usb_Oracle Shield_Witnesses Contract_Witnesses Network_Witnesses
begin

text \<open>
  \<^bold>\<open>BOOTMUX host tools: a verification library.\<close>

  BOOTMUX is an ESP32-S3 USB device that can act as a keyboard and, in an experimental profile, as a USB
  network adapter. The Python tools under \<^verbatim>\<open>scripts\<close> and \<^verbatim>\<open>tools\<close> protect the Mac it is plugged into and the contracts of the
  project: a network guardian repairs what a BOOTMUX network interface did to the host, an attach shield arms
  the host before a device is attached and takes every change back afterwards, a chain of tools inspects and flashes
  the safe firmware profile, oracles judge captured evidence, a contract check compares sources and documents, and small
  servers relay traffic of the demonstration network. This library models these tools and proves the properties that make them
  trustworthy.

  \<^bold>\<open>Parts and theories.\<close>

  \<^item> Foundations. \<open>Bootmux_Prelude\<close>: exceptions as values (\<open>exn\<close>, \<open>result\<close>, \<open>bindE\<close>), the string operations of Python that
    the sources use, dictionaries as association lists. \<open>Action\<close>: programs that change a state and may raise, with the calculus for
    what they keep (locale \<open>action_rel\<close>) and return; \<open>Action_Returns\<close>: that they return at all. \<open>IPv4\<close>: dotted quads as 32-bit words and network
    membership. \<open>Regex\<close>: a backtracking matcher for the regular expressions of the sources. \<open>Json\<close>: \<^verbatim>\<open>json.dumps\<close>, \<^verbatim>\<open>json.loads\<close>, their round trip and
    files of records. \<open>Sha256\<close>: the digest, on 32-bit words. \<open>Paths\<close>: \<^verbatim>\<open>pathlib\<close> paths as component lists. \<open>Gate\<close>: the interface shared by the
    verdict functions (a list of named checks, a verdict, the failing names).
  \<^item> The guardian, \<^verbatim>\<open>bootmux-network-guardian.py\<close>: \<open>Guardian_Types\<close> (constants, dictionaries as records,
    the class \<^verbatim>\<open>Host\<close> as a record of operations over a host state), \<open>Guardian_Identity\<close> (\<^verbatim>\<open>prove_identity\<close>),
    \<open>Guardian_Store\<close> (\<^verbatim>\<open>StateStore\<close>, uninstalling; the locale \<open>doc_store\<close>), \<open>Guardian_Plan\<close> (capture,
    redaction, plans R1-R6), \<open>Guardian_Exec\<close> (execution, verification, verdict; the locale \<open>recording_host\<close>),
    \<open>Guardian_Daemon\<close> (\<^verbatim>\<open>repair_once\<close>, \<^verbatim>\<open>Guardian.tick\<close>, the loop, the commands), \<open>Guardian_FakeHost\<close> (the
    simulator, the self test), \<open>Guardian_Converge\<close> (the repair reaches the captured state),
    \<open>Guardian_Trace\<close> (the daemon as a step relation with its history, invariants by rule induction),
    \<open>Guardian_SystemHost\<close> (the production host: parsers over a parameter for the operating system),
    \<open>Guardian_Witnesses\<close> (concrete runs).
  \<^item> The oracles: \<open>Serial_Oracle\<close>, \<open>Usb_Oracle\<close>, \<open>Physical_Oracle\<close>, one per script of that name.
  \<^item> The flash tools: \<open>Flash_Inspect\<close> (\<^verbatim>\<open>bootmux-safe-flash-inspect.py\<close>), \<open>Flash_Manifest\<close>
    (\<^verbatim>\<open>generate-safe-manifest.py\<close>), \<open>Flash_Ports\<close> and \<open>Flash_Runner\<close> (\<^verbatim>\<open>bootmux-safe-flash-runner.py\<close>: journal,
    steps, pipeline, preflight, resume, dispatch), \<open>Flash_Safety\<close> (what every step keeps), \<open>Flash_Main\<close> (reading the journal
    file, resuming), \<open>Flash_Witnesses\<close> (concrete builds).
  \<^item> The attach shield, \<^verbatim>\<open>bootmux-attach-shield.py\<close>, in the order of the script: \<open>Shield_Host\<close> (constants, redaction, the host interface with
    \<^verbatim>\<open>SystemHost\<close> and \<^verbatim>\<open>FakeHost\<close>, the locale \<open>file_host\<close>, parsers), \<open>Shield_Baseline\<close>, \<open>Shield_Journal\<close> (the mutation journal and its rollback), \<open>Shield_Net\<close>
    (fingerprint, location, quarantine, packet filter, routes), \<open>Shield_Session\<close> (recovery, state, log, closing), \<open>Shield_Commands\<close> (uninstall, daemon,
    commands). On top of them: \<open>Shield_Frame\<close> (which commands each operation may run; locales \<open>shield_rel\<close>, \<open>shield_rel_sleep\<close>),
    \<open>Shield_Safety\<close> (scope of the whole program, what closing and arming leave on disk), \<open>Shield_Ledger\<close> (journal
    files as lists of changes, the abstract undo), \<open>Shield_Steady\<close> (all operations return on a host with readable session files; locale
    \<open>steady_host\<close>), \<open>Shield_Live\<close>, \<open>Shield_Arm\<close>, \<open>Shield_Watchdog\<close> (closing, renewing, arming and the daemon on a live system with a
    clock), \<open>Shield_Runner\<close> (the flash runner with the shield as the program it starts), \<open>Shield_Witnesses\<close>.
  \<^item> The contract check, \<^verbatim>\<open>check-contract-sync.py\<close>: \<open>Contract_Text\<close> (prose, bodies of C functions), \<open>Contract_Check\<close> (the checks and
    \<^verbatim>\<open>main\<close>), \<open>Contract_Safety\<close> (what a pass means), \<open>Contract_Witnesses\<close> (a tree that passes).
  \<^item> Small tools: \<open>Wifi_Secret\<close> (\<^verbatim>\<open>bootmux-copy-local-wifi-secret.py\<close>), \<open>Relay\<close> (\<^verbatim>\<open>bootmux-vm-relay.py\<close> and
    \<^verbatim>\<open>bootmux-proxy-forwarder.py\<close>), \<open>Tcp_Forward\<close> (\<^verbatim>\<open>bootmux_tcp_forward.py\<close>, its coroutines as interleaving events), \<open>Network_Witnesses\<close>.

  \<^bold>\<open>How the parts interact.\<close> The guardian's daemon reads the state store, proves the identity of an
  interface through the host seam, plans and executes a repair and verifies it; the physical oracle uses
  the guardian's capture; the inspector checks what the generator wrote; the runner starts inspector,
  shield and esptool as programs and reads their exit status and output; the shield keeps its session in a state file, a journal and a stored
  fingerprint, which its later calls and its daemon read back. Interfaces are locales: \<open>doc_store\<close> (interpreted on the state files),
  \<open>recording_host\<close> (on \<open>FakeHost\<close> and on \<open>SystemHost\<close> of the guardian), \<open>gate\<close> (on the serial, USB and physical oracle and on
  the inspector), \<open>action_rel\<close> (on the output and the admitted clients of the relays), its
  extensions \<open>runner_rel\<close> (on the journal and the started programs of the runner), \<open>shield_rel\<close> and \<open>shield_rel_sleep\<close> (on the commands the shield may run, on its clock), \<open>file_host\<close> (on both hosts of the
  shield) and \<open>steady_host\<close> (on live systems).

  \<^bold>\<open>What is shown.\<close> For the guardian: scope of the plans, meaning of the verdict, convergence and
  idempotence of the repair on the simulator, crash safety and fail-closed reading of the store, and
  invariants of every run of the daemon (patience, spacing of toggles, provenance of baselines). For the
  oracles and the inspector: exact characterisations of the positive verdicts, and that evidence against
  them cannot be missed where the code intends so. For generator and inspector: a round trip. For the runner: that the flash is written
  only behind its gates, that dry runs are harmless, and what an abort closes. For the shield: the commands it may run; that arming,
  closing and the daemon return and what they leave on disk; that the rollback of a journal file refines the abstract undo; that
  records survive the process; and, with the runner, that a GREEN arming step has armed it. For the contract check: the meaning of its
  text functions and of a pass. For the servers: transparency, admission, the bound on connections in every interleaving and the
  absence of deadlock. Where the code does not do what it says, a theorem states what it does.

  \<^bold>\<open>Bounds and fuel.\<close> The loop of the guardian's daemon is bounded by its iteration count, as \<^verbatim>\<open>max_iterations\<close> bounds it; the
  step relation of \<open>Guardian_Trace\<close> has runs of every length. The shield's daemon is followed for a number of iterations; the theorem on it says
  how many are enough for it to end (four per second until the end of the session). Relays and servers are followed for a number of rounds and
  their theorems hold for every number. The parser of JSON is bounded by twice the length of its input, which is shown to be enough for all that the printer
  writes. All other functions are total by structural recursion or by a decreasing length.

  \<^bold>\<open>Parameters.\<close> The operating system of the production hosts (its commands' outputs), the programs that the
  runner starts, the serial library, the parsed manifest, the temporary names and write failures of
  the state store, sockets, the clipboard, the files of the repository in the contract check, and the clock are parameters. A live system of the shield
  (\<open>live_host\<close>) has files of its own and a clock in microseconds that runs on with each command; its programs may answer anything.

  \<^bold>\<open>Not modelled.\<close> Argument parsing, most printing, the printed self tests of the inspector and
  of the USB oracle, signal handlers, the route monitor of the shield's daemon (its output is never read) and the runner's writing of its journal
  file (the entries are kept in its state). Strings hold code points below 256. Where a parser of the
  production host would raise on a netmask of more than 32 bits, the model yields the observation of a failed
  command. The firmware, the companion and the phone application are not Python and outside this library.
\<close>

end
